(* ===== verification/Prelude.thy ===== *)
theory Prelude
  imports Main
begin

text \<open>
  Shared vocabulary of the development.

  \<^item> The errors a handler of the control plane can raise (\<open>err\<close>), one constructor per
    exception class of the source.
  \<^item> Transactions: a computation over a state that either fails, leaving no trace (the
    database rolls back), or returns a value and the new state.  \<open>and_then\<close> sequences two of
    them the way consecutive \<open>await\<close> statements do.
  \<^item> Rows of a table and the operations Prisma offers on them (find, update, updateMany,
    create), once for every table, with the laws the components use.
  \<^item> The collections \<open>tx_iff\<close> (success of a transaction as an equivalence) and
    \<open>tx_pres\<close> (rules that a property of the state is preserved), and generic lemmas on lists.
\<close>

named_theorems tx_iff \<open>success of a transaction, as an equivalence\<close>
named_theorems tx_pres \<open>preservation of a relation between the states around a transaction\<close>

section \<open>Errors\<close>

text \<open>
  \<open>RecordNotFound\<close> and \<open>UniqueViolation\<close> are Prisma's P2025 and P2002;
  \<open>SchemaError\<close> is a zod \<open>parse\<close> that throws; \<open>Failure\<close> is a plain
  \<open>Error\<close>.
\<close>

datatype err =
    NotFound string
  | Conflict string
  | BadRequest string
  | Unauthorized string
  | Forbidden string
  | Unavailable string
  | InvalidTransition string string string
  | RecordNotFound string
  | UniqueViolation string
  | SchemaError string
  | RangeError string
  | Failure string

section \<open>Transactions\<close>

type_synonym ('s, 'a) tx = "'s \<Rightarrow> err + 'a \<times> 's"

definition tx_return :: "'a \<Rightarrow> ('s, 'a) tx" where
  "tx_return a = (\<lambda>s. Inr (a, s))"

definition tx_throw :: "err \<Rightarrow> ('s, 'a) tx" where
  "tx_throw e = (\<lambda>s. Inl e)"

definition and_then :: "('s, 'a) tx \<Rightarrow> ('a \<Rightarrow> ('s, 'b) tx) \<Rightarrow> ('s, 'b) tx" where
  "and_then m f = (\<lambda>s. case m s of Inl e \<Rightarrow> Inl e | Inr (a, s') \<Rightarrow> f a s')"

definition tx_read :: "('s \<Rightarrow> 'a) \<Rightarrow> ('s, 'a) tx" where
  "tx_read g = (\<lambda>s. Inr (g s, s))"

definition tx_modify :: "('s \<Rightarrow> 's) \<Rightarrow> ('s, unit) tx" where
  "tx_modify h = (\<lambda>s. Inr ((), h s))"

text \<open>\<open>tx_check b e\<close> is \<open>if (!b) throw e\<close>.\<close>

definition tx_check :: "bool \<Rightarrow> err \<Rightarrow> ('s, unit) tx" where
  "tx_check b e = (if b then tx_return () else tx_throw e)"

text \<open>\<open>tx_when b m\<close> is \<open>if (b) await m\<close>.\<close>

definition tx_when :: "bool \<Rightarrow> ('s, unit) tx \<Rightarrow> ('s, unit) tx" where
  "tx_when b m = (if b then m else tx_return ())"

text \<open>\<open>for (const x of xs) await f(x)\<close>.\<close>

primrec tx_for :: "'x list \<Rightarrow> ('x \<Rightarrow> ('s, unit) tx) \<Rightarrow> ('s, unit) tx" where
  "tx_for [] f = tx_return ()"
| "tx_for (x # xs) f = and_then (f x) (\<lambda>_. tx_for xs f)"

text \<open>
  A nullable value that the code dereferences or rejects: \<open>tx_some\<close> returns the value of
  \<open>Some\<close> and throws on \<open>None\<close>.
\<close>

definition tx_some :: "'a option \<Rightarrow> err \<Rightarrow> ('s, 'a) tx" where
  "tx_some x e = (case x of None \<Rightarrow> tx_throw e | Some a \<Rightarrow> tx_return a)"

definition tx_lift :: "err + 'a \<Rightarrow> ('s, 'a) tx" where
  "tx_lift r = (case r of Inl e \<Rightarrow> tx_throw e | Inr a \<Rightarrow> tx_return a)"

text \<open>
  The state after a handler's only transaction: unchanged when it threw, since the database
  rolled back.
\<close>

definition committed :: "('s, 'a) tx \<Rightarrow> 's \<Rightarrow> 's" where
  "committed m s = (case m s of Inl e \<Rightarrow> s | Inr (a, s') \<Rightarrow> s')"

subsection \<open>Success, as an equivalence\<close>

lemma tx_return_iff [tx_iff]: "tx_return a s = Inr (b, s') \<longleftrightarrow> b = a \<and> s' = s"
  by (auto simp: tx_return_def)

lemma tx_throw_iff [tx_iff]: "tx_throw e s = Inr r \<longleftrightarrow> False"
  by (simp add: tx_throw_def)

lemma and_then_iff [tx_iff]:
  "and_then m f s = Inr r \<longleftrightarrow> (\<exists>a s'. m s = Inr (a, s') \<and> f a s' = Inr r)"
  by (auto simp: and_then_def split: sum.splits)

lemma tx_read_iff [tx_iff]: "tx_read g s = Inr (a, s') \<longleftrightarrow> a = g s \<and> s' = s"
  by (auto simp: tx_read_def)

lemma tx_modify_iff [tx_iff]: "tx_modify h s = Inr (a, s') \<longleftrightarrow> s' = h s"
  by (auto simp: tx_modify_def)

lemma tx_check_iff [tx_iff]: "tx_check b e s = Inr (u, s') \<longleftrightarrow> b \<and> s' = s"
  by (auto simp: tx_check_def tx_iff)

lemma tx_some_iff [tx_iff]: "tx_some x e s = Inr (a, s') \<longleftrightarrow> x = Some a \<and> s' = s"
  by (auto simp: tx_some_def tx_iff split: option.splits)

lemma tx_lift_iff [tx_iff]: "tx_lift r s = Inr (a, s') \<longleftrightarrow> r = Inr a \<and> s' = s"
  by (auto simp: tx_lift_def tx_iff split: sum.splits)

lemma tx_for_Cons_iff [tx_iff]:
  "tx_for (x # xs) f s = Inr r \<longleftrightarrow> (\<exists>s'. f x s = Inr ((), s') \<and> tx_for xs f s' = Inr r)"
  by (auto simp: and_then_iff)

lemma tx_for_Nil_iff [tx_iff]: "tx_for [] f s = Inr (u, s') \<longleftrightarrow> s' = s"
  by (auto simp: tx_return_iff)

subsection \<open>Evaluation\<close>

text \<open>The equations that run a transaction on a concrete state.\<close>

lemmas tx_run = tx_return_def tx_throw_def and_then_def tx_read_def tx_modify_def tx_check_def
  tx_when_def tx_some_def tx_lift_def

lemma committed_cases:
  assumes "\<And>a s'. m s = Inr (a, s') \<Longrightarrow> P s'" and "P s"
  shows "P (committed m s)"
  using assms by (auto simp: committed_def split: sum.splits)

lemma and_then_assoc: "and_then (and_then m f) g = and_then m (\<lambda>x. and_then (f x) g)"
  by (rule ext) (auto simp: and_then_def split: sum.splits)

lemma and_then_return: "and_then (tx_return a) f = f a" "and_then m tx_return = m"
  by (auto simp: and_then_def tx_return_def fun_eq_iff split: sum.splits)

subsection \<open>Relations between the states before and after a transaction\<close>

text \<open>
  \<open>tx_rel R m\<close>: wherever \<open>m\<close> succeeds, the states before and after are related by
  \<open>R\<close>.  With \<open>R\<close> reflexive and transitive this is compositional.
\<close>

definition tx_rel :: "('s \<Rightarrow> 's \<Rightarrow> bool) \<Rightarrow> ('s, 'a) tx \<Rightarrow> bool" where
  "tx_rel R m \<longleftrightarrow> (\<forall>s a s'. m s = Inr (a, s') \<longrightarrow> R s s')"

lemma tx_relI: "(\<And>s a s'. m s = Inr (a, s') \<Longrightarrow> R s s') \<Longrightarrow> tx_rel R m"
  by (auto simp: tx_rel_def)

lemma tx_relD: "tx_rel R m \<Longrightarrow> m s = Inr (a, s') \<Longrightarrow> R s s'"
  by (auto simp: tx_rel_def)

lemma tx_rel_read [tx_pres]: "reflp R \<Longrightarrow> tx_rel R (tx_read g)"
  by (auto simp: tx_rel_def tx_iff reflp_def)

lemma tx_rel_return [tx_pres]: "reflp R \<Longrightarrow> tx_rel R (tx_return a)"
  by (auto simp: tx_rel_def tx_iff reflp_def)

lemma tx_rel_throw [tx_pres]: "tx_rel R (tx_throw e)"
  by (auto simp: tx_rel_def tx_iff)

lemma tx_rel_check [tx_pres]: "reflp R \<Longrightarrow> tx_rel R (tx_check b e)"
  by (auto simp: tx_rel_def tx_iff reflp_def)

lemma tx_rel_some [tx_pres]: "reflp R \<Longrightarrow> tx_rel R (tx_some x e)"
  by (auto simp: tx_rel_def tx_iff reflp_def)

lemma tx_rel_lift [tx_pres]: "reflp R \<Longrightarrow> tx_rel R (tx_lift r)"
  by (auto simp: tx_rel_def tx_iff reflp_def)

lemma tx_rel_and_then [tx_pres]:
  "transp R \<Longrightarrow> tx_rel R m \<Longrightarrow> (\<And>a. tx_rel R (f a)) \<Longrightarrow> tx_rel R (and_then m f)"
  unfolding tx_rel_def and_then_iff by (meson transpD)

lemma tx_rel_when [tx_pres]: "reflp R \<Longrightarrow> (b \<Longrightarrow> tx_rel R m) \<Longrightarrow> tx_rel R (tx_when b m)"
  by (simp add: tx_when_def tx_rel_return)

lemma tx_rel_if [tx_pres]:
  "(b \<Longrightarrow> tx_rel R m) \<Longrightarrow> (\<not> b \<Longrightarrow> tx_rel R m') \<Longrightarrow> tx_rel R (if b then m else m')"
  by simp

lemma tx_rel_option [tx_pres]:
  "tx_rel R m \<Longrightarrow> (\<And>x. tx_rel R (f x)) \<Longrightarrow> tx_rel R (case v of None \<Rightarrow> m | Some x \<Rightarrow> f x)"
  by (cases v) auto

lemma tx_rel_for [tx_pres]:
  "reflp R \<Longrightarrow> transp R \<Longrightarrow> (\<And>x. tx_rel R (f x)) \<Longrightarrow> tx_rel R (tx_for xs f)"
  by (induction xs) (auto intro: tx_pres)

lemma committed_rel: "tx_rel R m \<Longrightarrow> reflp R \<Longrightarrow> R s (committed m s)"
  by (rule committed_cases) (auto dest: tx_relD simp: reflp_def)

section \<open>Rows and tables\<close>

text \<open>
  A table is the list of its rows in the order of their creation.  A row is found by a key; an
  update changes the rows with that key.
\<close>

definition find_row :: "('r \<Rightarrow> 'k) \<Rightarrow> 'k \<Rightarrow> 'r list \<Rightarrow> 'r option" where
  "find_row key k rows = List.find (\<lambda>r. key r = k) rows"

definition update_rows :: "('r \<Rightarrow> bool) \<Rightarrow> ('r \<Rightarrow> 'r) \<Rightarrow> 'r list \<Rightarrow> 'r list" where
  "update_rows p f rows = map (\<lambda>r. if p r then f r else r) rows"

lemma find_row_Nil [simp]: "find_row key k [] = None"
  by (simp add: find_row_def)

lemma find_row_Cons [simp]:
  "find_row key k (r # rows) = (if key r = k then Some r else find_row key k rows)"
  by (simp add: find_row_def)

lemma find_row_append [simp]:
  "find_row key k (xs @ ys) = (case find_row key k xs of None \<Rightarrow> find_row key k ys | Some r \<Rightarrow> Some r)"
  by (induction xs) auto

lemma find_row_key: "find_row key k rows = Some r \<Longrightarrow> key r = k"
  by (induction rows) (auto split: if_splits)

lemma find_row_in: "find_row key k rows = Some r \<Longrightarrow> r \<in> set rows"
  by (induction rows) (auto split: if_splits)

lemma find_row_None: "find_row key k rows = None \<longleftrightarrow> k \<notin> key ` set rows"
  by (induction rows) auto

lemma find_row_distinct:
  "distinct (map key rows) \<Longrightarrow> r \<in> set rows \<Longrightarrow> find_row key (key r) rows = Some r"
  by (induction rows) (auto simp: image_iff)

lemma find_row_update:
  assumes "\<And>r. p r \<Longrightarrow> key (f r) = key r"
  shows "find_row key k (update_rows p f rows) =
    map_option (\<lambda>r. if p r then f r else r) (find_row key k rows)"
  using assms by (induction rows) (auto simp: update_rows_def)

lemma find_row_update_key:
  assumes "\<And>r. key (f r) = key r"
  shows "find_row key k (update_rows (\<lambda>r. key r = k') f rows) =
    (if k = k' then map_option f (find_row key k rows) else find_row key k rows)"
  using assms by (induction rows) (auto simp: update_rows_def)

lemma map_update_rows: "(\<And>r. p r \<Longrightarrow> g (f r) = g r) \<Longrightarrow> map g (update_rows p f rows) = map g rows"
  by (auto simp: update_rows_def)

lemma set_update_rows: "set (update_rows p f rows) = {if p r then f r else r |r. r \<in> set rows}"
  by (auto simp: update_rows_def)

lemma filter_update_rows:
  assumes "\<And>r. p r \<Longrightarrow> q (f r) = q r"
  shows "filter q (update_rows p f rows) = update_rows p f (filter q rows)"
  using assms by (induction rows) (auto simp: update_rows_def)

lemma update_rows_None: "(\<And>r. r \<in> set rows \<Longrightarrow> \<not> p r) \<Longrightarrow> update_rows p f rows = rows"
  by (induction rows) (auto simp: update_rows_def)

subsection \<open>The interface of a table\<close>

text \<open>
  Every table is reached through a component of the database record, a function that updates
  it, and the column that is its primary key.  The Prisma operations are defined over these three;
  the locale states what they rely on and proves their laws once, for every table.
\<close>

definition find_unique :: "('s \<Rightarrow> 'r list) \<Rightarrow> ('r \<Rightarrow> 'k) \<Rightarrow> 'k \<Rightarrow> ('s, 'r option) tx" where
  "find_unique get key k = tx_read (\<lambda>s. find_row key k (get s))"

definition find_or_throw :: "('s \<Rightarrow> 'r list) \<Rightarrow> ('r \<Rightarrow> 'k) \<Rightarrow> 'k \<Rightarrow> ('s, 'r) tx" where
  "find_or_throw get key k =
     and_then (find_unique get key k) (\<lambda>r. tx_some r (RecordNotFound ''P2025''))"

definition update_many ::
  "('s \<Rightarrow> 'r list) \<Rightarrow> (('r list \<Rightarrow> 'r list) \<Rightarrow> 's \<Rightarrow> 's) \<Rightarrow> ('r \<Rightarrow> bool) \<Rightarrow> ('r \<Rightarrow> 'r) \<Rightarrow> ('s, nat) tx"
where
  "update_many get put p f =
     and_then (tx_read (\<lambda>s. length (filter p (get s)))) (\<lambda>n.
     and_then (tx_modify (put (update_rows p f))) (\<lambda>_.
     tx_return n))"

definition update_unique ::
  "('s \<Rightarrow> 'r list) \<Rightarrow> (('r list \<Rightarrow> 'r list) \<Rightarrow> 's \<Rightarrow> 's) \<Rightarrow> ('r \<Rightarrow> 'k) \<Rightarrow> 'k \<Rightarrow> ('r \<Rightarrow> 'r) \<Rightarrow> ('s, 'r) tx"
where
  "update_unique get put key k f =
     and_then (find_or_throw get key k) (\<lambda>r.
     and_then (tx_modify (put (update_rows (\<lambda>r. key r = k) f))) (\<lambda>_.
     tx_return (f r)))"

definition create_row ::
  "('s \<Rightarrow> 'r list) \<Rightarrow> (('r list \<Rightarrow> 'r list) \<Rightarrow> 's \<Rightarrow> 's) \<Rightarrow> ('r \<Rightarrow> 'k) \<Rightarrow> 'r \<Rightarrow> ('s, 'r) tx"
where
  "create_row get put key r =
     and_then (find_unique get key (key r)) (\<lambda>old.
     and_then (tx_check (old = None) (UniqueViolation ''P2002'')) (\<lambda>_.
     and_then (tx_modify (put (\<lambda>rows. rows @ [r]))) (\<lambda>_.
     tx_return r)))"

lemma find_unique_iff [tx_iff]:
  "find_unique get key k s = Inr (r, s') \<longleftrightarrow> r = find_row key k (get s) \<and> s' = s"
  by (auto simp: find_unique_def tx_iff)

lemma find_or_throw_iff [tx_iff]:
  "find_or_throw get key k s = Inr (r, s') \<longleftrightarrow> find_row key k (get s) = Some r \<and> s' = s"
  by (auto simp: find_or_throw_def tx_iff)

lemma update_many_iff [tx_iff]:
  "update_many get put p f s = Inr (n, s') \<longleftrightarrow>
     n = length (filter p (get s)) \<and> s' = put (update_rows p f) s"
  by (auto simp: update_many_def tx_iff)

lemma update_unique_iff [tx_iff]:
  "update_unique get put key k f s = Inr (r', s') \<longleftrightarrow>
     (\<exists>r. find_row key k (get s) = Some r \<and> r' = f r \<and> s' = put (update_rows (\<lambda>r. key r = k) f) s)"
  by (auto simp: update_unique_def tx_iff)

lemma create_row_iff [tx_iff]:
  "create_row get put key r s = Inr (r', s') \<longleftrightarrow>
     find_row key (key r) (get s) = None \<and> r' = r \<and> s' = put (\<lambda>rows. rows @ [r]) s"
  by (auto simp: create_row_def tx_iff)

lemma find_unique_rel [tx_pres]: "reflp R \<Longrightarrow> tx_rel R (find_unique get key k)"
  by (auto simp: find_unique_def intro: tx_pres)

lemma find_or_throw_rel [tx_pres]: "reflp R \<Longrightarrow> tx_rel R (find_or_throw get key k)"
  by (auto simp: tx_rel_def tx_iff reflp_def)

locale table =
  fixes get :: "'s \<Rightarrow> 'r list"
    and put :: "('r list \<Rightarrow> 'r list) \<Rightarrow> 's \<Rightarrow> 's"
    and key :: "'r \<Rightarrow> 'k"
  assumes get_put: "get (put h s) = h (get s)"
begin

lemma find_updated:
  assumes "update_unique get put key k f s = Inr (r', s')" and "\<And>r. key (f r) = key r"
  shows "find_row key k' (get s') = (if k' = k then Some r' else find_row key k' (get s))"
  using assms by (auto simp: tx_iff get_put find_row_update_key)

lemma find_created:
  assumes "create_row get put key r s = Inr (r', s')"
  shows "find_row key k (get s') = (if k = key r then Some r else find_row key k (get s))"
  using assms by (auto simp: tx_iff get_put split: option.splits)

lemma keys_updated:
  assumes "update_unique get put key k f s = Inr (r', s')" and "\<And>r. key (f r) = key r"
  shows "map key (get s') = map key (get s)"
  using assms by (auto simp: tx_iff get_put map_update_rows)

lemma keys_created:
  assumes "create_row get put key r s = Inr (r', s')" and "distinct (map key (get s))"
  shows "distinct (map key (get s'))"
  using assms by (auto simp: tx_iff get_put find_row_None)

lemma update_missing:
  "find_row key k (get s) = None \<Longrightarrow>
     update_unique get put key k f s = Inl (RecordNotFound ''P2025'')"
  by (simp add: update_unique_def find_or_throw_def find_unique_def tx_run)

lemma create_twice:
  assumes "create_row get put key r s = Inr (r', s')" and "key q = key r"
  shows "create_row get put key q s' = Inl (UniqueViolation ''P2002'')"
  using find_created [OF assms(1), of "key q"] assms(2)
  by (simp add: create_row_def find_unique_def tx_run)

end

section \<open>Latest row\<close>

text \<open>
  \<open>findFirst({ orderBy: { c: 'desc' } })\<close>: the row with the greatest value of the column,
  the last created among equals.
\<close>

fun latest_by :: "('r \<Rightarrow> int) \<Rightarrow> 'r list \<Rightarrow> 'r option" where
  "latest_by c [] = None"
| "latest_by c (r # rows) =
     (case latest_by c rows of
        None \<Rightarrow> Some r
      | Some q \<Rightarrow> if c q < c r then Some r else Some q)"

lemma latest_by_None [simp]: "latest_by c rows = None \<longleftrightarrow> rows = []"
  by (cases rows) (auto split: option.splits if_splits)

lemma latest_by_in: "latest_by c rows = Some r \<Longrightarrow> r \<in> set rows"
  by (induction rows arbitrary: r) (auto split: option.splits if_splits)

lemma latest_by_max: "latest_by c rows = Some r \<Longrightarrow> q \<in> set rows \<Longrightarrow> c q \<le> c r"
proof (induction rows arbitrary: r q)
  case Nil
  then show ?case by simp
next
  case (Cons x rows)
  show ?case
  proof (cases "latest_by c rows")
    case None
    with Cons.prems show ?thesis by simp
  next
    case (Some y)
    with Cons.IH [OF Some] Cons.prems show ?thesis by (fastforce split: if_splits)
  qed
qed

lemma latest_by_append_ge:
  assumes "\<forall>q \<in> set rows. c q \<le> c r"
  shows "latest_by c (rows @ [r]) = Some r"
  using assms by (induction rows) auto

text \<open>\<open>earliest_by\<close>: the same with \<open>orderBy: asc\<close>, the first created among equals.\<close>

fun earliest_by :: "('r \<Rightarrow> int) \<Rightarrow> 'r list \<Rightarrow> 'r option" where
  "earliest_by c [] = None"
| "earliest_by c (r # rows) =
     (case earliest_by c rows of
        None \<Rightarrow> Some r
      | Some q \<Rightarrow> if c q < c r then Some q else Some r)"

lemma earliest_by_in: "earliest_by c rows = Some r \<Longrightarrow> r \<in> set rows"
  by (induction rows arbitrary: r) (auto split: option.splits if_splits)

section \<open>Numbers\<close>

text \<open>\<open>Math.ceil(ms / 1000)\<close> on an integral number of milliseconds.\<close>

definition ceil_seconds :: "int \<Rightarrow> int" where
  "ceil_seconds ms = - ((- ms) div 1000)"

lemma ceil_seconds_bounds: "ms \<le> 1000 * ceil_seconds ms \<and> 1000 * ceil_seconds ms < ms + 1000"
  unfolding ceil_seconds_def by auto

lemma ceil_seconds_nonneg: "0 \<le> ms \<Longrightarrow> 0 \<le> ceil_seconds ms"
  unfolding ceil_seconds_def by auto

lemma ceil_seconds_0 [simp]: "ceil_seconds 0 = 0"
  by (simp add: ceil_seconds_def)

text \<open>JavaScript's truthiness of a nullable string: \<open>!!s\<close>.\<close>

definition truthy :: "string option \<Rightarrow> bool" where
  "truthy s = (case s of None \<Rightarrow> False | Some x \<Rightarrow> x \<noteq> [])"

lemma truthy_simps [simp]: "\<not> truthy None" "truthy (Some x) \<longleftrightarrow> x \<noteq> []"
  by (auto simp: truthy_def)

section \<open>Strings\<close>

text \<open>Decimal printing, the \<open>${n}\<close> of a template literal on a natural number.\<close>

fun show_nat :: "nat \<Rightarrow> string" where
  "show_nat n = (if n < 10 then [char_of (48 + n)] else show_nat (n div 10) @ [char_of (48 + n mod 10)])"

declare show_nat.simps [simp del]

definition is_digit :: "char \<Rightarrow> bool" where
  "is_digit c \<longleftrightarrow> 48 \<le> (of_char c :: nat) \<and> (of_char c :: nat) \<le> 57"

definition read_nat :: "string \<Rightarrow> nat" where
  "read_nat s = foldl (\<lambda>n c. 10 * n + (of_char c - 48)) 0 s"

lemma of_char_digit: "d < 10 \<Longrightarrow> (of_char (char_of (48 + d :: nat)) :: nat) = 48 + d"
  by simp

lemma show_nat_digits: "\<forall>c \<in> set (show_nat n). is_digit c"
proof (induction n rule: show_nat.induct)
  case (1 n)
  then show ?case
    by (subst show_nat.simps) (auto simp: is_digit_def)
qed

lemma read_show_nat: "read_nat (show_nat n) = n"
proof (induction n rule: show_nat.induct)
  case (1 n)
  then show ?case
    by (subst show_nat.simps) (auto simp: read_nat_def)
qed

lemma show_nat_inject [simp]: "show_nat m = show_nat n \<longleftrightarrow> m = n"
  by (metis read_show_nat)

lemma show_nat_nonempty [simp]: "show_nat n \<noteq> []"
  by (subst show_nat.simps) simp

lemma colon_not_in_show_nat: "CHR '':'' \<notin> set (show_nat n)"
  using show_nat_digits [of n] by (auto simp: is_digit_def)

text \<open>Two strings that end in a separator-free suffix after a separator agree piece by piece.\<close>

lemma prefix_sep_inject:
  assumes "c \<notin> set xs" and "c \<notin> set xs'"
  shows "xs @ c # ys = xs' @ c # ys' \<longleftrightarrow> xs = xs' \<and> ys = ys'"
  using assms
proof (induction xs arbitrary: xs')
  case Nil
  then show ?case by (cases xs') auto
next
  case (Cons x xs)
  then show ?case by (cases xs') auto
qed

lemma append_sep_inject:
  assumes "c \<notin> set ys" and "c \<notin> set ys'"
  shows "xs @ c # ys = xs' @ c # ys' \<longleftrightarrow> xs = xs' \<and> ys = ys'"
proof
  assume eq: "xs @ c # ys = xs' @ c # ys'"
  have "rev ys @ c # rev xs = rev ys' @ c # rev xs'"
    using arg_cong [OF eq, of rev] by simp
  moreover have "c \<notin> set (rev ys)" "c \<notin> set (rev ys')"
    using assms by auto
  ultimately have "rev ys = rev ys' \<and> rev xs = rev xs'"
    using prefix_sep_inject [of c "rev ys" "rev ys'" "rev xs" "rev xs'"] by blast
  then show "xs = xs' \<and> ys = ys'" by simp
qed simp

text \<open>\<open>s.split(c)\<close> for a one-character separator, and \<open>join\<close>.\<close>

fun split_on :: "char \<Rightarrow> string \<Rightarrow> string list" where
  "split_on c [] = [[]]"
| "split_on c (x # xs) =
     (if x = c then [] # split_on c xs
      else (case split_on c xs of [] \<Rightarrow> [[x]] | p # ps \<Rightarrow> (x # p) # ps))"

fun join_with :: "char \<Rightarrow> string list \<Rightarrow> string" where
  "join_with c [] = []"
| "join_with c [s] = s"
| "join_with c (s # t # ss) = s @ c # join_with c (t # ss)"

lemma split_on_nonempty [simp]: "split_on c s \<noteq> []"
  by (cases s) (auto split: list.splits)

lemma join_Cons: "ss \<noteq> [] \<Longrightarrow> join_with c (s # ss) = s @ c # join_with c ss"
  by (cases ss) auto

lemma join_split: "join_with c (split_on c s) = s"
proof (induction s)
  case Nil
  then show ?case by simp
next
  case (Cons x xs)
  then show ?case
    by (cases "split_on c xs"; cases "tl (split_on c xs)") (auto simp: join_Cons)
qed

lemma split_on_pieces: "p \<in> set (split_on c s) \<Longrightarrow> c \<notin> set p"
proof (induction s arbitrary: p)
  case Nil
  then show ?case by simp
next
  case (Cons x xs)
  then show ?case
    by (cases "split_on c xs") (auto split: if_splits)
qed

text \<open>\<open>[...new Set(xs)]\<close>: the first occurrence of each element, in order.\<close>

fun unique_first :: "'a list \<Rightarrow> 'a list" where
  "unique_first [] = []"
| "unique_first (x # xs) = x # filter (\<lambda>y. y \<noteq> x) (unique_first xs)"

lemma set_unique_first [simp]: "set (unique_first xs) = set xs"
  by (induction xs) auto

lemma distinct_unique_first [simp]: "distinct (unique_first xs)"
  by (induction xs) auto

definition startsWith :: "string \<Rightarrow> string \<Rightarrow> bool" where
  "startsWith s p \<longleftrightarrow> take (length p) s = p"

text \<open>\<open>s.includes(m)\<close>.\<close>

fun str_includes :: "string \<Rightarrow> string \<Rightarrow> bool" where
  "str_includes [] m \<longleftrightarrow> m = []"
| "str_includes (x # xs) m \<longleftrightarrow> startsWith (x # xs) m \<or> str_includes xs m"

text \<open>\<open>s.trim()\<close> on the ASCII white space of JavaScript.\<close>

definition is_space :: "char \<Rightarrow> bool" where
  "is_space c \<longleftrightarrow> c = CHR '' '' \<or> (9 \<le> (of_char c :: nat) \<and> (of_char c :: nat) \<le> 13)"

definition trim :: "string \<Rightarrow> string" where
  "trim s = rev (dropWhile is_space (rev (dropWhile is_space s)))"

lemma dropWhile_hd: "dropWhile p xs \<noteq> [] \<Longrightarrow> \<not> p (hd (dropWhile p xs))"
  by (induction xs) auto

lemma dropWhile_fixed: "xs = [] \<or> \<not> p (hd xs) \<Longrightarrow> dropWhile p xs = xs"
  by (cases xs) auto

lemma trim_trim [simp]: "trim (trim s) = trim s"
proof -
  define t where "t = rev (dropWhile is_space s)"
  have hd_rev: "rev (dropWhile is_space t) = [] \<or> \<not> is_space (hd (rev (dropWhile is_space t)))"
  proof (cases "dropWhile is_space t = []")
    case False
    then have "last (dropWhile is_space t) = last t"
      by (metis append_is_Nil_conv last_appendR takeWhile_dropWhile_id)
    moreover have "t \<noteq> []" using False by auto
    then have "last t = hd (dropWhile is_space s)"
      by (simp add: t_def last_rev)
    moreover have "\<not> is_space (hd (dropWhile is_space s))"
      using dropWhile_hd [of is_space s] \<open>t \<noteq> []\<close> by (simp add: t_def)
    ultimately show ?thesis using False by (simp add: hd_rev)
  qed simp
  have "trim (trim s) = rev (dropWhile is_space (rev (rev (dropWhile is_space t))))"
    unfolding trim_def t_def [symmetric] using hd_rev by (simp add: dropWhile_fixed)
  also have "\<dots> = rev (dropWhile is_space t)" by simp
  finally show ?thesis by (simp add: trim_def t_def)
qed

end
