(* ===== verification/Enums.thy ===== *)
theory Enums
  imports Prelude
begin

text \<open>
  The enumerations every service shares (packages/shared/src/enums.ts), one datatype each, with
  the string the wire and the database carry (\<open>..._name\<close>) and its inverse.  The source reuses
  words such as RUNNING and FAILED in several enumerations; here a short prefix tells them apart
  (\<open>T_\<close> task, \<open>R_\<close> run, \<open>A_\<close> attempt, \<open>E_\<close> event, \<open>P_\<close> policy, \<open>AP_\<close> approval, \<open>O_\<close> outbox,
  \<open>K_\<close> artifact, \<open>S_\<close> source).  The statuses and failure codes are instances of the library's class \<open>enum\<close>, so
  that a statement about all of them is decided by evaluation.
\<close>

section \<open>TaskSource\<close>

datatype task_source =
    S_MANUAL
  | S_GITHUB_ISSUE
  | S_WORKFLOW_RUN

fun task_source_name :: "task_source \<Rightarrow> string" where
  "task_source_name S_MANUAL = ''MANUAL''"
| "task_source_name S_GITHUB_ISSUE = ''GITHUB_ISSUE''"
| "task_source_name S_WORKFLOW_RUN = ''WORKFLOW_RUN''"

definition TASK_SOURCES :: "task_source list" where
  "TASK_SOURCES = [S_MANUAL, S_GITHUB_ISSUE, S_WORKFLOW_RUN]"

lemma TASK_SOURCES_all: "x \<in> set TASK_SOURCES"
  by (cases x) (simp_all add: TASK_SOURCES_def)

lemma task_source_name_inject [simp]: "task_source_name x = task_source_name y \<longleftrightarrow> x = y"
  by (cases x; cases y) simp_all

section \<open>TaskStatus\<close>

datatype task_status =
    T_CREATED
  | T_QUEUED
  | T_RUNNING
  | T_NEEDS_ATTENTION
  | T_AWAITING_APPROVAL
  | T_APPROVED
  | T_PR_CREATED
  | T_PR_FAILED
  | T_RESOLVED
  | T_REJECTED
  | T_FAILED
  | T_CANCELLED

fun task_status_name :: "task_status \<Rightarrow> string" where
  "task_status_name T_CREATED = ''CREATED''"
| "task_status_name T_QUEUED = ''QUEUED''"
| "task_status_name T_RUNNING = ''RUNNING''"
| "task_status_name T_NEEDS_ATTENTION = ''NEEDS_ATTENTION''"
| "task_status_name T_AWAITING_APPROVAL = ''AWAITING_APPROVAL''"
| "task_status_name T_APPROVED = ''APPROVED''"
| "task_status_name T_PR_CREATED = ''PR_CREATED''"
| "task_status_name T_PR_FAILED = ''PR_FAILED''"
| "task_status_name T_RESOLVED = ''RESOLVED''"
| "task_status_name T_REJECTED = ''REJECTED''"
| "task_status_name T_FAILED = ''FAILED''"
| "task_status_name T_CANCELLED = ''CANCELLED''"

definition TASK_STATUSES :: "task_status list" where
  "TASK_STATUSES = [T_CREATED, T_QUEUED, T_RUNNING, T_NEEDS_ATTENTION,
    T_AWAITING_APPROVAL, T_APPROVED, T_PR_CREATED, T_PR_FAILED,
    T_RESOLVED, T_REJECTED, T_FAILED, T_CANCELLED]"

lemma TASK_STATUSES_all: "x \<in> set TASK_STATUSES"
  by (cases x) (simp_all add: TASK_STATUSES_def)

lemma task_status_name_inject [simp]: "task_status_name x = task_status_name y \<longleftrightarrow> x = y"
  by (cases x; cases y) simp_all

instantiation task_status :: enum
begin

definition enum_task_status_def: "enum_class.enum = TASK_STATUSES"

definition enum_all_task_status_def: "enum_class.enum_all P \<longleftrightarrow> list_all P TASK_STATUSES"

definition enum_ex_task_status_def: "enum_class.enum_ex P \<longleftrightarrow> list_ex P TASK_STATUSES"

instance
  by standard
    (auto simp: enum_task_status_def enum_all_task_status_def enum_ex_task_status_def TASK_STATUSES_all list_all_iff list_ex_iff,
      simp_all add: TASK_STATUSES_def)

end

section \<open>RunStatus\<close>

datatype run_status =
    R_PENDING
  | R_DISPATCHED
  | R_RUNNING
  | R_VERIFYING
  | R_INTERRUPTED
  | R_RECOVERING
  | R_SUCCEEDED
  | R_FAILED
  | R_CANCELLED

fun run_status_name :: "run_status \<Rightarrow> string" where
  "run_status_name R_PENDING = ''PENDING''"
| "run_status_name R_DISPATCHED = ''DISPATCHED''"
| "run_status_name R_RUNNING = ''RUNNING''"
| "run_status_name R_VERIFYING = ''VERIFYING''"
| "run_status_name R_INTERRUPTED = ''INTERRUPTED''"
| "run_status_name R_RECOVERING = ''RECOVERING''"
| "run_status_name R_SUCCEEDED = ''SUCCEEDED''"
| "run_status_name R_FAILED = ''FAILED''"
| "run_status_name R_CANCELLED = ''CANCELLED''"

definition RUN_STATUSES :: "run_status list" where
  "RUN_STATUSES = [R_PENDING, R_DISPATCHED, R_RUNNING, R_VERIFYING,
    R_INTERRUPTED, R_RECOVERING, R_SUCCEEDED, R_FAILED,
    R_CANCELLED]"

lemma RUN_STATUSES_all: "x \<in> set RUN_STATUSES"
  by (cases x) (simp_all add: RUN_STATUSES_def)

lemma run_status_name_inject [simp]: "run_status_name x = run_status_name y \<longleftrightarrow> x = y"
  by (cases x; cases y) simp_all

instantiation run_status :: enum
begin

definition enum_run_status_def: "enum_class.enum = RUN_STATUSES"

definition enum_all_run_status_def: "enum_class.enum_all P \<longleftrightarrow> list_all P RUN_STATUSES"

definition enum_ex_run_status_def: "enum_class.enum_ex P \<longleftrightarrow> list_ex P RUN_STATUSES"

instance
  by standard
    (auto simp: enum_run_status_def enum_all_run_status_def enum_ex_run_status_def RUN_STATUSES_all list_all_iff list_ex_iff,
      simp_all add: RUN_STATUSES_def)

end

section \<open>AttemptStatus\<close>

datatype attempt_status =
    A_CLAIMED
  | A_RUNNING
  | A_SUCCEEDED
  | A_FAILED
  | A_CRASHED
  | A_TIMED_OUT
  | A_LEASE_EXPIRED

fun attempt_status_name :: "attempt_status \<Rightarrow> string" where
  "attempt_status_name A_CLAIMED = ''CLAIMED''"
| "attempt_status_name A_RUNNING = ''RUNNING''"
| "attempt_status_name A_SUCCEEDED = ''SUCCEEDED''"
| "attempt_status_name A_FAILED = ''FAILED''"
| "attempt_status_name A_CRASHED = ''CRASHED''"
| "attempt_status_name A_TIMED_OUT = ''TIMED_OUT''"
| "attempt_status_name A_LEASE_EXPIRED = ''LEASE_EXPIRED''"

definition ATTEMPT_STATUSES :: "attempt_status list" where
  "ATTEMPT_STATUSES = [A_CLAIMED, A_RUNNING, A_SUCCEEDED, A_FAILED,
    A_CRASHED, A_TIMED_OUT, A_LEASE_EXPIRED]"

lemma ATTEMPT_STATUSES_all: "x \<in> set ATTEMPT_STATUSES"
  by (cases x) (simp_all add: ATTEMPT_STATUSES_def)

lemma attempt_status_name_inject [simp]: "attempt_status_name x = attempt_status_name y \<longleftrightarrow> x = y"
  by (cases x; cases y) simp_all

instantiation attempt_status :: enum
begin

definition enum_attempt_status_def: "enum_class.enum = ATTEMPT_STATUSES"

definition enum_all_attempt_status_def: "enum_class.enum_all P \<longleftrightarrow> list_all P ATTEMPT_STATUSES"

definition enum_ex_attempt_status_def: "enum_class.enum_ex P \<longleftrightarrow> list_ex P ATTEMPT_STATUSES"

instance
  by standard
    (auto simp: enum_attempt_status_def enum_all_attempt_status_def enum_ex_attempt_status_def ATTEMPT_STATUSES_all list_all_iff list_ex_iff,
      simp_all add: ATTEMPT_STATUSES_def)

end

section \<open>AgentKind\<close>

datatype agent_kind =
    SELF_LANGGRAPH
  | MINI_SWE

fun agent_kind_name :: "agent_kind \<Rightarrow> string" where
  "agent_kind_name SELF_LANGGRAPH = ''SELF_LANGGRAPH''"
| "agent_kind_name MINI_SWE = ''MINI_SWE''"

definition AGENT_KINDS :: "agent_kind list" where
  "AGENT_KINDS = [SELF_LANGGRAPH, MINI_SWE]"

lemma AGENT_KINDS_all: "x \<in> set AGENT_KINDS"
  by (cases x) (simp_all add: AGENT_KINDS_def)

lemma agent_kind_name_inject [simp]: "agent_kind_name x = agent_kind_name y \<longleftrightarrow> x = y"
  by (cases x; cases y) simp_all

section \<open>TraceEventType\<close>

datatype trace_event_type =
    E_MODEL_CALL
  | E_TOOL_CALL
  | E_FILE_CHANGE
  | E_COMMAND_EXEC
  | E_STATE_TRANSITION
  | E_CHECKPOINT_SAVED
  | E_FAILURE_DETECTED
  | E_RECOVERY_ACTION
  | E_VERIFICATION_RESULT
  | E_APPROVAL_EVENT
  | E_BUDGET_UPDATE

fun trace_event_type_name :: "trace_event_type \<Rightarrow> string" where
  "trace_event_type_name E_MODEL_CALL = ''MODEL_CALL''"
| "trace_event_type_name E_TOOL_CALL = ''TOOL_CALL''"
| "trace_event_type_name E_FILE_CHANGE = ''FILE_CHANGE''"
| "trace_event_type_name E_COMMAND_EXEC = ''COMMAND_EXEC''"
| "trace_event_type_name E_STATE_TRANSITION = ''STATE_TRANSITION''"
| "trace_event_type_name E_CHECKPOINT_SAVED = ''CHECKPOINT_SAVED''"
| "trace_event_type_name E_FAILURE_DETECTED = ''FAILURE_DETECTED''"
| "trace_event_type_name E_RECOVERY_ACTION = ''RECOVERY_ACTION''"
| "trace_event_type_name E_VERIFICATION_RESULT = ''VERIFICATION_RESULT''"
| "trace_event_type_name E_APPROVAL_EVENT = ''APPROVAL_EVENT''"
| "trace_event_type_name E_BUDGET_UPDATE = ''BUDGET_UPDATE''"

definition TRACE_EVENT_TYPES :: "trace_event_type list" where
  "TRACE_EVENT_TYPES = [E_MODEL_CALL, E_TOOL_CALL, E_FILE_CHANGE, E_COMMAND_EXEC,
    E_STATE_TRANSITION, E_CHECKPOINT_SAVED, E_FAILURE_DETECTED, E_RECOVERY_ACTION,
    E_VERIFICATION_RESULT, E_APPROVAL_EVENT, E_BUDGET_UPDATE]"

lemma TRACE_EVENT_TYPES_all: "x \<in> set TRACE_EVENT_TYPES"
  by (cases x) (simp_all add: TRACE_EVENT_TYPES_def)

lemma trace_event_type_name_inject [simp]: "trace_event_type_name x = trace_event_type_name y \<longleftrightarrow> x = y"
  by (cases x; cases y) simp_all

section \<open>FailureCode\<close>

datatype failure_code =
    MODEL_RATE_LIMIT
  | MODEL_API_ERROR
  | MODEL_BAD_OUTPUT
  | TOOL_EXEC_ERROR
  | PATCH_APPLY_FAILED
  | SANDBOX_START_FAILED
  | SANDBOX_CRASHED
  | WORKER_LOST
  | BUDGET_TOKENS_EXCEEDED
  | BUDGET_TIME_EXCEEDED
  | BUDGET_TURNS_EXCEEDED
  | AGENT_STUCK
  | VERIFY_PATCH_MALFORMED
  | VERIFY_SCOPE_VIOLATION
  | VERIFY_STATIC_FAILED
  | VERIFY_TARGET_TESTS_FAILED
  | VERIFY_REGRESSION_FAILED
  | VERIFY_TEST_TAMPERING
  | HUMAN_REJECTED
  | CANCELLED_BY_USER

fun failure_code_name :: "failure_code \<Rightarrow> string" where
  "failure_code_name MODEL_RATE_LIMIT = ''MODEL_RATE_LIMIT''"
| "failure_code_name MODEL_API_ERROR = ''MODEL_API_ERROR''"
| "failure_code_name MODEL_BAD_OUTPUT = ''MODEL_BAD_OUTPUT''"
| "failure_code_name TOOL_EXEC_ERROR = ''TOOL_EXEC_ERROR''"
| "failure_code_name PATCH_APPLY_FAILED = ''PATCH_APPLY_FAILED''"
| "failure_code_name SANDBOX_START_FAILED = ''SANDBOX_START_FAILED''"
| "failure_code_name SANDBOX_CRASHED = ''SANDBOX_CRASHED''"
| "failure_code_name WORKER_LOST = ''WORKER_LOST''"
| "failure_code_name BUDGET_TOKENS_EXCEEDED = ''BUDGET_TOKENS_EXCEEDED''"
| "failure_code_name BUDGET_TIME_EXCEEDED = ''BUDGET_TIME_EXCEEDED''"
| "failure_code_name BUDGET_TURNS_EXCEEDED = ''BUDGET_TURNS_EXCEEDED''"
| "failure_code_name AGENT_STUCK = ''AGENT_STUCK''"
| "failure_code_name VERIFY_PATCH_MALFORMED = ''VERIFY_PATCH_MALFORMED''"
| "failure_code_name VERIFY_SCOPE_VIOLATION = ''VERIFY_SCOPE_VIOLATION''"
| "failure_code_name VERIFY_STATIC_FAILED = ''VERIFY_STATIC_FAILED''"
| "failure_code_name VERIFY_TARGET_TESTS_FAILED = ''VERIFY_TARGET_TESTS_FAILED''"
| "failure_code_name VERIFY_REGRESSION_FAILED = ''VERIFY_REGRESSION_FAILED''"
| "failure_code_name VERIFY_TEST_TAMPERING = ''VERIFY_TEST_TAMPERING''"
| "failure_code_name HUMAN_REJECTED = ''HUMAN_REJECTED''"
| "failure_code_name CANCELLED_BY_USER = ''CANCELLED_BY_USER''"

definition FAILURE_CODES :: "failure_code list" where
  "FAILURE_CODES = [MODEL_RATE_LIMIT, MODEL_API_ERROR, MODEL_BAD_OUTPUT, TOOL_EXEC_ERROR,
    PATCH_APPLY_FAILED, SANDBOX_START_FAILED, SANDBOX_CRASHED, WORKER_LOST,
    BUDGET_TOKENS_EXCEEDED, BUDGET_TIME_EXCEEDED, BUDGET_TURNS_EXCEEDED, AGENT_STUCK,
    VERIFY_PATCH_MALFORMED, VERIFY_SCOPE_VIOLATION, VERIFY_STATIC_FAILED, VERIFY_TARGET_TESTS_FAILED,
    VERIFY_REGRESSION_FAILED, VERIFY_TEST_TAMPERING, HUMAN_REJECTED, CANCELLED_BY_USER]"

lemma FAILURE_CODES_all: "x \<in> set FAILURE_CODES"
  by (cases x) (simp_all add: FAILURE_CODES_def)

lemma failure_code_name_inject [simp]: "failure_code_name x = failure_code_name y \<longleftrightarrow> x = y"
  by (cases x; cases y) simp_all

instantiation failure_code :: enum
begin

definition enum_failure_code_def: "enum_class.enum = FAILURE_CODES"

definition enum_all_failure_code_def: "enum_class.enum_all P \<longleftrightarrow> list_all P FAILURE_CODES"

definition enum_ex_failure_code_def: "enum_class.enum_ex P \<longleftrightarrow> list_ex P FAILURE_CODES"

instance
  by standard
    (auto simp: enum_failure_code_def enum_all_failure_code_def enum_ex_failure_code_def FAILURE_CODES_all list_all_iff list_ex_iff,
      simp_all add: FAILURE_CODES_def)

end

section \<open>PolicyAction\<close>

datatype policy_action =
    P_RESUME
  | P_RESTART_ATTEMPT
  | P_ESCALATE_HUMAN
  | P_ABORT

fun policy_action_name :: "policy_action \<Rightarrow> string" where
  "policy_action_name P_RESUME = ''RESUME''"
| "policy_action_name P_RESTART_ATTEMPT = ''RESTART_ATTEMPT''"
| "policy_action_name P_ESCALATE_HUMAN = ''ESCALATE_HUMAN''"
| "policy_action_name P_ABORT = ''ABORT''"

definition POLICY_ACTIONS :: "policy_action list" where
  "POLICY_ACTIONS = [P_RESUME, P_RESTART_ATTEMPT, P_ESCALATE_HUMAN, P_ABORT]"

lemma POLICY_ACTIONS_all: "x \<in> set POLICY_ACTIONS"
  by (cases x) (simp_all add: POLICY_ACTIONS_def)

lemma policy_action_name_inject [simp]: "policy_action_name x = policy_action_name y \<longleftrightarrow> x = y"
  by (cases x; cases y) simp_all

instantiation policy_action :: enum
begin

definition enum_policy_action_def: "enum_class.enum = POLICY_ACTIONS"

definition enum_all_policy_action_def: "enum_class.enum_all P \<longleftrightarrow> list_all P POLICY_ACTIONS"

definition enum_ex_policy_action_def: "enum_class.enum_ex P \<longleftrightarrow> list_ex P POLICY_ACTIONS"

instance
  by standard
    (auto simp: enum_policy_action_def enum_all_policy_action_def enum_ex_policy_action_def POLICY_ACTIONS_all list_all_iff list_ex_iff,
      simp_all add: POLICY_ACTIONS_def)

end

section \<open>ApprovalStatus\<close>

datatype approval_status =
    AP_PENDING
  | AP_APPROVED
  | AP_REJECTED

fun approval_status_name :: "approval_status \<Rightarrow> string" where
  "approval_status_name AP_PENDING = ''PENDING''"
| "approval_status_name AP_APPROVED = ''APPROVED''"
| "approval_status_name AP_REJECTED = ''REJECTED''"

definition APPROVAL_STATUSES :: "approval_status list" where
  "APPROVAL_STATUSES = [AP_PENDING, AP_APPROVED, AP_REJECTED]"

lemma APPROVAL_STATUSES_all: "x \<in> set APPROVAL_STATUSES"
  by (cases x) (simp_all add: APPROVAL_STATUSES_def)

lemma approval_status_name_inject [simp]: "approval_status_name x = approval_status_name y \<longleftrightarrow> x = y"
  by (cases x; cases y) simp_all

section \<open>OutboxStatus\<close>

datatype outbox_status =
    O_PENDING
  | O_PUBLISHED
  | O_FAILED

fun outbox_status_name :: "outbox_status \<Rightarrow> string" where
  "outbox_status_name O_PENDING = ''PENDING''"
| "outbox_status_name O_PUBLISHED = ''PUBLISHED''"
| "outbox_status_name O_FAILED = ''FAILED''"

definition OUTBOX_STATUSES :: "outbox_status list" where
  "OUTBOX_STATUSES = [O_PENDING, O_PUBLISHED, O_FAILED]"

lemma OUTBOX_STATUSES_all: "x \<in> set OUTBOX_STATUSES"
  by (cases x) (simp_all add: OUTBOX_STATUSES_def)

lemma outbox_status_name_inject [simp]: "outbox_status_name x = outbox_status_name y \<longleftrightarrow> x = y"
  by (cases x; cases y) simp_all

section \<open>ArtifactKind\<close>

datatype artifact_kind =
    K_PATCH
  | K_TEST_REPORT
  | K_LOG
  | K_JUDGE_REPORT

fun artifact_kind_name :: "artifact_kind \<Rightarrow> string" where
  "artifact_kind_name K_PATCH = ''PATCH''"
| "artifact_kind_name K_TEST_REPORT = ''TEST_REPORT''"
| "artifact_kind_name K_LOG = ''LOG''"
| "artifact_kind_name K_JUDGE_REPORT = ''JUDGE_REPORT''"

definition ARTIFACT_KINDS :: "artifact_kind list" where
  "ARTIFACT_KINDS = [K_PATCH, K_TEST_REPORT, K_LOG, K_JUDGE_REPORT]"

lemma ARTIFACT_KINDS_all: "x \<in> set ARTIFACT_KINDS"
  by (cases x) (simp_all add: ARTIFACT_KINDS_def)

lemma artifact_kind_name_inject [simp]: "artifact_kind_name x = artifact_kind_name y \<longleftrightarrow> x = y"
  by (cases x; cases y) simp_all

section \<open>RunCommandType\<close>

datatype run_command_type =
    START_RUN
  | RESUME_RUN
  | CANCEL_RUN

fun run_command_type_name :: "run_command_type \<Rightarrow> string" where
  "run_command_type_name START_RUN = ''START_RUN''"
| "run_command_type_name RESUME_RUN = ''RESUME_RUN''"
| "run_command_type_name CANCEL_RUN = ''CANCEL_RUN''"

definition RUN_COMMAND_TYPES :: "run_command_type list" where
  "RUN_COMMAND_TYPES = [START_RUN, RESUME_RUN, CANCEL_RUN]"

lemma RUN_COMMAND_TYPES_all: "x \<in> set RUN_COMMAND_TYPES"
  by (cases x) (simp_all add: RUN_COMMAND_TYPES_def)

lemma run_command_type_name_inject [simp]: "run_command_type_name x = run_command_type_name y \<longleftrightarrow> x = y"
  by (cases x; cases y) simp_all

section \<open>VerifierStep\<close>

datatype verifier_step =
    V1
  | V2
  | V3
  | V4
  | V5
  | V6

fun verifier_step_name :: "verifier_step \<Rightarrow> string" where
  "verifier_step_name V1 = ''V1''"
| "verifier_step_name V2 = ''V2''"
| "verifier_step_name V3 = ''V3''"
| "verifier_step_name V4 = ''V4''"
| "verifier_step_name V5 = ''V5''"
| "verifier_step_name V6 = ''V6''"

definition VERIFIER_STEPS :: "verifier_step list" where
  "VERIFIER_STEPS = [V1, V2, V3, V4,
    V5, V6]"

lemma VERIFIER_STEPS_all: "x \<in> set VERIFIER_STEPS"
  by (cases x) (simp_all add: VERIFIER_STEPS_def)

lemma verifier_step_name_inject [simp]: "verifier_step_name x = verifier_step_name y \<longleftrightarrow> x = y"
  by (cases x; cases y) simp_all

instantiation verifier_step :: enum
begin

definition enum_verifier_step_def: "enum_class.enum = VERIFIER_STEPS"

definition enum_all_verifier_step_def: "enum_class.enum_all P \<longleftrightarrow> list_all P VERIFIER_STEPS"

definition enum_ex_verifier_step_def: "enum_class.enum_ex P \<longleftrightarrow> list_ex P VERIFIER_STEPS"

instance
  by standard
    (auto simp: enum_verifier_step_def enum_all_verifier_step_def enum_ex_verifier_step_def VERIFIER_STEPS_all list_all_iff list_ex_iff,
      simp_all add: VERIFIER_STEPS_def)

end

section \<open>Reading a name back\<close>

text \<open>\<open>z.enum(VALUES).parse(s)\<close>: the value with that name, if there is one.\<close>

definition parse_enum :: "('a \<Rightarrow> string) \<Rightarrow> 'a list \<Rightarrow> string \<Rightarrow> 'a option" where
  "parse_enum name vals s = List.find (\<lambda>x. name x = s) vals"

lemma parse_enum_name:
  assumes "\<And>x y. name x = name y \<longleftrightarrow> x = y" and "x \<in> set vals"
  shows "parse_enum name vals (name x) = Some x"
  using assms by (induction vals) (auto simp: parse_enum_def)

lemma parse_enum_Some: "parse_enum name vals s = Some x \<Longrightarrow> name x = s \<and> x \<in> set vals"
  by (auto simp: parse_enum_def find_Some_iff)

end
