(* ===== verification/Contracts.thy ===== *)
theory Contracts
  imports Enums
begin

text \<open>
  The data contracts of packages/shared/src: trace events, run commands, task snapshots, with their
  zod schemas as executable checks, and the keys that make redelivery safe.  A schema acts on values
  that already have the right shape (the types below are the shape); what is modelled is every
  bound, pattern and transformation.  Strings are ASCII, so lengths count characters.
\<close>

section \<open>JSON values\<close>

datatype json =
    JNull
  | JBool bool
  | JNum int
  | JStr string
  | JArr "json list"
  | JObj "(string \<times> json) list"

section \<open>Trace events (trace-event.ts)\<close>

datatype entity = Ent_task | Ent_run | Ent_attempt

datatype change_type = Modify | Create | Delete

datatype trace_payload =
    ModelCall (mc_model: string) (mc_promptTokens: int) (mc_completionTokens: int)
      (mc_latencyMs: int) (mc_turn: int)
  | ToolCall (tc_toolCallId: string) (tc_tool: string) (tc_args: "(string \<times> json) list")
      (tc_resultDigest: string) (tc_durationMs: int) (tc_cached: bool) (tc_error: "string option")
  | FileChange (fc_path: string) (fc_changeType: change_type) (fc_additions: int) (fc_deletions: int)
  | CommandExec (ce_command: string) (ce_exitCode: int) (ce_stdoutTail: string)
      (ce_stderrTail: "string option") (ce_durationMs: int)
  | StateTransition (st_entity: entity) (st_from: string) (st_to: string)
  | CheckpointSaved (cs_checkpointId: string) (cs_usedTokens: int) (cs_usedSeconds: int)
  | FailureDetected (fd_failureCode: failure_code) (fd_message: string)
  | RecoveryAction (ra_action: policy_action) (ra_fromCheckpointId: "string option")
      (ra_newAttemptNo: nat)
  | VerificationResult (vr_step: verifier_step) (vr_passed: bool)
      (vr_failureCode: "failure_code option") (vr_detail: "(string \<times> json) list")
  | ApprovalEvent (ae_status: approval_status) (ae_reviewer: "string option") (ae_prUrl: "string option")
  | BudgetUpdate (bu_usedTokens: int) (bu_usedSeconds: int) (bu_usedTurns: int)

fun payload_type :: "trace_payload \<Rightarrow> trace_event_type" where
  "payload_type (ModelCall _ _ _ _ _) = E_MODEL_CALL"
| "payload_type (ToolCall _ _ _ _ _ _ _) = E_TOOL_CALL"
| "payload_type (FileChange _ _ _ _) = E_FILE_CHANGE"
| "payload_type (CommandExec _ _ _ _ _) = E_COMMAND_EXEC"
| "payload_type (StateTransition _ _ _) = E_STATE_TRANSITION"
| "payload_type (CheckpointSaved _ _ _) = E_CHECKPOINT_SAVED"
| "payload_type (FailureDetected _ _) = E_FAILURE_DETECTED"
| "payload_type (RecoveryAction _ _ _) = E_RECOVERY_ACTION"
| "payload_type (VerificationResult _ _ _ _) = E_VERIFICATION_RESULT"
| "payload_type (ApprovalEvent _ _ _) = E_APPROVAL_EVENT"
| "payload_type (BudgetUpdate _ _ _) = E_BUDGET_UPDATE"

fun payload_ok :: "trace_payload \<Rightarrow> bool" where
  "payload_ok (ModelCall _ p c l t) \<longleftrightarrow> 0 \<le> p \<and> 0 \<le> c \<and> 0 \<le> l \<and> 0 \<le> t"
| "payload_ok (ToolCall _ _ _ _ d _ _) \<longleftrightarrow> 0 \<le> d"
| "payload_ok (FileChange _ _ a d) \<longleftrightarrow> 0 \<le> a \<and> 0 \<le> d"
| "payload_ok (CommandExec _ _ _ _ d) \<longleftrightarrow> 0 \<le> d"
| "payload_ok (StateTransition _ _ _) \<longleftrightarrow> True"
| "payload_ok (CheckpointSaved _ t s) \<longleftrightarrow> 0 \<le> t \<and> 0 \<le> s"
| "payload_ok (FailureDetected _ _) \<longleftrightarrow> True"
| "payload_ok (RecoveryAction _ _ n) \<longleftrightarrow> 0 < n"
| "payload_ok (VerificationResult _ _ _ _) \<longleftrightarrow> True"
| "payload_ok (ApprovalEvent _ _ _) \<longleftrightarrow> True"
| "payload_ok (BudgetUpdate t s n) \<longleftrightarrow> 0 \<le> t \<and> 0 \<le> s \<and> 0 \<le> n"

text \<open>The envelope; \<open>tev_type\<close> is the discriminator the union narrows the payload by.\<close>

record TraceEvent =
  tev_runId :: string
  tev_attemptId :: string
  tev_attemptNo :: nat
  tev_attemptSequence :: nat
  tev_occurredAt :: int
  tev_idempotencyKey :: string
  tev_type :: trace_event_type
  tev_payload :: trace_payload

definition TraceEventSchema :: "TraceEvent \<Rightarrow> bool" where
  "TraceEventSchema e \<longleftrightarrow>
     tev_runId e \<noteq> [] \<and> tev_attemptId e \<noteq> [] \<and> 0 < tev_attemptNo e \<and>
     0 < tev_attemptSequence e \<and> tev_idempotencyKey e \<noteq> [] \<and>
     payload_type (tev_payload e) = tev_type e \<and> payload_ok (tev_payload e)"

lemma TraceEventSchema_type: "TraceEventSchema e \<Longrightarrow> payload_type (tev_payload e) = tev_type e"
  by (simp add: TraceEventSchema_def)

definition traceEventIdempotencyKey :: "string \<Rightarrow> nat \<Rightarrow> nat \<Rightarrow> string" where
  "traceEventIdempotencyKey runId attemptNo attemptSequence =
     runId @ '':'' @ show_nat attemptNo @ '':'' @ show_nat attemptSequence"

text \<open>The key the control plane gives its own events (run-lifecycle.service.ts, run-control.service.ts).\<close>

definition controlPlaneKey :: "string \<Rightarrow> nat \<Rightarrow> string" where
  "controlPlaneKey runId runSequence = ''cp:'' @ runId @ '':'' @ show_nat runSequence"

section \<open>Task snapshots (task-snapshot.ts)\<close>

definition is_hex :: "char \<Rightarrow> bool" where
  "is_hex c \<longleftrightarrow> is_digit c \<or> (97 \<le> (of_char c :: nat) \<and> (of_char c :: nat) \<le> 102)"

definition GitShaSchema :: "string \<Rightarrow> bool" where
  "GitShaSchema s \<longleftrightarrow> length s = 40 \<and> list_all is_hex s"

definition RelativePathSchema :: "string \<Rightarrow> bool" where
  "RelativePathSchema s \<longleftrightarrow> 1 \<le> length s \<and> length s \<le> 512 \<and>
     \<not> startsWith s ''/'' \<and> CHR 0x5C \<notin> set s \<and> ''..'' \<notin> set (split_on CHR ''/'' s) \<and>
     list_all (\<lambda>c. 32 \<le> (of_char c :: nat)) s"

text \<open>\<open>z.string().trim().min(1).max(4096)\<close> returns the trimmed command.\<close>

definition CommandSchema :: "string \<Rightarrow> string option" where
  "CommandSchema s =
     (let t = trim s in if 1 \<le> length t \<and> length t \<le> 4096 then Some t else None)"

datatype runtime = PYTHON_PYTEST

datatype delivery_kind = D_PATCH | D_PULL_REQUEST

datatype preparation = PREP_IMAGE | PREP_REQUIREMENTS

record RepositoryConfig =
  rc_runtime :: runtime
  rc_defaultDelivery :: "delivery_kind option"
  rc_preparation :: preparation
  rc_image :: string
  rc_dependencyFiles :: "string list"
  rc_workdir :: string
  rc_allowedPaths :: "string list"
  rc_protectedPaths :: "string list"
  rc_staticCheck :: "string list"
  rc_failToPass :: "string list"
  rc_passToPass :: "string list"
  rc_acceptanceCriteria :: "string list"

record Baseline =
  bl_command :: string
  bl_expected :: "string list"

record SnapshotBudget =
  sb_tokens :: int
  sb_seconds :: int
  sb_turns :: int
  sb_maxAttempts :: nat

record SnapshotDelivery =
  sd_kind :: delivery_kind
  sd_targetBranch :: string
  sd_expectedTargetSha :: string

record SnapshotSource =
  ss_prUrl :: string
  ss_headSha :: string
  ss_baseSha :: string
  ss_ciSha :: "string option"
  ss_evidence :: string

record TaskSnapshot =
  sn_repositoryId :: string
  sn_parentTaskId :: "string option"
  sn_configVersion :: nat
  sn_executionSha :: string
  sn_agentKind :: agent_kind
  sn_title :: string
  sn_description :: string
  sn_config :: RepositoryConfig
  sn_baseline :: Baseline
  sn_budget :: SnapshotBudget
  sn_delivery :: SnapshotDelivery
  sn_source :: "SnapshotSource option"

fun map_all :: "('a \<Rightarrow> 'b option) \<Rightarrow> 'a list \<Rightarrow> 'b list option" where
  "map_all f [] = Some []"
| "map_all f (x # xs) =
     (case f x of None \<Rightarrow> None | Some y \<Rightarrow> map_option ((#) y) (map_all f xs))"

definition RepositoryConfigSchema :: "RepositoryConfig \<Rightarrow> RepositoryConfig option" where
  "RepositoryConfigSchema c =
     (case (map_all CommandSchema (rc_staticCheck c), map_all CommandSchema (rc_failToPass c),
            map_all CommandSchema (rc_passToPass c)) of
        (Some st, Some fp, Some pp) \<Rightarrow>
          (if 1 \<le> length (rc_image c) \<and> length (rc_image c) \<le> 512 \<and>
              list_all RelativePathSchema (rc_dependencyFiles c) \<and>
              RelativePathSchema (rc_workdir c) \<and>
              list_all RelativePathSchema (rc_allowedPaths c) \<and> rc_allowedPaths c \<noteq> [] \<and>
              list_all RelativePathSchema (rc_protectedPaths c) \<and>
              list_all (\<lambda>s. s \<noteq> []) (rc_acceptanceCriteria c) \<and> rc_acceptanceCriteria c \<noteq> []
           then Some (c\<lparr> rc_staticCheck := st, rc_failToPass := fp, rc_passToPass := pp \<rparr>)
           else None)
      | _ \<Rightarrow> None)"

text \<open>
  \<open>schemaVersion\<close> and \<open>mode\<close> are literals (2 and REAL) and have no component.  \<open>isUrl\<close> stands for
  zod's \<open>url()\<close> check, code outside the repository.
\<close>

definition TaskSnapshotSchema :: "(string \<Rightarrow> bool) \<Rightarrow> TaskSnapshot \<Rightarrow> TaskSnapshot option" where
  "TaskSnapshotSchema isUrl s =
     (case (RepositoryConfigSchema (sn_config s), CommandSchema (bl_command (sn_baseline s))) of
        (Some cfg, Some cmd) \<Rightarrow>
          (if sn_repositoryId s \<noteq> [] \<and> sn_parentTaskId s \<noteq> Some [] \<and> 0 < sn_configVersion s \<and>
              GitShaSchema (sn_executionSha s) \<and>
              1 \<le> length (sn_title s) \<and> length (sn_title s) \<le> 300 \<and>
              1 \<le> length (sn_description s) \<and> length (sn_description s) \<le> 100000 \<and>
              list_all (\<lambda>x. x \<noteq> []) (bl_expected (sn_baseline s)) \<and> bl_expected (sn_baseline s) \<noteq> [] \<and>
              0 < sb_tokens (sn_budget s) \<and> sb_tokens (sn_budget s) \<le> 10000000 \<and>
              0 < sb_seconds (sn_budget s) \<and> sb_seconds (sn_budget s) \<le> 86400 \<and>
              0 < sb_turns (sn_budget s) \<and> sb_turns (sn_budget s) \<le> 1000 \<and>
              0 < sb_maxAttempts (sn_budget s) \<and> sb_maxAttempts (sn_budget s) \<le> 20 \<and>
              1 \<le> length (sd_targetBranch (sn_delivery s)) \<and>
              length (sd_targetBranch (sn_delivery s)) \<le> 255 \<and>
              GitShaSchema (sd_expectedTargetSha (sn_delivery s)) \<and>
              (case sn_source s of None \<Rightarrow> True
               | Some q \<Rightarrow> isUrl (ss_prUrl q) \<and> GitShaSchema (ss_headSha q) \<and>
                   GitShaSchema (ss_baseSha q) \<and> length (ss_evidence q) \<le> 100000)
           then Some (s\<lparr> sn_config := cfg, sn_baseline := (sn_baseline s)\<lparr> bl_command := cmd \<rparr> \<rparr>)
           else None)
      | _ \<Rightarrow> None)"

section \<open>Run commands (run-command.ts)\<close>

record TaskSpec =
  ts_fixtureId :: "string option"
  ts_description :: string
  ts_workdir :: string
  ts_allowedPaths :: "string list"
  ts_staticCheck :: "string list"
  ts_failToPass :: "string list"
  ts_passToPass :: "string list"
  ts_acceptanceCriteria :: "string list"
  ts_testPatch :: "string option"

record Budget =
  bg_tokens :: int
  bg_seconds :: int
  bg_turns :: int
  bg_remainingTokens :: int
  bg_remainingSeconds :: int

record Repo =
  repo_path :: string
  repo_baseCommit :: string

record RunCommand =
  cmd_snapshot :: "TaskSnapshot option"
  cmd_commandId :: string
  cmd_type :: run_command_type
  cmd_runId :: string
  cmd_attemptNo :: nat
  cmd_agentKind :: agent_kind
  cmd_repo :: Repo
  cmd_taskSpec :: TaskSpec
  cmd_budget :: Budget
  cmd_checkpointId :: "string option"

definition BudgetSchema :: "Budget \<Rightarrow> bool" where
  "BudgetSchema b \<longleftrightarrow> 0 < bg_tokens b \<and> 0 < bg_seconds b \<and> 0 < bg_turns b \<and>
     0 \<le> bg_remainingTokens b \<and> 0 \<le> bg_remainingSeconds b"

definition RunCommandSchema :: "(string \<Rightarrow> bool) \<Rightarrow> RunCommand \<Rightarrow> RunCommand option" where
  "RunCommandSchema isUrl c =
     (if cmd_commandId c \<noteq> [] \<and> cmd_runId c \<noteq> [] \<and> 0 < cmd_attemptNo c \<and> BudgetSchema (cmd_budget c)
      then (case cmd_snapshot c of
              None \<Rightarrow> Some c
            | Some s \<Rightarrow> map_option (\<lambda>s'. c\<lparr> cmd_snapshot := Some s' \<rparr>) (TaskSnapshotSchema isUrl s))
      else None)"

definition runCommandId :: "string \<Rightarrow> string \<Rightarrow> nat \<Rightarrow> string" where
  "runCommandId runId type attemptNo = ''cmd:'' @ runId @ '':'' @ type @ '':'' @ show_nat attemptNo"

section \<open>The keys identify what they key\<close>

lemma colon_not_in_type [simp]: "CHR '':'' \<notin> set (run_command_type_name t)"
  by (cases t) simp_all

lemma two_part_key_inject:
  "xs @ '':'' @ show_nat m @ '':'' @ show_nat n = ys @ '':'' @ show_nat m' @ '':'' @ show_nat n' \<longleftrightarrow>
     xs = ys \<and> m = m' \<and> n = n'"
  using append_sep_inject [OF colon_not_in_show_nat [of n] colon_not_in_show_nat [of n'],
      of "xs @ '':'' @ show_nat m" "ys @ '':'' @ show_nat m'"]
    append_sep_inject [OF colon_not_in_show_nat [of m] colon_not_in_show_nat [of m'], of xs ys]
  by auto

text \<open>A run command's idempotency key determines the run, the kind of command and the attempt it
  is for: two commands with the same key are the same delivery, whatever the run identifiers
  contain.\<close>

theorem run_command_key_inject:
  "runCommandId r (run_command_type_name t) n = runCommandId r' (run_command_type_name t') n' \<longleftrightarrow>
     r = r' \<and> t = t' \<and> n = n'"
proof -
  have "runCommandId r (run_command_type_name t) n = runCommandId r' (run_command_type_name t') n' \<longleftrightarrow>
      (r @ '':'' @ run_command_type_name t) @ CHR '':'' # show_nat n =
      (r' @ '':'' @ run_command_type_name t') @ CHR '':'' # show_nat n'"
    by (simp add: runCommandId_def)
  also have "\<dots> \<longleftrightarrow> r @ CHR '':'' # run_command_type_name t = r' @ CHR '':'' # run_command_type_name t' \<and> n = n'"
    by (subst append_sep_inject) (auto simp: colon_not_in_show_nat)
  also have "\<dots> \<longleftrightarrow> r = r' \<and> t = t' \<and> n = n'"
    using append_sep_inject [OF colon_not_in_type [of t] colon_not_in_type [of t']] by auto
  finally show ?thesis .
qed

lemma controlPlaneKey_inject: "controlPlaneKey r n = controlPlaneKey r' n' \<longleftrightarrow> r = r' \<and> n = n'"
  using append_sep_inject [OF colon_not_in_show_nat [of n] colon_not_in_show_nat [of n'],
      of "''cp:'' @ r" "''cp:'' @ r'"]
  by (simp add: controlPlaneKey_def)

lemma traceEventIdempotencyKey_inject:
  "traceEventIdempotencyKey r m n = traceEventIdempotencyKey r' m' n' \<longleftrightarrow> r = r' \<and> m = m' \<and> n = n'"
  using two_part_key_inject by (simp add: traceEventIdempotencyKey_def)

lemma worker_key_cp_key:
  assumes "CHR '':'' \<notin> set r'"
  shows "traceEventIdempotencyKey r m n = controlPlaneKey r' j \<longleftrightarrow> r = ''cp'' \<and> r' = show_nat m \<and> n = j"
proof -
  have "traceEventIdempotencyKey r m n = controlPlaneKey r' j \<longleftrightarrow>
      (r @ CHR '':'' # show_nat m) @ CHR '':'' # show_nat n = (''cp'' @ CHR '':'' # r') @ CHR '':'' # show_nat j"
    by (simp add: traceEventIdempotencyKey_def controlPlaneKey_def)
  also have "\<dots> \<longleftrightarrow> r @ CHR '':'' # show_nat m = ''cp'' @ CHR '':'' # r' \<and> n = j"
    by (subst append_sep_inject) (auto simp: colon_not_in_show_nat)
  also have "\<dots> \<longleftrightarrow> r = ''cp'' \<and> r' = show_nat m \<and> n = j"
    using append_sep_inject [OF colon_not_in_show_nat [of m] assms, of r "''cp''"] by auto
  finally show ?thesis .
qed

text \<open>The keys of trace events identify them.  A worker's key determines run, attempt and position;
  the control plane's own key determines run and position; and, for run identifiers without a colon,
  the two kinds never meet, unless a run is called \<open>cp\<close> and another one is a decimal number.\<close>

theorem trace_keys_disjoint:
  assumes "CHR '':'' \<notin> set r'"
  shows "(traceEventIdempotencyKey r m n = traceEventIdempotencyKey s k j \<longleftrightarrow> r = s \<and> m = k \<and> n = j) \<and>
    (controlPlaneKey r n = controlPlaneKey s j \<longleftrightarrow> r = s \<and> n = j) \<and>
    (traceEventIdempotencyKey r m n = controlPlaneKey r' j \<longleftrightarrow> r = ''cp'' \<and> r' = show_nat m \<and> n = j)"
  by (intro conjI traceEventIdempotencyKey_inject controlPlaneKey_inject worker_key_cp_key [OF assms])

theorem trace_keys_disjoint_witness:
  "(CHR '':'' \<notin> set ''run1'') \<and> traceEventIdempotencyKey ''run1'' 1 4 \<noteq> controlPlaneKey ''run1'' 4"
proof -
  have h: "CHR '':'' \<notin> set ''run1''" by simp
  show ?thesis using h trace_keys_disjoint [OF h, of "''run1''" 1 4 "''run1''" 1 4]
    by (auto simp del: One_nat_def)
qed

section \<open>Relative paths stay inside the repository\<close>

text \<open>
  What \<open>path.posix.normalize\<close> does to the segments of a path: empty segments and \<open>.\<close> vanish, \<open>..\<close>
  drops the segment before it.  \<open>stack\<close> is the directory reached, innermost first.
\<close>

fun walk :: "string list \<Rightarrow> string list \<Rightarrow> string list" where
  "walk stack [] = stack"
| "walk stack (s # ss) =
     (if s = [] \<or> s = ''.'' then walk stack ss
      else if s = ''..'' then walk (tl stack) ss
      else walk (s # stack) ss)"

lemma walk_stays: "''..'' \<notin> set ss \<Longrightarrow> \<exists>below. walk stack ss = below @ stack"
proof (induction ss arbitrary: stack)
  case Nil
  then show ?case by simp
next
  case (Cons s ss)
  then have no: "''..'' \<notin> set ss" and ne: "s \<noteq> ''..''" by auto
  from Cons.IH [OF no, of stack] Cons.IH [OF no, of "s # stack"] ne show ?case
    by fastforce
qed

text \<open>A path that \<open>RelativePathSchema\<close> accepts never leaves the directory it is resolved against:
  walking its segments from any directory ends in that directory or below it.\<close>

theorem relative_path_contained:
  assumes "RelativePathSchema p"
  shows "\<exists>below. walk root (split_on CHR ''/'' p) = below @ root"
  using assms by (intro walk_stays) (simp add: RelativePathSchema_def)

theorem relative_path_contained_witness:
  "RelativePathSchema ''src/app'' \<and> walk [''repo''] (split_on CHR ''/'' ''src/app'') = [''app'', ''src'', ''repo'']"
proof -
  have h: "RelativePathSchema ''src/app''"
    by (simp add: RelativePathSchema_def startsWith_def)
  show ?thesis using h relative_path_contained [OF h, of "[''repo'']"] by simp
qed

section \<open>Parsing twice is parsing once\<close>

lemma CommandSchema_idem: "CommandSchema s = Some t \<Longrightarrow> CommandSchema t = Some t"
  by (auto simp: CommandSchema_def Let_def split: if_splits)

lemma map_all_idem:
  "(\<And>x y. f x = Some y \<Longrightarrow> f y = Some y) \<Longrightarrow> map_all f xs = Some ys \<Longrightarrow> map_all f ys = Some ys"
  by (induction xs arbitrary: ys) (auto split: option.splits)

lemma map_all_length: "map_all f xs = Some ys \<Longrightarrow> length ys = length xs"
  by (induction xs arbitrary: ys) (auto split: option.splits)

lemma RepositoryConfigSchema_idem:
  assumes "RepositoryConfigSchema c = Some d"
  shows "RepositoryConfigSchema d = Some d"
proof -
  obtain st fp pp where m: "map_all CommandSchema (rc_staticCheck c) = Some st"
      "map_all CommandSchema (rc_failToPass c) = Some fp"
      "map_all CommandSchema (rc_passToPass c) = Some pp"
      and d: "d = c\<lparr> rc_staticCheck := st, rc_failToPass := fp, rc_passToPass := pp \<rparr>"
    using assms by (auto simp: RepositoryConfigSchema_def split: option.splits if_splits)
  have "map_all CommandSchema st = Some st" "map_all CommandSchema fp = Some fp"
      "map_all CommandSchema pp = Some pp"
    using m by (blast intro: map_all_idem CommandSchema_idem)+
  with assms d m show ?thesis
    by (simp add: RepositoryConfigSchema_def split: if_splits)
qed

lemma TaskSnapshotSchema_idem:
  assumes "TaskSnapshotSchema u s = Some t"
  shows "TaskSnapshotSchema u t = Some t"
proof -
  obtain cfg cmd where c: "RepositoryConfigSchema (sn_config s) = Some cfg"
      and b: "CommandSchema (bl_command (sn_baseline s)) = Some cmd"
      and t: "t = s\<lparr> sn_config := cfg, sn_baseline := (sn_baseline s)\<lparr> bl_command := cmd \<rparr> \<rparr>"
    using assms by (auto simp: TaskSnapshotSchema_def split: option.splits if_splits)
  show ?thesis
    using assms RepositoryConfigSchema_idem [OF c] CommandSchema_idem [OF b] c b t
    by (simp add: TaskSnapshotSchema_def split: if_splits)
qed

text \<open>A snapshot the examples of the development use.\<close>

definition example_config :: RepositoryConfig where
  "example_config = \<lparr> rc_runtime = PYTHON_PYTEST, rc_defaultDelivery = None,
     rc_preparation = PREP_IMAGE, rc_image = ''image'', rc_dependencyFiles = [], rc_workdir = ''.'',
     rc_allowedPaths = [''src''], rc_protectedPaths = [''tests''], rc_staticCheck = [],
     rc_failToPass = ['' pytest -q''], rc_passToPass = [], rc_acceptanceCriteria = [''fixed''] \<rparr>"

definition example_sha :: string where
  "example_sha = replicate 40 CHR ''a''"

definition example_snapshot :: "delivery_kind \<Rightarrow> TaskSnapshot" where
  "example_snapshot kind = \<lparr> sn_repositoryId = ''repo'', sn_parentTaskId = None, sn_configVersion = 1,
     sn_executionSha = example_sha, sn_agentKind = SELF_LANGGRAPH, sn_title = ''Fix'',
     sn_description = ''Fix'', sn_config = example_config\<lparr> rc_failToPass := [''pytest -q''] \<rparr>,
     sn_baseline = \<lparr> bl_command = ''pytest'', bl_expected = [''test''] \<rparr>,
     sn_budget = \<lparr> sb_tokens = 10000, sb_seconds = 900, sb_turns = 30, sb_maxAttempts = 3 \<rparr>,
     sn_delivery = \<lparr> sd_kind = kind, sd_targetBranch = ''main'', sd_expectedTargetSha = example_sha \<rparr>,
     sn_source = None \<rparr>"

lemma GitShaSchema_example [simp]: "GitShaSchema example_sha"
  by (simp add: GitShaSchema_def example_sha_def is_hex_def list_all_iff)

lemma example_snapshot_parses:
  "TaskSnapshotSchema u ((example_snapshot kind)\<lparr> sn_config := example_config \<rparr>) = Some (example_snapshot kind)"
  by (simp add: TaskSnapshotSchema_def RepositoryConfigSchema_def CommandSchema_def trim_def is_space_def
      RelativePathSchema_def startsWith_def example_snapshot_def example_config_def Let_def)

end
