(* ===== verification/Database.thy ===== *)
theory Database
  imports Contracts
begin

text \<open>
  The database of the control plane (apps/control-plane/prisma/schema.prisma): one record per model,
  with the model's columns, and the whole database as a record of tables.  Columns that only the
  database itself reads are left out.  Times are milliseconds since the epoch.  Every Prisma
  operation the services use is given for each table they use it on; the trigger that writes a
  notification when a task's status changes is part of the task update.
\<close>

section \<open>Models\<close>

record Workspace =
  ws_id :: string
  ws_name :: string

record Project =
  prj_id :: string
  prj_workspaceId :: string
  prj_name :: string
  prj_repoPath :: string
  prj_githubRepo :: "string option"
  prj_defaultBranch :: string
  prj_repoUrl :: "string option"
  prj_readCredential :: "string option"
  prj_writeCredential :: "string option"

record RepositoryConfigVersion =
  rcv_projectId :: string
  rcv_version :: nat
  rcv_config :: RepositoryConfig

record TaskDraft =
  draft_id :: string
  draft_projectId :: string
  draft_snapshot :: TaskSnapshot
  draft_revision :: nat
  draft_expiresAt :: int

record Task =
  task_id :: string
  task_projectId :: string
  task_title :: string
  task_description :: string
  task_source :: task_source
  task_sourceRef :: "string option"
  task_fixtureId :: "string option"
  task_status :: task_status
  task_allowedPaths :: "string list"
  task_createdAt :: int
  task_snapshot :: "TaskSnapshot option"
  task_snapshotDigest :: "string option"
  task_confirmationKey :: "string option"
  task_parentTaskId :: "string option"
  task_attentionReason :: "string option"

record Run =
  run_id :: string
  run_taskId :: string
  run_agentKind :: agent_kind
  run_status :: run_status
  run_baseCommit :: string
  run_maxAttempts :: nat
  run_budgetTokens :: int
  run_budgetSeconds :: int
  run_budgetTurns :: int
  run_usedTokens :: int
  run_usedSeconds :: int
  run_lastSequence :: nat
  run_recoveryDisabled :: bool
  run_feedbackMode :: string
  run_createdAt :: int
  run_updatedAt :: int
  run_phase :: string
  run_environmentId :: "string option"
  run_imageId :: "string option"
  run_activeStartedAt :: "int option"
  run_deadlineAt :: "int option"

record Attempt =
  att_id :: string
  att_runId :: string
  att_no :: nat
  att_workerId :: "string option"
  att_status :: attempt_status
  att_failureCode :: "failure_code option"
  att_leaseExpiresAt :: "int option"
  att_endedAt :: "int option"
  att_leaseToken :: "string option"

record StoredEvent =
  ev_runId :: string
  ev_attemptId :: "string option"
  ev_runSequence :: nat
  ev_attemptSequence :: nat
  ev_type :: trace_event_type
  ev_payload :: trace_payload
  ev_idempotencyKey :: string
  ev_occurredAt :: int

record Checkpoint =
  cp_id :: string
  cp_runId :: string
  cp_attemptId :: string
  cp_threadId :: string
  cp_baseCommit :: string
  cp_appliedPatchSha :: "string option"
  cp_appliedPatch :: "string option"
  cp_completedToolCalls :: "(string \<times> string) list"
  cp_usedTokens :: int
  cp_usedSeconds :: int
  cp_createdAt :: int

record Artifact =
  art_id :: string
  art_runId :: string
  art_attemptId :: string
  art_kind :: artifact_kind
  art_name :: string
  art_content :: string
  art_sizeBytes :: nat
  art_createdAt :: int

record VerificationRow =
  ver_id :: string
  ver_runId :: string
  ver_attemptId :: string
  ver_step :: verifier_step
  ver_passed :: bool
  ver_failureCode :: "failure_code option"
  ver_detail :: "(string \<times> json) list"
  ver_durationMs :: int
  ver_createdAt :: int

record PolicyDecision =
  pol_id :: string
  pol_runId :: string
  pol_attemptId :: string
  pol_failureCode :: failure_code
  pol_action :: policy_action
  pol_reason :: string

record Approval =
  app_id :: string
  app_taskId :: string
  app_runId :: string
  app_status :: approval_status
  app_reviewer :: "string option"
  app_decidedAt :: "int option"
  app_prUrl :: "string option"
  app_prError :: "string option"
  app_patchDigest :: "string option"

record EnvironmentVersion =
  env_id :: string
  env_fingerprint :: string
  env_status :: string
  env_imageId :: "string option"
  env_log :: string

datatype budget_status = B_RESERVED | B_UNKNOWN | B_SETTLED

record BudgetCall =
  bc_id :: string
  bc_runId :: string
  bc_reserved :: int
  bc_used :: "int option"
  bc_status :: budget_status

datatype delivery_status = J_QUEUED | J_RUNNING | J_SUCCEEDED | J_FAILED | J_NEEDS_ATTENTION

record DeliveryJob =
  job_id :: string
  job_approvalId :: string
  job_status :: delivery_status
  job_attempts :: nat
  job_patchDigest :: string
  job_branch :: string
  job_commitSha :: "string option"
  job_prUrl :: "string option"
  job_error :: "string option"
  job_leaseToken :: "string option"
  job_leaseExpiresAt :: "int option"
  job_createdAt :: int

datatype notification_kind = N_FAILED | N_ACTION_REQUIRED | N_COMPLETED

record Notification =
  ntf_taskId :: string
  ntf_kind :: notification_kind
  ntf_message :: string

record OutboxMessage =
  msg_id :: string
  msg_topic :: string
  msg_key :: string
  msg_payload :: RunCommand
  msg_status :: outbox_status
  msg_attempts :: nat
  msg_createdAt :: int
  msg_publishedAt :: "int option"
  msg_notBefore :: int

record db =
  workspaces :: "Workspace list"
  projects :: "Project list"
  configs :: "RepositoryConfigVersion list"
  drafts :: "TaskDraft list"
  tasks :: "Task list"
  runs :: "Run list"
  attempts :: "Attempt list"
  traceEvents :: "StoredEvent list"
  checkpoints :: "Checkpoint list"
  artifacts :: "Artifact list"
  verifications :: "VerificationRow list"
  policyDecisions :: "PolicyDecision list"
  approvals :: "Approval list"
  environments :: "EnvironmentVersion list"
  budgetCalls :: "BudgetCall list"
  deliveryJobs :: "DeliveryJob list"
  notifications :: "Notification list"
  outbox :: "OutboxMessage list"

definition empty_db :: db where
  "empty_db = \<lparr> workspaces = [], projects = [], configs = [], drafts = [], tasks = [], runs = [],
     attempts = [], traceEvents = [], checkpoints = [], artifacts = [], verifications = [],
     policyDecisions = [], approvals = [], environments = [], budgetCalls = [], deliveryJobs = [],
     notifications = [], outbox = [] \<rparr>"

section \<open>What a call gets from outside\<close>

text \<open>
  A call runs at one instant, draws its identifiers from the client's generator (\<open>cuid\<close>, in the
  order the code creates rows: each creation of a call has its own index) and \<open>randomUUID\<close>, and reads
  the configuration (config/env.ts).  \<open>c_sha256\<close> is the hex SHA-256 of a string, \<open>c_localeLe\<close> the
  order of \<open>localeCompare\<close>, \<open>c_isUrl\<close> zod's URL check, \<open>c_git\<close> the output of the git program,
  \<open>c_fetch\<close> a git fetch with credentials (which fails, or leaves a repository with other outputs), and
  \<open>c_prHead\<close> the head commit GitHub reports for a pull request.  The results hold for every choice of these functions unless a hypothesis says what
  is needed of them.
\<close>

record FixtureDefinition =
  fx_id :: string
  fx_title :: string
  fx_category :: string
  fx_repoPath :: string
  fx_baseCommit :: string
  fx_goldPatch :: string
  fx_acceptanceCriteria :: "string list"
  fx_taskSpec :: TaskSpec

record ctx =
  c_now :: int
  c_cuid :: "nat \<Rightarrow> string"
  c_uuid :: string
  c_leaseTtlMs :: int
  c_demo :: bool
  c_fixtures :: "FixtureDefinition list"
  c_sha256 :: "string \<Rightarrow> string"
  c_isUrl :: "string \<Rightarrow> bool"
  c_localeLe :: "string \<Rightarrow> string \<Rightarrow> bool"
  c_git :: "string \<Rightarrow> string list \<Rightarrow> err + string"
  c_fetch :: "string \<Rightarrow> string \<Rightarrow> string \<Rightarrow> string option \<Rightarrow> err + (string \<Rightarrow> string list \<Rightarrow> err + string)"
  c_prHead :: "string \<Rightarrow> string option \<Rightarrow> string option \<Rightarrow> err + string"

section \<open>Tables\<close>

abbreviation "find_task tid d \<equiv> find_row task_id tid (tasks d)"
abbreviation "find_run rid d \<equiv> find_row run_id rid (runs d)"
abbreviation "find_attempt aid d \<equiv> find_row att_id aid (attempts d)"
abbreviation "find_approval pid d \<equiv> find_row app_id pid (approvals d)"
abbreviation "find_job jid d \<equiv> find_row job_id jid (deliveryJobs d)"
abbreviation "find_call bid d \<equiv> find_row bc_id bid (budgetCalls d)"
abbreviation "attempts_of rid d \<equiv> filter (\<lambda>a. att_runId a = rid) (attempts d)"
abbreviation "events_of rid d \<equiv> filter (\<lambda>e. ev_runId e = rid) (traceEvents d)"
abbreviation "calls_of rid d \<equiv> filter (\<lambda>c. bc_runId c = rid) (budgetCalls d)"
abbreviation "messages_of rid d \<equiv>
  filter (\<lambda>m. msg_key m = rid \<and> msg_topic m = ''run-commands'') (outbox d)"

interpretation run_tbl: table runs runs_update run_id
  by unfold_locales simp

interpretation task_tbl: table tasks tasks_update task_id
  by unfold_locales simp

interpretation attempt_tbl: table attempts attempts_update att_id
  by unfold_locales simp

interpretation approval_tbl: table approvals approvals_update app_id
  by unfold_locales simp

interpretation event_tbl: table traceEvents traceEvents_update ev_idempotencyKey
  by unfold_locales simp

interpretation call_tbl: table budgetCalls budgetCalls_update bc_id
  by unfold_locales simp

interpretation job_tbl: table deliveryJobs deliveryJobs_update job_id
  by unfold_locales simp

interpretation outbox_tbl: table outbox outbox_update msg_id
  by unfold_locales simp

interpretation artifact_tbl: table artifacts artifacts_update art_id
  by unfold_locales simp

interpretation env_tbl: table environments environments_update env_fingerprint
  by unfold_locales simp

subsection \<open>Runs and attempts\<close>

text \<open>\<open>updatedAt\<close> is written by every update of a run (\<open>@updatedAt\<close>).\<close>

definition run_findUniqueOrThrow :: "string \<Rightarrow> (db, Run) tx" where
  "run_findUniqueOrThrow rid = find_or_throw runs run_id rid"

definition run_update :: "ctx \<Rightarrow> string \<Rightarrow> (Run \<Rightarrow> Run) \<Rightarrow> (db, Run) tx" where
  "run_update c rid f =
     update_unique runs runs_update run_id rid (\<lambda>r. (f r)\<lparr> run_updatedAt := c_now c \<rparr>)"

definition run_updateMany :: "ctx \<Rightarrow> (Run \<Rightarrow> bool) \<Rightarrow> (Run \<Rightarrow> Run) \<Rightarrow> (db, nat) tx" where
  "run_updateMany c p f = update_many runs runs_update p (\<lambda>r. (f r)\<lparr> run_updatedAt := c_now c \<rparr>)"

definition run_create :: "Run \<Rightarrow> (db, Run) tx" where
  "run_create r = create_row runs runs_update run_id r"

definition attempt_findUniqueOrThrow :: "string \<Rightarrow> (db, Attempt) tx" where
  "attempt_findUniqueOrThrow aid = find_or_throw attempts att_id aid"

definition attempt_update :: "string \<Rightarrow> (Attempt \<Rightarrow> Attempt) \<Rightarrow> (db, Attempt) tx" where
  "attempt_update aid f = update_unique attempts attempts_update att_id aid f"

definition attempt_updateMany :: "(Attempt \<Rightarrow> bool) \<Rightarrow> (Attempt \<Rightarrow> Attempt) \<Rightarrow> (db, nat) tx" where
  "attempt_updateMany p f = update_many attempts attempts_update p f"

text \<open>\<open>@@unique([runId, no])\<close> and \<open>leaseToken @unique\<close>.\<close>

definition attempt_create :: "Attempt \<Rightarrow> (db, Attempt) tx" where
  "attempt_create a =
     and_then (tx_read attempts) (\<lambda>rows.
     and_then (tx_check (list_all (\<lambda>b. \<not> (att_runId b = att_runId a \<and> att_no b = att_no a)) rows \<and>
         (att_leaseToken a = None \<or> list_all (\<lambda>b. att_leaseToken b \<noteq> att_leaseToken a) rows))
       (UniqueViolation ''P2002'')) (\<lambda>_.
     create_row attempts attempts_update att_id a))"

subsection \<open>Tasks, and the notification trigger\<close>

text \<open>migrations/20261006010000_durable_notifications/migration.sql.\<close>

definition notification_for :: "Task \<Rightarrow> Task \<Rightarrow> Notification list" where
  "notification_for old new =
     (if task_status new = task_status old then []
      else if task_status new \<notin> {T_AWAITING_APPROVAL, T_NEEDS_ATTENTION, T_FAILED, T_PR_FAILED,
                T_PR_CREATED, T_RESOLVED} then []
      else [\<lparr> ntf_taskId = task_id new,
              ntf_kind = (if task_status new \<in> {T_FAILED, T_PR_FAILED} then N_FAILED
                else if task_status new \<in> {T_AWAITING_APPROVAL, T_NEEDS_ATTENTION} then N_ACTION_REQUIRED
                else N_COMPLETED),
              ntf_message = task_title new @ '': '' @
                (case task_attentionReason new of None \<Rightarrow> task_status_name (task_status new)
                 | Some reason \<Rightarrow> reason) \<rparr>])"

definition task_updateMany :: "(Task \<Rightarrow> bool) \<Rightarrow> (Task \<Rightarrow> Task) \<Rightarrow> (db, nat) tx" where
  "task_updateMany p f =
     and_then (tx_read (\<lambda>d. filter p (tasks d))) (\<lambda>old.
     and_then (update_many tasks tasks_update p f) (\<lambda>n.
     and_then (tx_modify (notifications_update
       (\<lambda>ns. ns @ concat (map (\<lambda>t. notification_for t (f t)) old)))) (\<lambda>_.
     tx_return n)))"

definition task_findUniqueOrThrow :: "string \<Rightarrow> (db, Task) tx" where
  "task_findUniqueOrThrow tid = find_or_throw tasks task_id tid"

definition task_update :: "string \<Rightarrow> (Task \<Rightarrow> Task) \<Rightarrow> (db, Task) tx" where
  "task_update tid f =
     and_then (task_findUniqueOrThrow tid) (\<lambda>t.
     and_then (task_updateMany (\<lambda>t. task_id t = tid) f) (\<lambda>_.
     tx_return (f t)))"

text \<open>\<open>confirmationKey @unique\<close>.\<close>

definition task_create :: "Task \<Rightarrow> (db, Task) tx" where
  "task_create t =
     and_then (tx_read tasks) (\<lambda>rows.
     and_then (tx_check (task_confirmationKey t = None \<or>
         list_all (\<lambda>u. task_confirmationKey u \<noteq> task_confirmationKey t) rows)
       (UniqueViolation ''P2002'')) (\<lambda>_.
     create_row tasks tasks_update task_id t))"

subsection \<open>Events, checkpoints, artifacts and the rest\<close>

text \<open>\<open>idempotencyKey @unique\<close>, \<open>@@unique([runId, runSequence])\<close>, and the foreign keys.\<close>

definition traceEvent_create :: "StoredEvent \<Rightarrow> (db, StoredEvent) tx" where
  "traceEvent_create e =
     and_then (tx_read (\<lambda>d. d)) (\<lambda>d.
     and_then (tx_check (list_all (\<lambda>f. \<not> (ev_runId f = ev_runId e \<and> ev_runSequence f = ev_runSequence e))
         (traceEvents d)) (UniqueViolation ''P2002'')) (\<lambda>_.
     and_then (tx_check (find_run (ev_runId e) d \<noteq> None \<and>
         (case ev_attemptId e of None \<Rightarrow> True | Some aid \<Rightarrow> find_attempt aid d \<noteq> None))
         (Failure ''P2003'')) (\<lambda>_.
     create_row traceEvents traceEvents_update ev_idempotencyKey e)))"

definition checkpoint_create :: "Checkpoint \<Rightarrow> (db, Checkpoint) tx" where
  "checkpoint_create r = create_row checkpoints checkpoints_update cp_id r"

definition artifact_create :: "Artifact \<Rightarrow> (db, Artifact) tx" where
  "artifact_create r = create_row artifacts artifacts_update art_id r"

definition verification_create :: "VerificationRow \<Rightarrow> (db, VerificationRow) tx" where
  "verification_create r = create_row verifications verifications_update ver_id r"

definition policyDecision_create :: "PolicyDecision \<Rightarrow> (db, PolicyDecision) tx" where
  "policyDecision_create r = create_row policyDecisions policyDecisions_update pol_id r"

text \<open>\<open>taskId @unique\<close>.\<close>

definition approval_create :: "Approval \<Rightarrow> (db, Approval) tx" where
  "approval_create a =
     and_then (tx_read approvals) (\<lambda>rows.
     and_then (tx_check (list_all (\<lambda>b. app_taskId b \<noteq> app_taskId a) rows) (UniqueViolation ''P2002'')) (\<lambda>_.
     create_row approvals approvals_update app_id a))"

definition approval_update :: "string \<Rightarrow> (Approval \<Rightarrow> Approval) \<Rightarrow> (db, Approval) tx" where
  "approval_update pid f = update_unique approvals approvals_update app_id pid f"

definition outbox_create :: "OutboxMessage \<Rightarrow> (db, OutboxMessage) tx" where
  "outbox_create r = create_row outbox outbox_update msg_id r"

definition budgetCall_create :: "BudgetCall \<Rightarrow> (db, BudgetCall) tx" where
  "budgetCall_create r = create_row budgetCalls budgetCalls_update bc_id r"

definition budgetCall_update :: "string \<Rightarrow> (BudgetCall \<Rightarrow> BudgetCall) \<Rightarrow> (db, BudgetCall) tx" where
  "budgetCall_update bid f = update_unique budgetCalls budgetCalls_update bc_id bid f"

text \<open>\<open>approvalId @unique\<close>.\<close>

definition deliveryJob_create :: "DeliveryJob \<Rightarrow> (db, DeliveryJob) tx" where
  "deliveryJob_create j =
     and_then (tx_read deliveryJobs) (\<lambda>rows.
     and_then (tx_check (list_all (\<lambda>k. job_approvalId k \<noteq> job_approvalId j) rows)
       (UniqueViolation ''P2002'')) (\<lambda>_.
     create_row deliveryJobs deliveryJobs_update job_id j))"

definition deliveryJob_updateMany ::
  "(DeliveryJob \<Rightarrow> bool) \<Rightarrow> (DeliveryJob \<Rightarrow> DeliveryJob) \<Rightarrow> (db, nat) tx" where
  "deliveryJob_updateMany p f = update_many deliveryJobs deliveryJobs_update p f"

lemmas prisma_defs = run_findUniqueOrThrow_def run_update_def run_updateMany_def run_create_def
  attempt_findUniqueOrThrow_def attempt_update_def attempt_updateMany_def attempt_create_def
  task_updateMany_def task_findUniqueOrThrow_def task_update_def task_create_def
  traceEvent_create_def checkpoint_create_def artifact_create_def verification_create_def
  policyDecision_create_def approval_create_def approval_update_def outbox_create_def
  budgetCall_create_def budgetCall_update_def deliveryJob_create_def deliveryJob_updateMany_def

section \<open>Success of the operations\<close>

lemma run_findUniqueOrThrow_iff [tx_iff]:
  "run_findUniqueOrThrow rid d = Inr (r, d') \<longleftrightarrow> find_run rid d = Some r \<and> d' = d"
  by (cases d) (simp add: run_findUniqueOrThrow_def tx_iff)

lemma run_update_iff [tx_iff]:
  "run_update c rid f d = Inr (r', d') \<longleftrightarrow>
     (\<exists>r. find_run rid d = Some r \<and> r' = (f r)\<lparr> run_updatedAt := c_now c \<rparr> \<and>
       d' = d\<lparr> runs := update_rows (\<lambda>r. run_id r = rid) (\<lambda>r. (f r)\<lparr> run_updatedAt := c_now c \<rparr>) (runs d) \<rparr>)"
  by (cases d) (simp add: run_update_def tx_iff)

lemma run_updateMany_iff [tx_iff]:
  "run_updateMany c p f d = Inr (n, d') \<longleftrightarrow>
     n = length (filter p (runs d)) \<and>
     d' = d\<lparr> runs := update_rows p (\<lambda>r. (f r)\<lparr> run_updatedAt := c_now c \<rparr>) (runs d) \<rparr>"
  by (cases d) (simp add: run_updateMany_def tx_iff)

lemma run_create_iff [tx_iff]:
  "run_create r d = Inr (r', d') \<longleftrightarrow> find_run (run_id r) d = None \<and> r' = r \<and> d' = d\<lparr> runs := runs d @ [r] \<rparr>"
  by (cases d) (simp add: run_create_def tx_iff)

lemma attempt_findUniqueOrThrow_iff [tx_iff]:
  "attempt_findUniqueOrThrow aid d = Inr (a, d') \<longleftrightarrow> find_attempt aid d = Some a \<and> d' = d"
  by (cases d) (simp add: attempt_findUniqueOrThrow_def tx_iff)

lemma attempt_update_iff [tx_iff]:
  "attempt_update aid f d = Inr (a', d') \<longleftrightarrow>
     (\<exists>a. find_attempt aid d = Some a \<and> a' = f a \<and>
       d' = d\<lparr> attempts := update_rows (\<lambda>a. att_id a = aid) f (attempts d) \<rparr>)"
  by (cases d) (simp add: attempt_update_def tx_iff)

lemma attempt_updateMany_iff [tx_iff]:
  "attempt_updateMany p f d = Inr (n, d') \<longleftrightarrow>
     n = length (filter p (attempts d)) \<and> d' = d\<lparr> attempts := update_rows p f (attempts d) \<rparr>"
  by (cases d) (simp add: attempt_updateMany_def tx_iff)

lemma attempt_create_iff [tx_iff]:
  "attempt_create a d = Inr (a', d') \<longleftrightarrow>
     (\<forall>b \<in> set (attempts d). \<not> (att_runId b = att_runId a \<and> att_no b = att_no a)) \<and>
     (att_leaseToken a = None \<or> (\<forall>b \<in> set (attempts d). att_leaseToken b \<noteq> att_leaseToken a)) \<and>
     find_attempt (att_id a) d = None \<and> a' = a \<and> d' = d\<lparr> attempts := attempts d @ [a] \<rparr>"
  by (cases d) (auto simp: attempt_create_def tx_iff list_all_iff)

lemma task_findUniqueOrThrow_iff [tx_iff]:
  "task_findUniqueOrThrow tid d = Inr (t, d') \<longleftrightarrow> find_task tid d = Some t \<and> d' = d"
  by (cases d) (simp add: task_findUniqueOrThrow_def tx_iff)

lemma task_updateMany_iff [tx_iff]:
  "task_updateMany p f d = Inr (n, d') \<longleftrightarrow>
     n = length (filter p (tasks d)) \<and>
     d' = d\<lparr> tasks := update_rows p f (tasks d),
             notifications := notifications d @
               concat (map (\<lambda>t. notification_for t (f t)) (filter p (tasks d))) \<rparr>"
  by (cases d) (auto simp: task_updateMany_def tx_iff)

lemma task_update_iff [tx_iff]:
  "task_update tid f d = Inr (t', d') \<longleftrightarrow>
     (\<exists>t. find_task tid d = Some t \<and> t' = f t \<and>
       d' = d\<lparr> tasks := update_rows (\<lambda>t. task_id t = tid) f (tasks d),
               notifications := notifications d @
                 concat (map (\<lambda>t. notification_for t (f t)) (filter (\<lambda>t. task_id t = tid) (tasks d))) \<rparr>)"
  by (cases d) (auto simp: task_update_def tx_iff)

lemma task_create_iff [tx_iff]:
  "task_create t d = Inr (t', d') \<longleftrightarrow>
     (task_confirmationKey t = None \<or>
       (\<forall>u \<in> set (tasks d). task_confirmationKey u \<noteq> task_confirmationKey t)) \<and>
     find_task (task_id t) d = None \<and> t' = t \<and> d' = d\<lparr> tasks := tasks d @ [t] \<rparr>"
  by (cases d) (auto simp: task_create_def tx_iff list_all_iff)

lemma traceEvent_create_iff [tx_iff]:
  "traceEvent_create e d = Inr (e', d') \<longleftrightarrow>
     (\<forall>f \<in> set (traceEvents d). \<not> (ev_runId f = ev_runId e \<and> ev_runSequence f = ev_runSequence e)) \<and>
     find_run (ev_runId e) d \<noteq> None \<and>
     (\<forall>aid. ev_attemptId e = Some aid \<longrightarrow> find_attempt aid d \<noteq> None) \<and>
     find_row ev_idempotencyKey (ev_idempotencyKey e) (traceEvents d) = None \<and>
     e' = e \<and> d' = d\<lparr> traceEvents := traceEvents d @ [e] \<rparr>"
  by (cases d; cases "ev_attemptId e") (auto simp: traceEvent_create_def tx_iff list_all_iff)

lemma checkpoint_create_iff [tx_iff]:
  "checkpoint_create r d = Inr (r', d') \<longleftrightarrow>
     find_row cp_id (cp_id r) (checkpoints d) = None \<and> r' = r \<and> d' = d\<lparr> checkpoints := checkpoints d @ [r] \<rparr>"
  by (cases d) (simp add: checkpoint_create_def tx_iff)

lemma artifact_create_iff [tx_iff]:
  "artifact_create r d = Inr (r', d') \<longleftrightarrow>
     find_row art_id (art_id r) (artifacts d) = None \<and> r' = r \<and> d' = d\<lparr> artifacts := artifacts d @ [r] \<rparr>"
  by (cases d) (simp add: artifact_create_def tx_iff)

lemma verification_create_iff [tx_iff]:
  "verification_create r d = Inr (r', d') \<longleftrightarrow>
     find_row ver_id (ver_id r) (verifications d) = None \<and> r' = r \<and>
     d' = d\<lparr> verifications := verifications d @ [r] \<rparr>"
  by (cases d) (simp add: verification_create_def tx_iff)

lemma policyDecision_create_iff [tx_iff]:
  "policyDecision_create r d = Inr (r', d') \<longleftrightarrow>
     find_row pol_id (pol_id r) (policyDecisions d) = None \<and> r' = r \<and>
     d' = d\<lparr> policyDecisions := policyDecisions d @ [r] \<rparr>"
  by (cases d) (simp add: policyDecision_create_def tx_iff)

lemma approval_create_iff [tx_iff]:
  "approval_create a d = Inr (a', d') \<longleftrightarrow>
     (\<forall>b \<in> set (approvals d). app_taskId b \<noteq> app_taskId a) \<and> find_approval (app_id a) d = None \<and>
     a' = a \<and> d' = d\<lparr> approvals := approvals d @ [a] \<rparr>"
  by (cases d) (auto simp: approval_create_def tx_iff list_all_iff)

lemma approval_update_iff [tx_iff]:
  "approval_update pid f d = Inr (a', d') \<longleftrightarrow>
     (\<exists>a. find_approval pid d = Some a \<and> a' = f a \<and>
       d' = d\<lparr> approvals := update_rows (\<lambda>a. app_id a = pid) f (approvals d) \<rparr>)"
  by (cases d) (simp add: approval_update_def tx_iff)

lemma outbox_create_iff [tx_iff]:
  "outbox_create r d = Inr (r', d') \<longleftrightarrow>
     find_row msg_id (msg_id r) (outbox d) = None \<and> r' = r \<and> d' = d\<lparr> outbox := outbox d @ [r] \<rparr>"
  by (cases d) (simp add: outbox_create_def tx_iff)

lemma budgetCall_create_iff [tx_iff]:
  "budgetCall_create r d = Inr (r', d') \<longleftrightarrow>
     find_call (bc_id r) d = None \<and> r' = r \<and> d' = d\<lparr> budgetCalls := budgetCalls d @ [r] \<rparr>"
  by (cases d) (simp add: budgetCall_create_def tx_iff)

lemma budgetCall_update_iff [tx_iff]:
  "budgetCall_update bid f d = Inr (r', d') \<longleftrightarrow>
     (\<exists>r. find_call bid d = Some r \<and> r' = f r \<and>
       d' = d\<lparr> budgetCalls := update_rows (\<lambda>r. bc_id r = bid) f (budgetCalls d) \<rparr>)"
  by (cases d) (simp add: budgetCall_update_def tx_iff)

lemma deliveryJob_create_iff [tx_iff]:
  "deliveryJob_create j d = Inr (j', d') \<longleftrightarrow>
     (\<forall>k \<in> set (deliveryJobs d). job_approvalId k \<noteq> job_approvalId j) \<and> find_job (job_id j) d = None \<and>
     j' = j \<and> d' = d\<lparr> deliveryJobs := deliveryJobs d @ [j] \<rparr>"
  by (cases d) (auto simp: deliveryJob_create_def tx_iff list_all_iff)

lemma deliveryJob_updateMany_iff [tx_iff]:
  "deliveryJob_updateMany p f d = Inr (n, d') \<longleftrightarrow>
     n = length (filter p (deliveryJobs d)) \<and> d' = d\<lparr> deliveryJobs := update_rows p f (deliveryJobs d) \<rparr>"
  by (cases d) (simp add: deliveryJob_updateMany_def tx_iff)

end
