(* ===== verification/StateMachine.thy ===== *)
theory StateMachine
  imports Enums
begin

text \<open>
  The three transition tables of state-machine/state-machine.ts and the assertion every guarded
  transition goes through.  The lemmas at the end say what a table allows along a whole status_path: which
  statuses are final, and which statuses no status_path to a result can avoid.
\<close>

fun TASK_TRANSITIONS :: "task_status \<Rightarrow> task_status list" where
  "TASK_TRANSITIONS T_CREATED = [T_QUEUED, T_CANCELLED]"
| "TASK_TRANSITIONS T_QUEUED = [T_RUNNING, T_CANCELLED]"
| "TASK_TRANSITIONS T_RUNNING = [T_AWAITING_APPROVAL, T_NEEDS_ATTENTION, T_FAILED, T_CANCELLED]"
| "TASK_TRANSITIONS T_NEEDS_ATTENTION = [T_QUEUED, T_CANCELLED]"
| "TASK_TRANSITIONS T_AWAITING_APPROVAL = [T_APPROVED, T_REJECTED, T_CANCELLED]"
| "TASK_TRANSITIONS T_APPROVED = [T_PR_CREATED, T_PR_FAILED, T_CANCELLED]"
| "TASK_TRANSITIONS T_PR_FAILED = [T_APPROVED, T_CANCELLED]"
| "TASK_TRANSITIONS T_PR_CREATED = [T_RESOLVED]"
| "TASK_TRANSITIONS T_RESOLVED = []"
| "TASK_TRANSITIONS T_REJECTED = []"
| "TASK_TRANSITIONS T_FAILED = []"
| "TASK_TRANSITIONS T_CANCELLED = []"

fun RUN_TRANSITIONS :: "run_status \<Rightarrow> run_status list" where
  "RUN_TRANSITIONS R_PENDING = [R_DISPATCHED, R_CANCELLED]"
| "RUN_TRANSITIONS R_DISPATCHED = [R_RUNNING, R_INTERRUPTED, R_CANCELLED]"
| "RUN_TRANSITIONS R_RUNNING = [R_VERIFYING, R_INTERRUPTED, R_CANCELLED]"
| "RUN_TRANSITIONS R_VERIFYING = [R_SUCCEEDED, R_RUNNING, R_INTERRUPTED, R_CANCELLED]"
| "RUN_TRANSITIONS R_INTERRUPTED = [R_RECOVERING, R_FAILED, R_CANCELLED]"
| "RUN_TRANSITIONS R_RECOVERING = [R_DISPATCHED, R_FAILED, R_CANCELLED]"
| "RUN_TRANSITIONS R_SUCCEEDED = []"
| "RUN_TRANSITIONS R_FAILED = []"
| "RUN_TRANSITIONS R_CANCELLED = []"

fun ATTEMPT_TRANSITIONS :: "attempt_status \<Rightarrow> attempt_status list" where
  "ATTEMPT_TRANSITIONS A_CLAIMED = [A_RUNNING, A_FAILED, A_LEASE_EXPIRED]"
| "ATTEMPT_TRANSITIONS A_RUNNING = [A_SUCCEEDED, A_FAILED, A_CRASHED, A_TIMED_OUT, A_LEASE_EXPIRED]"
| "ATTEMPT_TRANSITIONS A_SUCCEEDED = []"
| "ATTEMPT_TRANSITIONS A_FAILED = []"
| "ATTEMPT_TRANSITIONS A_CRASHED = []"
| "ATTEMPT_TRANSITIONS A_TIMED_OUT = []"
| "ATTEMPT_TRANSITIONS A_LEASE_EXPIRED = []"

definition assertTransition ::
  "string \<Rightarrow> ('s \<Rightarrow> string) \<Rightarrow> ('s \<Rightarrow> 's list) \<Rightarrow> 's \<Rightarrow> 's \<Rightarrow> err + 's" where
  "assertTransition entity name tbl from to =
     (if to \<in> set (tbl from) then Inr to
      else Inl (InvalidTransition entity (name from) (name to)))"

definition canTransition :: "('s \<Rightarrow> 's list) \<Rightarrow> 's \<Rightarrow> 's \<Rightarrow> bool" where
  "canTransition tbl from to \<longleftrightarrow> to \<in> set (tbl from)"

definition isTerminal :: "('s \<Rightarrow> 's list) \<Rightarrow> 's \<Rightarrow> bool" where
  "isTerminal tbl status \<longleftrightarrow> length (tbl status) = 0"

text \<open>The members of the exported objects \<open>taskStateMachine\<close>, \<open>runStateMachine\<close> and
  \<open>attemptStateMachine\<close>.\<close>

definition task_assertTransition :: "task_status \<Rightarrow> task_status \<Rightarrow> err + task_status" where
  "task_assertTransition = assertTransition ''task'' task_status_name TASK_TRANSITIONS"

definition run_assertTransition :: "run_status \<Rightarrow> run_status \<Rightarrow> err + run_status" where
  "run_assertTransition = assertTransition ''run'' run_status_name RUN_TRANSITIONS"

definition attempt_assertTransition :: "attempt_status \<Rightarrow> attempt_status \<Rightarrow> err + attempt_status" where
  "attempt_assertTransition = assertTransition ''attempt'' attempt_status_name ATTEMPT_TRANSITIONS"

lemma assertTransition_iff:
  "assertTransition entity name tbl from to = Inr r \<longleftrightarrow> canTransition tbl from to \<and> r = to"
  by (auto simp: assertTransition_def canTransition_def)

lemma run_assertTransition_iff [tx_iff]:
  "run_assertTransition from to = Inr r \<longleftrightarrow> to \<in> set (RUN_TRANSITIONS from) \<and> r = to"
  by (auto simp: run_assertTransition_def assertTransition_def)

lemma task_assertTransition_iff [tx_iff]:
  "task_assertTransition from to = Inr r \<longleftrightarrow> to \<in> set (TASK_TRANSITIONS from) \<and> r = to"
  by (auto simp: task_assertTransition_def assertTransition_def)

section \<open>Paths\<close>

text \<open>A status_path of statuses, each step of which the table allows.\<close>

fun status_path :: "('s \<Rightarrow> 's list) \<Rightarrow> 's list \<Rightarrow> bool" where
  "status_path tbl [] \<longleftrightarrow> False"
| "status_path tbl [s] \<longleftrightarrow> True"
| "status_path tbl (s # t # ss) \<longleftrightarrow> t \<in> set (tbl s) \<and> status_path tbl (t # ss)"

lemma path_terminal:
  "status_path tbl (s # ss) \<Longrightarrow> isTerminal tbl s \<Longrightarrow> ss = []"
  by (cases ss) (auto simp: isTerminal_def)

text \<open>
  \<open>avoids_from tbl bad seen\<close>: the statuses of \<open>seen\<close>, closed under the steps of the table that do not
  enter \<open>bad\<close>.  A status_path whose first status is in a closed set and that never enters \<open>bad\<close> stays in
  it.
\<close>

definition closed_avoiding :: "('s \<Rightarrow> 's list) \<Rightarrow> 's \<Rightarrow> 's list \<Rightarrow> bool" where
  "closed_avoiding tbl bad seen \<longleftrightarrow>
     list_all (\<lambda>s. list_all (\<lambda>t. t = bad \<or> t \<in> set seen) (tbl s)) seen"

lemma path_avoiding:
  assumes "closed_avoiding tbl bad seen" and "status_path tbl ss" and "hd ss \<in> set seen" and "bad \<notin> set ss"
  shows "set ss \<subseteq> set seen"
  using assms(2-)
proof (induction ss rule: induct_list012)
  case (3 s t ss)
  then have "t \<in> set seen"
    using assms(1) by (auto simp: closed_avoiding_def list_all_iff)
  with 3 show ?case by auto
qed auto

lemma path_must_pass:
  assumes "closed_avoiding tbl bad seen" and "status_path tbl ss" and "hd ss \<in> set seen"
    and "goal \<in> set ss" and "goal \<notin> set seen"
  shows "bad \<in> set ss"
  using path_avoiding [OF assms(1-3)] assms(4,5) by blast

end
