(* ===== verification/Events.thy ===== *)
theory Events
  imports Database StateMachine
begin

text \<open>
  The event log and the guarded transitions every service uses: \<open>appendSyntheticEvent\<close>,
  \<open>transitionRun\<close> and \<open>transitionTask\<close> of run-lifecycle.service.ts, \<open>event\<close> of run-control.service.ts.
  The locale \<open>effects\<close> is the interface between the database and the services: which writes a
  service performs, and a relation between the states before and after that each of them
  respects.  Each service shows once, inside the locale, that its operations are made of such writes
  only; the interpretations at the end of this theory are the well-formedness of the database with
  its gap-free event log, and the permanence of its history.
\<close>

section \<open>Appending an event\<close>

text \<open>Allocate the next sequence number of the run and store the event under it.\<close>

definition store_next_event :: "ctx \<Rightarrow> string \<Rightarrow> (nat \<Rightarrow> StoredEvent) \<Rightarrow> (db, StoredEvent) tx" where
  "store_next_event c runId mk =
     and_then (run_update c runId (\<lambda>r. r\<lparr> run_lastSequence := run_lastSequence r + 1 \<rparr>)) (\<lambda>run.
     traceEvent_create (mk (run_lastSequence run)))"

definition synthetic_event :: "ctx \<Rightarrow> string \<Rightarrow> trace_payload \<Rightarrow> string option \<Rightarrow> nat \<Rightarrow> StoredEvent" where
  "synthetic_event c runId payload attemptId runSequence =
     \<lparr> ev_runId = runId, ev_attemptId = attemptId, ev_runSequence = runSequence,
       ev_attemptSequence = 0, ev_type = payload_type payload, ev_payload = payload,
       ev_idempotencyKey = controlPlaneKey runId runSequence, ev_occurredAt = c_now c \<rparr>"

definition appendSyntheticEvent ::
  "ctx \<Rightarrow> string \<Rightarrow> trace_payload \<Rightarrow> string option \<Rightarrow> (db, unit) tx" where
  "appendSyntheticEvent c runId payload attemptId =
     and_then (store_next_event c runId (synthetic_event c runId payload attemptId)) (\<lambda>_. tx_return ())"

definition transitionRun :: "ctx \<Rightarrow> string \<Rightarrow> run_status \<Rightarrow> run_status \<Rightarrow> (db, unit) tx" where
  "transitionRun c runId from to =
     and_then (tx_lift (run_assertTransition from to)) (\<lambda>_.
     and_then (run_updateMany c (\<lambda>r. run_id r = runId \<and> run_status r = from) (\<lambda>r. r\<lparr> run_status := to \<rparr>)) (\<lambda>count.
     and_then (tx_check (count \<noteq> 0) (Conflict ''run is not in the expected status'')) (\<lambda>_.
     appendSyntheticEvent c runId
       (StateTransition Ent_run (run_status_name from) (run_status_name to)) None)))"

definition transitionTask :: "string \<Rightarrow> task_status \<Rightarrow> task_status \<Rightarrow> (db, unit) tx" where
  "transitionTask taskId from to =
     and_then (tx_lift (task_assertTransition from to)) (\<lambda>_.
     and_then (task_updateMany (\<lambda>t. task_id t = taskId \<and> task_status t = from) (\<lambda>t. t\<lparr> task_status := to \<rparr>)) (\<lambda>count.
     tx_check (count \<noteq> 0) (Conflict ''task is not in the expected status'')))"

text \<open>\<open>RunControlService.event\<close>: the same without the status assertion.\<close>

definition control_event :: "ctx \<Rightarrow> string \<Rightarrow> string \<Rightarrow> string \<Rightarrow> (db, unit) tx" where
  "control_event c runId from to =
     and_then (store_next_event c runId (synthetic_event c runId (StateTransition Ent_run from to) None))
       (\<lambda>_. tx_return ())"

section \<open>The writes a service performs\<close>

text \<open>The columns no update changes.\<close>

definition run_core :: "Run \<Rightarrow> _" where
  "run_core r = (run_id r, run_taskId r, run_agentKind r, run_baseCommit r, run_maxAttempts r,
     run_budgetTokens r, run_budgetSeconds r, run_budgetTurns r, run_recoveryDisabled r,
     run_feedbackMode r, run_createdAt r, run_deadlineAt r)"

definition task_core :: "Task \<Rightarrow> _" where
  "task_core t = (task_id t, task_projectId t, task_title t, task_description t, task_source t,
     task_sourceRef t, task_fixtureId t, task_allowedPaths t, task_createdAt t, task_snapshot t,
     task_snapshotDigest t, task_confirmationKey t, task_parentTaskId t)"

definition attempt_core :: "Attempt \<Rightarrow> _" where
  "attempt_core a = (att_id a, att_runId a, att_no a, att_workerId a, att_leaseToken a)"

definition approval_core :: "Approval \<Rightarrow> _" where
  "approval_core a = (app_id a, app_taskId a, app_runId a, app_patchDigest a)"

lemmas core_defs = run_core_def task_core_def attempt_core_def approval_core_def

locale effects =
  fixes R :: "db \<Rightarrow> db \<Rightarrow> bool"
  assumes R_refl: "reflp R" and R_trans: "transp R"
    and R_workspace: "tx_rel R (create_row workspaces workspaces_update ws_id w)"
    and R_project: "tx_rel R (create_row projects projects_update prj_id p)"
    and R_task_create: "tx_rel R (task_create t)"
    and R_task_updateMany: "(\<And>t. task_core (ft t) = task_core t) \<Longrightarrow> tx_rel R (task_updateMany pt ft)"
    and R_run_create: "run_lastSequence r = 0 \<Longrightarrow> tx_rel R (run_create r)"
    and R_run_update: "(\<And>r. run_core (fr r) = run_core r \<and> run_lastSequence (fr r) = run_lastSequence r) \<Longrightarrow>
          tx_rel R (run_update c rid fr)"
    and R_run_updateMany: "(\<And>r. run_core (fr r) = run_core r \<and> run_lastSequence (fr r) = run_lastSequence r) \<Longrightarrow>
          tx_rel R (run_updateMany c pr fr)"
    and R_store: "(\<And>n. ev_runId (mk n) = rid \<and> ev_runSequence (mk n) = n \<and> ev_type (mk n) = payload_type (ev_payload (mk n))) \<Longrightarrow>
          tx_rel R (store_next_event c rid mk)"
    and R_attempt_create: "tx_rel R (attempt_create a)"
    and R_attempt_updateMany: "(\<And>a. attempt_core (fa a) = attempt_core a) \<Longrightarrow> tx_rel R (attempt_updateMany pa fa)"
    and R_checkpoint: "tx_rel R (checkpoint_create k)"
    and R_artifact: "tx_rel R (artifact_create art)"
    and R_verification: "tx_rel R (verification_create v)"
    and R_policy: "tx_rel R (policyDecision_create pd)"
    and R_approval_update: "(\<And>a. approval_core (fp a) = approval_core a) \<Longrightarrow> tx_rel R (approval_update pid fp)"
    and R_outbox_create: "tx_rel R (outbox_create m)"
    and R_outbox_update: "tx_rel R (update_many outbox outbox_update pm fm)"
    and R_call_create: "tx_rel R (budgetCall_create b)"
    and R_call_update: "tx_rel R (budgetCall_update bid fb)"
    and R_job_create: "tx_rel R (deliveryJob_create j)"
    and R_job_updateMany: "tx_rel R (deliveryJob_updateMany pj fj)"
    and R_environment: "tx_rel R (create_row environments environments_update env_fingerprint e)"
    and R_draft: "tx_rel R (create_row drafts drafts_update draft_id dr)"
    and R_config: "tx_rel R (tx_modify (configs_update (\<lambda>rows. rows @ [cv])))"
begin

lemma attempt_update_eq:
  "attempt_update aid f d = Inr (a', d') \<Longrightarrow>
     \<exists>n. attempt_updateMany (\<lambda>a. att_id a = aid) f d = Inr (n, d')"
  by (auto simp: tx_iff)

lemma R_attempt_update: "(\<And>a. attempt_core (fa a) = attempt_core a) \<Longrightarrow> tx_rel R (attempt_update aid fa)"
  using R_attempt_updateMany attempt_update_eq unfolding tx_rel_def by meson

lemma R_task_update: "(\<And>t. task_core (ft t) = task_core t) \<Longrightarrow> tx_rel R (task_update tid ft)"
proof (rule tx_relI)
  fix s a s'
  assume "\<And>t. task_core (ft t) = task_core t" and "task_update tid ft s = Inr (a, s')"
  then show "R s s'"
    using tx_relD [OF R_task_updateMany, of ft "\<lambda>t. task_id t = tid"] by (auto simp: tx_iff)
qed

lemmas R_control = tx_rel_read [OF R_refl] tx_rel_return [OF R_refl] tx_rel_throw tx_rel_check [OF R_refl]
  tx_rel_some [OF R_refl] tx_rel_lift [OF R_refl] tx_rel_and_then [OF R_trans] tx_rel_when [OF R_refl]
  tx_rel_if tx_rel_option tx_rel_for [OF R_refl R_trans] find_unique_rel [OF R_refl]
  find_or_throw_rel [OF R_refl]

lemma R_finds:
  "tx_rel R (run_findUniqueOrThrow rid)"
  "tx_rel R (attempt_findUniqueOrThrow aid)"
  "tx_rel R (task_findUniqueOrThrow tid)"
  by (simp_all add: run_findUniqueOrThrow_def attempt_findUniqueOrThrow_def task_findUniqueOrThrow_def
      find_or_throw_rel [OF R_refl])

lemmas R_rules = R_control R_finds R_workspace R_project R_task_create R_task_updateMany R_task_update
  R_run_create R_run_update R_run_updateMany R_store R_attempt_create R_attempt_updateMany
  R_attempt_update R_checkpoint R_artifact R_verification R_policy
  R_approval_update R_outbox_create R_outbox_update R_call_create R_call_update R_job_create
  R_job_updateMany R_environment R_draft R_config

lemma R_append: "tx_rel R (appendSyntheticEvent c rid payload aid)"
  unfolding appendSyntheticEvent_def by (intro R_rules) (simp add: synthetic_event_def)

lemma R_transitionRun: "tx_rel R (transitionRun c rid from to)"
  unfolding transitionRun_def by (intro R_rules R_append) (simp add: run_core_def)

lemma R_transitionTask: "tx_rel R (transitionTask tid from to)"
  unfolding transitionTask_def by (intro R_rules) (simp add: task_core_def)

lemma R_control_event: "tx_rel R (control_event c rid from to)"
  unfolding control_event_def by (intro R_rules) (simp add: synthetic_event_def)

lemmas R_ops = R_rules R_append R_transitionRun R_transitionTask R_control_event

end

text \<open>Only completing an attempt creates an approval: its law has a locale of its own, so that a relation
  that rules out new approvals is an instance of the first one.\<close>

locale all_effects = effects +
  assumes R_approval_create: "tx_rel R (approval_create ap)"

section \<open>Well-formed databases: primary keys and a gap-free log\<close>

text \<open>
  Primary keys are unique, every event belongs to a run and has the payload its type says, and the events of a run carry the sequence
  numbers 1, 2, \<dots>, \<open>lastSequence\<close> in the order they were stored.
\<close>

definition log_of :: "string \<Rightarrow> db \<Rightarrow> nat list" where
  "log_of rid d = map ev_runSequence (events_of rid d)"

definition wf_db :: "db \<Rightarrow> bool" where
  "wf_db d \<longleftrightarrow>
     distinct (map run_id (runs d)) \<and> distinct (map task_id (tasks d)) \<and>
     distinct (map att_id (attempts d)) \<and> distinct (map app_id (approvals d)) \<and>
     (\<forall>e \<in> set (traceEvents d). find_run (ev_runId e) d \<noteq> None \<and> ev_type e = payload_type (ev_payload e)) \<and>
     (\<forall>r \<in> set (runs d). log_of (run_id r) d = [1..<Suc (run_lastSequence r)])"

definition keeps_wf :: "db \<Rightarrow> db \<Rightarrow> bool" where
  "keeps_wf d d' \<longleftrightarrow> (wf_db d \<longrightarrow> wf_db d')"

lemma wf_empty: "wf_db empty_db"
  by (simp add: wf_db_def empty_db_def)

lemma wf_db_runs_updated:
  assumes wf: "wf_db d"
    and f: "\<And>r. p r \<Longrightarrow> run_id (f r) = run_id r \<and> run_lastSequence (f r) = run_lastSequence r"
  shows "wf_db (d\<lparr> runs := update_rows p f (runs d) \<rparr>)"
proof -
  have ids: "map run_id (update_rows p f (runs d)) = map run_id (runs d)"
    using f by (simp add: map_update_rows)
  show ?thesis
    using wf f
    by (auto simp: wf_db_def ids log_of_def set_update_rows find_row_update)
qed

lemma wf_db_store:
  assumes wf: "wf_db d" and st: "store_next_event c rid mk d = Inr (e, d')"
    and mk: "\<And>n. ev_runId (mk n) = rid \<and> ev_runSequence (mk n) = n \<and> ev_type (mk n) = payload_type (ev_payload (mk n))"
  shows "wf_db d'"
proof -
  let ?bump = "\<lambda>r. r\<lparr> run_lastSequence := run_lastSequence r + 1, run_updatedAt := c_now c \<rparr>"
  from st obtain r where r: "find_run rid d = Some r"
      and d': "d' = d\<lparr> runs := update_rows (\<lambda>r. run_id r = rid) ?bump (runs d),
        traceEvents := traceEvents d @ [mk (Suc (run_lastSequence r))] \<rparr>"
    by (auto simp: store_next_event_def tx_iff)
  have ids: "map run_id (update_rows (\<lambda>r. run_id r = rid) ?bump (runs d)) = map run_id (runs d)"
    by (simp add: map_update_rows)
  have uniq: "q = r" if "q \<in> set (runs d)" "run_id q = rid" for q
    using wf that r find_row_distinct [of run_id "runs d" q] by (simp add: wf_db_def)
  have fk: "find_run k d' = None \<longleftrightarrow> find_run k d = None" for k
    by (simp add: d' find_row_update)
  have "log_of (run_id q) d' = [1..<Suc (run_lastSequence q)]" if q: "q \<in> set (runs d')" for q
  proof -
    from q obtain q0 where q0: "q0 \<in> set (runs d)"
        and qq: "q = (if run_id q0 = rid then ?bump q0 else q0)"
      by (auto simp: d' set_update_rows)
    have old: "log_of (run_id q0) d = [1..<Suc (run_lastSequence q0)]"
      using wf q0 by (simp add: wf_db_def)
    show ?thesis
    proof (cases "run_id q0 = rid")
      case True
      with uniq q0 have "q0 = r" by blast
      with True old qq mk show ?thesis by (auto simp: log_of_def d')
    next
      case False
      with old qq mk show ?thesis by (simp add: log_of_def d')
    qed
  qed
  moreover have "\<forall>e \<in> set (traceEvents d'). find_run (ev_runId e) d' \<noteq> None \<and> ev_type e = payload_type (ev_payload e)"
    using wf mk r unfolding fk by (auto simp: d' wf_db_def)
  moreover have "distinct (map run_id (runs d'))" "tasks d' = tasks d" "attempts d' = attempts d"
      "approvals d' = approvals d"
    using wf ids by (simp_all add: d' wf_db_def)
  ultimately show ?thesis using wf by (simp add: wf_db_def)
qed

lemma keeps_wf_frame:
  assumes "\<And>d a d'. m d = Inr (a, d') \<Longrightarrow> runs d' = runs d \<and> traceEvents d' = traceEvents d \<and>
      map task_id (tasks d') = map task_id (tasks d) \<and> map att_id (attempts d') = map att_id (attempts d) \<and>
      map app_id (approvals d') = map app_id (approvals d)"
  shows "tx_rel keeps_wf m"
  using assms by (intro tx_relI) (simp add: keeps_wf_def wf_db_def log_of_def)

interpretation wf: all_effects keeps_wf
proof
  show "reflp keeps_wf" "transp keeps_wf"
    by (auto simp: keeps_wf_def reflp_def transp_def)
  fix t ft pt r fr c rid pr mk a fa pa fp pid
  show "tx_rel keeps_wf (task_create t)"
    by (rule tx_relI) (auto simp: tx_iff keeps_wf_def wf_db_def log_of_def find_row_None)
  show "tx_rel keeps_wf (task_updateMany pt ft)" if "\<And>t. task_core (ft t) = task_core t"
    using that by (intro keeps_wf_frame) (auto simp: tx_iff core_defs map_update_rows)
  show "tx_rel keeps_wf (run_create r)" if "run_lastSequence r = 0"
    using that
    by (intro tx_relI) (auto simp: tx_iff keeps_wf_def wf_db_def log_of_def find_row_None filter_empty_conv
        split: option.splits, metis)
  show "tx_rel keeps_wf (run_update c rid fr)"
    if "\<And>r. run_core (fr r) = run_core r \<and> run_lastSequence (fr r) = run_lastSequence r"
    using that by (intro tx_relI) (auto simp: tx_iff keeps_wf_def core_defs intro!: wf_db_runs_updated)
  show "tx_rel keeps_wf (run_updateMany c pr fr)"
    if "\<And>r. run_core (fr r) = run_core r \<and> run_lastSequence (fr r) = run_lastSequence r"
    using that by (intro tx_relI) (auto simp: tx_iff keeps_wf_def core_defs intro!: wf_db_runs_updated)
  show "tx_rel keeps_wf (store_next_event c rid mk)"
    if "\<And>n. ev_runId (mk n) = rid \<and> ev_runSequence (mk n) = n \<and> ev_type (mk n) = payload_type (ev_payload (mk n))"
    using that by (intro tx_relI) (auto simp: keeps_wf_def intro: wf_db_store)
  show "tx_rel keeps_wf (attempt_create a)"
    by (rule tx_relI) (auto simp: tx_iff keeps_wf_def wf_db_def log_of_def find_row_None)
  show "tx_rel keeps_wf (attempt_updateMany pa fa)" if "\<And>a. attempt_core (fa a) = attempt_core a"
    using that by (intro keeps_wf_frame) (auto simp: tx_iff core_defs map_update_rows)
  show "tx_rel keeps_wf (approval_create ap)" for ap
    by (rule tx_relI) (auto simp: tx_iff keeps_wf_def wf_db_def log_of_def find_row_None)
  show "tx_rel keeps_wf (approval_update pid fp)" if "\<And>a. approval_core (fp a) = approval_core a"
    using that by (intro keeps_wf_frame) (auto simp: tx_iff core_defs map_update_rows)
qed (rule keeps_wf_frame, auto simp: tx_iff)+

section \<open>History is permanent\<close>

text \<open>
  Nothing that happened is rewritten: events and checkpoints are only appended, no run, task,
  attempt or approval is deleted, and the columns that say what they are about never change.
\<close>

definition extends :: "'r list \<Rightarrow> 'r list \<Rightarrow> bool" where
  "extends xs ys \<longleftrightarrow> (\<exists>zs. ys = xs @ zs)"

definition history :: "db \<Rightarrow> db \<Rightarrow> bool" where
  "history d d' \<longleftrightarrow>
     extends (traceEvents d) (traceEvents d') \<and> extends (checkpoints d) (checkpoints d') \<and>
     extends (policyDecisions d) (policyDecisions d') \<and>
     extends (map run_core (runs d)) (map run_core (runs d')) \<and>
     extends (map task_core (tasks d)) (map task_core (tasks d')) \<and>
     extends (map attempt_core (attempts d)) (map attempt_core (attempts d')) \<and>
     extends (map approval_core (approvals d)) (map approval_core (approvals d'))"

lemma extends_refl [simp]: "extends xs xs"
  by (simp add: extends_def)

lemma extends_append [simp]: "extends xs (xs @ ys)"
  by (simp add: extends_def)

lemma extends_trans: "extends xs ys \<Longrightarrow> extends ys zs \<Longrightarrow> extends xs zs"
  by (auto simp: extends_def)

interpretation hist: all_effects history
proof
  show "reflp history" by (simp add: history_def reflp_def)
  show "transp history" by (auto simp: history_def transp_def intro: extends_trans)
  fix t ft pt r fr c rid pr mk a fa pa fp pid
  show "tx_rel history (task_updateMany pt ft)" if "\<And>t. task_core (ft t) = task_core t"
    using that by (intro tx_relI) (auto simp: tx_iff history_def map_update_rows)
  show "tx_rel history (run_update c rid fr)"
    if "\<And>r. run_core (fr r) = run_core r \<and> run_lastSequence (fr r) = run_lastSequence r"
    using that by (intro tx_relI) (auto simp: tx_iff history_def map_update_rows run_core_def)
  show "tx_rel history (run_updateMany c pr fr)"
    if "\<And>r. run_core (fr r) = run_core r \<and> run_lastSequence (fr r) = run_lastSequence r"
    using that by (intro tx_relI) (auto simp: tx_iff history_def map_update_rows run_core_def)
  show "tx_rel history (store_next_event c rid mk)"
    by (intro tx_relI) (auto simp: store_next_event_def tx_iff history_def map_update_rows run_core_def)
  show "tx_rel history (attempt_updateMany pa fa)" if "\<And>a. attempt_core (fa a) = attempt_core a"
    using that by (intro tx_relI) (auto simp: tx_iff history_def map_update_rows)
  show "tx_rel history (approval_update pid fp)" if "\<And>a. approval_core (fp a) = approval_core a"
    using that by (intro tx_relI) (auto simp: tx_iff history_def map_update_rows)
qed (rule tx_relI, auto simp: tx_iff history_def)+

section \<open>No other operation creates approvals\<close>

definition keeps_approvals :: "db \<Rightarrow> db \<Rightarrow> bool" where
  "keeps_approvals d d' \<longleftrightarrow> map approval_core (approvals d') = map approval_core (approvals d)"

interpretation appr: effects keeps_approvals
proof
  show "reflp keeps_approvals" by (simp add: keeps_approvals_def reflp_def)
  show "transp keeps_approvals" by (auto simp: keeps_approvals_def transp_def)
  fix c rid mk fp pid
  show "tx_rel keeps_approvals (store_next_event c rid mk)"
    by (intro tx_relI) (auto simp: store_next_event_def tx_iff keeps_approvals_def)
  show "tx_rel keeps_approvals (approval_update pid fp)" if "\<And>a. approval_core (fp a) = approval_core a"
    using that by (intro tx_relI) (auto simp: tx_iff keeps_approvals_def map_update_rows)
qed (rule tx_relI, auto simp: tx_iff keeps_approvals_def)+

section \<open>What a transition does\<close>

lemma transitionRun_run:
  assumes "wf_db d" and "transitionRun c rid from to d = Inr (u, d')"
  shows "\<exists>r r'. find_run rid d = Some r \<and> run_status r = from \<and> to \<in> set (RUN_TRANSITIONS from) \<and>
      find_run rid d' = Some r' \<and> run_status r' = to"
proof -
  from assms(2) have t: "to \<in> set (RUN_TRANSITIONS from)"
      and "filter (\<lambda>r. run_id r = rid \<and> run_status r = from) (runs d) \<noteq> []"
    by (auto simp: transitionRun_def tx_iff)
  then obtain r where r: "r \<in> set (runs d)" "run_id r = rid" "run_status r = from"
    by (auto simp: filter_empty_conv)
  then have f: "find_run rid d = Some r"
    using assms(1) find_row_distinct [of run_id "runs d" r] by (simp add: wf_db_def)
  show ?thesis
    using assms(2) t r f
    by (auto simp: transitionRun_def appendSyntheticEvent_def store_next_event_def tx_iff find_row_update)
qed

end
