(* ===== verification/Policy.thy ===== *)
theory Policy
  imports Enums
begin

text \<open>
  The recovery policy (modules/policy/policy-engine.ts): the decision table, the exponential
  back-off of model failures, and the decision.  Each row of the table holds the action below the
  attempt limit and the action at it.
\<close>

record PolicyInput =
  pi_failureCode :: failure_code
  pi_attemptNo :: nat
  pi_maxAttempts :: nat

record PolicyDecisionResult =
  pd_action :: policy_action
  pd_backoffMs :: int
  pd_reason :: "string"

fun TABLE :: "failure_code \<Rightarrow> policy_action \<times> policy_action" where
  "TABLE MODEL_RATE_LIMIT = (P_RESUME, P_ESCALATE_HUMAN)"
| "TABLE MODEL_API_ERROR = (P_RESUME, P_ESCALATE_HUMAN)"
| "TABLE MODEL_BAD_OUTPUT = (P_RESUME, P_ESCALATE_HUMAN)"
| "TABLE TOOL_EXEC_ERROR = (P_RESUME, P_ESCALATE_HUMAN)"
| "TABLE SANDBOX_CRASHED = (P_RESUME, P_ESCALATE_HUMAN)"
| "TABLE SANDBOX_START_FAILED = (P_RESTART_ATTEMPT, P_ESCALATE_HUMAN)"
| "TABLE WORKER_LOST = (P_RESUME, P_ESCALATE_HUMAN)"
| "TABLE PATCH_APPLY_FAILED = (P_RESTART_ATTEMPT, P_ESCALATE_HUMAN)"
| "TABLE AGENT_STUCK = (P_RESTART_ATTEMPT, P_ESCALATE_HUMAN)"
| "TABLE BUDGET_TOKENS_EXCEEDED = (P_ESCALATE_HUMAN, P_ESCALATE_HUMAN)"
| "TABLE BUDGET_TIME_EXCEEDED = (P_ESCALATE_HUMAN, P_ESCALATE_HUMAN)"
| "TABLE BUDGET_TURNS_EXCEEDED = (P_ESCALATE_HUMAN, P_ESCALATE_HUMAN)"
| "TABLE VERIFY_STATIC_FAILED = (P_RESUME, P_ESCALATE_HUMAN)"
| "TABLE VERIFY_TARGET_TESTS_FAILED = (P_RESUME, P_ESCALATE_HUMAN)"
| "TABLE VERIFY_REGRESSION_FAILED = (P_RESUME, P_ESCALATE_HUMAN)"
| "TABLE VERIFY_SCOPE_VIOLATION = (P_RESTART_ATTEMPT, P_ABORT)"
| "TABLE VERIFY_TEST_TAMPERING = (P_RESTART_ATTEMPT, P_ABORT)"
| "TABLE VERIFY_PATCH_MALFORMED = (P_RESTART_ATTEMPT, P_ABORT)"
| "TABLE HUMAN_REJECTED = (P_ABORT, P_ABORT)"
| "TABLE CANCELLED_BY_USER = (P_ABORT, P_ABORT)"

definition MODEL_FAILURES :: "failure_code list" where
  "MODEL_FAILURES = [MODEL_RATE_LIMIT, MODEL_API_ERROR]"

text \<open>
  The attempt number is at least 1 wherever the code calls the engine, so \<open>attemptNo - 1\<close> on natural
  numbers is the exponent the source computes.
\<close>

definition decidePolicy :: "PolicyInput \<Rightarrow> PolicyDecisionResult" where
  "decidePolicy input =
     (let (belowMax, atMax) = TABLE (pi_failureCode input);
          reachedMax = pi_attemptNo input \<ge> pi_maxAttempts input;
          action = (if reachedMax then atMax else belowMax);
          backoffMs = (if action = P_RESUME \<and> pi_failureCode input \<in> set MODEL_FAILURES
                       then 30000 * 2 ^ (pi_attemptNo input - 1) else 0)
      in \<lparr> pd_action = action, pd_backoffMs = backoffMs,
           pd_reason = failure_code_name (pi_failureCode input) @ '' @ attempt '' @
             show_nat (pi_attemptNo input) @ ''/'' @ show_nat (pi_maxAttempts input) @ '' -> '' @
             policy_action_name action \<rparr>)"

definition redispatches :: "policy_action \<Rightarrow> bool" where
  "redispatches a \<longleftrightarrow> a = P_RESUME \<or> a = P_RESTART_ATTEMPT"

lemma atMax_never_redispatches: "\<not> redispatches (snd (TABLE c))"
  by (cases c) (simp_all add: redispatches_def)

lemma decidePolicy_action:
  "pd_action (decidePolicy i) =
     (if pi_maxAttempts i \<le> pi_attemptNo i then snd (TABLE (pi_failureCode i))
      else fst (TABLE (pi_failureCode i)))"
  by (auto simp: decidePolicy_def Let_def split: prod.splits)

lemma decidePolicy_redispatch_below_max:
  "redispatches (pd_action (decidePolicy i)) \<Longrightarrow> pi_attemptNo i < pi_maxAttempts i"
  using atMax_never_redispatches by (auto simp: decidePolicy_action split: if_splits)

lemma decidePolicy_backoff_nonneg: "0 \<le> pd_backoffMs (decidePolicy i)"
  by (auto simp: decidePolicy_def Let_def split: prod.splits)

end
