(* ===== verification/Dispatch.thy ===== *)
theory Dispatch
  imports Events Policy
begin

text \<open>
  Where the commands a worker executes come from: the fixture registry's lookup
  (modules/fixture/fixture-registry.ts), \<open>buildRunCommand\<close> for fixture tasks
  (run-lifecycle.service.ts), \<open>commandFromSnapshot\<close> for snapshot tasks (task-snapshot.service.ts),
  and the ref handling of the git store (modules/repository/git-store.ts).
\<close>

section \<open>Fixtures\<close>

text \<open>The registry holds the built-in task \<open>fake\<close> and what was loaded from the task files.\<close>

definition fake_fixture :: FixtureDefinition where
  "fake_fixture =
     \<lparr> fx_id = ''fake'', fx_title = ''fake task'', fx_category = ''internal'',
       fx_repoPath = ''/tmp/arp-fake-repo'', fx_baseCommit = ''main'', fx_goldPatch = [],
       fx_acceptanceCriteria = [],
       fx_taskSpec = \<lparr> ts_fixtureId = Some ''fake'', ts_description = ''fake executor task'',
         ts_workdir = ''.'', ts_allowedPaths = [''**''], ts_staticCheck = [], ts_failToPass = [],
         ts_passToPass = [], ts_acceptanceCriteria = [], ts_testPatch = None \<rparr> \<rparr>"

text \<open>\<open>map.set\<close> by id: a loaded definition replaces an earlier one, the built-in one included.\<close>

definition fixture_load :: "FixtureDefinition list \<Rightarrow> FixtureDefinition list" where
  "fixture_load loaded = rev loaded @ [fake_fixture]"

definition fixture_get :: "ctx \<Rightarrow> string \<Rightarrow> err + FixtureDefinition" where
  "fixture_get c fixtureId =
     (case find_row fx_id fixtureId (fixture_load (c_fixtures c)) of
        None \<Rightarrow> Inl (NotFound ''unknown fixture'')
      | Some def \<Rightarrow> Inr def)"

section \<open>Git refs\<close>

text \<open>\<open>run\<close> trims the program's output; a failing program is an error.\<close>

definition git_run :: "ctx \<Rightarrow> string \<Rightarrow> string list \<Rightarrow> err + string" where
  "git_run c path args =
     (case c_git c path ([''-c'', ''core.hooksPath=/dev/null'', ''-C'', path] @ args) of
        Inl e \<Rightarrow> Inl e | Inr out \<Rightarrow> Inr (trim out))"

definition git_ref_ok :: "string \<Rightarrow> bool" where
  "git_ref_ok ref \<longleftrightarrow> ref \<noteq> [] \<and> \<not> startsWith ref ''-'' \<and> list_all (\<lambda>ch. 32 < (of_char ch :: nat)) ref"

definition git_resolve :: "ctx \<Rightarrow> string \<Rightarrow> string \<Rightarrow> err + string" where
  "git_resolve c path ref =
     (if \<not> git_ref_ok ref then Inl (Failure ''Invalid Git ref'')
      else (case git_run c path [''rev-parse'', ''--verify'', ''--end-of-options'', ref @ ''^{commit}''] of
              Inl e \<Rightarrow> Inl e
            | Inr out \<Rightarrow> if GitShaSchema out then Inr out else Inl (SchemaError ''sha'')))"

section \<open>Commands\<close>

text \<open>\<open>checkpointId ? { checkpointId } : {}\<close>: an empty id is absent.\<close>

definition present :: "string option \<Rightarrow> string option" where
  "present s = (if truthy s then s else None)"

definition buildRunCommand ::
  "ctx \<Rightarrow> run_command_type \<Rightarrow> string \<Rightarrow> nat \<Rightarrow> agent_kind \<Rightarrow> string \<Rightarrow> string option \<Rightarrow>
   int \<Rightarrow> int \<Rightarrow> int \<Rightarrow> int \<Rightarrow> int \<Rightarrow> err + RunCommand"
where
  "buildRunCommand c type runId attemptNo agentKind fixtureId checkpointId
       remainingTokens remainingSeconds budgetTokens budgetSeconds budgetTurns =
     (case fixture_get c fixtureId of
        Inl e \<Rightarrow> Inl e
      | Inr fixture \<Rightarrow> Inr
          \<lparr> cmd_snapshot = None,
            cmd_commandId = runCommandId runId (run_command_type_name type) attemptNo,
            cmd_type = type, cmd_runId = runId, cmd_attemptNo = attemptNo, cmd_agentKind = agentKind,
            cmd_repo = \<lparr> repo_path = fx_repoPath fixture, repo_baseCommit = fx_baseCommit fixture \<rparr>,
            cmd_taskSpec = fx_taskSpec fixture,
            cmd_budget = \<lparr> bg_tokens = budgetTokens, bg_seconds = budgetSeconds, bg_turns = budgetTurns,
              bg_remainingTokens = remainingTokens, bg_remainingSeconds = remainingSeconds \<rparr>,
            cmd_checkpointId = present checkpointId \<rparr>)"

definition commandFromSnapshot ::
  "(string \<Rightarrow> bool) \<Rightarrow> TaskSnapshot \<Rightarrow> string \<Rightarrow> string \<Rightarrow> nat \<Rightarrow> int \<Rightarrow> int \<Rightarrow> string option \<Rightarrow> err + RunCommand"
where
  "commandFromSnapshot isUrl raw repoPath runId attemptNo usedTokens usedSeconds checkpointId =
     (case TaskSnapshotSchema isUrl raw of
        None \<Rightarrow> Inl (SchemaError ''snapshot'')
      | Some snapshot \<Rightarrow>
          (let type = (if truthy checkpointId then RESUME_RUN else START_RUN);
               cfg = sn_config snapshot; b = sn_budget snapshot in
           case RunCommandSchema isUrl
             \<lparr> cmd_snapshot = Some snapshot,
               cmd_commandId = ''cmd:'' @ runId @ '':'' @ run_command_type_name type @ '':'' @ show_nat attemptNo,
               cmd_type = type, cmd_runId = runId, cmd_attemptNo = attemptNo,
               cmd_agentKind = sn_agentKind snapshot,
               cmd_repo = \<lparr> repo_path = repoPath, repo_baseCommit = sn_executionSha snapshot \<rparr>,
               cmd_taskSpec = \<lparr> ts_fixtureId = None, ts_description = sn_description snapshot,
                 ts_workdir = rc_workdir cfg, ts_allowedPaths = rc_allowedPaths cfg,
                 ts_staticCheck = rc_staticCheck cfg,
                 ts_failToPass = unique_first (bl_command (sn_baseline snapshot) # rc_failToPass cfg),
                 ts_passToPass = rc_passToPass cfg, ts_acceptanceCriteria = rc_acceptanceCriteria cfg,
                 ts_testPatch = None \<rparr>,
               cmd_budget = \<lparr> bg_tokens = sb_tokens b, bg_seconds = sb_seconds b, bg_turns = sb_turns b,
                 bg_remainingTokens = max 0 (sb_tokens b - usedTokens),
                 bg_remainingSeconds = max 0 (sb_seconds b - usedSeconds) \<rparr>,
               cmd_checkpointId = present checkpointId \<rparr>
           of None \<Rightarrow> Inl (SchemaError ''command'') | Some cmd \<Rightarrow> Inr cmd))"

lemma buildRunCommand_fields:
  assumes "buildRunCommand c type rid n ak fid k rt rs bt bs bu = Inr cmd"
  shows "cmd_attemptNo cmd = n \<and> cmd_runId cmd = rid \<and> cmd_type cmd = type \<and> cmd_snapshot cmd = None"
  using assms by (auto simp: buildRunCommand_def split: sum.splits)

lemma snapshot_parsed_budget:
  assumes "TaskSnapshotSchema u s = Some t"
  shows "sn_budget t = sn_budget s \<and> sn_executionSha t = sn_executionSha s \<and> sn_delivery t = sn_delivery s \<and>
    0 < sb_tokens (sn_budget t) \<and> 0 < sb_seconds (sn_budget t) \<and> 0 < sb_turns (sn_budget t) \<and>
    0 < sb_maxAttempts (sn_budget t) \<and> sb_maxAttempts (sn_budget t) \<le> 20"
  using assms by (auto simp: TaskSnapshotSchema_def split: option.splits if_splits)

text \<open>The command a parsed snapshot produces, with its second parse resolved.\<close>

lemma commandFromSnapshot_fields:
  assumes "commandFromSnapshot u s path rid n ut us k = Inr cmd"
  shows "cmd_attemptNo cmd = n \<and> cmd_runId cmd = rid \<and> cmd_checkpointId cmd = present k \<and>
    cmd_type cmd = (if truthy k then RESUME_RUN else START_RUN) \<and>
    cmd_commandId cmd = runCommandId rid (run_command_type_name (cmd_type cmd)) n \<and>
    repo_baseCommit (cmd_repo cmd) = sn_executionSha s \<and> repo_path (cmd_repo cmd) = path \<and>
    bg_remainingTokens (cmd_budget cmd) = max 0 (sb_tokens (sn_budget s) - ut) \<and>
    bg_remainingSeconds (cmd_budget cmd) = max 0 (sb_seconds (sn_budget s) - us) \<and>
    distinct (ts_failToPass (cmd_taskSpec cmd)) \<and>
    (\<exists>t. TaskSnapshotSchema u s = Some t \<and> cmd_snapshot cmd = Some t \<and>
       set (ts_failToPass (cmd_taskSpec cmd)) = insert (bl_command (sn_baseline t)) (set (rc_failToPass (sn_config t))))"
proof -
  obtain t where t: "TaskSnapshotSchema u s = Some t"
    using assms by (auto simp: commandFromSnapshot_def split: option.splits)
  have tt: "TaskSnapshotSchema u t = Some t"
    by (rule TaskSnapshotSchema_idem [OF t])
  show ?thesis
    using assms t tt snapshot_parsed_budget [OF t]
    by (auto simp: commandFromSnapshot_def RunCommandSchema_def Let_def runCommandId_def
        split: option.splits if_splits)
qed

text \<open>
  C33. A snapshot the schema accepts always yields a command: for a named run, a positive attempt
  number and any usage recorded so far, \<open>commandFromSnapshot\<close> does not throw; the command carries the
  snapshot's pinned commit, repeats the baseline check among the checks to fix without duplicates, and
  its remaining budget is never negative, even when the usage exceeds the budget.
\<close>

theorem command_from_snapshot_total:
  assumes "TaskSnapshotSchema u s = Some s" and "rid \<noteq> []" and "0 < n"
  shows "\<exists>cmd. commandFromSnapshot u s path rid n ut us k = Inr cmd \<and>
    repo_baseCommit (cmd_repo cmd) = sn_executionSha s \<and>
    cmd_type cmd = (if truthy k then RESUME_RUN else START_RUN) \<and>
    distinct (ts_failToPass (cmd_taskSpec cmd)) \<and>
    bl_command (sn_baseline s) \<in> set (ts_failToPass (cmd_taskSpec cmd)) \<and>
    0 \<le> bg_remainingTokens (cmd_budget cmd) \<and> bg_remainingTokens (cmd_budget cmd) = max 0 (sb_tokens (sn_budget s) - ut) \<and>
    0 \<le> bg_remainingSeconds (cmd_budget cmd)"
proof -
  have "\<exists>cmd. commandFromSnapshot u s path rid n ut us k = Inr cmd"
    using assms snapshot_parsed_budget [OF assms(1)]
    by (simp add: commandFromSnapshot_def RunCommandSchema_def BudgetSchema_def Let_def)
  then obtain cmd where cmd: "commandFromSnapshot u s path rid n ut us k = Inr cmd" by blast
  show ?thesis
    using cmd commandFromSnapshot_fields [OF cmd] assms(1) by (intro exI [of _ cmd]) auto
qed

lemma example_snapshot_parsed: "TaskSnapshotSchema u (example_snapshot kind) = Some (example_snapshot kind)"
  by (simp add: TaskSnapshotSchema_def RepositoryConfigSchema_def CommandSchema_def trim_def is_space_def
      RelativePathSchema_def startsWith_def example_snapshot_def example_config_def Let_def)

theorem command_from_snapshot_total_witness:
  "TaskSnapshotSchema (\<lambda>_. True) (example_snapshot D_PATCH) = Some (example_snapshot D_PATCH) \<and>
   ''run'' \<noteq> '''' \<and> (0::nat) < 2 \<and>
   (\<exists>cmd. commandFromSnapshot (\<lambda>_. True) (example_snapshot D_PATCH) ''/repo'' ''run'' 2 20000 10 (Some ''k'') = Inr cmd \<and>
     cmd_type cmd = RESUME_RUN \<and> bg_remainingTokens (cmd_budget cmd) = 0)"
proof -
  have r: "''run'' \<noteq> ''''" and n: "(0::nat) < 2" by simp_all
  have b: "sb_tokens (sn_budget (example_snapshot D_PATCH)) = 10000"
    by (simp add: example_snapshot_def)
  show ?thesis
    using r n b example_snapshot_parsed [of "\<lambda>_. True" D_PATCH]
      command_from_snapshot_total [OF example_snapshot_parsed [of "\<lambda>_. True" D_PATCH] r n,
        of "''/repo''" 20000 10 "Some ''k''"]
    by auto
qed

end
