(* ===== verification/Recovery.thy ===== *)
theory Recovery
  imports Dispatch
begin

text \<open>
  Recovery of a failed attempt: \<open>applyPolicy\<close> of run-lifecycle.service.ts.  The handler is split where
  the code branches: the active time of a snapshot run is settled, an exhausted budget or a model call
  of unknown cost stops the run, and otherwise the policy's decision is recorded and carried out by
  \<open>redispatch\<close>, \<open>abort_run\<close> or \<open>escalate_run\<close>.  The \<open>run\<close> a step passes on is the row the code holds
  in its local variable, with the code's assignments to it.
\<close>

section \<open>The steps of the handler\<close>

text \<open>Seconds since the run became active, rounded up; zero for an inactive run.\<close>

definition active_seconds :: "ctx \<Rightarrow> Run \<Rightarrow> int" where
  "active_seconds c run =
     (case run_activeStartedAt run of None \<Rightarrow> 0 | Some t \<Rightarrow> ceil_seconds (c_now c - t))"

definition settle_active_time :: "ctx \<Rightarrow> Run \<Rightarrow> (db, Run) tx" where
  "settle_active_time c run =
     (case run_activeStartedAt run of
        None \<Rightarrow> tx_return run
      | Some t \<Rightarrow>
          (let used = run_usedSeconds run + active_seconds c run in
           and_then (run_update c (run_id run)
             (\<lambda>r. r\<lparr> run_usedSeconds := used, run_activeStartedAt := None \<rparr>)) (\<lambda>_.
           tx_return (run\<lparr> run_usedSeconds := used, run_activeStartedAt := None \<rparr>))))"

definition unresolved_calls :: "string \<Rightarrow> db \<Rightarrow> nat" where
  "unresolved_calls runId d = length (filter (\<lambda>b. bc_status b \<noteq> B_SETTLED) (calls_of runId d))"

text \<open>A deadline that has passed: \<open>deadlineAt && deadlineAt <= now\<close>.\<close>

definition deadline_passed :: "ctx \<Rightarrow> Run \<Rightarrow> bool" where
  "deadline_passed c run = (case run_deadlineAt run of None \<Rightarrow> False | Some t \<Rightarrow> t \<le> c_now c)"

definition budget_blocked :: "ctx \<Rightarrow> Run \<Rightarrow> nat \<Rightarrow> bool" where
  "budget_blocked c run unresolved \<longleftrightarrow>
     unresolved \<noteq> 0 \<or> run_budgetTokens run \<le> run_usedTokens run \<or>
     run_budgetSeconds run \<le> run_usedSeconds run + active_seconds c run \<or> deadline_passed c run"

definition need_attention :: "string \<Rightarrow> string \<Rightarrow> (db, unit) tx" where
  "need_attention taskId reason =
     and_then (task_update taskId
       (\<lambda>t. t\<lparr> task_status := T_NEEDS_ATTENTION, task_attentionReason := Some reason \<rparr>)) (\<lambda>_.
     tx_return ())"

definition recovery_decision :: "Run \<Rightarrow> nat \<Rightarrow> failure_code \<Rightarrow> PolicyDecisionResult" where
  "recovery_decision run attemptNo failureCode =
     (if run_recoveryDisabled run
      then \<lparr> pd_action = P_ABORT, pd_backoffMs = 0,
             pd_reason = failure_code_name failureCode @ '' @ attempt '' @ show_nat attemptNo @
               '' -> ABORT (--no-recovery)'' \<rparr>
      else decidePolicy \<lparr> pi_failureCode = failureCode, pi_attemptNo = attemptNo,
             pi_maxAttempts = run_maxAttempts run \<rparr>)"

text \<open>\<open>checkpoint.findFirst\<close> by creation time, newest first; only a RESUME looks for one.\<close>

definition recovery_checkpoint :: "string \<Rightarrow> policy_action \<Rightarrow> db \<Rightarrow> Checkpoint option" where
  "recovery_checkpoint runId action d =
     (if action = P_RESUME
      then latest_by cp_createdAt (filter (\<lambda>k. cp_runId k = runId) (checkpoints d)) else None)"

definition recovery_command ::
  "ctx \<Rightarrow> Run \<Rightarrow> Task \<Rightarrow> Project \<Rightarrow> policy_action \<Rightarrow> Checkpoint option \<Rightarrow> nat \<Rightarrow> err + RunCommand"
where
  "recovery_command c run task project action checkpoint nextAttemptNo =
     (case task_snapshot task of
        Some raw \<Rightarrow>
          (case TaskSnapshotSchema (c_isUrl c) raw of
             None \<Rightarrow> Inl (SchemaError ''snapshot'')
           | Some s \<Rightarrow> commandFromSnapshot (c_isUrl c) s (prj_repoPath project) (run_id run) nextAttemptNo
               (run_usedTokens run) (run_usedSeconds run) (map_option cp_id checkpoint))
      | None \<Rightarrow>
          buildRunCommand c (if action = P_RESUME \<and> checkpoint \<noteq> None then RESUME_RUN else START_RUN)
            (run_id run) nextAttemptNo (run_agentKind run)
            (case task_fixtureId task of None \<Rightarrow> ''fake'' | Some f \<Rightarrow> f) (map_option cp_id checkpoint)
            (max 0 (run_budgetTokens run - run_usedTokens run))
            (max 0 (run_budgetSeconds run - run_usedSeconds run))
            (run_budgetTokens run) (run_budgetSeconds run) (run_budgetTurns run))"

text \<open>
  A fixture run keeps the repository and the task of its first command, whatever the registry says by
  now.
\<close>

definition frozen_inputs :: "ctx \<Rightarrow> string \<Rightarrow> RunCommand \<Rightarrow> db \<Rightarrow> err + RunCommand" where
  "frozen_inputs c runId command d =
     (case earliest_by msg_createdAt (messages_of runId d) of
        None \<Rightarrow> Inr command
      | Some original \<Rightarrow>
          (case RunCommandSchema (c_isUrl c) (msg_payload original) of
             None \<Rightarrow> Inl (SchemaError ''command'')
           | Some frozen \<Rightarrow> Inr (command\<lparr> cmd_repo := cmd_repo frozen, cmd_taskSpec := cmd_taskSpec frozen \<rparr>)))"

definition run_message :: "ctx \<Rightarrow> nat \<Rightarrow> string \<Rightarrow> RunCommand \<Rightarrow> int \<Rightarrow> OutboxMessage" where
  "run_message c k runId command notBefore =
     \<lparr> msg_id = c_cuid c k, msg_topic = ''run-commands'', msg_key = runId, msg_payload = command,
       msg_status = O_PENDING, msg_attempts = 0, msg_createdAt = c_now c, msg_publishedAt = None,
       msg_notBefore = notBefore \<rparr>"

definition redispatch ::
  "ctx \<Rightarrow> Run \<Rightarrow> Task \<Rightarrow> Project \<Rightarrow> string \<Rightarrow> nat \<Rightarrow> PolicyDecisionResult \<Rightarrow> (db, unit) tx"
where
  "redispatch c run task project attemptId attemptNo decision =
     and_then (tx_read (recovery_checkpoint (run_id run) (pd_action decision))) (\<lambda>checkpoint.
     and_then (transitionRun c (run_id run) R_INTERRUPTED R_RECOVERING) (\<lambda>_.
     and_then (tx_lift (recovery_command c run task project (pd_action decision) checkpoint (attemptNo + 1))) (\<lambda>fresh.
     and_then (if task_snapshot task = None
               then and_then (tx_read (frozen_inputs c (run_id run) fresh)) tx_lift
               else tx_return fresh) (\<lambda>command.
     and_then (outbox_create (run_message c 1 (run_id run) command (c_now c + pd_backoffMs decision))) (\<lambda>_.
     and_then (appendSyntheticEvent c (run_id run)
       (RecoveryAction (pd_action decision) (map_option cp_id checkpoint) (attemptNo + 1)) (Some attemptId)) (\<lambda>_.
     transitionRun c (run_id run) R_RECOVERING R_DISPATCHED))))))"

definition abort_run :: "ctx \<Rightarrow> Run \<Rightarrow> Task \<Rightarrow> (db, unit) tx" where
  "abort_run c run task =
     and_then (run_update c (run_id run) (\<lambda>r. r\<lparr> run_phase := ''FAILED'', run_activeStartedAt := None \<rparr>)) (\<lambda>_.
     and_then (transitionRun c (run_id run) R_INTERRUPTED R_FAILED) (\<lambda>_.
     tx_when (task_status task = T_RUNNING) (transitionTask (task_id task) T_RUNNING T_FAILED)))"

definition escalate_run :: "ctx \<Rightarrow> Run \<Rightarrow> failure_code \<Rightarrow> (db, unit) tx" where
  "escalate_run c run failureCode =
     and_then (run_update c (run_id run)
       (\<lambda>r. r\<lparr> run_phase := ''NEEDS_ATTENTION'', run_activeStartedAt := None \<rparr>)) (\<lambda>_.
     need_attention (run_taskId run) (failure_code_name failureCode))"

text \<open>
  A snapshot run pays for the back-off with its time budget; when that uses it up, the run stops
  instead.
\<close>

definition dispatch_or_stop ::
  "ctx \<Rightarrow> Run \<Rightarrow> Task \<Rightarrow> Project \<Rightarrow> string \<Rightarrow> nat \<Rightarrow> PolicyDecisionResult \<Rightarrow> (db, unit) tx"
where
  "dispatch_or_stop c run task project attemptId attemptNo decision =
     (if task_snapshot task = None then redispatch c run task project attemptId attemptNo decision
      else
        (let used = run_usedSeconds run + ceil_seconds (pd_backoffMs decision) in
         and_then (run_update c (run_id run) (\<lambda>r. r\<lparr> run_usedSeconds := used, run_phase := ''QUEUED'' \<rparr>)) (\<lambda>_.
         if run_budgetSeconds run \<le> used
         then and_then (run_update c (run_id run) (\<lambda>r. r\<lparr> run_phase := ''NEEDS_ATTENTION'' \<rparr>)) (\<lambda>_.
              need_attention (run_taskId run) ''BUDGET_EXHAUSTED'')
         else redispatch c (run\<lparr> run_usedSeconds := used \<rparr>) task project attemptId attemptNo decision)))"

definition follow_policy ::
  "ctx \<Rightarrow> Run \<Rightarrow> Task \<Rightarrow> Project \<Rightarrow> string \<Rightarrow> nat \<Rightarrow> failure_code \<Rightarrow> (db, unit) tx"
where
  "follow_policy c run task project attemptId attemptNo failureCode =
     (let decision = recovery_decision run attemptNo failureCode in
      and_then (policyDecision_create \<lparr> pol_id = c_cuid c 0, pol_runId = run_id run, pol_attemptId = attemptId,
        pol_failureCode = failureCode, pol_action = pd_action decision, pol_reason = pd_reason decision \<rparr>) (\<lambda>_.
      if redispatches (pd_action decision)
      then dispatch_or_stop c run task project attemptId attemptNo decision
      else if pd_action decision = P_ABORT then abort_run c run task
      else escalate_run c run failureCode))"

definition applyPolicy :: "ctx \<Rightarrow> string \<Rightarrow> string \<Rightarrow> nat \<Rightarrow> failure_code \<Rightarrow> (db, unit) tx" where
  "applyPolicy c runId attemptId attemptNo failureCode =
     and_then (run_findUniqueOrThrow runId) (\<lambda>run0.
     and_then (task_findUniqueOrThrow (run_taskId run0)) (\<lambda>task.
     and_then (find_or_throw projects prj_id (task_projectId task)) (\<lambda>project.
     if task_snapshot task = None then follow_policy c run0 task project attemptId attemptNo failureCode
     else
       and_then (settle_active_time c run0) (\<lambda>run.
       and_then (tx_read (unresolved_calls runId)) (\<lambda>unresolved.
       if budget_blocked c run unresolved
       then and_then (run_update c runId (\<lambda>r. r\<lparr> run_phase := ''NEEDS_ATTENTION'',
                run_usedSeconds := run_usedSeconds run + active_seconds c run, run_activeStartedAt := None \<rparr>)) (\<lambda>_.
            need_attention (run_taskId run)
              (if unresolved \<noteq> 0 then ''MODEL_USAGE_UNKNOWN'' else ''BUDGET_EXHAUSTED''))
       else follow_policy c run task project attemptId attemptNo failureCode)))))"

section \<open>Its writes are the services' writes\<close>

context effects
begin

lemma R_need_attention: "tx_rel R (need_attention tid reason)"
  unfolding need_attention_def by (intro R_ops) (simp add: task_core_def)

lemma R_settle_active_time: "tx_rel R (settle_active_time c run)"
  unfolding settle_active_time_def Let_def by (intro R_ops) (simp add: run_core_def)

lemma R_redispatch: "tx_rel R (redispatch c run task project aid n decision)"
  unfolding redispatch_def by (intro R_ops)

lemma R_abort_run: "tx_rel R (abort_run c run task)"
  unfolding abort_run_def by (intro R_ops) (simp add: run_core_def)

lemma R_escalate_run: "tx_rel R (escalate_run c run code)"
  unfolding escalate_run_def by (intro R_ops R_need_attention) (simp add: run_core_def)

lemma R_dispatch_or_stop: "tx_rel R (dispatch_or_stop c run task project aid n decision)"
  unfolding dispatch_or_stop_def Let_def
  by (intro R_ops R_redispatch R_need_attention) (simp_all add: run_core_def)

lemma R_follow_policy: "tx_rel R (follow_policy c run task project aid n code)"
  unfolding follow_policy_def Let_def
  by (intro R_ops R_dispatch_or_stop R_abort_run R_escalate_run)

lemma R_applyPolicy: "tx_rel R (applyPolicy c rid aid n code)"
  unfolding applyPolicy_def
  by (intro R_ops R_settle_active_time R_follow_policy R_need_attention) (simp add: run_core_def)

end

end
