(* ===== verification/Json.thy ===== *)
theory Json
  imports Contracts "HOL-Library.Multiset"
begin

text \<open>
  \<open>JSON.stringify\<close> and the canonical form whose digest identifies a snapshot
  (modules/task/task-snapshot.service.ts).  The comparison \<open>localeCompare\<close> depends on the
  runtime's locale data, so it is a parameter \<open>le\<close>, of which a theorem assumes that it is a linear
  order where it matters.
\<close>

section \<open>JSON.stringify\<close>

definition hex_digit :: "nat \<Rightarrow> char" where
  "hex_digit n = (if n < 10 then char_of (48 + n) else char_of (87 + n))"

definition escape_char :: "char \<Rightarrow> string" where
  "escape_char c =
     (let n = (of_char c :: nat) in
      if n = 0x22 then [char_of (0x5C::nat), char_of (0x22::nat)]
      else if n = 0x5C then [char_of (0x5C::nat), char_of (0x5C::nat)]
      else if n = 8 then [char_of (0x5C::nat), CHR ''b'']
      else if n = 9 then [char_of (0x5C::nat), CHR ''t'']
      else if n = 10 then [char_of (0x5C::nat), CHR ''n'']
      else if n = 12 then [char_of (0x5C::nat), CHR ''f'']
      else if n = 13 then [char_of (0x5C::nat), CHR ''r'']
      else if n < 32 then [char_of (0x5C::nat), CHR ''u'', CHR ''0'', CHR ''0'',
                           hex_digit (n div 16), hex_digit (n mod 16)]
      else [c])"

definition stringify_string :: "string \<Rightarrow> string" where
  "stringify_string s = [char_of (0x22::nat)] @ concat (map escape_char s) @ [char_of (0x22::nat)]"

definition show_int :: "int \<Rightarrow> string" where
  "show_int i = (if i < 0 then ''-'' @ show_nat (nat (- i)) else show_nat (nat i))"

fun commas :: "string list \<Rightarrow> string" where
  "commas [] = []"
| "commas [s] = s"
| "commas (s # t # ss) = s @ '','' @ commas (t # ss)"

fun stringify :: "json \<Rightarrow> string" where
  "stringify JNull = ''null''"
| "stringify (JBool b) = (if b then ''true'' else ''false'')"
| "stringify (JNum n) = show_int n"
| "stringify (JStr s) = stringify_string s"
| "stringify (JArr vs) = ''['' @ commas (map stringify vs) @ '']''"
| "stringify (JObj es) =
     ''{'' @ commas (map (\<lambda>(k, v). stringify_string k @ '':'' @ stringify v) es) @ ''}''"

section \<open>The canonical form\<close>

text \<open>A stable sort of the entries by key, as \<open>Array.prototype.sort\<close> is.\<close>

fun insert_entry :: "(string \<Rightarrow> string \<Rightarrow> bool) \<Rightarrow> string \<times> 'a \<Rightarrow> (string \<times> 'a) list \<Rightarrow> (string \<times> 'a) list" where
  "insert_entry le e [] = [e]"
| "insert_entry le e (f # fs) = (if le (fst e) (fst f) then e # f # fs else f # insert_entry le e fs)"

fun sort_entries :: "(string \<Rightarrow> string \<Rightarrow> bool) \<Rightarrow> (string \<times> 'a) list \<Rightarrow> (string \<times> 'a) list" where
  "sort_entries le [] = []"
| "sort_entries le (e # es) = insert_entry le e (sort_entries le es)"

fun canonical :: "(string \<Rightarrow> string \<Rightarrow> bool) \<Rightarrow> json \<Rightarrow> string" where
  "canonical le (JArr vs) = ''['' @ commas (map (canonical le) vs) @ '']''"
| "canonical le (JObj es) =
     ''{'' @ commas (map (\<lambda>(k, s). stringify_string k @ '':'' @ s)
       (sort_entries le (map (\<lambda>(k, v). (k, canonical le v)) es))) @ ''}''"
| "canonical le v = stringify v"

definition digestSnapshot :: "(string \<Rightarrow> string) \<Rightarrow> (string \<Rightarrow> string \<Rightarrow> bool) \<Rightarrow> json \<Rightarrow> string" where
  "digestSnapshot sha256 le v = sha256 (canonical le v)"

text \<open>The value with the entries of every object sorted: what \<open>canonical\<close> prints.\<close>

fun sort_keys :: "(string \<Rightarrow> string \<Rightarrow> bool) \<Rightarrow> json \<Rightarrow> json" where
  "sort_keys le (JArr vs) = JArr (map (sort_keys le) vs)"
| "sort_keys le (JObj es) = JObj (sort_entries le (map (\<lambda>(k, v). (k, sort_keys le v)) es))"
| "sort_keys le v = v"

lemma insert_entry_map:
  "insert_entry le (k, g v) (map (\<lambda>(k, v). (k, g v)) es) =
     map (\<lambda>(k, v). (k, g v)) (insert_entry le (k, v) es)"
  by (induction es) auto

lemma sort_entries_map:
  "sort_entries le (map (\<lambda>(k, v). (k, g v)) es) = map (\<lambda>(k, v). (k, g v)) (sort_entries le es)"
  by (induction es) (auto simp: insert_entry_map)

text \<open>The canonical form of a JSON value is the ordinary JSON text of the same value with the keys of
  every object, at every depth, in order: canonicalising never loses or merges an entry.\<close>

theorem canonical_is_sorted_json: "canonical le v = stringify (sort_keys le v)"
proof (induction le v rule: canonical.induct)
  case (1 le vs)
  then show ?case by (simp add: comp_def cong: map_cong)
next
  case (2 le es)
  have "map (\<lambda>(k, v). (k, canonical le v)) es = map (\<lambda>(k, v). (k, stringify (sort_keys le v))) es"
    using 2 by (auto simp: case_prod_beta)
  then have "sort_entries le (map (\<lambda>(k, v). (k, canonical le v)) es) =
      sort_entries le (map (\<lambda>(k, v). (k, stringify v)) (map (\<lambda>(k, v). (k, sort_keys le v)) es))"
    by (simp only:) (simp add: comp_def case_prod_unfold)
  also have "\<dots> = map (\<lambda>(k, v). (k, stringify v)) (sort_entries le (map (\<lambda>(k, v). (k, sort_keys le v)) es))"
    by (rule sort_entries_map)
  finally show ?case
    by (simp add: comp_def case_prod_unfold)
qed simp_all

section \<open>Key order does not matter\<close>

lemma mset_insert_entry [simp]: "mset (insert_entry le e es) = add_mset e (mset es)"
  by (induction es) auto

lemma mset_sort_entries [simp]: "mset (sort_entries le es) = mset es"
  by (induction es) auto

lemma set_sort_entries [simp]: "set (sort_entries le es) = set es"
  by (metis mset_sort_entries set_mset_mset)

text \<open>The collation orders the keys linearly.\<close>

definition linear_keys :: "(string \<Rightarrow> string \<Rightarrow> bool) \<Rightarrow> bool" where
  "linear_keys le \<longleftrightarrow> (\<forall>a b. le a b \<or> le b a) \<and> (\<forall>a b. le a b \<longrightarrow> le b a \<longrightarrow> a = b) \<and>
     (\<forall>a b c. le a b \<longrightarrow> le b c \<longrightarrow> le a c)"

definition entries_sorted :: "(string \<Rightarrow> string \<Rightarrow> bool) \<Rightarrow> (string \<times> 'a) list \<Rightarrow> bool" where
  "entries_sorted le es \<longleftrightarrow> sorted_wrt (\<lambda>e f. le (fst e) (fst f)) es"

lemma insert_entry_sorted:
  "linear_keys le \<Longrightarrow> entries_sorted le es \<Longrightarrow> entries_sorted le (insert_entry le e es)"
proof (induction es)
  case Nil
  then show ?case by (simp add: entries_sorted_def)
next
  case (Cons f fs)
  have set_ins: "set (insert_entry le e fs) = insert e (set fs)"
    by (metis mset_insert_entry set_mset_add_mset_insert set_mset_mset)
  show ?case
  proof (cases "le (fst e) (fst f)")
    case True
    with Cons.prems show ?thesis by (fastforce simp: entries_sorted_def linear_keys_def)
  next
    case False
    then have "le (fst f) (fst e)" using Cons.prems(1) by (auto simp: linear_keys_def)
    with Cons False set_ins show ?thesis by (auto simp: entries_sorted_def)
  qed
qed

lemma sort_entries_sorted: "linear_keys le \<Longrightarrow> entries_sorted le (sort_entries le es)"
  by (induction es) (auto simp: insert_entry_sorted, simp add: entries_sorted_def)

lemma sorted_entries_unique:
  assumes "linear_keys le" "entries_sorted le es" "entries_sorted le fs" "mset es = mset fs"
    "distinct (map fst es)"
  shows "es = fs"
  using assms(2-)
proof (induction es arbitrary: fs)
  case Nil
  then show ?case by simp
next
  case (Cons e es)
  then obtain f gs where fs: "fs = f # gs" by (cases fs) auto
  have mem: "e \<in> set fs" "f \<in> set (e # es)"
    using Cons.prems(3) fs by (metis list.set_intros(1) set_mset_mset)+
  have "e = f"
  proof (rule ccontr)
    assume "e \<noteq> f"
    with mem fs have "e \<in> set gs" "f \<in> set es" by auto
    with Cons.prems(1,2) fs have "fst e = fst f"
      using assms(1) unfolding entries_sorted_def linear_keys_def by auto
    with \<open>f \<in> set es\<close> Cons.prems(4) show False by (auto simp: image_iff)
  qed
  with Cons fs show ?case by (auto simp: entries_sorted_def)
qed

lemma sort_entries_perm:
  assumes "linear_keys le" and "mset es = mset fs" and "distinct (map fst es)"
  shows "sort_entries le es = sort_entries le fs"
proof (rule sorted_entries_unique [OF assms(1) sort_entries_sorted sort_entries_sorted])
  show "mset (sort_entries le es) = mset (sort_entries le fs)"
    using assms(2) by simp
  have "mset (map fst (sort_entries le es)) = mset (map fst es)" by simp
  then show "distinct (map fst (sort_entries le es))"
    using assms(3) by (metis mset_eq_imp_distinct_iff)
qed (use assms(1) in simp_all)

text \<open>
  Two values that differ only by permuting the entries of objects, at any depth.
\<close>

inductive same_json :: "json \<Rightarrow> json \<Rightarrow> bool" where
  same: "same_json v v"
| arr: "list_all2 same_json vs ws \<Longrightarrow> same_json (JArr vs) (JArr ws)"
| obj: "list_all2 (\<lambda>e f. fst e = fst f \<and> same_json (snd e) (snd f)) es fs \<Longrightarrow>
     mset fs = mset gs \<Longrightarrow> distinct (map fst gs) \<Longrightarrow> same_json (JObj es) (JObj gs)"

lemma same_json_canonical:
  assumes "linear_keys le"
  shows "same_json v w \<Longrightarrow> canonical le v = canonical le w"
proof (induction rule: same_json.induct)
  case (arr vs ws)
  then have "map (canonical le) vs = map (canonical le) ws"
    by (induction rule: list_all2_induct) auto
  then show ?case by simp
next
  case (obj es fs gs)
  from obj(1) have eq: "map (\<lambda>(k, v). (k, canonical le v)) es = map (\<lambda>(k, v). (k, canonical le v)) fs"
    by (induction rule: list_all2_induct) auto
  have "sort_entries le (map (\<lambda>(k, v). (k, canonical le v)) gs) =
      sort_entries le (map (\<lambda>(k, v). (k, canonical le v)) fs)"
  proof (rule sort_entries_perm [OF assms])
    show "mset (map (\<lambda>(k, v). (k, canonical le v)) gs) = mset (map (\<lambda>(k, v). (k, canonical le v)) fs)"
      using obj(2) by simp
    show "distinct (map fst (map (\<lambda>(k, v). (k, canonical le v)) gs))"
      using obj(3) by (simp add: comp_def case_prod_beta)
  qed
  with eq show ?case by simp
qed simp

text \<open>
  The digest of a snapshot does not depend on the order in which an object lists its members, at
  any depth: two values that differ only by permuting the entries of objects have the same canonical
  text, hence the same digest, whatever the hash function.
\<close>

theorem digest_ignores_key_order:
  assumes "linear_keys le" and "same_json v w"
  shows "digestSnapshot sha256 le v = digestSnapshot sha256 le w"
  using same_json_canonical [OF assms] by (simp add: digestSnapshot_def)

text \<open>A concrete collation for the example: dictionary order of the character codes.\<close>

fun code_le :: "string \<Rightarrow> string \<Rightarrow> bool" where
  "code_le [] _ \<longleftrightarrow> True"
| "code_le (x # xs) [] \<longleftrightarrow> False"
| "code_le (x # xs) (y # ys) \<longleftrightarrow>
     (of_char x :: nat) < of_char y \<or> (of_char x :: nat) = of_char y \<and> code_le xs ys"

lemma linear_code_le: "linear_keys code_le"
proof -
  have total: "code_le a b \<or> code_le b a" for a b
    by (induction a b rule: code_le.induct) auto
  have anti: "code_le a b \<Longrightarrow> code_le b a \<Longrightarrow> a = b" for a b
    by (induction a b rule: code_le.induct) (auto elim: code_le.elims)
  have trans: "code_le a b \<Longrightarrow> code_le b c \<Longrightarrow> code_le a c" for a b c
  proof (induction a b arbitrary: c rule: code_le.induct)
    case (3 x xs y ys)
    then show ?case by (cases c) auto
  qed auto
  show ?thesis using total anti trans by (auto simp: linear_keys_def)
qed

theorem digest_ignores_key_order_witness:
  "linear_keys code_le \<and>
   same_json (JObj [(''a'', JNum 1), (''b'', JNull)]) (JObj [(''b'', JNull), (''a'', JNum 1)]) \<and>
   digestSnapshot (\<lambda>s. s) code_le (JObj [(''a'', JNum 1), (''b'', JNull)]) =
     digestSnapshot (\<lambda>s. s) code_le (JObj [(''b'', JNull), (''a'', JNum 1)])"
proof -
  have "same_json (JObj [(''a'', JNum 1), (''b'', JNull)]) (JObj [(''b'', JNull), (''a'', JNum 1)])"
    by (rule same_json.obj [of _ "[(''a'', JNum 1), (''b'', JNull)]"]) (auto intro: same_json.same)
  with linear_code_le digest_ignores_key_order show ?thesis by blast
qed

end
