(* ===== verification/Lifecycle.thy ===== *)
theory Lifecycle
  imports Recovery Json
begin

text \<open>
  The run lifecycle (modules/run/run-lifecycle.service.ts, public-demo.ts): creating a task with its run
  and first command, claiming an attempt, renewing its lease, completing it, saving checkpoints and
  declaring an attempt's worker lost.  A handler that reads rows before it opens its transaction is
  given as the read and, separately, the transaction over the rows that were read, because other
  transactions may commit in between; the handler itself composes the two.
\<close>

section \<open>The public demo's limits\<close>

record CreateTaskInput =
  ci_fixtureId :: string
  ci_agentKind :: agent_kind
  ci_recoveryDisabled :: "bool option"
  ci_feedbackMode :: "string option"
  ci_budgetTokens :: "int option"
  ci_budgetSeconds :: "int option"
  ci_budgetTurns :: "int option"
  ci_source :: "task_source option"
  ci_sourceRef :: "string option"

definition or_zero :: "int option \<Rightarrow> int" where
  "or_zero x = (case x of None \<Rightarrow> 0 | Some n \<Rightarrow> n)"

definition assertDemoInput :: "CreateTaskInput \<Rightarrow> err + unit" where
  "assertDemoInput input =
     (if ci_fixtureId input \<notin> {''py-logic-001'', ''ts-logic-001''} \<or> ci_agentKind input \<noteq> SELF_LANGGRAPH \<or>
         10000 < or_zero (ci_budgetTokens input) \<or> 180 < or_zero (ci_budgetSeconds input) \<or>
         10 < or_zero (ci_budgetTurns input)
      then Inl (BadRequest ''demo input'') else Inr ())"

definition assertDemoCapacity :: "nat \<Rightarrow> nat \<Rightarrow> err + unit" where
  "assertDemoCapacity active today =
     (if 0 < active then Inl (Conflict ''demo busy'')
      else if 100 \<le> today then Inl (Conflict ''demo quota'') else Inr ())"

definition demo_active :: "db \<Rightarrow> nat" where
  "demo_active d = length (filter (\<lambda>r. run_status r \<in>
     {R_PENDING, R_DISPATCHED, R_RUNNING, R_VERIFYING, R_RECOVERING}) (runs d))"

definition utc_midnight :: "int \<Rightarrow> int" where
  "utc_midnight now = now - now mod 86400000"

definition demo_today :: "ctx \<Rightarrow> db \<Rightarrow> nat" where
  "demo_today c d = length (filter (\<lambda>t. utc_midnight (c_now c) \<le> task_createdAt t) (tasks d))"

definition demo_budget :: "CreateTaskInput \<Rightarrow> CreateTaskInput" where
  "demo_budget input = input\<lparr> ci_budgetTokens := Some 10000, ci_budgetSeconds := Some 180, ci_budgetTurns := Some 10 \<rparr>"

section \<open>Creating a task\<close>

text \<open>\<open>n ? { field: n } : {}\<close> over the column's default.\<close>

definition budget_or :: "int \<Rightarrow> int option \<Rightarrow> int" where
  "budget_or dflt x = (if or_zero x = 0 then dflt else or_zero x)"

definition ensureDefaultProject :: "ctx \<Rightarrow> (db, Project) tx" where
  "ensureDefaultProject c =
     and_then (tx_read (\<lambda>d. find_row prj_name ''default'' (projects d))) (\<lambda>existing.
     case existing of
       Some p \<Rightarrow> tx_return p
     | None \<Rightarrow>
         and_then (create_row workspaces workspaces_update ws_id
           \<lparr> ws_id = c_cuid c 0, ws_name = ''default'' \<rparr>) (\<lambda>w.
         create_row projects projects_update prj_id
           \<lparr> prj_id = c_cuid c 1, prj_workspaceId = ws_id w, prj_name = ''default'', prj_repoPath = [],
             prj_githubRepo = None, prj_defaultBranch = ''main'', prj_repoUrl = None,
             prj_readCredential = None, prj_writeCredential = None \<rparr>))"

definition new_fixture_task :: "ctx \<Rightarrow> CreateTaskInput \<Rightarrow> FixtureDefinition \<Rightarrow> string \<Rightarrow> Task" where
  "new_fixture_task c input fixture projectId =
     \<lparr> task_id = c_cuid c 2, task_projectId = projectId, task_title = fx_title fixture,
       task_description = ts_description (fx_taskSpec fixture),
       task_source = (case ci_source input of None \<Rightarrow> S_MANUAL | Some s \<Rightarrow> s),
       task_sourceRef = ci_sourceRef input, task_fixtureId = Some (fx_id fixture), task_status = T_CREATED,
       task_allowedPaths = ts_allowedPaths (fx_taskSpec fixture), task_createdAt = c_now c,
       task_snapshot = None, task_snapshotDigest = None, task_confirmationKey = None,
       task_parentTaskId = None, task_attentionReason = None \<rparr>"

definition new_fixture_run :: "ctx \<Rightarrow> CreateTaskInput \<Rightarrow> string \<Rightarrow> string \<Rightarrow> Run" where
  "new_fixture_run c input taskId baseCommit =
     \<lparr> run_id = c_cuid c 3, run_taskId = taskId, run_agentKind = ci_agentKind input, run_status = R_PENDING,
       run_baseCommit = baseCommit, run_maxAttempts = 3,
       run_budgetTokens = budget_or 200000 (ci_budgetTokens input),
       run_budgetSeconds = budget_or 900 (ci_budgetSeconds input),
       run_budgetTurns = budget_or 30 (ci_budgetTurns input), run_usedTokens = 0, run_usedSeconds = 0,
       run_lastSequence = 0,
       run_recoveryDisabled = (case ci_recoveryDisabled input of None \<Rightarrow> False | Some b \<Rightarrow> b),
       run_feedbackMode = (case ci_feedbackMode input of None \<Rightarrow> ''structured'' | Some m \<Rightarrow> m),
       run_createdAt = c_now c, run_updatedAt = c_now c, run_phase = ''QUEUED'', run_environmentId = None,
       run_imageId = None, run_activeStartedAt = None, run_deadlineAt = None \<rparr>"

definition createTask_tx ::
  "ctx \<Rightarrow> CreateTaskInput \<Rightarrow> FixtureDefinition \<Rightarrow> string \<Rightarrow> (db, string \<times> string) tx"
where
  "createTask_tx c input fixture baseCommit =
     and_then (tx_when (c_demo c)
       (and_then (tx_read (\<lambda>d. (demo_active d, demo_today c d))) (\<lambda>(active, today).
        tx_lift (assertDemoCapacity active today)))) (\<lambda>_.
     and_then (ensureDefaultProject c) (\<lambda>project.
     and_then (task_create (new_fixture_task c input fixture (prj_id project))) (\<lambda>task.
     and_then (run_create (new_fixture_run c input (task_id task) baseCommit)) (\<lambda>run.
     and_then (transitionTask (task_id task) T_CREATED T_QUEUED) (\<lambda>_.
     and_then (tx_lift (buildRunCommand c START_RUN (run_id run) 1 (ci_agentKind input) (fx_id fixture) None
       (run_budgetTokens run) (run_budgetSeconds run) (run_budgetTokens run) (run_budgetSeconds run)
       (run_budgetTurns run))) (\<lambda>command.
     and_then (outbox_create (run_message c 4 (run_id run)
       (command\<lparr> cmd_repo := (cmd_repo command)\<lparr> repo_baseCommit := baseCommit \<rparr> \<rparr>) (c_now c))) (\<lambda>_.
     and_then (transitionRun c (run_id run) R_PENDING R_DISPATCHED) (\<lambda>_.
     tx_return (task_id task, run_id run)))))))))"

definition createTask :: "ctx \<Rightarrow> CreateTaskInput \<Rightarrow> (db, string \<times> string) tx" where
  "createTask c input0 =
     and_then (if c_demo c then tx_lift (assertDemoInput input0) else tx_return ()) (\<lambda>_.
     (let input = (if c_demo c then demo_budget input0 else input0) in
      and_then (tx_lift (fixture_get c (ci_fixtureId input))) (\<lambda>fixture.
      and_then (if fx_id fixture = ''fake'' then tx_return (fx_baseCommit fixture)
                else tx_lift (git_resolve c (fx_repoPath fixture) (fx_baseCommit fixture))) (\<lambda>baseCommit.
      createTask_tx c input fixture baseCommit))))"

section \<open>Claiming and renewing\<close>

record ClaimReply =
  cl_attemptId :: string
  cl_leaseToken :: "string option"
  cl_leaseTtlMs :: int
  cl_duplicate :: bool

definition find_attempt_no :: "string \<Rightarrow> nat \<Rightarrow> db \<Rightarrow> Attempt option" where
  "find_attempt_no runId n d = find_row att_no n (attempts_of runId d)"

definition new_attempt :: "ctx \<Rightarrow> string \<Rightarrow> nat \<Rightarrow> string \<Rightarrow> Attempt" where
  "new_attempt c runId n workerId =
     \<lparr> att_id = c_cuid c 0, att_runId = runId, att_no = n, att_workerId = Some workerId,
       att_status = A_RUNNING, att_failureCode = None,
       att_leaseExpiresAt = Some (c_now c + c_leaseTtlMs c), att_endedAt = None,
       att_leaseToken = Some (c_uuid c) \<rparr>"

definition latest_no :: "string \<Rightarrow> db \<Rightarrow> nat" where
  "latest_no runId d =
     (case latest_by (\<lambda>a. int (att_no a)) (attempts_of runId d) of None \<Rightarrow> 0 | Some a \<Rightarrow> att_no a)"

text \<open>
  \<open>activeStartedAt: run.activeStartedAt ?? new Date()\<close>, where \<open>run0\<close> is the run as it was read before
  the transaction.
\<close>

definition activate :: "ctx \<Rightarrow> Run \<Rightarrow> Run \<Rightarrow> Run" where
  "activate c run0 r = r\<lparr> run_activeStartedAt :=
     (case run_activeStartedAt run0 of None \<Rightarrow> Some (c_now c) | Some t \<Rightarrow> Some t) \<rparr>"

definition claimAttempt_tx :: "ctx \<Rightarrow> Run \<Rightarrow> string \<Rightarrow> nat \<Rightarrow> string \<Rightarrow> (db, Attempt) tx" where
  "claimAttempt_tx c run0 runId attemptNo workerId =
     and_then (run_findUniqueOrThrow runId) (\<lambda>current.
     and_then (tx_read (latest_no runId)) (\<lambda>latest.
     and_then (tx_check (\<not> (run_status current \<noteq> R_DISPATCHED \<or> attemptNo \<noteq> latest + 1 \<or>
         run_maxAttempts current < attemptNo)) (Conflict ''Attempt is not dispatchable'')) (\<lambda>_.
     and_then (attempt_create (new_attempt c runId attemptNo workerId)) (\<lambda>created.
     and_then (transitionRun c runId R_DISPATCHED R_RUNNING) (\<lambda>_.
     and_then (run_update c runId (activate c run0)) (\<lambda>_.
     and_then (task_findUniqueOrThrow (run_taskId run0)) (\<lambda>task.
     and_then (tx_when (task_status task = T_QUEUED) (transitionTask (task_id task) T_QUEUED T_RUNNING)) (\<lambda>_.
     tx_return created))))))))"

definition claimAttempt :: "ctx \<Rightarrow> string \<Rightarrow> nat \<Rightarrow> string \<Rightarrow> (db, ClaimReply) tx" where
  "claimAttempt c runId attemptNo workerId =
     and_then (tx_read (find_run runId)) (\<lambda>found.
     and_then (tx_some found (NotFound ''run'')) (\<lambda>run.
     and_then (tx_read (find_attempt_no runId attemptNo)) (\<lambda>existing.
     case existing of
       Some a \<Rightarrow> tx_return \<lparr> cl_attemptId = att_id a, cl_leaseToken = None,
                   cl_leaseTtlMs = c_leaseTtlMs c, cl_duplicate = True \<rparr>
     | None \<Rightarrow>
         and_then (tx_check (run_status run = R_DISPATCHED) (Conflict ''Run is not dispatchable'')) (\<lambda>_.
         and_then (claimAttempt_tx c run runId attemptNo workerId) (\<lambda>a.
         tx_return \<lparr> cl_attemptId = att_id a, cl_leaseToken = att_leaseToken a,
           cl_leaseTtlMs = c_leaseTtlMs c, cl_duplicate = False \<rparr>)))))"

definition heartbeat :: "ctx \<Rightarrow> string \<Rightarrow> (db, int) tx" where
  "heartbeat c attemptId =
     and_then (attempt_updateMany (\<lambda>a. att_id a = attemptId \<and> att_status a \<in> {A_CLAIMED, A_RUNNING})
       (\<lambda>a. a\<lparr> att_leaseExpiresAt := Some (c_now c + c_leaseTtlMs c) \<rparr>)) (\<lambda>count.
     and_then (tx_check (count \<noteq> 0) (Conflict ''attempt cannot be renewed'')) (\<lambda>_.
     tx_return (c_leaseTtlMs c)))"

section \<open>Completing an attempt\<close>

record VerificationReport =
  vr_step :: verifier_step
  vr_passed :: bool
  vr_failureCode :: "failure_code option"
  vr_detail :: "(string \<times> json) list"
  vr_durationMs :: int

text \<open>\<open>oc_failure\<close> is \<open>None\<close> for \<open>status: 'SUCCEEDED'\<close>.\<close>

record Outcome =
  oc_failure :: "failure_code option"
  oc_usedTokens :: "int option"
  oc_usedSeconds :: "int option"
  oc_verification :: "VerificationReport list"
  oc_patch :: "string option"
  oc_judge :: "json option"

definition lease_valid :: "ctx \<Rightarrow> Attempt \<Rightarrow> bool" where
  "lease_valid c a = (case att_leaseExpiresAt a of None \<Rightarrow> False | Some t \<Rightarrow> c_now c < t)"

definition new_artifact :: "ctx \<Rightarrow> nat \<Rightarrow> Attempt \<Rightarrow> artifact_kind \<Rightarrow> string \<Rightarrow> string \<Rightarrow> Artifact" where
  "new_artifact c k a kind name content =
     \<lparr> art_id = c_cuid c k, art_runId = att_runId a, art_attemptId = att_id a, art_kind = kind,
       art_name = name, art_content = content, art_sizeBytes = length content, art_createdAt = c_now c \<rparr>"

definition verification_row :: "ctx \<Rightarrow> Attempt \<Rightarrow> nat \<times> VerificationReport \<Rightarrow> VerificationRow" where
  "verification_row c a iv =
     \<lparr> ver_id = c_cuid c (10 + fst iv), ver_runId = att_runId a, ver_attemptId = att_id a,
       ver_step = vr_step (snd iv), ver_passed = vr_passed (snd iv),
       ver_failureCode = vr_failureCode (snd iv), ver_detail = vr_detail (snd iv),
       ver_durationMs = vr_durationMs (snd iv), ver_createdAt = c_now c \<rparr>"

text \<open>The time a snapshot run was active is charged when the attempt ends.\<close>

definition charge_active_time :: "ctx \<Rightarrow> string \<Rightarrow> (db, unit) tx" where
  "charge_active_time c runId =
     and_then (run_findUniqueOrThrow runId) (\<lambda>current.
     and_then (run_update c runId (\<lambda>r. r\<lparr> run_usedSeconds := run_usedSeconds r + active_seconds c current,
       run_activeStartedAt := None \<rparr>)) (\<lambda>_. tx_return ()))"

definition record_usage :: "ctx \<Rightarrow> string \<Rightarrow> Run \<Rightarrow> Task \<Rightarrow> Outcome \<Rightarrow> (db, unit) tx" where
  "record_usage c runId run0 task0 outcome =
     tx_when (oc_usedTokens outcome \<noteq> None \<or> oc_usedSeconds outcome \<noteq> None)
       (and_then (run_update c runId (\<lambda>r. if task_snapshot task0 \<noteq> None then r else
          r\<lparr> run_usedTokens := (case oc_usedTokens outcome of None \<Rightarrow> run_usedTokens r
                               | Some n \<Rightarrow> max (run_usedTokens run0) n),
             run_usedSeconds := run_usedSeconds r + or_zero (oc_usedSeconds outcome) \<rparr>)) (\<lambda>_.
        tx_return ()))"

definition persistExtras :: "ctx \<Rightarrow> Attempt \<Rightarrow> Run \<Rightarrow> Task \<Rightarrow> Outcome \<Rightarrow> (db, unit) tx" where
  "persistExtras c attempt run0 task0 outcome =
     and_then (tx_when (task_snapshot task0 \<noteq> None) (charge_active_time c (att_runId attempt))) (\<lambda>_.
     and_then (record_usage c (att_runId attempt) run0 task0 outcome) (\<lambda>_.
     and_then (tx_for (List.enumerate 0 (oc_verification outcome)) (\<lambda>iv.
       and_then (verification_create (verification_row c attempt iv)) (\<lambda>_. tx_return ()))) (\<lambda>_.
     and_then (case present (oc_patch outcome) of
         None \<Rightarrow> tx_return ()
       | Some patch \<Rightarrow> and_then (artifact_create (new_artifact c 2 attempt K_PATCH ''fix.patch'' patch))
           (\<lambda>_. tx_return ())) (\<lambda>_.
     case oc_judge outcome of
       None \<Rightarrow> tx_return ()
     | Some judge \<Rightarrow> and_then (artifact_create (new_artifact c 3 attempt K_JUDGE_REPORT
         ''judge-report.json'' (stringify judge))) (\<lambda>_. tx_return ())))))"

definition new_approval :: "ctx \<Rightarrow> string \<Rightarrow> string \<Rightarrow> string option \<Rightarrow> Approval" where
  "new_approval c taskId runId patch =
     \<lparr> app_id = c_cuid c 4, app_taskId = taskId, app_runId = runId, app_status = AP_PENDING,
       app_reviewer = None, app_decidedAt = None, app_prUrl = None, app_prError = None,
       app_patchDigest = map_option (c_sha256 c) (present patch) \<rparr>"

definition complete_success :: "ctx \<Rightarrow> Attempt \<Rightarrow> Run \<Rightarrow> Task \<Rightarrow> Outcome \<Rightarrow> (db, unit) tx" where
  "complete_success c attempt run0 task0 outcome =
     (let runId = att_runId attempt; taskId = run_taskId run0 in
      and_then (attempt_findUniqueOrThrow (att_id attempt)) (\<lambda>owner.
      and_then (tx_check (att_status owner = A_RUNNING \<and> lease_valid c owner) (Conflict ''Attempt lease expired'')) (\<lambda>_.
      and_then (tx_read (unresolved_calls runId)) (\<lambda>unsettled.
      and_then (tx_check (\<not> (task_snapshot task0 \<noteq> None \<and> unsettled \<noteq> 0))
        (Conflict ''Unsettled model usage prevents approval'')) (\<lambda>_.
      and_then (attempt_update (att_id attempt)
        (\<lambda>a. a\<lparr> att_status := A_SUCCEEDED, att_endedAt := Some (c_now c) \<rparr>)) (\<lambda>_.
      and_then (persistExtras c attempt run0 task0 outcome) (\<lambda>_.
      and_then (transitionRun c runId R_RUNNING R_VERIFYING) (\<lambda>_.
      and_then (transitionRun c runId R_VERIFYING R_SUCCEEDED) (\<lambda>_.
      and_then (transitionTask taskId T_RUNNING T_AWAITING_APPROVAL) (\<lambda>_.
      and_then (run_update c runId (\<lambda>r. r\<lparr> run_phase := ''AWAITING_APPROVAL'' \<rparr>)) (\<lambda>_.
      and_then (approval_create (new_approval c taskId runId (oc_patch outcome))) (\<lambda>_.
      appendSyntheticEvent c runId (ApprovalEvent AP_PENDING None None) None))))))))))))"

definition interrupt_if_active :: "ctx \<Rightarrow> Run \<Rightarrow> (db, unit) tx" where
  "interrupt_if_active c run0 =
     tx_when (run_status run0 \<in> {R_RUNNING, R_VERIFYING, R_DISPATCHED})
       (transitionRun c (run_id run0) (run_status run0) R_INTERRUPTED)"

definition complete_failure :: "ctx \<Rightarrow> Attempt \<Rightarrow> Run \<Rightarrow> Task \<Rightarrow> Outcome \<Rightarrow> failure_code \<Rightarrow> (db, unit) tx" where
  "complete_failure c attempt run0 task0 outcome code =
     and_then (attempt_findUniqueOrThrow (att_id attempt)) (\<lambda>owner.
     and_then (tx_check (att_status owner = A_RUNNING) (Conflict ''Attempt no longer running'')) (\<lambda>_.
     and_then (attempt_update (att_id attempt)
       (\<lambda>a. a\<lparr> att_status := A_FAILED, att_failureCode := Some code, att_endedAt := Some (c_now c) \<rparr>)) (\<lambda>_.
     and_then (persistExtras c attempt run0 task0 outcome) (\<lambda>_.
     and_then (interrupt_if_active c run0) (\<lambda>_.
     applyPolicy c (run_id run0) (att_id attempt) (att_no attempt) code)))))"

text \<open>The transaction over the rows the handler has read, and its reply.\<close>

definition completeAttempt_tx ::
  "ctx \<Rightarrow> Attempt \<Rightarrow> Run \<Rightarrow> Task \<Rightarrow> Outcome \<Rightarrow> (db, attempt_status \<times> run_status) tx"
where
  "completeAttempt_tx c attempt run0 task0 outcome =
     (if att_status attempt \<noteq> A_RUNNING then tx_return (att_status attempt, run_status run0)
      else case oc_failure outcome of
        None \<Rightarrow> and_then (complete_success c attempt run0 task0 outcome) (\<lambda>_. tx_return (A_SUCCEEDED, R_SUCCEEDED))
      | Some code \<Rightarrow>
          and_then (complete_failure c attempt run0 task0 outcome code) (\<lambda>_.
          and_then (run_findUniqueOrThrow (att_runId attempt)) (\<lambda>run.
          tx_return (A_FAILED, run_status run))))"

text \<open>\<open>findUnique\<close> with \<open>include: { run: { include: { task } } }\<close>.\<close>

definition read_attempt :: "string \<Rightarrow> (db, Attempt \<times> Run \<times> Task) tx" where
  "read_attempt attemptId =
     and_then (tx_read (find_attempt attemptId)) (\<lambda>found.
     and_then (tx_some found (NotFound ''attempt'')) (\<lambda>a.
     and_then (run_findUniqueOrThrow (att_runId a)) (\<lambda>run.
     and_then (task_findUniqueOrThrow (run_taskId run)) (\<lambda>task.
     tx_return (a, run, task)))))"

definition completeAttempt :: "ctx \<Rightarrow> string \<Rightarrow> Outcome \<Rightarrow> (db, attempt_status \<times> run_status) tx" where
  "completeAttempt c attemptId outcome =
     and_then (read_attempt attemptId) (\<lambda>(a, run, task). completeAttempt_tx c a run task outcome)"

section \<open>Checkpoints\<close>

record CheckpointInput =
  kp_attemptId :: string
  kp_threadId :: string
  kp_baseCommit :: string
  kp_appliedPatchSha :: "string option"
  kp_appliedPatch :: "string option"
  kp_completedToolCalls :: "(string \<times> string) list"
  kp_usedTokens :: int
  kp_usedSeconds :: int

definition new_checkpoint :: "ctx \<Rightarrow> string \<Rightarrow> CheckpointInput \<Rightarrow> Checkpoint" where
  "new_checkpoint c runId input =
     \<lparr> cp_id = c_cuid c 0, cp_runId = runId, cp_attemptId = kp_attemptId input,
       cp_threadId = kp_threadId input, cp_baseCommit = kp_baseCommit input,
       cp_appliedPatchSha = kp_appliedPatchSha input, cp_appliedPatch = kp_appliedPatch input,
       cp_completedToolCalls = kp_completedToolCalls input, cp_usedTokens = kp_usedTokens input,
       cp_usedSeconds = kp_usedSeconds input, cp_createdAt = c_now c \<rparr>"

definition saveCheckpoint :: "ctx \<Rightarrow> string \<Rightarrow> CheckpointInput \<Rightarrow> (db, string) tx" where
  "saveCheckpoint c runId input =
     and_then (run_findUniqueOrThrow runId) (\<lambda>run.
     and_then (task_findUniqueOrThrow (run_taskId run)) (\<lambda>task.
     and_then (attempt_findUniqueOrThrow (kp_attemptId input)) (\<lambda>attempt.
     and_then (tx_check (\<not> (att_runId attempt \<noteq> runId \<or> att_status attempt \<noteq> A_RUNNING \<or>
         \<not> lease_valid c attempt \<or> run_status run \<notin> {R_RUNNING, R_VERIFYING} \<or>
         kp_baseCommit input \<noteq> run_baseCommit run))
       (Conflict ''Checkpoint writer no longer owns a running attempt'')) (\<lambda>_.
     and_then (checkpoint_create (new_checkpoint c runId input)) (\<lambda>checkpoint.
     and_then (tx_when (task_snapshot task = None)
       (and_then (run_updateMany c (\<lambda>r. run_id r = runId \<and> run_usedTokens r < kp_usedTokens input)
          (\<lambda>r. r\<lparr> run_usedTokens := kp_usedTokens input \<rparr>)) (\<lambda>_. tx_return ()))) (\<lambda>_.
     tx_return (cp_id checkpoint)))))))"

record LastFailure =
  lf_failureCode :: "failure_code option"
  lf_verification :: "(verifier_step \<times> (string \<times> json) list) option"

record CheckpointReply =
  cr_checkpoint :: Checkpoint
  cr_feedbackMode :: string
  cr_lastFailure :: "LastFailure option"

definition getCheckpoint :: "string \<Rightarrow> (db, CheckpointReply) tx" where
  "getCheckpoint checkpointId =
     and_then (tx_read (\<lambda>d. find_row cp_id checkpointId (checkpoints d))) (\<lambda>found.
     and_then (tx_some found (NotFound ''checkpoint'')) (\<lambda>checkpoint.
     and_then (run_findUniqueOrThrow (cp_runId checkpoint)) (\<lambda>run.
     and_then (tx_read (\<lambda>d. latest_by (\<lambda>a. int (att_no a))
       (filter (\<lambda>a. att_status a \<in> {A_FAILED, A_LEASE_EXPIRED}) (attempts_of (cp_runId checkpoint) d)))) (\<lambda>failed.
     and_then (tx_read (\<lambda>d. case failed of None \<Rightarrow> None | Some a \<Rightarrow>
       latest_by ver_createdAt (filter (\<lambda>v. ver_attemptId v = att_id a \<and> \<not> ver_passed v) (verifications d)))) (\<lambda>ver.
     tx_return \<lparr> cr_checkpoint = checkpoint, cr_feedbackMode = run_feedbackMode run,
       cr_lastFailure = map_option (\<lambda>a. \<lparr> lf_failureCode = att_failureCode a,
         lf_verification = map_option (\<lambda>v. (ver_step v, ver_detail v)) ver \<rparr>) failed \<rparr>)))))"

section \<open>A lost worker\<close>

definition handleLeaseExpired_tx :: "ctx \<Rightarrow> Attempt \<Rightarrow> Run \<Rightarrow> (db, unit) tx" where
  "handleLeaseExpired_tx c attempt run0 =
     and_then (attempt_updateMany (\<lambda>a. att_id a = att_id attempt \<and> att_status a \<in> {A_CLAIMED, A_RUNNING} \<and>
         (case att_leaseExpiresAt a of None \<Rightarrow> False | Some t \<Rightarrow> t \<le> c_now c))
       (\<lambda>a. a\<lparr> att_status := A_LEASE_EXPIRED, att_failureCode := Some WORKER_LOST,
               att_endedAt := Some (c_now c) \<rparr>)) (\<lambda>marked.
     tx_when (marked \<noteq> 0)
       (and_then (interrupt_if_active c run0) (\<lambda>_.
        applyPolicy c (run_id run0) (att_id attempt) (att_no attempt) WORKER_LOST)))"

definition handleLeaseExpired :: "ctx \<Rightarrow> string \<Rightarrow> (db, unit) tx" where
  "handleLeaseExpired c attemptId =
     and_then (tx_read (find_attempt attemptId)) (\<lambda>found.
     case found of
       None \<Rightarrow> tx_return ()
     | Some a \<Rightarrow>
         if att_status a \<noteq> A_RUNNING \<and> att_status a \<noteq> A_CLAIMED then tx_return ()
         else and_then (run_findUniqueOrThrow (att_runId a)) (\<lambda>run. handleLeaseExpired_tx c a run))"

section \<open>The operations are made of the services' writes\<close>

context effects
begin

lemma R_ensureDefaultProject: "tx_rel R (ensureDefaultProject c)"
  unfolding ensureDefaultProject_def by (intro R_ops)

lemma R_createTask_tx: "tx_rel R (createTask_tx c input fixture base)"
  unfolding createTask_tx_def case_prod_beta
  by (intro R_ops R_ensureDefaultProject) (simp add: new_fixture_run_def)

lemma R_createTask: "tx_rel R (createTask c input)"
  unfolding createTask_def Let_def by (intro R_ops R_createTask_tx)

lemma R_claimAttempt_tx: "tx_rel R (claimAttempt_tx c run0 rid n w)"
  unfolding claimAttempt_tx_def by (intro R_ops) (simp_all add: run_core_def activate_def)

lemma R_claimAttempt: "tx_rel R (claimAttempt c rid n w)"
  unfolding claimAttempt_def by (intro R_ops R_claimAttempt_tx)

lemma R_heartbeat: "tx_rel R (heartbeat c aid)"
  unfolding heartbeat_def by (intro R_ops) (simp add: attempt_core_def)

lemma R_persistExtras: "tx_rel R (persistExtras c a run0 task0 outcome)"
  unfolding persistExtras_def charge_active_time_def record_usage_def
  by (intro R_ops) (simp_all add: run_core_def)

lemma R_interrupt_if_active: "tx_rel R (interrupt_if_active c run0)"
  unfolding interrupt_if_active_def by (intro R_ops)

lemma R_complete_failure: "tx_rel R (complete_failure c a run0 task0 outcome code)"
  unfolding complete_failure_def
  by (intro R_ops R_persistExtras R_interrupt_if_active R_applyPolicy) (simp_all add: attempt_core_def)

lemma R_saveCheckpoint: "tx_rel R (saveCheckpoint c rid input)"
  unfolding saveCheckpoint_def by (intro R_ops) (simp add: run_core_def)

lemma R_handleLeaseExpired_tx: "tx_rel R (handleLeaseExpired_tx c a run0)"
  unfolding handleLeaseExpired_tx_def
  by (intro R_ops R_interrupt_if_active R_applyPolicy) (simp_all add: attempt_core_def)

lemma R_handleLeaseExpired: "tx_rel R (handleLeaseExpired c aid)"
  unfolding handleLeaseExpired_def by (intro R_ops R_handleLeaseExpired_tx)

end

context all_effects
begin

lemma R_complete_success: "tx_rel R (complete_success c a run0 task0 outcome)"
  unfolding complete_success_def Let_def
  by (intro R_ops R_approval_create R_persistExtras) (simp_all add: run_core_def attempt_core_def)

lemma R_completeAttempt_tx: "tx_rel R (completeAttempt_tx c a run0 task0 outcome)"
  unfolding completeAttempt_tx_def by (intro R_ops R_complete_success R_complete_failure)

lemma R_completeAttempt: "tx_rel R (completeAttempt c aid outcome)"
  unfolding completeAttempt_def read_attempt_def case_prod_beta by (intro R_ops R_completeAttempt_tx)

end

end
