(* ===== verification/RunControl.thy ===== *)
theory RunControl
  imports Lifecycle
begin

text \<open>
  What a worker and a user may do to a run while it executes (modules/run/run-control.service.ts): the
  lease check, reporting a phase or the environment, pausing, cancelling and resuming.
\<close>

section \<open>The lease\<close>

text \<open>
  The code compares \<open>usedSeconds + (now - started) / 1000\<close> with the budget; on integers both sides are
  scaled to milliseconds.
\<close>

definition time_exhausted :: "ctx \<Rightarrow> Run \<Rightarrow> bool" where
  "time_exhausted c run \<longleftrightarrow>
     deadline_passed c run \<or>
     (case run_activeStartedAt run of None \<Rightarrow> False
      | Some t \<Rightarrow> 1000 * run_budgetSeconds run \<le> 1000 * run_usedSeconds run + (c_now c - t))"

definition lease_held :: "ctx \<Rightarrow> string option \<Rightarrow> Attempt \<Rightarrow> Run \<Rightarrow> bool" where
  "lease_held c token attempt run \<longleftrightarrow>
     truthy token \<and> token = att_leaseToken attempt \<and> att_status attempt = A_RUNNING \<and>
     lease_valid c attempt \<and> run_status run \<in> {R_RUNNING, R_VERIFYING}"

definition lease :: "ctx \<Rightarrow> string \<Rightarrow> string option \<Rightarrow> bool \<Rightarrow> (db, Attempt \<times> Run) tx" where
  "lease c attemptId token checkTime =
     and_then (attempt_findUniqueOrThrow attemptId) (\<lambda>attempt.
     and_then (run_findUniqueOrThrow (att_runId attempt)) (\<lambda>run.
     and_then (tx_check (lease_held c token attempt run) (Conflict ''Lease expired or task stopped'')) (\<lambda>_.
     and_then (tx_check (\<not> (checkTime \<and> time_exhausted c run)) (Conflict ''Task execution time exhausted'')) (\<lambda>_.
     tx_return (attempt, run)))))"

definition withLease ::
  "ctx \<Rightarrow> string \<Rightarrow> string \<Rightarrow> (Attempt \<Rightarrow> Run \<Rightarrow> (db, 'a) tx) \<Rightarrow> bool \<Rightarrow> (db, 'a) tx"
where
  "withLease c attemptId token operation checkTime =
     and_then (attempt_findUniqueOrThrow attemptId) (\<lambda>owner.
     and_then (lease c attemptId (Some token) checkTime) (\<lambda>ar.
     operation (fst ar) (snd ar)))"

section \<open>Progress reports\<close>

definition lower_char :: "char \<Rightarrow> char" where
  "lower_char ch = (let n = of_char ch :: nat in if 65 \<le> n \<and> n \<le> 90 then char_of (n + 32) else ch)"

definition toLowerCase :: "string \<Rightarrow> string" where
  "toLowerCase s = map lower_char s"

record PhaseReply =
  ph_phase :: string
  ph_imageId :: "string option"
  ph_fingerprint :: "string option"

definition phase :: "ctx \<Rightarrow> string \<Rightarrow> string \<Rightarrow> string \<Rightarrow> json option \<Rightarrow> (db, PhaseReply) tx" where
  "phase c attemptId token ph detail =
     withLease c attemptId token (\<lambda>a run.
       and_then (run_update c (run_id run) (\<lambda>r. r\<lparr> run_phase := ph \<rparr>)) (\<lambda>_.
       and_then (case detail of None \<Rightarrow> tx_return ()
         | Some j \<Rightarrow> and_then (artifact_create (new_artifact c 0 a K_TEST_REPORT
             (toLowerCase ph @ ''.json'') (stringify j))) (\<lambda>_. tx_return ())) (\<lambda>_.
       and_then (control_event c (run_id run) (run_phase run) ph) (\<lambda>_.
       and_then (tx_read (\<lambda>d. case present (run_environmentId run) of None \<Rightarrow> None
         | Some eid \<Rightarrow> find_row env_id eid (environments d))) (\<lambda>environment.
       tx_return \<lparr> ph_phase = ph, ph_imageId = run_imageId run,
         ph_fingerprint = map_option env_fingerprint environment \<rparr>))))) True"

text \<open>\<open>upsert\<close> with an empty update returns the existing row.\<close>

definition environment_upsert :: "ctx \<Rightarrow> string \<Rightarrow> string \<Rightarrow> string \<Rightarrow> (db, EnvironmentVersion) tx" where
  "environment_upsert c fingerprint imageId log =
     and_then (find_unique environments env_fingerprint fingerprint) (\<lambda>old.
     case old of
       Some e \<Rightarrow> tx_return e
     | None \<Rightarrow> create_row environments environments_update env_fingerprint
         \<lparr> env_id = c_cuid c 0, env_fingerprint = fingerprint, env_status = ''READY'',
           env_imageId = Some imageId, env_log = log \<rparr>)"

definition environment :: "ctx \<Rightarrow> string \<Rightarrow> string \<Rightarrow> string \<Rightarrow> string \<Rightarrow> string \<Rightarrow> (db, EnvironmentVersion) tx" where
  "environment c attemptId token fingerprint imageId log =
     withLease c attemptId token (\<lambda>a run.
       and_then (tx_check (\<not> (truthy (run_imageId run) \<and> run_imageId run \<noteq> Some imageId))
         (Conflict ''Pinned environment image changed'')) (\<lambda>_.
       and_then (environment_upsert c fingerprint imageId log) (\<lambda>e.
       and_then (tx_check (env_imageId e = Some imageId)
         (Conflict ''Environment fingerprint resolved to a different image'')) (\<lambda>_.
       and_then (run_update c (run_id run)
         (\<lambda>r. r\<lparr> run_environmentId := Some (env_id e), run_imageId := Some imageId \<rparr>)) (\<lambda>_.
       tx_return e))))) True"

section \<open>Pause, cancel, resume\<close>

definition pause :: "ctx \<Rightarrow> string \<Rightarrow> string \<Rightarrow> string \<Rightarrow> string option \<Rightarrow> (db, unit) tx" where
  "pause c attemptId token reason patch =
     withLease c attemptId token (\<lambda>a run.
       and_then (run_update c (run_id run) (\<lambda>r. r\<lparr> run_status := R_INTERRUPTED, run_phase := ''NEEDS_ATTENTION'',
         run_usedSeconds := run_usedSeconds r + active_seconds c run, run_activeStartedAt := None \<rparr>)) (\<lambda>_.
       and_then (attempt_update attemptId (\<lambda>a. a\<lparr> att_status := A_FAILED, att_endedAt := Some (c_now c) \<rparr>)) (\<lambda>_.
       and_then (need_attention (run_taskId run) reason) (\<lambda>_.
       and_then (case present patch of None \<Rightarrow> tx_return ()
         | Some p \<Rightarrow> and_then (artifact_create (new_artifact c 0 a K_PATCH ''candidate.patch'' p)) (\<lambda>_. tx_return ())) (\<lambda>_.
       control_event c (run_id run) (run_status_name (run_status run)) ''INTERRUPTED''))))) False"

definition active_attempt :: "string \<Rightarrow> db \<Rightarrow> Attempt option" where
  "active_attempt runId d =
     latest_by (\<lambda>a. int (att_no a)) (filter (\<lambda>a. att_status a = A_RUNNING) (attempts_of runId d))"

definition pauseRun :: "ctx \<Rightarrow> string \<Rightarrow> (db, unit) tx" where
  "pauseRun c runId =
     and_then (tx_read (active_attempt runId)) (\<lambda>found.
     case found of
       None \<Rightarrow> tx_throw (Conflict ''No active attempt to pause'')
     | Some attempt \<Rightarrow>
         (case present (att_leaseToken attempt) of
            None \<Rightarrow> tx_throw (Conflict ''No active attempt to pause'')
          | Some token \<Rightarrow> pause c (att_id attempt) token ''PAUSED_BY_USER'' None))"

definition cancel :: "ctx \<Rightarrow> string \<Rightarrow> (db, unit) tx" where
  "cancel c runId =
     and_then (run_findUniqueOrThrow runId) (\<lambda>run.
     if run_status run = R_CANCELLED then tx_return ()
     else
       and_then (tx_check (run_status run \<notin> {R_SUCCEEDED, R_FAILED}) (Conflict ''Run is terminal'')) (\<lambda>_.
       and_then (run_update c runId (\<lambda>r. r\<lparr> run_status := R_CANCELLED, run_phase := ''CANCELLED'',
         run_usedSeconds := run_usedSeconds r + active_seconds c run, run_activeStartedAt := None \<rparr>)) (\<lambda>_.
       and_then (task_update (run_taskId run) (\<lambda>t. t\<lparr> task_status := T_CANCELLED \<rparr>)) (\<lambda>_.
       and_then (attempt_updateMany (\<lambda>a. att_runId a = runId \<and> att_status a \<in> {A_RUNNING, A_CLAIMED})
         (\<lambda>a. a\<lparr> att_status := A_FAILED, att_failureCode := Some CANCELLED_BY_USER,
                 att_endedAt := Some (c_now c) \<rparr>)) (\<lambda>_.
       control_event c runId (run_status_name (run_status run)) ''CANCELLED'')))))"

text \<open>\<open>Math.max(0, ...run.attempts.map(a => a.no)) + 1\<close>.\<close>

definition next_no :: "Attempt list \<Rightarrow> nat" where
  "next_no as = foldr max (map att_no as) 0 + 1"

definition resume_allowed :: "ctx \<Rightarrow> Run \<Rightarrow> Attempt list \<Rightarrow> BudgetCall list \<Rightarrow> bool" where
  "resume_allowed c run as calls \<longleftrightarrow>
     \<not> (run_budgetTokens run \<le> run_usedTokens run \<or> run_budgetSeconds run \<le> run_usedSeconds run \<or>
        run_maxAttempts run \<le> length as \<or> list_ex (\<lambda>b. bc_status b \<noteq> B_SETTLED) calls \<or> deadline_passed c run)"

definition CONTRACT_REASONS :: "string list" where
  "CONTRACT_REASONS = [''NOT_REPRODUCED'', ''EVIDENCE_MISMATCH'', ''CONTRACT_CHANGED'']"

definition resume_command ::
  "ctx \<Rightarrow> Run \<Rightarrow> TaskSnapshot \<Rightarrow> Project \<Rightarrow> nat \<Rightarrow> Checkpoint option \<Rightarrow> err + RunCommand" where
  "resume_command c run raw project n checkpoint =
     (case TaskSnapshotSchema (c_isUrl c) raw of
        None \<Rightarrow> Inl (SchemaError ''snapshot'')
      | Some s \<Rightarrow> commandFromSnapshot (c_isUrl c) s (prj_repoPath project) (run_id run) n
          (run_usedTokens run) (run_usedSeconds run) (map_option cp_id checkpoint))"

definition resume :: "ctx \<Rightarrow> string \<Rightarrow> (db, unit) tx" where
  "resume c runId =
     and_then (run_findUniqueOrThrow runId) (\<lambda>run.
     and_then (task_findUniqueOrThrow (run_taskId run)) (\<lambda>task.
     and_then (find_or_throw projects prj_id (task_projectId task)) (\<lambda>project.
     and_then (tx_read (attempts_of runId)) (\<lambda>as.
     and_then (tx_read (calls_of runId)) (\<lambda>calls.
     and_then (tx_check (run_status run = R_INTERRUPTED) (Conflict ''Only paused snapshot tasks can resume'')) (\<lambda>_.
     and_then (tx_some (task_snapshot task) (Conflict ''Only paused snapshot tasks can resume'')) (\<lambda>raw.
     and_then (tx_check (resume_allowed c run as calls)
       (Conflict ''Budget, attempts or unresolved usage prevents resume'')) (\<lambda>_.
     and_then (tx_check ((case task_attentionReason task of None \<Rightarrow> [] | Some r \<Rightarrow> r) \<notin> set CONTRACT_REASONS)
       (Conflict ''Revise the acceptance contract in a new task'')) (\<lambda>_.
     and_then (tx_read (recovery_checkpoint runId P_RESUME)) (\<lambda>checkpoint.
     and_then (tx_lift (resume_command c run raw project (next_no as) checkpoint)) (\<lambda>command.
     and_then (run_update c runId (\<lambda>r. r\<lparr> run_status := R_DISPATCHED, run_phase := ''QUEUED'' \<rparr>)) (\<lambda>_.
     and_then (task_update (run_taskId run)
       (\<lambda>t. t\<lparr> task_status := T_QUEUED, task_attentionReason := None \<rparr>)) (\<lambda>_.
     and_then (outbox_create (run_message c 0 runId command (c_now c))) (\<lambda>_.
     control_event c runId (run_status_name (run_status run)) ''DISPATCHED''))))))))))))))"

section \<open>The operations are made of the services' writes\<close>

context effects
begin

lemma R_withLease:
  "(\<And>a run. tx_rel R (operation a run)) \<Longrightarrow> tx_rel R (withLease c aid token operation checkTime)"
  unfolding withLease_def lease_def by (intro R_ops)

lemma R_phase: "tx_rel R (phase c aid token ph detail)"
  unfolding phase_def by (intro R_ops R_withLease) (simp add: run_core_def)

lemma R_environment_op: "tx_rel R (environment c aid token fp img lg)"
  unfolding environment_def environment_upsert_def
  by (intro R_ops R_withLease) (simp add: run_core_def)

lemma R_pause: "tx_rel R (pause c aid token reason patch)"
  unfolding pause_def
  by (intro R_ops R_withLease R_need_attention) (simp_all add: run_core_def attempt_core_def)

lemma R_pauseRun: "tx_rel R (pauseRun c rid)"
  unfolding pauseRun_def by (intro R_ops R_pause)

lemma R_cancel: "tx_rel R (cancel c rid)"
  unfolding cancel_def by (intro R_ops) (simp_all add: run_core_def attempt_core_def task_core_def)

lemma R_resume: "tx_rel R (resume c rid)"
  unfolding resume_def by (intro R_ops) (simp_all add: run_core_def task_core_def)

end

end
