(* ===== verification/BudgetCalls.thy ===== *)
theory BudgetCalls
  imports RunControl
begin

text \<open>
  The token ledger of a run (modules/run/budget.service.ts): a model call is reserved before it is
  made and settled with what it used.  A call costs what it used, or what it reserved while that is
  unknown.
\<close>

definition call_cost :: "BudgetCall \<Rightarrow> int" where
  "call_cost b = (case bc_used b of None \<Rightarrow> bc_reserved b | Some n \<Rightarrow> n)"

definition total_cost :: "BudgetCall list \<Rightarrow> int" where
  "total_cost calls = sum_list (map call_cost calls)"

definition availableBudget :: "int \<Rightarrow> BudgetCall list \<Rightarrow> int" where
  "availableBudget limit calls = max 0 (limit - total_cost calls)"

text \<open>Time used, in milliseconds: the code's fractional seconds scaled by 1000.\<close>

definition elapsed_ms :: "ctx \<Rightarrow> Run \<Rightarrow> int" where
  "elapsed_ms c run =
     1000 * run_usedSeconds run + (case run_activeStartedAt run of None \<Rightarrow> 0 | Some t \<Rightarrow> c_now c - t)"

text \<open>
  The owner of a call.  The token is the header of the request, which may be missing: a \<open>where\<close> clause
  leaves out a condition whose value is \<open>undefined\<close>.
\<close>

definition call_owner :: "ctx \<Rightarrow> string \<Rightarrow> string \<Rightarrow> string option \<Rightarrow> db \<Rightarrow> Attempt option" where
  "call_owner c runId attemptId leaseToken d =
     List.find (\<lambda>a. att_id a = attemptId \<and> att_runId a = runId \<and>
       (leaseToken = None \<or> att_leaseToken a = leaseToken) \<and>
       att_status a = A_RUNNING \<and> lease_valid c a) (attempts d)"

text \<open>The reply is the call and the remaining time in milliseconds.\<close>

definition reserve :: "ctx \<Rightarrow> string \<Rightarrow> string \<Rightarrow> string option \<Rightarrow> string \<Rightarrow> int \<Rightarrow> (db, BudgetCall \<times> int) tx" where
  "reserve c runId attemptId leaseToken callId reserved =
     and_then (run_findUniqueOrThrow runId) (\<lambda>run.
     and_then (tx_read (calls_of runId)) (\<lambda>calls.
     and_then (tx_read (call_owner c runId attemptId leaseToken)) (\<lambda>attempt.
     and_then (tx_check (attempt \<noteq> None \<and> run_status run \<in> {R_RUNNING, R_VERIFYING})
       (Conflict ''Execution lease is no longer valid'')) (\<lambda>_.
     and_then (tx_check (\<not> deadline_passed c run) (Conflict ''Task expired'')) (\<lambda>_.
     and_then (tx_check (elapsed_ms c run < 1000 * run_budgetSeconds run)
       (Conflict ''Task time budget exhausted'')) (\<lambda>_.
     and_then (find_unique budgetCalls bc_id callId) (\<lambda>prior.
     and_then (tx_check (prior = None) (Conflict ''Model request already reserved'')) (\<lambda>_.
     and_then (tx_check (reserved \<le> availableBudget (run_budgetTokens run) calls)
       (Conflict ''Task token budget exhausted'')) (\<lambda>_.
     and_then (budgetCall_create
       \<lparr> bc_id = callId, bc_runId = runId, bc_reserved = reserved, bc_used = None, bc_status = B_RESERVED \<rparr>) (\<lambda>call.
     tx_return (call, max 0 (1000 * run_budgetSeconds run - elapsed_ms c run))))))))))))"

definition settle :: "ctx \<Rightarrow> string \<Rightarrow> string \<Rightarrow> int option \<Rightarrow> (db, BudgetCall) tx" where
  "settle c runId callId used =
     and_then (find_or_throw budgetCalls bc_id callId) (\<lambda>call.
     and_then (tx_check (bc_runId call = runId) (Conflict ''Call belongs to another task'')) (\<lambda>_.
     if bc_status call = B_SETTLED
     then and_then (tx_check (bc_used call = used) (Conflict ''Conflicting model usage'')) (\<lambda>_. tx_return call)
     else
       and_then (budgetCall_update callId (\<lambda>b. b\<lparr> bc_used := used,
         bc_status := (if used = None then B_UNKNOWN else B_SETTLED) \<rparr>)) (\<lambda>result.
       and_then (tx_read (calls_of runId)) (\<lambda>calls.
       and_then (run_update c runId (\<lambda>r. r\<lparr> run_usedTokens := total_cost calls \<rparr>)) (\<lambda>_.
       tx_return result)))))"

context effects
begin

lemma R_reserve: "tx_rel R (reserve c rid aid token bid n)"
  unfolding reserve_def by (intro R_ops)

lemma R_settle: "tx_rel R (settle c rid bid used)"
  unfolding settle_def by (intro R_ops) (simp add: run_core_def)

end

section \<open>The ledger stays within the budget\<close>

lemma total_cost_append [simp]: "total_cost (xs @ ys) = total_cost xs + total_cost ys"
  by (simp add: total_cost_def)

lemma total_cost_Nil [simp]: "total_cost [] = 0"
  by (simp add: total_cost_def)

lemma total_cost_Cons [simp]: "total_cost (x # xs) = call_cost x + total_cost xs"
  by (simp add: total_cost_def)

lemma total_cost_update_row:
  assumes "distinct (map bc_id rows)" and "find_row bc_id k rows = Some b" and "q b"
    and "\<And>b. q (f b) = q b"
  shows "total_cost (filter q (update_rows (\<lambda>b. bc_id b = k) f rows)) =
    total_cost (filter q rows) - call_cost b + call_cost (f b)"
  using assms
proof (induction rows)
  case Nil
  then show ?case by simp
next
  case (Cons r rows)
  show ?case
  proof (cases "bc_id r = k")
    case True
    with Cons.prems have b: "r = b" and "k \<notin> bc_id ` set rows" by auto
    then have "update_rows (\<lambda>b. bc_id b = k) f rows = rows"
      by (intro update_rows_None) auto
    with b True Cons.prems show ?thesis by (simp add: update_rows_def)
  next
    case False
    with Cons show ?thesis by (simp add: update_rows_def)
  qed
qed

definition within_budget :: "string \<Rightarrow> db \<Rightarrow> bool" where
  "within_budget runId d \<longleftrightarrow>
     (\<forall>run. find_run runId d = Some run \<longrightarrow> total_cost (calls_of runId d) \<le> run_budgetTokens run)"

lemma reserve_effect:
  assumes "reserve c rid aid token bid n d = Inr (res, d')"
  shows "\<exists>run. find_run rid d = Some run \<and> run_status run \<in> {R_RUNNING, R_VERIFYING} \<and>
    n \<le> availableBudget (run_budgetTokens run) (calls_of rid d) \<and>
    find_call bid d = None \<and> elapsed_ms c run < 1000 * run_budgetSeconds run \<and>
    res = (\<lparr> bc_id = bid, bc_runId = rid, bc_reserved = n, bc_used = None, bc_status = B_RESERVED \<rparr>,
           1000 * run_budgetSeconds run - elapsed_ms c run) \<and>
    d' = d\<lparr> budgetCalls := budgetCalls d @ [fst res] \<rparr>"
  using assms by (auto simp: reserve_def tx_iff)

text \<open>
  C21. A reservation never overcommits the run: whatever the earlier calls were, after a successful
  reservation of a positive number of tokens the costs of all calls of the run, the new one
  included, are within its token budget, the new call is the only change to the ledger, and time was left.
\<close>

theorem reserve_within_budget:
  assumes "reserve c rid aid token bid n d = Inr (res, d')" and "0 < n"
  shows "within_budget rid d' \<and> calls_of rid d' = calls_of rid d @ [fst res] \<and> 0 < snd res"
proof -
  obtain run where run: "find_run rid d = Some run"
      and avail: "n \<le> availableBudget (run_budgetTokens run) (calls_of rid d)"
      and res: "fst res = \<lparr> bc_id = bid, bc_runId = rid, bc_reserved = n, bc_used = None, bc_status = B_RESERVED \<rparr>"
        "0 < snd res"
      and d': "d' = d\<lparr> budgetCalls := budgetCalls d @ [fst res] \<rparr>"
    using reserve_effect [OF assms(1)] by auto
  have "total_cost (calls_of rid d) + n \<le> run_budgetTokens run"
    using avail assms(2) by (auto simp: availableBudget_def)
  then show ?thesis
    using run res d' by (simp add: within_budget_def call_cost_def)
qed

section \<open>Settling\<close>

lemma settle_cases:
  assumes "settle c rid bid used d = Inr (res, d')"
  obtains (again) call where "find_call bid d = Some call" "bc_status call = B_SETTLED" "bc_used call = used"
      "res = call" "d' = d"
    | (first) call where "find_call bid d = Some call" "bc_runId call = rid" "bc_status call \<noteq> B_SETTLED"
      "res = call\<lparr> bc_used := used, bc_status := (if used = None then B_UNKNOWN else B_SETTLED) \<rparr>"
      "budgetCalls d' = update_rows (\<lambda>b. bc_id b = bid) (\<lambda>b. b\<lparr> bc_used := used,
         bc_status := (if used = None then B_UNKNOWN else B_SETTLED) \<rparr>) (budgetCalls d)"
      "runs d' = update_rows (\<lambda>r. run_id r = rid) (\<lambda>r. r\<lparr> run_usedTokens := total_cost (calls_of rid d'),
         run_updatedAt := c_now c \<rparr>) (runs d)"
proof -
  obtain call where call: "find_call bid d = Some call" "bc_runId call = rid"
    using assms by (auto simp: settle_def and_then_iff find_or_throw_iff tx_check_iff)
  show thesis
  proof (cases "bc_status call = B_SETTLED")
    case True
    with assms call have "bc_used call = used" "res = call" "d' = d"
      by (simp_all add: settle_def and_then_iff find_or_throw_iff tx_check_iff tx_return_iff)
    with call True again show thesis by blast
  next
    case False
    with assms call have "res = call\<lparr> bc_used := used, bc_status := (if used = None then B_UNKNOWN else B_SETTLED) \<rparr> \<and>
        budgetCalls d' = update_rows (\<lambda>b. bc_id b = bid) (\<lambda>b. b\<lparr> bc_used := used,
          bc_status := (if used = None then B_UNKNOWN else B_SETTLED) \<rparr>) (budgetCalls d) \<and>
        runs d' = update_rows (\<lambda>r. run_id r = rid) (\<lambda>r. r\<lparr> run_usedTokens := total_cost (calls_of rid d'),
          run_updatedAt := c_now c \<rparr>) (runs d)"
      unfolding settle_def and_then_iff find_or_throw_iff tx_check_iff
      by (clarsimp simp: and_then_iff budgetCall_update_iff run_update_iff tx_read_iff tx_return_iff)
    with call False first show thesis by blast
  qed
qed

text \<open>
  C22. Settling is idempotent and never overwritten: a call settled with a number of tokens can be
  settled again only with the same number, which changes nothing and returns the same row; any other
  number, or unknown usage, is refused.
\<close>

theorem settle_once:
  assumes "settle c rid bid (Some used) d = Inr (res, d')"
  shows "settle c' rid bid again d' = (if again = Some used then Inr (res, d') else Inl (Conflict ''Conflicting model usage''))"
proof -
  have "find_call bid d' = Some res \<and> bc_status res = B_SETTLED \<and> bc_used res = Some used \<and> bc_runId res = rid"
    using assms
  proof (cases rule: settle_cases)
    case (again call)
    with assms show ?thesis by (auto simp: settle_def tx_iff)
  next
    case (first call)
    then show ?thesis by (simp add: find_row_update_key)
  qed
  then show ?thesis
    by (auto simp: settle_def find_or_throw_def find_unique_def tx_run)
qed

text \<open>
  A settlement books exactly the difference: the run's recorded usage becomes the cost of all its
  calls, which changed by what the call used minus what it had been counted for; when no call uses
  more than it reserved, the ledger stays within the budget.
\<close>

theorem settle_books_difference:
  assumes "settle c rid bid used d = Inr (res, d')" and "distinct (map bc_id (budgetCalls d))"
    and "find_call bid d = Some call" and "bc_status call \<noteq> B_SETTLED" and "find_run rid d' = Some run"
  shows "run_usedTokens run = total_cost (calls_of rid d') \<and>
    total_cost (calls_of rid d') =
      total_cost (calls_of rid d) - call_cost call + (case used of None \<Rightarrow> bc_reserved call | Some n \<Rightarrow> n) \<and>
    ((\<forall>n. used = Some n \<longrightarrow> n \<le> call_cost call) \<longrightarrow> bc_used call = None \<longrightarrow> within_budget rid d \<longrightarrow> within_budget rid d')"
  using assms(1)
proof (cases rule: settle_cases)
  case (again x)
  with assms show ?thesis by simp
next
  case (first x)
  then have x: "x = call" using assms by simp
  obtain run0 where run0: "find_run rid d = Some run0" and run: "run_usedTokens run = total_cost (calls_of rid d')"
      "run_budgetTokens run = run_budgetTokens run0"
    using assms(5) first by (auto simp: find_row_update_key)
  have cost: "total_cost (calls_of rid d') =
      total_cost (calls_of rid d) - call_cost call + (case used of None \<Rightarrow> bc_reserved call | Some n \<Rightarrow> n)"
    using first x assms(2)
    by (subst first(5), subst total_cost_update_row [where b = call])
      (auto simp: call_cost_def split: option.splits)
  show ?thesis
    using run run0 cost assms(5)
    by (auto simp: within_budget_def call_cost_def split: option.splits)
qed

end
