(* ===== verification/Drafts.thy ===== *)
theory Drafts
  imports RunControl
begin

text \<open>
  Repositories, their versioned configuration, and drafts: repository.service.ts and git-store.ts of
  modules/repository, task-draft.service.ts of modules/task.  A draft freezes a parsed snapshot; its
  confirmation creates the task, its run and the first command in one transaction, at most once per
  confirmation key.
\<close>

section \<open>The snapshot as JSON\<close>

definition delivery_kind_name :: "delivery_kind \<Rightarrow> string" where
  "delivery_kind_name k = (case k of D_PATCH \<Rightarrow> ''patch'' | D_PULL_REQUEST \<Rightarrow> ''pull-request'')"

definition preparation_name :: "preparation \<Rightarrow> string" where
  "preparation_name p = (case p of PREP_IMAGE \<Rightarrow> ''image'' | PREP_REQUIREMENTS \<Rightarrow> ''requirements'')"

definition runtime_name :: "runtime \<Rightarrow> string" where
  "runtime_name r = (case r of PYTHON_PYTEST \<Rightarrow> ''python-pytest'')"

text \<open>An absent optional field has no entry.\<close>

definition optional_entry :: "string \<Rightarrow> ('a \<Rightarrow> json) \<Rightarrow> 'a option \<Rightarrow> (string \<times> json) list" where
  "optional_entry k f x = (case x of None \<Rightarrow> [] | Some v \<Rightarrow> [(k, f v)])"

definition strings_json :: "string list \<Rightarrow> json" where
  "strings_json ss = JArr (map JStr ss)"

definition config_json :: "RepositoryConfig \<Rightarrow> json" where
  "config_json c = JObj (
     [(''runtime'', JStr (runtime_name (rc_runtime c)))] @
     optional_entry ''defaultDelivery'' (\<lambda>k. JStr (delivery_kind_name k)) (rc_defaultDelivery c) @
     [(''preparation'', JStr (preparation_name (rc_preparation c))), (''image'', JStr (rc_image c)),
      (''dependencyFiles'', strings_json (rc_dependencyFiles c)), (''workdir'', JStr (rc_workdir c)),
      (''allowedPaths'', strings_json (rc_allowedPaths c)),
      (''protectedPaths'', strings_json (rc_protectedPaths c)),
      (''staticCheck'', strings_json (rc_staticCheck c)), (''failToPass'', strings_json (rc_failToPass c)),
      (''passToPass'', strings_json (rc_passToPass c)),
      (''acceptanceCriteria'', strings_json (rc_acceptanceCriteria c))])"

definition source_json :: "SnapshotSource \<Rightarrow> json" where
  "source_json q = JObj [(''prUrl'', JStr (ss_prUrl q)), (''headSha'', JStr (ss_headSha q)),
     (''baseSha'', JStr (ss_baseSha q)),
     (''ciSha'', case ss_ciSha q of None \<Rightarrow> JNull | Some s \<Rightarrow> JStr s), (''evidence'', JStr (ss_evidence q))]"

definition snapshot_json :: "TaskSnapshot \<Rightarrow> json" where
  "snapshot_json s = JObj (
     [(''schemaVersion'', JNum 2), (''mode'', JStr ''REAL''), (''repositoryId'', JStr (sn_repositoryId s))] @
     optional_entry ''parentTaskId'' JStr (sn_parentTaskId s) @
     [(''configVersion'', JNum (int (sn_configVersion s))), (''executionSha'', JStr (sn_executionSha s)),
      (''agentKind'', JStr (agent_kind_name (sn_agentKind s))), (''title'', JStr (sn_title s)),
      (''description'', JStr (sn_description s)), (''config'', config_json (sn_config s)),
      (''baseline'', JObj [(''command'', JStr (bl_command (sn_baseline s))),
         (''expected'', strings_json (bl_expected (sn_baseline s)))]),
      (''budget'', JObj [(''tokens'', JNum (sb_tokens (sn_budget s))), (''seconds'', JNum (sb_seconds (sn_budget s))),
         (''turns'', JNum (sb_turns (sn_budget s))), (''maxAttempts'', JNum (int (sb_maxAttempts (sn_budget s))))]),
      (''delivery'', JObj [(''kind'', JStr (delivery_kind_name (sd_kind (sn_delivery s)))),
         (''targetBranch'', JStr (sd_targetBranch (sn_delivery s))),
         (''expectedTargetSha'', JStr (sd_expectedTargetSha (sn_delivery s)))])] @
     optional_entry ''source'' source_json (sn_source s))"

definition digest_json :: "ctx \<Rightarrow> json \<Rightarrow> string" where
  "digest_json c v = digestSnapshot (c_sha256 c) (c_localeLe c) v"

section \<open>The git store\<close>

definition word_char :: "char \<Rightarrow> bool" where
  "word_char ch \<longleftrightarrow> (let n = of_char ch :: nat in
     (48 \<le> n \<and> n \<le> 57) \<or> (65 \<le> n \<and> n \<le> 90) \<or> (97 \<le> n \<and> n \<le> 122) \<or> n = 95)"

text \<open>\<open>[\w.-]+\<close> and \<open>/^[\w.-]+\/[\w.-]+$/\<close>; a missing name is the string \<open>null\<close>, which has no slash.\<close>

definition name_part :: "string \<Rightarrow> bool" where
  "name_part s \<longleftrightarrow> s \<noteq> [] \<and> list_all (\<lambda>ch. word_char ch \<or> ch = CHR ''.'' \<or> ch = CHR ''-'') s"

definition repo_name_ok :: "string option \<Rightarrow> bool" where
  "repo_name_ok r = (case r of None \<Rightarrow> False
     | Some s \<Rightarrow> (case split_on CHR ''/'' s of [a, b] \<Rightarrow> name_part a \<and> name_part b | _ \<Rightarrow> False))"

definition ensureCommit :: "ctx \<Rightarrow> string \<Rightarrow> string option \<Rightarrow> string \<Rightarrow> string option \<Rightarrow> err + string" where
  "ensureCommit c path repo sha credential =
     (if \<not> GitShaSchema sha then Inl (SchemaError ''sha'')
      else case git_resolve c path sha of
        Inr out \<Rightarrow> Inr out
      | Inl _ \<Rightarrow>
          if \<not> repo_name_ok repo then Inl (Failure ''Invalid repository'')
          else (case c_fetch c path (the repo) sha (present credential) of
              Inl _ \<Rightarrow> Inl (Failure ''Cannot obtain confirmed commit'')
            | Inr git' \<Rightarrow>
                (case git_resolve (c\<lparr> c_git := git' \<rparr>) path sha of
                   Inl _ \<Rightarrow> Inl (Failure ''Cannot obtain confirmed commit'')
                 | Inr out \<Rightarrow> Inr out)))"

definition task_ref_ok :: "string \<Rightarrow> bool" where
  "task_ref_ok s \<longleftrightarrow> s \<noteq> [] \<and> list_all (\<lambda>ch. word_char ch \<or> ch = CHR ''-'') s"

definition pin :: "ctx \<Rightarrow> string \<Rightarrow> string \<Rightarrow> string \<Rightarrow> err + unit" where
  "pin c path sha taskId =
     (if \<not> GitShaSchema sha then Inl (SchemaError ''sha'')
      else if \<not> task_ref_ok taskId then Inl (Failure ''Invalid task identifier'')
      else case git_run c path [''update-ref'', ''refs/arp/tasks/'' @ taskId, sha] of
        Inl e \<Rightarrow> Inl e | Inr _ \<Rightarrow> Inr ())"

section \<open>Repositories\<close>

definition configs_of :: "string \<Rightarrow> db \<Rightarrow> RepositoryConfigVersion list" where
  "configs_of projectId d = filter (\<lambda>v. rcv_projectId v = projectId) (configs d)"

definition repository_get :: "string \<Rightarrow> (db, Project) tx" where
  "repository_get rid =
     and_then (find_unique projects prj_id rid) (\<lambda>found.
     case found of None \<Rightarrow> tx_throw (NotFound ''Repository not found'')
     | Some p \<Rightarrow> if truthy (prj_repoUrl p) then tx_return p else tx_throw (NotFound ''Repository not found''))"

definition configure :: "string \<Rightarrow> RepositoryConfig \<Rightarrow> (db, RepositoryConfigVersion) tx" where
  "configure rid raw =
     (case RepositoryConfigSchema raw of
        None \<Rightarrow> tx_throw (BadRequest ''config'')
      | Some cfg \<Rightarrow>
          and_then (repository_get rid) (\<lambda>_.
          and_then (tx_read (\<lambda>d. latest_by (\<lambda>v. int (rcv_version v)) (configs_of rid d))) (\<lambda>last.
          (let row = \<lparr> rcv_projectId = rid,
                 rcv_version = (case last of None \<Rightarrow> 0 | Some v \<Rightarrow> rcv_version v) + 1, rcv_config = cfg \<rparr> in
           and_then (tx_modify (configs_update (\<lambda>rows. rows @ [row]))) (\<lambda>_. tx_return row)))))"

section \<open>Drafts\<close>

definition environment_keys :: "RepositoryConfig \<Rightarrow> json list" where
  "environment_keys cfg = [JStr (runtime_name (rc_runtime cfg)), JStr (preparation_name (rc_preparation cfg)),
     JStr (rc_image cfg), strings_json (rc_dependencyFiles cfg)]"

definition createDraft :: "ctx \<Rightarrow> TaskSnapshot \<Rightarrow> (db, TaskDraft) tx" where
  "createDraft c raw =
     (case TaskSnapshotSchema (c_isUrl c) raw of
        None \<Rightarrow> tx_throw (BadRequest ''snapshot'')
      | Some snapshot \<Rightarrow>
          and_then (case sn_parentTaskId snapshot of None \<Rightarrow> tx_return ()
            | Some parentId \<Rightarrow>
                and_then (task_findUniqueOrThrow parentId) (\<lambda>parent.
                tx_check (task_projectId parent = sn_repositoryId snapshot)
                  (BadRequest ''Successor must use the same repository''))) (\<lambda>_.
          and_then (tx_check (case sn_source snapshot of None \<Rightarrow> True
              | Some q \<Rightarrow> ss_headSha q = sn_executionSha snapshot)
            (BadRequest ''PR tasks must execute the imported head SHA'')) (\<lambda>_.
          and_then (repository_get (sn_repositoryId snapshot)) (\<lambda>repo.
          and_then (tx_read (\<lambda>d. find_row rcv_version (sn_configVersion snapshot) (configs_of (prj_id repo) d))) (\<lambda>found.
          and_then (tx_some found (BadRequest ''Configuration version not found'')) (\<lambda>version.
          and_then (tx_check (map (digest_json c) (environment_keys (rcv_config version)) =
              map (digest_json c) (environment_keys (sn_config snapshot)))
            (Conflict ''Environment differs from saved configuration'')) (\<lambda>_.
          and_then (tx_lift (ensureCommit c (prj_repoPath repo) (prj_githubRepo repo) (sn_executionSha snapshot)
            (prj_readCredential repo))) (\<lambda>_.
          and_then (tx_lift (pin c (prj_repoPath repo) (sn_executionSha snapshot) (c_uuid c))) (\<lambda>_.
          create_row drafts drafts_update draft_id
            \<lparr> draft_id = c_uuid c, draft_projectId = prj_id repo, draft_snapshot = snapshot, draft_revision = 1,
              draft_expiresAt = c_now c + 86400000 \<rparr>)))))))))"

section \<open>Confirming a draft\<close>

definition find_confirmed :: "string \<Rightarrow> db \<Rightarrow> Task option" where
  "find_confirmed key d = find_row task_confirmationKey (Some key) (tasks d)"

definition first_run :: "string \<Rightarrow> db \<Rightarrow> Run option" where
  "first_run taskId d = find_row run_taskId taskId (runs d)"

text \<open>A task that already carries the key: the same digest returns it, another one is a conflict.\<close>

definition reuse_confirmed :: "Task \<Rightarrow> string \<Rightarrow> (db, string \<times> string) tx" where
  "reuse_confirmed task digest =
     and_then (tx_check (task_snapshotDigest task = Some digest)
       (Conflict ''Idempotency key reused with different input'')) (\<lambda>_.
     and_then (tx_read (first_run (task_id task))) (\<lambda>found.
     and_then (tx_some found (Failure ''runs[0]'')) (\<lambda>run.
     tx_return (task_id task, run_id run))))"

definition new_snapshot_task :: "ctx \<Rightarrow> Project \<Rightarrow> TaskSnapshot \<Rightarrow> string \<Rightarrow> string \<Rightarrow> Task" where
  "new_snapshot_task c repo snapshot digest key =
     \<lparr> task_id = c_cuid c 0, task_projectId = prj_id repo, task_title = sn_title snapshot,
       task_description = sn_description snapshot, task_source = S_MANUAL,
       task_sourceRef = map_option ss_prUrl (sn_source snapshot), task_fixtureId = None,
       task_status = T_QUEUED, task_allowedPaths = rc_allowedPaths (sn_config snapshot),
       task_createdAt = c_now c, task_snapshot = Some snapshot, task_snapshotDigest = Some digest,
       task_confirmationKey = Some key, task_parentTaskId = sn_parentTaskId snapshot,
       task_attentionReason = None \<rparr>"

definition new_snapshot_run :: "ctx \<Rightarrow> TaskSnapshot \<Rightarrow> string \<Rightarrow> Run" where
  "new_snapshot_run c snapshot taskId =
     (let b = sn_budget snapshot in
      \<lparr> run_id = c_cuid c 1, run_taskId = taskId, run_agentKind = sn_agentKind snapshot,
        run_status = R_DISPATCHED, run_baseCommit = sn_executionSha snapshot,
        run_maxAttempts = sb_maxAttempts b, run_budgetTokens = sb_tokens b, run_budgetSeconds = sb_seconds b,
        run_budgetTurns = sb_turns b, run_usedTokens = 0, run_usedSeconds = 0, run_lastSequence = 0,
        run_recoveryDisabled = False, run_feedbackMode = ''structured'', run_createdAt = c_now c,
        run_updatedAt = c_now c, run_phase = ''QUEUED'', run_environmentId = None, run_imageId = None,
        run_activeStartedAt = None, run_deadlineAt = Some (c_now c + 7 * 86400000) \<rparr>)"

definition confirm_tx :: "ctx \<Rightarrow> Project \<Rightarrow> TaskSnapshot \<Rightarrow> string \<Rightarrow> string \<Rightarrow> (db, string \<times> string) tx" where
  "confirm_tx c repo snapshot digest key =
     and_then (tx_read (find_confirmed key)) (\<lambda>prior.
     case prior of
       Some task \<Rightarrow> reuse_confirmed task digest
     | None \<Rightarrow>
         and_then (task_create (new_snapshot_task c repo snapshot digest key)) (\<lambda>task.
         and_then (run_create (new_snapshot_run c snapshot (task_id task))) (\<lambda>run.
         and_then (tx_lift (commandFromSnapshot (c_isUrl c) snapshot (prj_repoPath repo) (run_id run) 1 0 0 None)) (\<lambda>cmd.
         and_then (outbox_create (run_message c 2 (run_id run) cmd (c_now c))) (\<lambda>_.
         tx_return (task_id task, run_id run))))))"

definition source_unmoved :: "ctx \<Rightarrow> Project \<Rightarrow> TaskSnapshot \<Rightarrow> bool \<Rightarrow> err + unit" where
  "source_unmoved c repo snapshot keepPinned =
     (case sn_source snapshot of
        None \<Rightarrow> Inr ()
      | Some q \<Rightarrow>
          (case c_prHead c (ss_prUrl q) (prj_githubRepo repo) (prj_readCredential repo) of
             Inl e \<Rightarrow> Inl e
           | Inr head \<Rightarrow> if head \<noteq> sn_executionSha snapshot \<and> \<not> keepPinned
               then Inl (Conflict ''PR changed; refresh draft or explicitly keep the pinned SHA'') else Inr ()))"

definition confirm :: "ctx \<Rightarrow> string \<Rightarrow> nat \<Rightarrow> string \<Rightarrow> bool \<Rightarrow> bool \<Rightarrow> (db, string \<times> string) tx" where
  "confirm c draftId revision key testsConfirmed keepPinned =
     and_then (tx_check (testsConfirmed \<and> key \<noteq> [] \<and> length key \<le> 200)
       (BadRequest ''Confirm tests and supply an idempotency key'')) (\<lambda>_.
     and_then (find_unique drafts draft_id draftId) (\<lambda>found.
     and_then (tx_some found (NotFound ''Draft not found'')) (\<lambda>draft.
     and_then (tx_some (TaskSnapshotSchema (c_isUrl c) (draft_snapshot draft)) (SchemaError ''snapshot'')) (\<lambda>snapshot.
     and_then (tx_read (find_confirmed key)) (\<lambda>existing.
     case existing of
       Some task \<Rightarrow> reuse_confirmed task (digest_json c (snapshot_json snapshot))
     | None \<Rightarrow>
         and_then (tx_check (draft_revision draft = revision \<and> c_now c \<le> draft_expiresAt draft)
           (Conflict ''Draft expired or changed'')) (\<lambda>_.
         and_then (repository_get (draft_projectId draft)) (\<lambda>repo.
         and_then (tx_lift (source_unmoved c repo snapshot keepPinned)) (\<lambda>_.
         and_then (tx_lift (ensureCommit c (prj_repoPath repo) (prj_githubRepo repo) (sn_executionSha snapshot)
           (prj_readCredential repo))) (\<lambda>_.
         confirm_tx c repo snapshot (digest_json c (snapshot_json snapshot)) key)))))))))"

context effects
begin

lemma R_repository_get: "tx_rel R (repository_get rid)"
  unfolding repository_get_def by (intro R_ops)

lemma R_configure: "tx_rel R (configure rid raw)"
  unfolding configure_def Let_def by (intro R_ops R_repository_get)

lemma R_createDraft: "tx_rel R (createDraft c raw)"
  unfolding createDraft_def by (intro R_ops R_repository_get)

lemma R_reuse_confirmed: "tx_rel R (reuse_confirmed task digest)"
  unfolding reuse_confirmed_def by (intro R_ops)

lemma R_confirm_tx: "tx_rel R (confirm_tx c repo snapshot digest key)"
  unfolding confirm_tx_def
  by (intro R_ops R_reuse_confirmed) (simp add: new_snapshot_run_def Let_def)

lemma R_confirm: "tx_rel R (confirm c draftId revision key testsConfirmed keepPinned)"
  unfolding confirm_def by (intro R_ops R_reuse_confirmed R_repository_get R_confirm_tx)

end

end
