(* ===== verification/Machine.thy ===== *)
theory Machine
  imports BudgetCalls Drafts
begin

text \<open>
  The run machine: what a run is to the rest of the system, its status, its attempts and the commands
  sent for it, as an abstract state (\<open>rview\<close>) with the steps that may change it (\<open>run_step\<close>).  This
  theory computes how each operation of the services changes the view of every run.
\<close>

section \<open>The view of a run\<close>

text \<open>\<open>rv_status\<close> is \<open>None\<close> for a run that does not exist.\<close>

record rview =
  rv_status :: "run_status option"
  rv_attempts :: "(string \<times> nat \<times> attempt_status) list"
  rv_commands :: "nat list"
  rv_max :: nat

definition attempt_view :: "Attempt \<Rightarrow> string \<times> nat \<times> attempt_status" where
  "attempt_view a = (att_id a, att_no a, att_status a)"

definition view :: "db \<Rightarrow> string \<Rightarrow> rview" where
  "view d rid = \<lparr> rv_status = map_option run_status (find_run rid d),
     rv_attempts = map attempt_view (attempts_of rid d),
     rv_commands = map (\<lambda>m. cmd_attemptNo (msg_payload m)) (messages_of rid d),
     rv_max = (case find_run rid d of None \<Rightarrow> 0 | Some r \<Rightarrow> run_maxAttempts r) \<rparr>"

definition set_attempt :: "string \<Rightarrow> attempt_status \<Rightarrow> rview \<Rightarrow> rview" where
  "set_attempt aid s v = v\<lparr> rv_attempts := map (\<lambda>(i, n, t). (i, n, if i = aid then s else t)) (rv_attempts v) \<rparr>"

text \<open>\<open>quiet\<close>: the transaction keeps the database well-formed and changes no run's view.\<close>

definition same_view :: "db \<Rightarrow> db \<Rightarrow> bool" where
  "same_view d d' \<longleftrightarrow> (wf_db d \<longrightarrow> wf_db d' \<and> view d' = view d)"

abbreviation quiet :: "(db, 'a) tx \<Rightarrow> bool" where
  "quiet m \<equiv> tx_rel same_view m"

lemma quietD: "quiet m \<Longrightarrow> wf_db d \<Longrightarrow> m d = Inr (a, d') \<Longrightarrow> wf_db d' \<and> view d' = view d"
  unfolding tx_rel_def same_view_def by blast

lemma same_view_refl: "reflp same_view"
  by (simp add: reflp_def same_view_def)

lemma same_view_trans: "transp same_view"
  by (auto simp: transp_def same_view_def)

lemma view_frame:
  "runs d' = runs d \<Longrightarrow> attempts d' = attempts d \<Longrightarrow> outbox d' = outbox d \<Longrightarrow> view d' = view d"
  by (simp add: view_def fun_eq_iff)

lemma view_run_update:
  assumes "\<And>r. run_id (f r) = run_id r \<and> run_status (f r) = run_status r \<and> run_maxAttempts (f r) = run_maxAttempts r"
  shows "view (d\<lparr> runs := update_rows p f (runs d) \<rparr>) = view d"
  using assms
  by (auto simp: view_def fun_eq_iff find_row_update option.map_comp comp_def intro: option.map_cong split: option.splits)

lemma wfI: "tx_rel keeps_wf m \<Longrightarrow> wf_db d \<Longrightarrow> m d = Inr (a, d') \<Longrightarrow> wf_db d'"
  by (auto simp: tx_rel_def keeps_wf_def)

lemma quietI:
  assumes "tx_rel keeps_wf m" and "\<And>d a d'. m d = Inr (a, d') \<Longrightarrow> view d' = view d"
  shows "quiet m"
  using assms unfolding tx_rel_def same_view_def keeps_wf_def by blast

lemma quiet_run_update:
  "(\<And>r. run_core (f r) = run_core r \<and> run_lastSequence (f r) = run_lastSequence r \<and> run_status (f r) = run_status r) \<Longrightarrow>
    quiet (run_update c rid f)"
  by (rule quietI, rule wf.R_run_update) (auto simp: tx_iff run_core_def intro: view_run_update)

lemma quiet_run_updateMany:
  "(\<And>r. run_core (f r) = run_core r \<and> run_lastSequence (f r) = run_lastSequence r \<and> run_status (f r) = run_status r) \<Longrightarrow>
    quiet (run_updateMany c p f)"
  by (rule quietI, rule wf.R_run_updateMany) (auto simp: tx_iff run_core_def intro: view_run_update)

lemma quiet_task_update: "(\<And>t. task_core (f t) = task_core t) \<Longrightarrow> quiet (task_update tid f)"
  by (rule quietI, erule wf.R_task_update) (auto simp: tx_iff intro: view_frame)

lemma quiet_transitionTask: "quiet (transitionTask tid from to)"
  by (rule quietI, rule wf.R_transitionTask) (auto simp: transitionTask_def tx_iff intro: view_frame)

lemma quiet_store:
  assumes "\<And>n. ev_runId (mk n) = rid \<and> ev_runSequence (mk n) = n \<and> ev_type (mk n) = payload_type (ev_payload (mk n))"
  shows "quiet (store_next_event c rid mk)"
proof (rule quietI)
  show "tx_rel keeps_wf (store_next_event c rid mk)" by (rule wf.R_store [OF assms])
  fix d a d'
  assume "store_next_event c rid mk d = Inr (a, d')"
  then show "view d' = view d"
    by (auto simp: store_next_event_def tx_iff intro!: trans [OF view_frame view_run_update])
qed

lemma quiet_append: "quiet (appendSyntheticEvent c rid payload aid)"
  unfolding appendSyntheticEvent_def
  by (rule tx_rel_and_then [OF same_view_trans quiet_store]) (auto simp: synthetic_event_def intro: tx_rel_return same_view_refl)

lemma quiet_control_event: "quiet (control_event c rid from to)"
  unfolding control_event_def
  by (rule tx_rel_and_then [OF same_view_trans quiet_store]) (auto simp: synthetic_event_def intro: tx_rel_return same_view_refl)

lemma quiet_attempt_updateMany:
  assumes "\<And>a. attempt_core (f a) = attempt_core a \<and> att_status (f a) = att_status a"
  shows "quiet (attempt_updateMany p f)"
proof (rule quietI)
  show "tx_rel keeps_wf (attempt_updateMany p f)" using assms by (intro wf.R_attempt_updateMany) blast
  fix d n d'
  assume "attempt_updateMany p f d = Inr (n, d')"
  then show "view d' = view d"
    using assms
    by (auto simp: tx_iff view_def fun_eq_iff filter_update_rows map_update_rows attempt_view_def attempt_core_def)
qed

text \<open>Writes to the other tables.\<close>

lemma quiet_creates:
  "quiet (task_create t)" "quiet (checkpoint_create k)" "quiet (artifact_create art)" "quiet (verification_create v)"
  "quiet (policyDecision_create pd)" "quiet (budgetCall_create b)"
  "quiet (budgetCall_update bid fb)" "quiet (create_row environments environments_update env_fingerprint e)"
  "quiet (create_row workspaces workspaces_update ws_id w)" "quiet (create_row projects projects_update prj_id p)"
  by (rule quietI, rule wf.R_rules, auto simp: tx_iff intro: view_frame)+

lemma quiet_approval_create: "quiet (approval_create ap)"
  by (rule quietI, rule wf.R_approval_create) (auto simp: tx_iff intro: view_frame)

lemmas quiet_rules = tx_rel_read [OF same_view_refl] tx_rel_return [OF same_view_refl] tx_rel_throw
  tx_rel_check [OF same_view_refl] tx_rel_some [OF same_view_refl] tx_rel_lift [OF same_view_refl]
  tx_rel_and_then [OF same_view_trans] tx_rel_when [OF same_view_refl] tx_rel_if tx_rel_option
  tx_rel_for [OF same_view_refl same_view_trans] find_unique_rel [OF same_view_refl]
  find_or_throw_rel [OF same_view_refl] quiet_run_update quiet_run_updateMany quiet_task_update
  quiet_transitionTask quiet_append quiet_control_event quiet_attempt_updateMany quiet_creates quiet_approval_create

lemma quiet_finds:
  "quiet (run_findUniqueOrThrow rid)" "quiet (attempt_findUniqueOrThrow aid)" "quiet (task_findUniqueOrThrow tid)"
  by (simp_all add: run_findUniqueOrThrow_def attempt_findUniqueOrThrow_def task_findUniqueOrThrow_def
      find_or_throw_rel [OF same_view_refl])

section \<open>The writes that change a view\<close>

lemma view_simps:
  "rv_status (view d rid) = map_option run_status (find_run rid d)"
  "rv_attempts (view d rid) = map attempt_view (attempts_of rid d)"
  "rv_commands (view d rid) = map (\<lambda>m. cmd_attemptNo (msg_payload m)) (messages_of rid d)"
  by (simp_all add: view_def)

lemma view_max: "find_run rid d = Some r \<Longrightarrow> rv_max (view d rid) = run_maxAttempts r"
  by (simp add: view_def)

lemma view_run_create:
  assumes wf: "wf_db d" and cr: "run_create r d = Inr (r', d')" and seq: "run_lastSequence r = 0"
  shows "wf_db d' \<and> r' = r \<and> find_run (run_id r) d = None \<and>
    view d' = (view d)(run_id r := (view d (run_id r))\<lparr> rv_status := Some (run_status r), rv_max := run_maxAttempts r \<rparr>)"
  using wfI [OF wf.R_run_create [OF seq] wf cr] cr
  by (auto simp: tx_iff view_def fun_eq_iff split: option.splits)

lemma view_run_status:
  assumes wf: "wf_db d" and upd: "run_update c rid f d = Inr (r', d')"
    and f: "\<And>r. run_core (f r) = run_core r \<and> run_lastSequence (f r) = run_lastSequence r \<and> run_status (f r) = s"
  shows "wf_db d' \<and> find_run rid d \<noteq> None \<and> view d' = (view d)(rid := (view d rid)\<lparr> rv_status := Some s \<rparr>)"
  using upd f wfI [OF wf.R_run_update wf upd]
  by (auto simp: tx_iff view_def fun_eq_iff find_row_update_key run_core_def)

lemma view_transitionRun:
  assumes wf: "wf_db d" and tr: "transitionRun c rid from to d = Inr (u, d')"
  shows "wf_db d' \<and> rv_status (view d rid) = Some from \<and>
    view d' = (view d)(rid := (view d rid)\<lparr> rv_status := Some to \<rparr>)"
proof -
  obtain r where r: "find_run rid d = Some r" "run_status r = from"
    using transitionRun_run [OF assms] by blast
  have same: "update_rows (\<lambda>r. run_id r = rid \<and> run_status r = from) f (runs d) =
      update_rows (\<lambda>r. run_id r = rid) f (runs d)" for f
    using wf r find_row_distinct [of run_id "runs d"] by (force simp: update_rows_def wf_db_def)
  let ?d = "d\<lparr> runs := update_rows (\<lambda>r. run_id r = rid) (\<lambda>r. r\<lparr> run_status := to, run_updatedAt := c_now c \<rparr>) (runs d) \<rparr>"
  have "appendSyntheticEvent c rid (StateTransition Ent_run (run_status_name from) (run_status_name to)) None ?d = Inr (u, d')"
    using tr by (auto simp: transitionRun_def tx_iff same)
  moreover have "wf_db ?d"
    by (rule wf_db_runs_updated [OF wf]) simp
  ultimately have "wf_db d' \<and> view d' = view ?d"
    by (intro quietD [OF quiet_append])
  then show ?thesis
    using r by (auto simp: view_def fun_eq_iff find_row_update_key)
qed

lemma view_attempt_create:
  assumes wf: "wf_db d" and cr: "attempt_create a d = Inr (a', d')"
  shows "wf_db d' \<and> a' = a \<and> find_attempt (att_id a) d = None \<and> view d' = (view d)(att_runId a :=
    (view d (att_runId a))\<lparr> rv_attempts := rv_attempts (view d (att_runId a)) @ [attempt_view a] \<rparr>)"
  using wfI [OF wf.R_attempt_create wf cr] cr
  by (auto simp: tx_iff view_def fun_eq_iff)

lemma view_run_message:
  assumes wf: "wf_db d" and cr: "outbox_create (run_message c k rid cmd t) d = Inr (m, d')"
  shows "wf_db d' \<and> view d' = (view d)(rid :=
    (view d rid)\<lparr> rv_commands := rv_commands (view d rid) @ [cmd_attemptNo cmd] \<rparr>)"
  using wfI [OF wf.R_outbox_create wf cr] cr
  by (auto simp: tx_iff view_def fun_eq_iff run_message_def)

lemma view_attempt_status:
  assumes wf: "wf_db d" and a: "find_attempt aid d = Some a"
    and upd: "attempt_update aid f d = Inr (a', d')"
    and f: "\<And>a. attempt_core (f a) = attempt_core a \<and> att_status (f a) = s"
  shows "wf_db d' \<and> view d' = (view d)(att_runId a := set_attempt aid s (view d (att_runId a)))"
proof
  show "wf_db d'" using f by (intro wfI [OF wf.R_attempt_update wf upd]) blast
  have uniq: "b = a" if "b \<in> set (attempts d)" "att_id b = aid" for b
    using wf that a find_row_distinct [of att_id "attempts d" b] by (simp add: wf_db_def)
  have d': "d' = d\<lparr> attempts := update_rows (\<lambda>a. att_id a = aid) f (attempts d) \<rparr>"
    using upd by (auto simp: tx_iff)
  have "map attempt_view (filter (\<lambda>a. att_runId a = rid) (update_rows (\<lambda>a. att_id a = aid) f (attempts d))) =
      (if rid = att_runId a
       then map (\<lambda>(i, n, t). (i, n, if i = aid then s else t)) (map attempt_view (attempts_of rid d))
       else map attempt_view (attempts_of rid d))" for rid
    using uniq f
    by (subst filter_update_rows) (auto simp: attempt_core_def update_rows_def attempt_view_def)
  then show "view d' = (view d)(att_runId a := set_attempt aid s (view d (att_runId a)))"
    by (auto simp: d' view_def fun_eq_iff set_attempt_def)
qed

end
