(* ===== verification/RunSteps.thy ===== *)
theory RunSteps
  imports Machine
begin

text \<open>
  What each operation of the services does to the view of a run, computed from its definition; every
  other run's view stays the same.  At the end of the theory the abstract machine: its steps, its
  invariant, and the invariant's preservation.
\<close>

section \<open>Recovery\<close>

lemma quiet_need_attention: "quiet (need_attention tid reason)"
  unfolding need_attention_def by (intro quiet_rules) (simp add: task_core_def)

lemma quiet_settle_active_time: "quiet (settle_active_time c run)"
  unfolding settle_active_time_def Let_def by (intro quiet_rules) (simp add: run_core_def)

lemma settle_active_time_run:
  assumes "settle_active_time c run d = Inr (run', d')"
  shows "run_id run' = run_id run \<and> run_taskId run' = run_taskId run \<and> run_maxAttempts run' = run_maxAttempts run \<and>
    run_recoveryDisabled run' = run_recoveryDisabled run \<and> run_activeStartedAt run' = None \<and>
    run_usedSeconds run' = run_usedSeconds run + active_seconds c run"
  using assms by (auto simp: settle_active_time_def Let_def tx_iff active_seconds_def split: option.splits)

lemma recovery_command_no:
  assumes "recovery_command c run task project action k n = Inr cmd"
  shows "cmd_attemptNo cmd = n \<and> cmd_runId cmd = run_id run"
  using assms buildRunCommand_fields commandFromSnapshot_fields
  by (fastforce simp: recovery_command_def split: option.splits)

lemma frozen_inputs_no:
  "frozen_inputs c rid cmd d = Inr cmd' \<Longrightarrow> cmd_attemptNo cmd' = cmd_attemptNo cmd \<and> cmd_runId cmd' = cmd_runId cmd"
  by (auto simp: frozen_inputs_def split: option.splits)

lemma view_redispatch:
  assumes wf: "wf_db d" and run: "redispatch c run task project aid n decision d = Inr (u, d')"
  shows "wf_db d' \<and> rv_status (view d (run_id run)) = Some R_INTERRUPTED \<and>
    view d' = (view d)(run_id run := (view d (run_id run))\<lparr> rv_status := Some R_DISPATCHED,
      rv_commands := rv_commands (view d (run_id run)) @ [n + 1] \<rparr>)"
proof -
  from run obtain k d1 d2 d3 d4 cmd0 cmd m u1 u2 where
      t1: "transitionRun c (run_id run) R_INTERRUPTED R_RECOVERING d = Inr (u1, d1)"
      and fresh: "recovery_command c run task project (pd_action decision) k (n + 1) = Inr cmd0"
      and cmd: "(if task_snapshot task = None then and_then (tx_read (frozen_inputs c (run_id run) cmd0)) tx_lift
          else tx_return cmd0) d1 = Inr (cmd, d2)"
      and out: "outbox_create (run_message c 1 (run_id run) cmd (c_now c + pd_backoffMs decision)) d2 = Inr (m, d3)"
      and app: "appendSyntheticEvent c (run_id run)
          (RecoveryAction (pd_action decision) (map_option cp_id k) (n + 1)) (Some aid) d3 = Inr (u2, d4)"
      and t2: "transitionRun c (run_id run) R_RECOVERING R_DISPATCHED d4 = Inr (u, d')"
    by (auto simp only: redispatch_def and_then_iff tx_read_iff tx_lift_iff)
  have d2: "d2 = d1" and no: "cmd_attemptNo cmd = n + 1"
    using cmd recovery_command_no [OF fresh] frozen_inputs_no
    by (auto simp: tx_iff split: if_splits)
  note v1 = view_transitionRun [OF wf t1]
  note v2 = view_run_message [OF conjunct1 [OF v1] out [unfolded d2]]
  note v3 = quietD [OF quiet_append conjunct1 [OF v2] app]
  note v4 = view_transitionRun [OF conjunct1 [OF v3] t2]
  from v1 v2 v3 v4 no show ?thesis by (auto simp: fun_eq_iff)
qed

lemma view_abort_run:
  assumes wf: "wf_db d" and run: "abort_run c run task d = Inr (u, d')"
  shows "wf_db d' \<and> rv_status (view d (run_id run)) = Some R_INTERRUPTED \<and>
    view d' = (view d)(run_id run := (view d (run_id run))\<lparr> rv_status := Some R_FAILED \<rparr>)"
proof -
  from run obtain d1 d2 r u1 where
      upd: "run_update c (run_id run) (\<lambda>r. r\<lparr> run_phase := ''FAILED'', run_activeStartedAt := None \<rparr>) d = Inr (r, d1)"
      and tr: "transitionRun c (run_id run) R_INTERRUPTED R_FAILED d1 = Inr (u1, d2)"
      and rest: "tx_when (task_status task = T_RUNNING) (transitionTask (task_id task) T_RUNNING T_FAILED) d2 = Inr (u, d')"
    by (auto simp only: abort_run_def and_then_iff)
  have v1: "wf_db d1 \<and> view d1 = view d"
    by (rule quietD [OF quiet_run_update wf upd]) (simp add: run_core_def)
  note v2 = view_transitionRun [OF conjunct1 [OF v1] tr]
  have "quiet (tx_when (task_status task = T_RUNNING) (transitionTask (task_id task) T_RUNNING T_FAILED))"
    by (intro quiet_rules)
  note v3 = quietD [OF this conjunct1 [OF v2] rest]
  from v1 v2 v3 show ?thesis by simp
qed

lemma quiet_escalate_run: "quiet (escalate_run c run code)"
  unfolding escalate_run_def by (intro quiet_rules quiet_need_attention) (simp add: run_core_def)

text \<open>Recovery leaves the run as it is, fails it, or sends the next command for it.\<close>

definition recovered :: "string \<Rightarrow> nat \<Rightarrow> db \<Rightarrow> db \<Rightarrow> bool" where
  "recovered rid n d d' \<longleftrightarrow> wf_db d' \<and>
     (view d' = view d \<or>
      rv_status (view d rid) = Some R_INTERRUPTED \<and>
        view d' = (view d)(rid := (view d rid)\<lparr> rv_status := Some R_FAILED \<rparr>) \<or>
      rv_status (view d rid) = Some R_INTERRUPTED \<and> n < rv_max (view d rid) \<and>
        view d' = (view d)(rid := (view d rid)\<lparr> rv_status := Some R_DISPATCHED,
          rv_commands := rv_commands (view d rid) @ [n + 1] \<rparr>))"

lemma view_dispatch_or_stop:
  assumes wf: "wf_db d" and run: "dispatch_or_stop c run task project aid n decision d = Inr (u, d')"
    and n: "n < rv_max (view d (run_id run))"
  shows "recovered (run_id run) n d d'"
proof (cases "task_snapshot task = None")
  case True
  with run have "redispatch c run task project aid n decision d = Inr (u, d')"
    by (simp add: dispatch_or_stop_def)
  from view_redispatch [OF wf this] n show ?thesis by (simp add: recovered_def)
next
  case False
  define used where "used = run_usedSeconds run + ceil_seconds (pd_backoffMs decision)"
  from run obtain r d1 where
      upd: "run_update c (run_id run) (\<lambda>r. r\<lparr> run_usedSeconds := used, run_phase := ''QUEUED'' \<rparr>) d = Inr (r, d1)"
      and rest: "(if run_budgetSeconds run \<le> used
         then and_then (run_update c (run_id run) (\<lambda>r. r\<lparr> run_phase := ''NEEDS_ATTENTION'' \<rparr>)) (\<lambda>_.
              need_attention (run_taskId run) ''BUDGET_EXHAUSTED'')
         else redispatch c (run\<lparr> run_usedSeconds := used \<rparr>) task project aid n decision) d1 = Inr (u, d')"
    unfolding dispatch_or_stop_def Let_def used_def [symmetric] if_not_P [OF False] and_then_iff by blast
  have v1: "wf_db d1 \<and> view d1 = view d"
    by (rule quietD [OF quiet_run_update wf upd]) (simp add: run_core_def)
  show ?thesis
  proof (cases "run_budgetSeconds run \<le> used")
    case True
    have "quiet (and_then (run_update c (run_id run) (\<lambda>r. r\<lparr> run_phase := ''NEEDS_ATTENTION'' \<rparr>)) (\<lambda>_.
              need_attention (run_taskId run) ''BUDGET_EXHAUSTED''))"
      by (intro quiet_rules quiet_need_attention) (simp add: run_core_def)
    from quietD [OF this conjunct1 [OF v1]] rest True v1 show ?thesis
      by (simp add: recovered_def)
  next
    case False
    with rest have "redispatch c (run\<lparr> run_usedSeconds := used \<rparr>) task project aid n decision d1 = Inr (u, d')"
      by simp
    from view_redispatch [OF conjunct1 [OF v1] this] v1 n show ?thesis by (simp add: recovered_def)
  qed
qed

lemma recovery_decision_redispatch:
  "redispatches (pd_action (recovery_decision run n code)) \<Longrightarrow> n < run_maxAttempts run"
  using decidePolicy_redispatch_below_max
  by (fastforce simp: recovery_decision_def redispatches_def split: if_splits)

lemma view_follow_policy:
  assumes wf: "wf_db d" and run: "follow_policy c run task project aid n code d = Inr (u, d')"
    and max: "run_maxAttempts run = rv_max (view d (run_id run))"
  shows "recovered (run_id run) n d d'"
proof -
  define dec where "dec = recovery_decision run n code"
  from run obtain p d1 where
      pol: "policyDecision_create \<lparr> pol_id = c_cuid c 0, pol_runId = run_id run, pol_attemptId = aid,
        pol_failureCode = code, pol_action = pd_action dec, pol_reason = pd_reason dec \<rparr> d = Inr (p, d1)"
      and rest: "(if redispatches (pd_action dec) then dispatch_or_stop c run task project aid n dec
        else if pd_action dec = P_ABORT then abort_run c run task else escalate_run c run code) d1 = Inr (u, d')"
    unfolding follow_policy_def Let_def and_then_iff dec_def by blast
  have v1: "wf_db d1 \<and> view d1 = view d" by (rule quietD [OF quiet_creates(5) wf pol])
  consider "redispatches (pd_action dec)" | "\<not> redispatches (pd_action dec)" "pd_action dec = P_ABORT"
    | "\<not> redispatches (pd_action dec)" "pd_action dec \<noteq> P_ABORT" by blast
  then show ?thesis
  proof cases
    case 1
    then have "n < rv_max (view d1 (run_id run))"
      using recovery_decision_redispatch [of run n code] max v1 by (simp add: dec_def)
    from view_dispatch_or_stop [OF conjunct1 [OF v1] _ this] rest 1 v1 show ?thesis
      by (simp add: recovered_def)
  next
    case 2
    from view_abort_run [OF conjunct1 [OF v1]] rest 2 v1 show ?thesis
      by (auto simp: recovered_def)
  next
    case 3
    from quietD [OF quiet_escalate_run conjunct1 [OF v1]] rest 3 v1 show ?thesis
      by (simp add: recovered_def)
  qed
qed

lemma recovered_quiet_first:
  "view d1 = view d \<Longrightarrow> recovered rid n d1 d' \<longleftrightarrow> recovered rid n d d'"
  by (simp add: recovered_def)

lemma view_applyPolicy:
  assumes wf: "wf_db d" and run: "applyPolicy c rid aid n code d = Inr (u, d')"
  shows "recovered rid n d d'"
proof -
  from run obtain run0 task project where
      run0: "find_run rid d = Some run0"
      and rest: "(if task_snapshot task = None then follow_policy c run0 task project aid n code
        else and_then (settle_active_time c run0) (\<lambda>run.
          and_then (tx_read (unresolved_calls rid)) (\<lambda>unresolved.
          if budget_blocked c run unresolved
          then and_then (run_update c rid (\<lambda>r. r\<lparr> run_phase := ''NEEDS_ATTENTION'',
                run_usedSeconds := run_usedSeconds run + active_seconds c run, run_activeStartedAt := None \<rparr>)) (\<lambda>_.
              need_attention (run_taskId run)
                (if unresolved \<noteq> 0 then ''MODEL_USAGE_UNKNOWN'' else ''BUDGET_EXHAUSTED''))
          else follow_policy c run task project aid n code))) d = Inr (u, d')"
    unfolding applyPolicy_def and_then_iff run_findUniqueOrThrow_iff task_findUniqueOrThrow_iff find_or_throw_iff
    by blast
  have id: "run_id run0 = rid" using run0 by (rule find_row_key)
  have max: "run_maxAttempts run0 = rv_max (view d rid)" using run0 by (simp add: view_max)
  show ?thesis
  proof (cases "task_snapshot task = None")
    case True
    with rest view_follow_policy [OF wf _ max [folded id]] id show ?thesis by simp
  next
    case False
    with rest obtain run d1 where st: "settle_active_time c run0 d = Inr (run, d1)"
        and rest1: "(if budget_blocked c run (unresolved_calls rid d1)
          then and_then (run_update c rid (\<lambda>r. r\<lparr> run_phase := ''NEEDS_ATTENTION'',
                run_usedSeconds := run_usedSeconds run + active_seconds c run, run_activeStartedAt := None \<rparr>)) (\<lambda>_.
              need_attention (run_taskId run)
                (if unresolved_calls rid d1 \<noteq> 0 then ''MODEL_USAGE_UNKNOWN'' else ''BUDGET_EXHAUSTED''))
          else follow_policy c run task project aid n code) d1 = Inr (u, d')"
      by (auto simp only: if_False and_then_iff tx_read_iff)
    note v1 = quietD [OF quiet_settle_active_time wf st]
    note r1 = settle_active_time_run [OF st]
    show ?thesis
    proof (cases "budget_blocked c run (unresolved_calls rid d1)")
      case True
      have q: "quiet (and_then (run_update c rid (\<lambda>r. r\<lparr> run_phase := ''NEEDS_ATTENTION'',
                run_usedSeconds := run_usedSeconds run + active_seconds c run, run_activeStartedAt := None \<rparr>)) (\<lambda>_.
              need_attention (run_taskId run)
                (if unresolved_calls rid d1 \<noteq> 0 then ''MODEL_USAGE_UNKNOWN'' else ''BUDGET_EXHAUSTED'')))"
        by (intro quiet_rules quiet_need_attention) (simp add: run_core_def)
      show ?thesis
        using quietD [OF q conjunct1 [OF v1] rest1 [unfolded if_P [OF True]]] v1 unfolding recovered_def by simp
    next
      case False
      with rest1 have pol: "follow_policy c run task project aid n code d1 = Inr (u, d')" by (simp only: if_False)
      have rid: "run_id run = rid" and max1: "run_maxAttempts run = rv_max (view d1 (run_id run))"
        using r1 id max v1 by simp_all
      show ?thesis
        using view_follow_policy [OF conjunct1 [OF v1] pol max1]
        unfolding rid recovered_quiet_first [OF conjunct2 [OF v1]] .
    qed
  qed
qed

section \<open>Creating a run\<close>

lemma quiet_ensureDefaultProject: "quiet (ensureDefaultProject c)"
  unfolding ensureDefaultProject_def by (intro quiet_rules)

lemma view_createTask_tx:
  assumes wf: "wf_db d" and run: "createTask_tx c input fixture base d = Inr (r, d')"
  shows "wf_db d' \<and> rv_status (view d (snd r)) = None \<and>
    view d' = (view d)(snd r := (view d (snd r))\<lparr> rv_status := Some R_DISPATCHED, rv_max := 3,
      rv_commands := rv_commands (view d (snd r)) @ [1] \<rparr>)"
proof -
  from run obtain project task rn command m d1 d2 d3 d4 d5 d6 u0 u1 u2 where
      pre: "tx_when (c_demo c) (and_then (tx_read (\<lambda>d. (demo_active d, demo_today c d)))
          (\<lambda>(active, today). tx_lift (assertDemoCapacity active today))) d = Inr (u0, d1)"
      and prj: "ensureDefaultProject c d1 = Inr (project, d2)"
      and tsk: "task_create (new_fixture_task c input fixture (prj_id project)) d2 = Inr (task, d3)"
      and rnc: "run_create (new_fixture_run c input (task_id task) base) d3 = Inr (rn, d4)"
      and tt: "transitionTask (task_id task) T_CREATED T_QUEUED d4 = Inr (u1, d5)"
      and cmd: "buildRunCommand c START_RUN (run_id rn) 1 (ci_agentKind input) (fx_id fixture) None
          (run_budgetTokens rn) (run_budgetSeconds rn) (run_budgetTokens rn) (run_budgetSeconds rn)
          (run_budgetTurns rn) = Inr command"
      and out: "outbox_create (run_message c 4 (run_id rn)
          (command\<lparr> cmd_repo := (cmd_repo command)\<lparr> repo_baseCommit := base \<rparr> \<rparr>) (c_now c)) d5 = Inr (m, d6)"
      and tr: "transitionRun c (run_id rn) R_PENDING R_DISPATCHED d6 = Inr (u2, d')"
      and r: "r = (task_id task, run_id rn)"
    unfolding createTask_tx_def and_then_iff tx_lift_iff tx_return_iff by blast
  have "quiet (tx_when (c_demo c) (and_then (tx_read (\<lambda>d. (demo_active d, demo_today c d)))
          (\<lambda>(active, today). tx_lift (assertDemoCapacity active today))))"
    unfolding case_prod_beta by (intro quiet_rules)
  note v1 = quietD [OF this wf pre]
  note v2 = quietD [OF quiet_ensureDefaultProject conjunct1 [OF v1] prj]
  note v3 = quietD [OF quiet_creates(1) conjunct1 [OF v2] tsk]
  have "run_lastSequence (new_fixture_run c input (task_id task) base) = 0" by (simp add: new_fixture_run_def)
  note v4 = view_run_create [OF conjunct1 [OF v3] rnc this]
  note v5 = quietD [OF quiet_transitionTask conjunct1 [OF v4] tt]
  note v6 = view_run_message [OF conjunct1 [OF v5] out]
  note v7 = view_transitionRun [OF conjunct1 [OF v6] tr]
  have n: "cmd_attemptNo command = 1" using buildRunCommand_fields [OF cmd] by simp
  have rn: "run_maxAttempts rn = 3" "rn = new_fixture_run c input (task_id task) base"
    using v4 by (simp_all add: new_fixture_run_def)
  have none: "rv_status (view d (run_id rn)) = None"
    using v1 v2 v3 v4 view_simps(1) [of d3 "run_id rn"] by simp
  show ?thesis
    using v1 v2 v3 v4 v5 v6 v7 n rn(1) none unfolding r by (auto simp: fun_eq_iff)
qed

lemma createTask_is_tx:
  assumes "createTask c input0 d = Inr (r, d')"
  shows "\<exists>input fixture base. createTask_tx c input fixture base d = Inr (r, d')"
  using assms unfolding createTask_def Let_def and_then_iff
  by (auto simp: tx_iff split: if_splits)

lemma quiet_reuse_confirmed: "quiet (reuse_confirmed task digest)"
  unfolding reuse_confirmed_def by (intro quiet_rules)

lemma view_confirm_tx:
  assumes wf: "wf_db d" and run: "confirm_tx c repo snapshot digest key d = Inr (r, d')"
  shows "wf_db d' \<and> (view d' = view d \<or> rv_status (view d (snd r)) = None \<and>
    view d' = (view d)(snd r := (view d (snd r))\<lparr> rv_status := Some R_DISPATCHED,
      rv_max := sb_maxAttempts (sn_budget snapshot), rv_commands := rv_commands (view d (snd r)) @ [1] \<rparr>))"
proof (cases "find_confirmed key d")
  case (Some task)
  with run have "reuse_confirmed task digest d = Inr (r, d')"
    by (simp add: confirm_tx_def and_then_iff tx_read_iff)
  from quietD [OF quiet_reuse_confirmed wf this] show ?thesis by simp
next
  case None
  with run obtain task rn cmd m d1 d2 where
      tsk: "task_create (new_snapshot_task c repo snapshot digest key) d = Inr (task, d1)"
      and rnc: "run_create (new_snapshot_run c snapshot (task_id task)) d1 = Inr (rn, d2)"
      and cmd: "commandFromSnapshot (c_isUrl c) snapshot (prj_repoPath repo) (run_id rn) 1 0 0 None = Inr cmd"
      and out: "outbox_create (run_message c 2 (run_id rn) cmd (c_now c)) d2 = Inr (m, d')"
      and r: "r = (task_id task, run_id rn)"
    by (auto simp only: confirm_tx_def and_then_iff tx_read_iff tx_lift_iff tx_return_iff option.case)
  note v1 = quietD [OF quiet_creates(1) wf tsk]
  have "run_lastSequence (new_snapshot_run c snapshot (task_id task)) = 0"
    by (simp add: new_snapshot_run_def Let_def)
  note v2 = view_run_create [OF conjunct1 [OF v1] rnc this]
  note v3 = view_run_message [OF conjunct1 [OF v2] out]
  have n: "cmd_attemptNo cmd = 1" using commandFromSnapshot_fields [OF cmd] by simp
  have st: "run_status rn = R_DISPATCHED" "run_maxAttempts rn = sb_maxAttempts (sn_budget snapshot)"
    using v2 by (simp_all add: new_snapshot_run_def Let_def)
  have none: "rv_status (view d (run_id rn)) = None"
    using v1 v2 view_simps(1) [of d1 "run_id rn"] by simp
  show ?thesis
    using v1 v2 v3 n st none unfolding r by (auto simp: fun_eq_iff)
qed

section \<open>Claiming\<close>

lemma view_claimAttempt_tx:
  assumes wf: "wf_db d" and run: "claimAttempt_tx c run0 rid n w d = Inr (a, d')"
  shows "wf_db d' \<and> a = new_attempt c rid n w \<and> find_attempt (att_id a) d = None \<and>
    rv_status (view d rid) = Some R_DISPATCHED \<and> n = latest_no rid d + 1 \<and> n \<le> rv_max (view d rid) \<and>
    view d' = (view d)(rid := (view d rid)\<lparr> rv_status := Some R_RUNNING,
      rv_attempts := rv_attempts (view d rid) @ [(att_id a, n, A_RUNNING)] \<rparr>)"
proof -
  from run obtain current where
      cur: "find_run rid d = Some current" and no: "run_status current = R_DISPATCHED" "n = latest_no rid d + 1"
        "n \<le> run_maxAttempts current"
    by (auto simp: claimAttempt_tx_def and_then_iff run_findUniqueOrThrow_iff tx_read_iff tx_check_iff)
  with run have "and_then (attempt_create (new_attempt c rid n w)) (\<lambda>created.
      and_then (transitionRun c rid R_DISPATCHED R_RUNNING) (\<lambda>_.
      and_then (run_update c rid (activate c run0)) (\<lambda>_.
      and_then (task_findUniqueOrThrow (run_taskId run0)) (\<lambda>task.
      and_then (tx_when (task_status task = T_QUEUED) (transitionTask (task_id task) T_QUEUED T_RUNNING)) (\<lambda>_.
      tx_return created))))) d = Inr (a, d')"
    by (simp add: claimAttempt_tx_def and_then_iff run_findUniqueOrThrow_iff tx_read_iff tx_check_iff)
  then obtain task :: Task and d1 d2 d3 r u1 u2 where
      cr: "attempt_create (new_attempt c rid n w) d = Inr (a, d1)"
      and tr: "transitionRun c rid R_DISPATCHED R_RUNNING d1 = Inr (u1, d2)"
      and upd: "run_update c rid (activate c run0) d2 = Inr (r, d3)"
      and tt: "tx_when (task_status task = T_QUEUED) (transitionTask (task_id task) T_QUEUED T_RUNNING) d3 = Inr (u2, d')"
    unfolding and_then_iff task_findUniqueOrThrow_iff tx_return_iff by blast
  note v1 = view_attempt_create [OF wf cr]
  note v2 = view_transitionRun [OF conjunct1 [OF v1] tr]
  have v3: "wf_db d3 \<and> view d3 = view d2"
    by (rule quietD [OF quiet_run_update conjunct1 [OF v2] upd]) (simp add: run_core_def activate_def)
  have q: "quiet (tx_when (task_status task = T_QUEUED) (transitionTask (task_id task) T_QUEUED T_RUNNING))"
    by (intro quiet_rules)
  note v4 = quietD [OF q conjunct1 [OF v3] tt]
  have "att_runId (new_attempt c rid n w) = rid" "attempt_view (new_attempt c rid n w) = (att_id (new_attempt c rid n w), n, A_RUNNING)"
    by (simp_all add: new_attempt_def attempt_view_def)
  with v1 v2 v3 v4 cur no show ?thesis
    by (auto simp: fun_eq_iff view_max view_simps(1))
qed

section \<open>Completing and losing an attempt\<close>

lemma quiet_persistExtras: "quiet (persistExtras c a run0 task0 outcome)"
  unfolding persistExtras_def charge_active_time_def record_usage_def
  by (intro quiet_rules quiet_finds) (simp_all add: run_core_def)

lemma view_complete_success:
  assumes wf: "wf_db d" and run: "complete_success c a run0 task0 outcome d = Inr (u, d')"
  shows "wf_db d' \<and> (\<exists>owner. find_attempt (att_id a) d = Some owner \<and> att_status owner = A_RUNNING \<and> lease_valid c owner \<and>
    (task_snapshot task0 \<noteq> None \<longrightarrow> unresolved_calls (att_runId a) d = 0) \<and>
    (att_runId owner = att_runId a \<longrightarrow> rv_status (view d (att_runId a)) = Some R_RUNNING \<and>
     view d' = (view d)(att_runId a := (set_attempt (att_id a) A_SUCCEEDED (view d (att_runId a)))
       \<lparr> rv_status := Some R_SUCCEEDED \<rparr>)))"
proof -
  let ?rid = "att_runId a"
  from run obtain owner :: Attempt and a1 d1 d2 d3 d4 d5 d6 d7 u1 u2 u3 u4 r ap where
      own: "find_attempt (att_id a) d = Some owner" "att_status owner = A_RUNNING" "lease_valid c owner"
      and calls: "\<not> (task_snapshot task0 \<noteq> None \<and> unresolved_calls ?rid d \<noteq> 0)"
      and upd: "attempt_update (att_id a) (\<lambda>a. a\<lparr> att_status := A_SUCCEEDED, att_endedAt := Some (c_now c) \<rparr>) d = Inr (a1, d1)"
      and ext: "persistExtras c a run0 task0 outcome d1 = Inr (u1, d2)"
      and t1: "transitionRun c ?rid R_RUNNING R_VERIFYING d2 = Inr (u2, d3)"
      and t2: "transitionRun c ?rid R_VERIFYING R_SUCCEEDED d3 = Inr (u3, d4)"
      and tt: "transitionTask (run_taskId run0) T_RUNNING T_AWAITING_APPROVAL d4 = Inr (u4, d5)"
      and ph: "run_update c ?rid (\<lambda>r. r\<lparr> run_phase := ''AWAITING_APPROVAL'' \<rparr>) d5 = Inr (r, d6)"
      and apc: "approval_create (new_approval c (run_taskId run0) ?rid (oc_patch outcome)) d6 = Inr (ap, d7)"
      and app: "appendSyntheticEvent c ?rid (ApprovalEvent AP_PENDING None None) None d7 = Inr (u, d')"
    unfolding complete_success_def Let_def and_then_iff attempt_findUniqueOrThrow_iff tx_read_iff tx_check_iff by blast
  have v1: "wf_db d1 \<and> view d1 = (view d)(att_runId owner := set_attempt (att_id a) A_SUCCEEDED (view d (att_runId owner)))"
    by (rule view_attempt_status [OF wf own(1) upd]) (simp add: attempt_core_def)
  note v2 = quietD [OF quiet_persistExtras conjunct1 [OF v1] ext]
  note v3 = view_transitionRun [OF conjunct1 [OF v2] t1]
  note v4 = view_transitionRun [OF conjunct1 [OF v3] t2]
  note v5 = quietD [OF quiet_transitionTask conjunct1 [OF v4] tt]
  have v6: "wf_db d6 \<and> view d6 = view d5"
    by (rule quietD [OF quiet_run_update conjunct1 [OF v5] ph]) (simp add: run_core_def)
  note v7 = quietD [OF quiet_approval_create conjunct1 [OF v6] apc]
  note v8 = quietD [OF quiet_append conjunct1 [OF v7] app]
  have "view d' = (view d)(?rid := (set_attempt (att_id a) A_SUCCEEDED (view d ?rid))\<lparr> rv_status := Some R_SUCCEEDED \<rparr>) \<and>
      rv_status (view d ?rid) = Some R_RUNNING" if "att_runId owner = ?rid"
  proof -
    have e: "view d2 = (view d)(?rid := set_attempt (att_id a) A_SUCCEEDED (view d ?rid))"
      using v1 v2 that by simp
    have e': "view d' = (view d3)(?rid := (view d3 ?rid)\<lparr> rv_status := Some R_SUCCEEDED \<rparr>)"
      using v4 v5 v6 v7 v8 by simp
    from v3 e e' show ?thesis by (simp add: set_attempt_def)
  qed
  with own calls v8 show ?thesis by (intro conjI exI [of _ owner]) auto
qed

text \<open>An attempt that ended: its status, then the interruption, then recovery.\<close>

definition attempt_ended :: "string \<Rightarrow> string \<Rightarrow> nat \<Rightarrow> attempt_status \<Rightarrow> db \<Rightarrow> db \<Rightarrow> bool" where
  "attempt_ended rid aid n s d d' \<longleftrightarrow> wf_db d' \<and>
     (\<exists>st cmds. view d' = (view d)(rid := (set_attempt aid s (view d rid))\<lparr> rv_status := Some st,
          rv_commands := rv_commands (view d rid) @ cmds \<rparr>) \<and>
        (st \<in> {R_INTERRUPTED, R_FAILED} \<and> cmds = [] \<or>
         st = R_DISPATCHED \<and> cmds = [n + 1] \<and> n < rv_max (view d rid)))"

lemma view_interrupt_and_recover:
  assumes wf: "wf_db d1" and st: "run_status run0 = R_RUNNING" and id: "run_id run0 = rid"
    and v: "view d1 = (view d)(rid := set_attempt aid s (view d rid))"
    and int: "interrupt_if_active c run0 d1 = Inr (u1, d2)"
    and pol: "applyPolicy c rid aid' n code d2 = Inr (u, d')"
  shows "attempt_ended rid aid n s d d' \<and> rv_status (view d rid) = Some R_RUNNING"
proof -
  from int st id have "transitionRun c rid R_RUNNING R_INTERRUPTED d1 = Inr (u1, d2)"
    by (simp add: interrupt_if_active_def tx_when_def)
  note v2 = view_transitionRun [OF wf this]
  have was: "rv_status (view d rid) = Some R_RUNNING" using v v2 by (simp add: set_attempt_def)
  have v2': "view d2 = (view d)(rid := (set_attempt aid s (view d rid))\<lparr> rv_status := Some R_INTERRUPTED \<rparr>)"
    using v v2 by (auto simp: fun_eq_iff)
  have rec: "recovered rid n d2 d'" by (rule view_applyPolicy [OF conjunct1 [OF v2] pol])
  have "attempt_ended rid aid n s d d'"
    using rec unfolding recovered_def
  proof (elim conjE disjE)
    assume "wf_db d'" "view d' = view d2"
    then show ?thesis unfolding attempt_ended_def
      by (intro conjI exI [of _ R_INTERRUPTED] exI [of _ "[]"]) (auto simp: v2' fun_eq_iff set_attempt_def)
  next
    assume "wf_db d'" "view d' = (view d2)(rid := (view d2 rid)\<lparr> rv_status := Some R_FAILED \<rparr>)"
    then show ?thesis unfolding attempt_ended_def
      by (intro conjI exI [of _ R_FAILED] exI [of _ "[]"]) (auto simp: v2' fun_eq_iff set_attempt_def)
  next
    assume "wf_db d'" "n < rv_max (view d2 rid)"
      "view d' = (view d2)(rid := (view d2 rid)\<lparr> rv_status := Some R_DISPATCHED,
          rv_commands := rv_commands (view d2 rid) @ [n + 1] \<rparr>)"
    then show ?thesis unfolding attempt_ended_def
      by (intro conjI exI [of _ R_DISPATCHED] exI [of _ "[n + 1]"]) (auto simp: v2' fun_eq_iff set_attempt_def)
  qed
  with was show ?thesis by blast
qed

lemma view_complete_failure:
  assumes wf: "wf_db d" and run: "complete_failure c a run0 task0 outcome code d = Inr (u, d')"
    and st: "run_status run0 = R_RUNNING" and id: "run_id run0 = att_runId a"
  shows "\<exists>owner. find_attempt (att_id a) d = Some owner \<and> att_status owner = A_RUNNING \<and>
    (att_runId owner = att_runId a \<longrightarrow>
      attempt_ended (att_runId a) (att_id a) (att_no a) A_FAILED d d' \<and> rv_status (view d (att_runId a)) = Some R_RUNNING)"
proof -
  from run obtain owner :: Attempt and a1 d1 d2 d3 u1 u2 where
      own: "find_attempt (att_id a) d = Some owner" "att_status owner = A_RUNNING"
      and upd: "attempt_update (att_id a) (\<lambda>a. a\<lparr> att_status := A_FAILED, att_failureCode := Some code,
          att_endedAt := Some (c_now c) \<rparr>) d = Inr (a1, d1)"
      and ext: "persistExtras c a run0 task0 outcome d1 = Inr (u1, d2)"
      and int: "interrupt_if_active c run0 d2 = Inr (u2, d3)"
      and pol: "applyPolicy c (run_id run0) (att_id a) (att_no a) code d3 = Inr (u, d')"
    unfolding complete_failure_def and_then_iff attempt_findUniqueOrThrow_iff tx_check_iff by blast
  have v1: "wf_db d1 \<and> view d1 = (view d)(att_runId owner := set_attempt (att_id a) A_FAILED (view d (att_runId owner)))"
    by (rule view_attempt_status [OF wf own(1) upd]) (simp add: attempt_core_def)
  note v2 = quietD [OF quiet_persistExtras conjunct1 [OF v1] ext]
  have "attempt_ended (att_runId a) (att_id a) (att_no a) A_FAILED d d' \<and> rv_status (view d (att_runId a)) = Some R_RUNNING"
    if "att_runId owner = att_runId a"
  proof -
    have "view d2 = (view d)(att_runId a := set_attempt (att_id a) A_FAILED (view d (att_runId a)))"
      using v1 v2 that by simp
    then show ?thesis by (rule view_interrupt_and_recover [OF conjunct1 [OF v2] st id _ int pol [unfolded id]])
  qed
  with own show ?thesis by (intro exI [of _ owner]) simp
qed

lemma updateMany_one:
  assumes wf: "wf_db d" and upd: "attempt_updateMany p f d = Inr (n, d')" and p: "\<And>a. p a \<Longrightarrow> att_id a = aid"
  shows "(n = 0 \<and> d' = d) \<or> (n \<noteq> 0 \<and> (\<exists>a. find_attempt aid d = Some a \<and> p a \<and> attempt_update aid f d = Inr (f a, d')))"
proof (cases "filter p (attempts d) = []")
  case True
  then have "update_rows p f (attempts d) = attempts d"
    by (intro update_rows_None) (auto simp: filter_empty_conv)
  with True upd show ?thesis by (simp add: tx_iff)
next
  case False
  then obtain a where a: "a \<in> set (attempts d)" "p a" by (auto simp: filter_empty_conv)
  have uniq: "b = a" if "b \<in> set (attempts d)" "att_id b = aid" for b
    using wf that a p find_row_distinct [of att_id "attempts d"] by (metis option.inject wf_db_def)
  have "find_attempt aid d = Some a"
    using wf a p find_row_distinct [of att_id "attempts d" a] by (auto simp: wf_db_def)
  moreover have "update_rows p f (attempts d) = update_rows (\<lambda>a. att_id a = aid) f (attempts d)"
    unfolding update_rows_def
  proof (rule map_cong [OF HOL.refl])
    fix b assume "b \<in> set (attempts d)"
    with uniq [of b] a p [of b] p [of a] show "(if p b then f b else b) = (if att_id b = aid then f b else b)"
      by metis
  qed
  ultimately show ?thesis using upd False a by (auto simp: tx_iff)
qed

lemma view_handleLeaseExpired_tx:
  assumes wf: "wf_db d" and run: "handleLeaseExpired_tx c a run0 d = Inr (u, d')"
    and st: "run_status run0 = R_RUNNING" and id: "run_id run0 = att_runId a"
  shows "(wf_db d' \<and> view d' = view d) \<or>
    (\<exists>owner. find_attempt (att_id a) d = Some owner \<and> att_status owner \<in> {A_CLAIMED, A_RUNNING} \<and>
      \<not> lease_valid c owner \<and> (att_runId owner = att_runId a \<longrightarrow>
      attempt_ended (att_runId a) (att_id a) (att_no a) A_LEASE_EXPIRED d d' \<and> rv_status (view d (att_runId a)) = Some R_RUNNING))"
proof -
  let ?p = "\<lambda>b. att_id b = att_id a \<and> att_status b \<in> {A_CLAIMED, A_RUNNING} \<and>
         (case att_leaseExpiresAt b of None \<Rightarrow> False | Some t \<Rightarrow> t \<le> c_now c)"
  let ?f = "\<lambda>b. b\<lparr> att_status := A_LEASE_EXPIRED, att_failureCode := Some WORKER_LOST, att_endedAt := Some (c_now c) \<rparr>"
  from run obtain marked d1 where
      upd: "attempt_updateMany ?p ?f d = Inr (marked, d1)"
      and rest: "tx_when (marked \<noteq> 0) (and_then (interrupt_if_active c run0) (\<lambda>_.
        applyPolicy c (run_id run0) (att_id a) (att_no a) WORKER_LOST)) d1 = Inr (u, d')"
    unfolding handleLeaseExpired_tx_def and_then_iff by blast
  from updateMany_one [OF wf upd, of "att_id a"]
  consider "marked = 0" "d1 = d" | b where "marked \<noteq> 0" "find_attempt (att_id a) d = Some b" "?p b"
      "attempt_update (att_id a) ?f d = Inr (?f b, d1)" by blast
  then show ?thesis
  proof cases
    case 1
    with rest wf show ?thesis by (simp add: tx_when_def tx_return_iff)
  next
    case 2
    have v1: "wf_db d1 \<and> view d1 = (view d)(att_runId b := set_attempt (att_id a) A_LEASE_EXPIRED (view d (att_runId b)))"
      by (rule view_attempt_status [OF wf 2(2) 2(4)]) (simp add: attempt_core_def)
    from rest 2 obtain u1 d2 where int: "interrupt_if_active c run0 d1 = Inr (u1, d2)"
        and pol: "applyPolicy c (run_id run0) (att_id a) (att_no a) WORKER_LOST d2 = Inr (u, d')"
      by (auto simp: tx_when_def and_then_iff)
    have "attempt_ended (att_runId a) (att_id a) (att_no a) A_LEASE_EXPIRED d d' \<and> rv_status (view d (att_runId a)) = Some R_RUNNING"
      if "att_runId b = att_runId a"
      using view_interrupt_and_recover [OF conjunct1 [OF v1] st id _ int pol [unfolded id]] v1 that by simp
    moreover have "\<not> lease_valid c b" using 2(3) by (auto simp: lease_valid_def split: option.splits)
    ultimately show ?thesis using 2 by blast
  qed
qed

section \<open>Operations that leave every view alone\<close>

lemma quiet_withLease:
  "(\<And>a run. quiet (operation a run)) \<Longrightarrow> quiet (withLease c aid token operation checkTime)"
  unfolding withLease_def lease_def by (intro quiet_rules quiet_finds)

lemma quiet_heartbeat: "quiet (heartbeat c aid)"
  unfolding heartbeat_def by (intro quiet_rules) (simp add: attempt_core_def)

lemma quiet_saveCheckpoint: "quiet (saveCheckpoint c rid input)"
  unfolding saveCheckpoint_def by (intro quiet_rules quiet_finds) (simp add: run_core_def)

lemma quiet_phase: "quiet (phase c aid token ph detail)"
  unfolding phase_def by (intro quiet_rules quiet_withLease) (simp add: run_core_def)

lemma quiet_environment: "quiet (environment c aid token fp img lg)"
  unfolding environment_def environment_upsert_def
  by (intro quiet_rules quiet_withLease) (simp add: run_core_def)

lemma quiet_reserve: "quiet (reserve c rid aid token bid n)"
  unfolding reserve_def by (intro quiet_rules quiet_finds)

lemma quiet_settle: "quiet (settle c rid bid used)"
  unfolding settle_def by (intro quiet_rules quiet_finds) (simp add: run_core_def)

section \<open>Pause, cancel, resume\<close>

lemma withLease_iff:
  "withLease c aid token operation checkTime d = Inr (x, d') \<longleftrightarrow>
     (\<exists>a run. find_attempt aid d = Some a \<and> find_run (att_runId a) d = Some run \<and>
        lease_held c (Some token) a run \<and> \<not> (checkTime \<and> time_exhausted c run) \<and>
        operation a run d = Inr (x, d'))"
  by (auto simp: withLease_def lease_def and_then_iff attempt_findUniqueOrThrow_iff run_findUniqueOrThrow_iff
      tx_check_iff tx_return_iff)

lemma view_pause:
  assumes wf: "wf_db d" and run: "pause c aid token reason patch d = Inr (u, d')"
  shows "\<exists>a. find_attempt aid d = Some a \<and> att_status a = A_RUNNING \<and> lease_valid c a \<and>
    rv_status (view d (att_runId a)) \<in> {Some R_RUNNING, Some R_VERIFYING} \<and>
    attempt_ended (att_runId a) aid (att_no a) A_FAILED d d'"
proof -
  from run obtain a rn r a1 d1 d2 d3 d4 u1 u2 where
      a: "find_attempt aid d = Some a" "find_run (att_runId a) d = Some rn" "lease_held c (Some token) a rn"
      and upd: "run_update c (run_id rn) (\<lambda>r. r\<lparr> run_status := R_INTERRUPTED, run_phase := ''NEEDS_ATTENTION'',
         run_usedSeconds := run_usedSeconds r + active_seconds c rn, run_activeStartedAt := None \<rparr>) d = Inr (r, d1)"
      and att: "attempt_update aid (\<lambda>a. a\<lparr> att_status := A_FAILED, att_endedAt := Some (c_now c) \<rparr>) d1 = Inr (a1, d2)"
      and need: "need_attention (run_taskId rn) reason d2 = Inr (u1, d3)"
      and art: "(case present patch of None \<Rightarrow> tx_return ()
         | Some p \<Rightarrow> and_then (artifact_create (new_artifact c 0 a K_PATCH ''candidate.patch'' p)) (\<lambda>_. tx_return ())) d3 = Inr (u2, d4)"
      and ev: "control_event c (run_id rn) (run_status_name (run_status rn)) ''INTERRUPTED'' d4 = Inr (u, d')"
    unfolding pause_def withLease_iff and_then_iff by blast
  have id: "run_id rn = att_runId a" using a(2) by (rule find_row_key)
  have v1: "wf_db d1 \<and> find_run (run_id rn) d \<noteq> None \<and> view d1 = (view d)(run_id rn := (view d (run_id rn))\<lparr> rv_status := Some R_INTERRUPTED \<rparr>)"
    by (rule view_run_status [OF wf upd]) (simp add: run_core_def)
  have "find_attempt aid d1 = Some a" using upd a(1) by (auto simp: tx_iff)
  from view_attempt_status [OF conjunct1 [OF v1] this att, of A_FAILED]
  have v2: "wf_db d2 \<and> view d2 = (view d1)(att_runId a := set_attempt aid A_FAILED (view d1 (att_runId a)))"
    by (simp add: attempt_core_def)
  note v3 = quietD [OF quiet_need_attention conjunct1 [OF v2] need]
  have "quiet (case present patch of None \<Rightarrow> tx_return ()
         | Some p \<Rightarrow> and_then (artifact_create (new_artifact c 0 a K_PATCH ''candidate.patch'' p)) (\<lambda>_. tx_return ()))"
    by (intro quiet_rules)
  note v4 = quietD [OF this conjunct1 [OF v3] art]
  note v5 = quietD [OF quiet_control_event conjunct1 [OF v4] ev]
  have "view d' = (view d)(att_runId a := (set_attempt aid A_FAILED (view d (att_runId a)))\<lparr> rv_status := Some R_INTERRUPTED \<rparr>)"
    using v1 v2 v3 v4 v5 id by (cases "view d (att_runId a)") (simp add: set_attempt_def)
  then have "attempt_ended (att_runId a) aid (att_no a) A_FAILED d d'"
    using v5 unfolding attempt_ended_def
    by (cases "view d (att_runId a)", intro conjI exI [of _ R_INTERRUPTED] exI [of _ "[]"]) (auto simp: set_attempt_def)
  with a show ?thesis by (auto simp: lease_held_def view_simps)
qed

definition cancel_attempts :: "rview \<Rightarrow> rview" where
  "cancel_attempts v = v\<lparr> rv_attempts :=
     map (\<lambda>(i, n, t). (i, n, if t \<in> {A_RUNNING, A_CLAIMED} then A_FAILED else t)) (rv_attempts v) \<rparr>"

lemma view_cancel_attempts:
  assumes wf: "wf_db d"
    and upd: "attempt_updateMany (\<lambda>a. att_runId a = rid \<and> att_status a \<in> {A_RUNNING, A_CLAIMED}) f d = Inr (n, d')"
    and f: "\<And>a. attempt_core (f a) = attempt_core a \<and> att_status (f a) = A_FAILED"
  shows "wf_db d' \<and> view d' = (view d)(rid := cancel_attempts (view d rid))"
proof
  show "wf_db d'" using f by (intro wfI [OF wf.R_attempt_updateMany wf upd]) blast
  have "map attempt_view (filter (\<lambda>a. att_runId a = rid')
      (update_rows (\<lambda>a. att_runId a = rid \<and> att_status a \<in> {A_RUNNING, A_CLAIMED}) f rows)) =
      (if rid' = rid then map (\<lambda>(i, n, t). (i, n, if t \<in> {A_RUNNING, A_CLAIMED} then A_FAILED else t))
         (map attempt_view (filter (\<lambda>a. att_runId a = rid) rows))
       else map attempt_view (filter (\<lambda>a. att_runId a = rid') rows))" for rid' rows
    using f by (induction rows) (auto simp: update_rows_def attempt_core_def attempt_view_def)
  then show "view d' = (view d)(rid := cancel_attempts (view d rid))"
    using upd by (auto simp: tx_iff view_def fun_eq_iff cancel_attempts_def)
qed

lemma view_cancel:
  assumes wf: "wf_db d" and run: "cancel c rid d = Inr (u, d')"
  shows "wf_db d' \<and> (rv_status (view d rid) = Some R_CANCELLED \<and> view d' = view d \<or>
    rv_status (view d rid) \<notin> {None, Some R_CANCELLED, Some R_SUCCEEDED, Some R_FAILED} \<and>
    view d' = (view d)(rid := (cancel_attempts (view d rid))\<lparr> rv_status := Some R_CANCELLED \<rparr>))"
proof -
  from run obtain rn where rn: "find_run rid d = Some rn"
      and rest: "(if run_status rn = R_CANCELLED then tx_return () else
       and_then (tx_check (run_status rn \<notin> {R_SUCCEEDED, R_FAILED}) (Conflict ''Run is terminal'')) (\<lambda>_.
       and_then (run_update c rid (\<lambda>r. r\<lparr> run_status := R_CANCELLED, run_phase := ''CANCELLED'',
         run_usedSeconds := run_usedSeconds r + active_seconds c rn, run_activeStartedAt := None \<rparr>)) (\<lambda>_.
       and_then (task_update (run_taskId rn) (\<lambda>t. t\<lparr> task_status := T_CANCELLED \<rparr>)) (\<lambda>_.
       and_then (attempt_updateMany (\<lambda>a. att_runId a = rid \<and> att_status a \<in> {A_RUNNING, A_CLAIMED})
         (\<lambda>a. a\<lparr> att_status := A_FAILED, att_failureCode := Some CANCELLED_BY_USER,
                 att_endedAt := Some (c_now c) \<rparr>)) (\<lambda>_.
       control_event c rid (run_status_name (run_status rn)) ''CANCELLED''))))) d = Inr (u, d')"
    unfolding cancel_def and_then_iff run_findUniqueOrThrow_iff by blast
  show ?thesis
  proof (cases "run_status rn = R_CANCELLED")
    case True
    with rest rn wf show ?thesis by (simp add: tx_return_iff view_simps)
  next
    case False
    with rest obtain r t n d1 d2 d3 where
        ok: "run_status rn \<notin> {R_SUCCEEDED, R_FAILED}"
        and upd: "run_update c rid (\<lambda>r. r\<lparr> run_status := R_CANCELLED, run_phase := ''CANCELLED'',
         run_usedSeconds := run_usedSeconds r + active_seconds c rn, run_activeStartedAt := None \<rparr>) d = Inr (r, d1)"
        and tsk: "task_update (run_taskId rn) (\<lambda>t. t\<lparr> task_status := T_CANCELLED \<rparr>) d1 = Inr (t, d2)"
        and att: "attempt_updateMany (\<lambda>a. att_runId a = rid \<and> att_status a \<in> {A_RUNNING, A_CLAIMED})
         (\<lambda>a. a\<lparr> att_status := A_FAILED, att_failureCode := Some CANCELLED_BY_USER,
                 att_endedAt := Some (c_now c) \<rparr>) d2 = Inr (n, d3)"
        and ev: "control_event c rid (run_status_name (run_status rn)) ''CANCELLED'' d3 = Inr (u, d')"
      unfolding if_not_P [OF False] and_then_iff tx_check_iff by blast
    have v1: "wf_db d1 \<and> find_run rid d \<noteq> None \<and> view d1 = (view d)(rid := (view d rid)\<lparr> rv_status := Some R_CANCELLED \<rparr>)"
      by (rule view_run_status [OF wf upd]) (simp add: run_core_def)
    have v2: "wf_db d2 \<and> view d2 = view d1"
      by (rule quietD [OF quiet_task_update conjunct1 [OF v1] tsk]) (simp add: task_core_def)
    have v3: "wf_db d3 \<and> view d3 = (view d2)(rid := cancel_attempts (view d2 rid))"
      by (rule view_cancel_attempts [OF conjunct1 [OF v2] att]) (simp add: attempt_core_def)
    note v4 = quietD [OF quiet_control_event conjunct1 [OF v3] ev]
    have "view d' = (view d)(rid := (cancel_attempts (view d rid))\<lparr> rv_status := Some R_CANCELLED \<rparr>)"
      using v1 v2 v3 v4 by (cases "view d rid") (simp add: cancel_attempts_def)
    with v4 rn ok False show ?thesis by (simp add: view_simps)
  qed
qed

lemma view_resume:
  assumes wf: "wf_db d" and run: "resume c rid d = Inr (u, d')"
  shows "wf_db d' \<and> rv_status (view d rid) = Some R_INTERRUPTED \<and>
    length (attempts_of rid d) < rv_max (view d rid) \<and>
    view d' = (view d)(rid := (view d rid)\<lparr> rv_status := Some R_DISPATCHED,
      rv_commands := rv_commands (view d rid) @ [next_no (attempts_of rid d)] \<rparr>)"
proof -
  from run obtain task :: Task and rn project raw k cmd r t m d1 d2 d3 where
      rn: "find_run rid d = Some rn" "run_status rn = R_INTERRUPTED"
      and ok: "resume_allowed c rn (attempts_of rid d) (calls_of rid d)"
      and cmd: "resume_command c rn raw project (next_no (attempts_of rid d)) k = Inr cmd"
      and upd: "run_update c rid (\<lambda>r. r\<lparr> run_status := R_DISPATCHED, run_phase := ''QUEUED'' \<rparr>) d = Inr (r, d1)"
      and tsk: "task_update (run_taskId rn) (\<lambda>t. t\<lparr> task_status := T_QUEUED, task_attentionReason := None \<rparr>) d1 = Inr (t, d2)"
      and out: "outbox_create (run_message c 0 rid cmd (c_now c)) d2 = Inr (m, d3)"
      and ev: "control_event c rid (run_status_name (run_status rn)) ''DISPATCHED'' d3 = Inr (u, d')"
    unfolding resume_def and_then_iff run_findUniqueOrThrow_iff task_findUniqueOrThrow_iff find_or_throw_iff
      tx_read_iff tx_check_iff tx_some_iff tx_lift_iff by blast
  have v1: "wf_db d1 \<and> find_run rid d \<noteq> None \<and> view d1 = (view d)(rid := (view d rid)\<lparr> rv_status := Some R_DISPATCHED \<rparr>)"
    by (rule view_run_status [OF wf upd]) (simp add: run_core_def)
  have v2: "wf_db d2 \<and> view d2 = view d1"
    by (rule quietD [OF quiet_task_update conjunct1 [OF v1] tsk]) (simp add: task_core_def)
  note v3 = view_run_message [OF conjunct1 [OF v2] out]
  note v4 = quietD [OF quiet_control_event conjunct1 [OF v3] ev]
  have no: "cmd_attemptNo cmd = next_no (attempts_of rid d)"
    using cmd commandFromSnapshot_fields by (fastforce simp: resume_command_def split: option.splits)
  have max: "length (attempts_of rid d) < rv_max (view d rid)"
    using ok rn by (simp add: resume_allowed_def view_max not_le)
  have "view d' = (view d)(rid := (view d rid)\<lparr> rv_status := Some R_DISPATCHED,
      rv_commands := rv_commands (view d rid) @ [next_no (attempts_of rid d)] \<rparr>)"
    using v1 v2 v3 v4 no by simp
  with v4 max rn show ?thesis by (simp add: view_simps)
qed

end
