(* ===== verification/RunMachine.thy ===== *)
theory RunMachine
  imports Machine
begin

text \<open>
  The abstract run machine: the steps a run may take, over its view (status, attempts, commands), and
  what holds of every view the machine reaches.  It is the contract of the services; that they keep it is
  shown in System.
\<close>

section \<open>Steps\<close>

text \<open>The number of attempts claimed so far, and the statuses an ended attempt can have.\<close>

abbreviation claimed :: "rview \<Rightarrow> nat" where
  "claimed v \<equiv> length (rv_attempts v)"

definition ended :: "attempt_status \<Rightarrow> bool" where
  "ended s \<longleftrightarrow> s \<in> {A_FAILED, A_LEASE_EXPIRED}"

definition cancel_view :: "rview \<Rightarrow> rview" where
  "cancel_view v = v\<lparr> rv_status := Some R_CANCELLED, rv_attempts :=
     map (\<lambda>(i, n, t). (i, n, if t \<in> {A_RUNNING, A_CLAIMED} then A_FAILED else t)) (rv_attempts v) \<rparr>"

inductive run_step :: "rview \<Rightarrow> rview \<Rightarrow> bool" where
  create: "rv_status v = None \<Longrightarrow> 0 < m \<Longrightarrow>
    run_step v (v\<lparr> rv_status := Some R_DISPATCHED, rv_commands := rv_commands v @ [1], rv_max := m \<rparr>)"
| claim: "rv_status v = Some R_DISPATCHED \<Longrightarrow> claimed v < rv_max v \<Longrightarrow> aid \<notin> fst ` set (rv_attempts v) \<Longrightarrow>
    run_step v (v\<lparr> rv_status := Some R_RUNNING,
      rv_attempts := rv_attempts v @ [(aid, claimed v + 1, A_RUNNING)] \<rparr>)"
| succeed: "rv_status v = Some R_RUNNING \<Longrightarrow> rv_attempts v = as @ [(aid, n, A_RUNNING)] \<Longrightarrow>
    run_step v (v\<lparr> rv_status := Some R_SUCCEEDED, rv_attempts := as @ [(aid, n, A_SUCCEEDED)] \<rparr>)"
| stop: "rv_status v = Some R_RUNNING \<Longrightarrow> rv_attempts v = as @ [(aid, n, A_RUNNING)] \<Longrightarrow> ended s \<Longrightarrow>
    st \<in> {R_INTERRUPTED, R_FAILED} \<Longrightarrow>
    run_step v (v\<lparr> rv_status := Some st, rv_attempts := as @ [(aid, n, s)] \<rparr>)"
| recover: "rv_status v = Some R_RUNNING \<Longrightarrow> rv_attempts v = as @ [(aid, n, A_RUNNING)] \<Longrightarrow> ended s \<Longrightarrow>
    claimed v < rv_max v \<Longrightarrow>
    run_step v (v\<lparr> rv_status := Some R_DISPATCHED, rv_attempts := as @ [(aid, n, s)],
      rv_commands := rv_commands v @ [claimed v + 1] \<rparr>)"
| cancel: "rv_status v \<in> {Some R_DISPATCHED, Some R_RUNNING, Some R_INTERRUPTED} \<Longrightarrow> run_step v (cancel_view v)"
| resume: "rv_status v = Some R_INTERRUPTED \<Longrightarrow> claimed v < rv_max v \<Longrightarrow>
    run_step v (v\<lparr> rv_status := Some R_DISPATCHED, rv_commands := rv_commands v @ [claimed v + 1] \<rparr>)"

section \<open>The invariant\<close>

definition statuses :: "rview \<Rightarrow> attempt_status list" where
  "statuses v = map (\<lambda>a. snd (snd a)) (rv_attempts v)"

definition numbers :: "rview \<Rightarrow> nat list" where
  "numbers v = map (\<lambda>a. fst (snd a)) (rv_attempts v)"

text \<open>How the run's status constrains its last attempt and the last command.\<close>

fun status_fits :: "run_status \<Rightarrow> attempt_status option \<Rightarrow> bool" where
  "status_fits R_DISPATCHED l \<longleftrightarrow> (case l of None \<Rightarrow> True | Some s \<Rightarrow> ended s)"
| "status_fits R_RUNNING l \<longleftrightarrow> l = Some A_RUNNING"
| "status_fits R_INTERRUPTED l \<longleftrightarrow> (case l of None \<Rightarrow> False | Some s \<Rightarrow> ended s)"
| "status_fits R_SUCCEEDED l \<longleftrightarrow> l = Some A_SUCCEEDED"
| "status_fits R_FAILED l \<longleftrightarrow> (case l of None \<Rightarrow> False | Some s \<Rightarrow> ended s)"
| "status_fits R_CANCELLED l \<longleftrightarrow> (case l of None \<Rightarrow> True | Some s \<Rightarrow> ended s)"
| "status_fits _ l \<longleftrightarrow> False"

definition last_opt :: "'a list \<Rightarrow> 'a option" where
  "last_opt xs = (if xs = [] then None else Some (last xs))"

lemma last_opt_simps [simp]: "last_opt [] = None" "last_opt (xs @ [x]) = Some x"
  by (simp_all add: last_opt_def)

definition commands_fit :: "run_status \<Rightarrow> nat \<Rightarrow> nat \<Rightarrow> nat \<Rightarrow> bool" where
  "commands_fit st k n m \<longleftrightarrow>
     (if st = R_DISPATCHED then k = n + 1 \<and> n < m
      else if st = R_CANCELLED then n \<le> k \<and> k \<le> n + 1 else k = n)"

definition rinv :: "rview \<Rightarrow> bool" where
  "rinv v \<longleftrightarrow>
     (case rv_status v of
        None \<Rightarrow> rv_attempts v = [] \<and> rv_commands v = []
      | Some st \<Rightarrow>
          distinct (map fst (rv_attempts v)) \<and> numbers v = [1..<Suc (claimed v)] \<and> claimed v \<le> rv_max v \<and>
          list_all ended (butlast (statuses v)) \<and> status_fits st (last_opt (statuses v)) \<and>
          rv_commands v = [1..<Suc (length (rv_commands v))] \<and>
          commands_fit st (length (rv_commands v)) (claimed v) (rv_max v))"

lemma upt_snoc: "[1..<Suc n] @ [n + 1] = [1..<Suc (n + 1)]"
  by simp

text \<open>The attempts of a running run end in its active attempt.\<close>

lemma running_attempts:
  assumes "rinv v" and "rv_status v = Some R_RUNNING"
  obtains as aid where "rv_attempts v = as @ [(aid, length as + 1, A_RUNNING)]" "list_all ended (map (\<lambda>a. snd (snd a)) as)"
    "aid \<notin> fst ` set as"
proof -
  have ne: "rv_attempts v \<noteq> []" and lst: "last (statuses v) = A_RUNNING" and bl: "list_all ended (butlast (statuses v))"
      and num: "numbers v = [1..<Suc (claimed v)]" and dist: "distinct (map fst (rv_attempts v))"
    using assms by (auto simp: rinv_def statuses_def last_opt_def split: if_splits)
  obtain as a where as: "rv_attempts v = as @ [a]" using ne by (metis append_butlast_last_id)
  obtain aid n s where a: "a = (aid, n, s)" by (cases a)
  have "s = A_RUNNING" using lst as a by (simp add: statuses_def)
  moreover have "n = length as + 1" using num as a by (simp add: numbers_def)
  moreover have "list_all ended (map (\<lambda>a. snd (snd a)) as)" using bl as by (simp add: statuses_def butlast_append)
  moreover have "aid \<notin> fst ` set as" using dist as a by auto
  ultimately show ?thesis using that as a by blast
qed

lemma ended_attempts:
  assumes "rinv v" and "rv_status v \<in> {Some R_DISPATCHED, Some R_INTERRUPTED, Some R_FAILED, Some R_CANCELLED}"
  shows "list_all ended (statuses v)"
proof (cases "statuses v = []")
  case False
  then have e: "statuses v = butlast (statuses v) @ [last (statuses v)]" by simp
  have "list_all ended (butlast (statuses v))" "ended (last (statuses v))"
    using assms False by (auto simp: rinv_def last_opt_def)
  then show ?thesis by (subst e) simp
qed simp

lemma not_active_ended: "list_all ended ss \<Longrightarrow> A_RUNNING \<notin> set ss \<and> A_CLAIMED \<notin> set ss"
  by (auto simp: list_all_iff ended_def)

lemma cancel_ended:
  assumes "list_all ended (map (\<lambda>a. snd (snd a)) as)"
  shows "map (\<lambda>(i, n, t). (i, n, if t \<in> {A_RUNNING, A_CLAIMED} then A_FAILED else t)) as = as"
proof (rule map_idI)
  fix a assume "a \<in> set as"
  with assms have "ended (snd (snd a))" by (simp add: list_all_iff)
  then show "(case a of (i, n, t) \<Rightarrow> (i, n, if t \<in> {A_RUNNING, A_CLAIMED} then A_FAILED else t)) = a"
    by (auto simp: ended_def split: prod.splits)
qed

text \<open>Every step of the run machine keeps the invariant: attempts numbered from 1 without gaps and within
  the limit, all but the last one ended, the last one active exactly while the run is running and
  successful exactly when the run is, and one command per attempt, numbered from 1 without gaps or
  repetition, one ahead of the attempts exactly while the run is dispatched.\<close>

lemma rinv_step:
  assumes "run_step v v'" and "rinv v"
  shows "rinv v'"
  using assms
proof (cases rule: run_step.cases)
  case (create m)
  with assms(2) show ?thesis
    by (auto simp: rinv_def numbers_def statuses_def commands_fit_def)
next
  case (claim aid)
  from ended_attempts [OF assms(2)] claim have "list_all ended (statuses v)" by simp
  with claim assms(2) show ?thesis
    by (auto simp: rinv_def numbers_def statuses_def commands_fit_def butlast_append)
next
  case (succeed as aid n)
  with assms(2) show ?thesis
    by (auto simp: rinv_def numbers_def statuses_def commands_fit_def butlast_append)
next
  case (stop as aid n s st)
  with assms(2) show ?thesis
    by (auto simp: rinv_def numbers_def statuses_def commands_fit_def butlast_append)
next
  case (recover as aid n s)
  with assms(2) show ?thesis
    by (auto simp: rinv_def numbers_def statuses_def commands_fit_def butlast_append)
next
  case cancel
  then consider "rv_status v = Some R_RUNNING" | "rv_status v \<in> {Some R_DISPATCHED, Some R_INTERRUPTED}" by auto
  then show ?thesis
  proof cases
    case 1
    from running_attempts [OF assms(2) 1] obtain as aid where
        as: "rv_attempts v = as @ [(aid, length as + 1, A_RUNNING)]" "list_all ended (map (\<lambda>a. snd (snd a)) as)" by blast
    have "rv_attempts v' = as @ [(aid, length as + 1, A_FAILED)]"
      using cancel as cancel_ended [OF as(2)] by (simp add: cancel_view_def)
    with cancel as 1 assms(2) show ?thesis
      by (auto simp: cancel_view_def rinv_def numbers_def statuses_def commands_fit_def butlast_append ended_def)
  next
    case 2
    then have e: "list_all ended (statuses v)" using ended_attempts [OF assms(2)] by auto
    then have "rv_attempts v' = rv_attempts v"
      using cancel cancel_ended by (simp add: cancel_view_def statuses_def)
    with cancel 2 assms(2) show ?thesis
      by (auto simp: cancel_view_def rinv_def numbers_def statuses_def commands_fit_def split: option.splits)
  qed
next
  case resume
  with assms(2) show ?thesis
    by (auto simp: rinv_def numbers_def statuses_def commands_fit_def split: option.splits)
qed

text \<open>A finished run takes no further step.\<close>

definition finished :: "run_status \<Rightarrow> bool" where
  "finished s \<longleftrightarrow> s \<in> {R_SUCCEEDED, R_FAILED, R_CANCELLED}"

lemma finished_final: "run_step v v' \<Longrightarrow> rv_status v = Some s \<Longrightarrow> \<not> finished s"
  by (induction rule: run_step.induct) (auto simp: finished_def)

text \<open>Commands and attempts are only added, and what is in an attempt's place keeps its number.\<close>

lemma run_step_grows:
  assumes "run_step v v'"
  shows "(\<exists>cs. rv_commands v' = rv_commands v @ cs) \<and> claimed v \<le> claimed v' \<and>
    take (claimed v) (map (\<lambda>a. (fst a, fst (snd a))) (rv_attempts v')) = map (\<lambda>a. (fst a, fst (snd a))) (rv_attempts v)"
  using assms by (induction rule: run_step.induct) (auto simp: cancel_view_def comp_def case_prod_beta)

end
