(* ===== verification/Ingest.thy ===== *)
theory Ingest
  imports Events "HOL-Library.Sublist"
begin

text \<open>
  The way of an event from the worker to the browser: the consumer of the Redis stream
  (modules/events/trace-event-ingestor.ts), the replaying SSE stream
  (modules/events/sse.controller.ts) and the client's cache (apps/web/src/lib/use-run-events.ts).
\<close>

section \<open>The consumer of the stream\<close>

text \<open>
  The data field of a stream entry: text that \<open>JSON.parse\<close> rejects, a JSON value that does not have the
  shape of a trace event, or a value of that shape.
\<close>

datatype stream_entry = NotJson | Misshapen | Shaped TraceEvent

definition stored_event :: "TraceEvent \<Rightarrow> nat \<Rightarrow> StoredEvent" where
  "stored_event e runSequence =
     \<lparr> ev_runId = tev_runId e, ev_attemptId = Some (tev_attemptId e), ev_runSequence = runSequence,
       ev_attemptSequence = tev_attemptSequence e, ev_type = tev_type e, ev_payload = tev_payload e,
       ev_idempotencyKey = tev_idempotencyKey e, ev_occurredAt = tev_occurredAt e \<rparr>"

definition event_known :: "string \<Rightarrow> db \<Rightarrow> bool" where
  "event_known key d \<longleftrightarrow> find_row ev_idempotencyKey key (traceEvents d) \<noteq> None"

definition ingest_tx :: "ctx \<Rightarrow> TraceEvent \<Rightarrow> (db, StoredEvent) tx" where
  "ingest_tx c e = store_next_event c (tev_runId e) (stored_event e)"

text \<open>What happened to an entry: whether it was acknowledged, and what was broadcast.\<close>

record entry_result =
  er_acked :: bool
  er_published :: "StoredEvent list"

definition acked :: "StoredEvent list \<Rightarrow> entry_result" where
  "acked evs = \<lparr> er_acked = True, er_published = evs \<rparr>"

definition left_pending :: entry_result where
  "left_pending = \<lparr> er_acked = False, er_published = [] \<rparr>"

text \<open>
  \<open>known\<close> is what the query before the transaction said; another consumer may store the event in
  between, and then the unique key makes the transaction fail with P2002.
\<close>

definition handle_parsed :: "ctx \<Rightarrow> TraceEvent \<Rightarrow> bool \<Rightarrow> db \<Rightarrow> entry_result \<times> db" where
  "handle_parsed c e known d =
     (if known then (acked [], d)
      else case ingest_tx c e d of
          Inr (stored, d') \<Rightarrow> (acked [stored], d')
        | Inl (UniqueViolation _) \<Rightarrow> (acked [], d)
        | Inl _ \<Rightarrow> (left_pending, d))"

definition handleEntry :: "ctx \<Rightarrow> stream_entry \<Rightarrow> db \<Rightarrow> entry_result \<times> db" where
  "handleEntry c entry d =
     (case entry of
        NotJson \<Rightarrow> (left_pending, d)
      | Misshapen \<Rightarrow> (acked [], d)
      | Shaped e \<Rightarrow>
          if \<not> TraceEventSchema e then (acked [], d)
          else handle_parsed c e (event_known (tev_idempotencyKey e) d) d)"

text \<open>\<open>for (const [id, fields] of entries) await this.handleEntry(id, fields)\<close>.\<close>

fun handleEntries :: "ctx \<Rightarrow> stream_entry list \<Rightarrow> db \<Rightarrow> db" where
  "handleEntries c [] d = d"
| "handleEntries c (e # es) d = handleEntries c es (snd (handleEntry c e d))"

context effects
begin

lemma R_ingest_tx: "payload_type (tev_payload e) = tev_type e \<Longrightarrow> tx_rel R (ingest_tx c e)"
  unfolding ingest_tx_def by (rule R_store) (simp add: stored_event_def)

lemma R_handle_parsed: "payload_type (tev_payload e) = tev_type e \<Longrightarrow> R d (snd (handle_parsed c e known d))"
  using R_refl tx_relD [OF R_ingest_tx [of e c], of d]
  by (auto simp: handle_parsed_def reflp_def split: sum.splits err.splits prod.splits)

lemma R_handleEntry: "R d (snd (handleEntry c entry d))"
  using R_refl R_handle_parsed by (auto simp: handleEntry_def TraceEventSchema_def reflp_def split: stream_entry.splits)

lemma R_handleEntries: "R d (handleEntries c es d)"
proof (induction es arbitrary: d)
  case Nil
  then show ?case using R_refl by (simp add: reflp_def)
next
  case (Cons e es)
  show ?case using R_handleEntry [of d c e] Cons.IH [of "snd (handleEntry c e d)"] R_trans
    by (auto simp: transp_def)
qed

end

section \<open>Exactly once\<close>

text \<open>The keys under which events are stored, in the order they were stored.\<close>

definition keys_of :: "db \<Rightarrow> string list" where
  "keys_of d = map ev_idempotencyKey (traceEvents d)"

lemma event_known_iff: "event_known k d \<longleftrightarrow> k \<in> set (keys_of d)"
  by (auto simp: event_known_def keys_of_def find_row_None)

text \<open>An event whose run and attempt are in the database.\<close>

definition addressed :: "TraceEvent \<Rightarrow> db \<Rightarrow> bool" where
  "addressed e d \<longleftrightarrow> find_run (tev_runId e) d \<noteq> None \<and> find_attempt (tev_attemptId e) d \<noteq> None"

lemma fresh_sequence:
  assumes "wf_db d" and "find_run rid d = Some r" and "f \<in> set (traceEvents d)" and "ev_runId f = rid"
  shows "ev_runSequence f \<le> run_lastSequence r"
proof -
  have "r \<in> set (runs d)" "run_id r = rid" using assms(2) by (auto dest: find_row_in find_row_key)
  then have "log_of rid d = [1..<Suc (run_lastSequence r)]" using assms(1) by (auto simp: wf_db_def)
  moreover have "ev_runSequence f \<in> set (log_of rid d)" using assms by (auto simp: log_of_def)
  ultimately show ?thesis by auto
qed

lemma ingest_fresh:
  assumes wf: "wf_db d" and addr: "addressed e d" and new: "tev_idempotencyKey e \<notin> set (keys_of d)"
  shows "\<exists>run d'. find_run (tev_runId e) d = Some run \<and>
    ingest_tx c e d = Inr (stored_event e (run_lastSequence run + 1), d') \<and>
    traceEvents d' = traceEvents d @ [stored_event e (run_lastSequence run + 1)] \<and>
    attempts d' = attempts d \<and> (\<forall>k. find_run k d' = None \<longleftrightarrow> find_run k d = None)"
proof -
  obtain run where run: "find_run (tev_runId e) d = Some run" using addr by (auto simp: addressed_def)
  let ?d = "d\<lparr> runs := update_rows (\<lambda>r. run_id r = tev_runId e)
    (\<lambda>r. r\<lparr> run_lastSequence := run_lastSequence r + 1, run_updatedAt := c_now c \<rparr>) (runs d) \<rparr>"
  let ?ev = "stored_event e (run_lastSequence run + 1)"
  have nosame: "\<forall>f \<in> set (traceEvents d). \<not> (ev_runId f = tev_runId e \<and> ev_runSequence f = run_lastSequence run + 1)"
    using fresh_sequence [OF wf run] by fastforce
  have "traceEvent_create ?ev ?d = Inr (?ev, ?d\<lparr> traceEvents := traceEvents d @ [?ev] \<rparr>)"
    using nosame addr new run
    by (auto simp: traceEvent_create_iff stored_event_def addressed_def find_row_update_key find_row_None keys_of_def)
  moreover have "run_update c (tev_runId e) (\<lambda>r. r\<lparr> run_lastSequence := run_lastSequence r + 1 \<rparr>) d =
      Inr (run\<lparr> run_lastSequence := run_lastSequence run + 1, run_updatedAt := c_now c \<rparr>, ?d)"
    using run by (auto simp: run_update_iff)
  ultimately have "ingest_tx c e d = Inr (?ev, ?d\<lparr> traceEvents := traceEvents d @ [?ev] \<rparr>)"
    by (simp add: ingest_tx_def store_next_event_def and_then_def)
  then show ?thesis using run by (auto simp: find_row_update_key)
qed

lemma handleEntry_keys:
  assumes wf: "wf_db d" and addr: "addressed e d" and ok: "TraceEventSchema e" and dist: "distinct (keys_of d)"
  shows "wf_db (snd (handleEntry c (Shaped e) d)) \<and> er_acked (fst (handleEntry c (Shaped e) d)) \<and>
    keys_of (snd (handleEntry c (Shaped e) d)) =
      (if tev_idempotencyKey e \<in> set (keys_of d) then keys_of d else keys_of d @ [tev_idempotencyKey e]) \<and>
    (\<forall>f. addressed f d \<longrightarrow> addressed f (snd (handleEntry c (Shaped e) d)))"
proof -
  have "wf_db (snd (handleEntry c (Shaped e) d))"
    using wf.R_handleEntry [of d c "Shaped e"] wf by (simp add: keeps_wf_def)
  then show ?thesis
  proof (cases "tev_idempotencyKey e \<in> set (keys_of d)")
    case True
    then show ?thesis
      using ok wf by (simp add: handleEntry_def handle_parsed_def event_known_iff acked_def)
  next
    case False
    from ingest_fresh [OF wf addr False, of c] obtain run :: Run and d' where
        "ingest_tx c e d = Inr (stored_event e (run_lastSequence run + 1), d')"
        "traceEvents d' = traceEvents d @ [stored_event e (run_lastSequence run + 1)]"
        "attempts d' = attempts d" "\<forall>k. find_run k d' = None \<longleftrightarrow> find_run k d = None" by blast
    with False ok \<open>wf_db (snd (handleEntry c (Shaped e) d))\<close> show ?thesis
      by (simp add: handleEntry_def handle_parsed_def event_known_iff acked_def keys_of_def addressed_def stored_event_def)
  qed
qed

text \<open>
  C16. Redelivery is harmless: however often and in whatever order the stream delivers a batch of valid
  events of known runs, the events stored by the end carry each key exactly once, the keys stored
  before keep their place, the new ones follow in the order of their first delivery, and the database
  is still well-formed.
\<close>

theorem ingest_exactly_once:
  assumes "wf_db d" and "distinct (keys_of d)" and "\<forall>e \<in> set es. TraceEventSchema e \<and> addressed e d"
  shows "wf_db (handleEntries c (map Shaped es) d) \<and>
    keys_of (handleEntries c (map Shaped es) d) = keys_of d @
      filter (\<lambda>k. k \<notin> set (keys_of d)) (unique_first (map tev_idempotencyKey es)) \<and>
    distinct (keys_of (handleEntries c (map Shaped es) d))"
  using assms
proof (induction es arbitrary: d)
  case Nil
  then show ?case by simp
next
  case (Cons e es)
  let ?d = "snd (handleEntry c (Shaped e) d)"
  have e: "TraceEventSchema e" "addressed e d" using Cons.prems by simp_all
  note step = handleEntry_keys [OF Cons.prems(1) e(2) e(1) Cons.prems(2), of c]
  have dist: "distinct (keys_of ?d)" using step Cons.prems(2) by auto
  have IH: "wf_db (handleEntries c (map Shaped es) ?d) \<and>
    keys_of (handleEntries c (map Shaped es) ?d) = keys_of ?d @
      filter (\<lambda>k. k \<notin> set (keys_of ?d)) (unique_first (map tev_idempotencyKey es)) \<and>
    distinct (keys_of (handleEntries c (map Shaped es) ?d))"
    using step dist Cons.prems(3) by (intro Cons.IH) auto
  have eq: "keys_of ?d @ filter (\<lambda>k. k \<notin> set (keys_of ?d)) (unique_first (map tev_idempotencyKey es)) =
      keys_of d @ filter (\<lambda>k. k \<notin> set (keys_of d)) (unique_first (map tev_idempotencyKey (e # es)))"
    using step by (auto intro: filter_cong)
  show ?case using IH [unfolded eq] unfolding list.map handleEntries.simps .
qed

section \<open>The replaying stream\<close>

text \<open>
  \<open>Number.isSafeInteger(requested) && requested >= 0 ? requested : 0\<close>, where the requested position is
  \<open>None\<close> when it is not a safe integer.
\<close>

definition start_sequence :: "int option \<Rightarrow> nat" where
  "start_sequence requested = (case requested of None \<Rightarrow> 0 | Some n \<Rightarrow> if 0 \<le> n then nat n else 0)"

definition events_after :: "string \<Rightarrow> nat \<Rightarrow> db \<Rightarrow> StoredEvent list" where
  "events_after runId s d =
     take 500 (sort_key ev_runSequence (filter (\<lambda>e. ev_runId e = runId \<and> s < ev_runSequence e) (traceEvents d)))"

text \<open>One \<open>drain\<close> of an open stream: the events written, and the new position.\<close>

definition drain :: "string \<Rightarrow> nat \<Rightarrow> db \<Rightarrow> StoredEvent list \<times> nat" where
  "drain runId s d =
     (let evs = events_after runId s d in
      (evs, if evs = [] then s else ev_runSequence (last evs)))"

text \<open>The timer drains the database as it is at each tick.\<close>

fun drains :: "string \<Rightarrow> nat \<Rightarrow> db list \<Rightarrow> StoredEvent list \<times> nat" where
  "drains runId s [] = ([], s)"
| "drains runId s (d # ds) =
     (case drain runId s d of (evs, s') \<Rightarrow>
      case drains runId s' ds of (evs', s'') \<Rightarrow> (evs @ evs', s''))"

lemma log_sorted:
  assumes "wf_db d" and "find_run rid d = Some r"
  shows "map ev_runSequence (events_of rid d) = [1..<Suc (run_lastSequence r)]"
proof -
  have "r \<in> set (runs d)" "run_id r = rid" using assms(2) by (auto dest: find_row_in find_row_key)
  then show ?thesis using assms(1) unfolding wf_db_def log_of_def by blast
qed

lemma log_nth:
  assumes "wf_db d" and "i < length (events_of rid d)"
  shows "ev_runSequence (events_of rid d ! i) = Suc i"
proof -
  have "events_of rid d ! i \<in> set (events_of rid d)" using assms(2) by (rule nth_mem)
  then obtain r where r: "find_run rid d = Some r" using assms(1) by (auto simp: wf_db_def)
  have "length (events_of rid d) = run_lastSequence r"
    using arg_cong [OF log_sorted [OF assms(1) r], of length] by simp
  then have "map ev_runSequence (events_of rid d) ! i = Suc i"
    using assms(2) unfolding log_sorted [OF assms(1) r] by (simp del: upt_Suc)
  then show ?thesis using assms(2) by simp
qed

lemma filter_above_drop:
  assumes "\<forall>i < length xs. f (xs ! i) = Suc (k + i)"
  shows "filter (\<lambda>x. s < f x) xs = drop (s - k) xs"
  using assms
proof (induction xs arbitrary: k)
  case Nil
  then show ?case by simp
next
  case (Cons x xs)
  have x: "f x = Suc k" using Cons.prems by force
  have xs: "\<forall>i < length xs. f (xs ! i) = Suc (Suc k + i)"
    using Cons.prems by (metis Suc_less_eq add_Suc_shift length_Cons nth_Cons_Suc)
  show ?case
  proof (cases "s < Suc k")
    case True
    then have "s - Suc k = 0" "s - k = 0" by simp_all
    with Cons.IH [OF xs] x True show ?thesis by simp
  next
    case False
    then have "s - k = Suc (s - Suc k)" by simp
    with Cons.IH [OF xs] x False show ?thesis by simp
  qed
qed

text \<open>In a well-formed database a drain is a slice of the log.\<close>

lemma drain_slice:
  assumes "wf_db d"
  shows "events_after rid s d = take 500 (drop s (events_of rid d))"
proof -
  have f: "filter (\<lambda>e. ev_runId e = rid \<and> s < ev_runSequence e) (traceEvents d) =
      filter (\<lambda>e. s < ev_runSequence e) (events_of rid d)"
    by (simp add: conj_commute)
  also have "\<dots> = drop s (events_of rid d)"
    using filter_above_drop [of "events_of rid d" ev_runSequence 0 s] log_nth [OF assms] by simp
  finally have *: "filter (\<lambda>e. ev_runId e = rid \<and> s < ev_runSequence e) (traceEvents d) = drop s (events_of rid d)" .
  have "sorted (map ev_runSequence (drop s (events_of rid d)))"
    using log_nth [OF assms] by (auto simp: sorted_iff_nth_mono)
  then show ?thesis by (simp add: events_after_def * sort_key_id_if_sorted)
qed

lemma drain_position:
  assumes "wf_db d" and "s \<le> length (events_of rid d)" and "drain rid s d = (evs, s')"
  shows "evs = take (s' - s) (drop s (events_of rid d)) \<and> s \<le> s' \<and> s' \<le> length (events_of rid d) \<and>
    s' = min (s + 500) (length (events_of rid d))"
proof -
  let ?E = "events_of rid d"
  have evs: "evs = take 500 (drop s ?E)"
    using assms(3) drain_slice [OF assms(1)] by (simp add: drain_def Let_def)
  have len: "length evs = min 500 (length ?E - s)" using evs by simp
  have s': "s' = s + length evs"
  proof (cases "evs = []")
    case True
    then show ?thesis using assms(3) by (auto simp: drain_def Let_def)
  next
    case False
    then have "last evs = ?E ! (s + (length evs - 1))"
      using evs by (simp add: last_conv_nth)
    moreover have "s + (length evs - 1) < length ?E" using False len by (cases evs) auto
    ultimately have "ev_runSequence (last evs) = Suc (s + (length evs - 1))"
      using log_nth [OF assms(1)] by simp
    moreover have "0 < length evs" using False by simp
    ultimately show ?thesis using assms(3) False by (auto simp: drain_def Let_def)
  qed
  show ?thesis using evs len s' assms(2) by (auto simp: min_def)
qed

text \<open>Databases of a growing history: each one is well-formed and extends the log of the one before.\<close>

fun growing :: "string \<Rightarrow> db list \<Rightarrow> bool" where
  "growing rid [] \<longleftrightarrow> True"
| "growing rid [d] \<longleftrightarrow> wf_db d"
| "growing rid (d # d' # ds) \<longleftrightarrow> wf_db d \<and> prefix (events_of rid d) (events_of rid d') \<and> growing rid (d' # ds)"

lemma growing_Cons: "growing rid (d # ds) \<Longrightarrow> wf_db d \<and> growing rid ds"
  by (cases ds) auto

lemma growing_last: "growing rid (d # ds) \<Longrightarrow> prefix (events_of rid d) (events_of rid (last (d # ds)))"
proof (induction ds arbitrary: d)
  case (Cons d' ds)
  then show ?case by (auto intro: prefix_order.trans)
qed simp

lemma slice_prefix:
  assumes "prefix xs ys" and "t \<le> length xs"
  shows "take (t - s) (drop s xs) = take (t - s) (drop s ys)"
  using assms by (auto simp: prefix_def)

lemma drains_slice:
  assumes "growing rid ds" and "ds \<noteq> []" and "s \<le> length (events_of rid (hd ds))" and "drains rid s ds = (evs, s')"
  shows "s \<le> s' \<and> s' \<le> length (events_of rid (last ds)) \<and> evs = take (s' - s) (drop s (events_of rid (last ds)))"
  using assms
proof (induction ds arbitrary: s evs)
  case (Cons d ds)
  obtain e1 t where one: "drain rid s d = (e1, t)" by force
  obtain e2 where rest: "drains rid t ds = (e2, s')" and evs: "evs = e1 @ e2"
    using Cons.prems(4) one by (auto split: prod.splits)
  note g = growing_Cons [OF Cons.prems(1)]
  have p: "e1 = take (t - s) (drop s (events_of rid d)) \<and> s \<le> t \<and> t \<le> length (events_of rid d)"
    using drain_position [OF conjunct1 [OF g] _ one] Cons.prems(3) by simp
  show ?case
  proof (cases "ds = []")
    case True
    with rest evs p show ?thesis by simp
  next
    case False
    then obtain d' ds' where ds: "ds = d' # ds'" by (cases ds) auto
    have pre: "prefix (events_of rid d) (events_of rid d')" using Cons.prems(1) ds by simp
    then have "t \<le> length (events_of rid (hd ds))"
      using p ds prefix_length_le by fastforce
    from Cons.IH [OF conjunct2 [OF g] False this rest]
    have ih: "t \<le> s'" "s' \<le> length (events_of rid (last ds))"
        "e2 = take (s' - t) (drop t (events_of rid (last ds)))" by auto
    have "prefix (events_of rid d) (events_of rid (last ds))"
      using growing_last [OF Cons.prems(1)] False by simp
    then have "e1 = take (t - s) (drop s (events_of rid (last ds)))"
      using p slice_prefix by blast
    then have "evs = take (t - s) (drop s (events_of rid (last ds))) @
        take (s' - t) (drop (t - s) (drop s (events_of rid (last ds))))"
      using evs ih p by simp
    also have "\<dots> = take ((t - s) + (s' - t)) (drop s (events_of rid (last ds)))"
      by (simp add: take_add)
    finally show ?thesis using p ih False by simp
  qed
qed simp

text \<open>
  C18. The stream replays the log without loss, repetition or reordering: whatever a run's log grows to
  between the drains, what a client receives from position \<open>s\<close> on is exactly the events of the log
  numbered \<open>s + 1\<close> up to the position it ends at, in order; and a position below the log's end
  always advances, by up to 500 events a tick.
\<close>

theorem stream_replays_log:
  assumes "growing rid ds" and "ds \<noteq> []" and "s \<le> length (events_of rid (hd ds))" and "drains rid s ds = (evs, s')"
  shows "map ev_runSequence evs = [Suc s..<Suc s'] \<and>
    evs = take (s' - s) (drop s (events_of rid (last ds))) \<and>
    min (s + 500) (length (events_of rid (hd ds))) \<le> s'"
proof -
  obtain d rest where ds: "ds = d # rest" using assms(2) by (cases ds) auto
  have wf_last: "wf_db (last ds)"
    using assms(1,2) by (induction ds rule: growing.induct) auto
  note sl = drains_slice [OF assms]
  have "map ev_runSequence evs = [Suc s..<Suc s']"
  proof (rule nth_equalityI)
    show "length (map ev_runSequence evs) = length [Suc s..<Suc s']" using sl by auto
    fix i assume "i < length (map ev_runSequence evs)"
    with sl log_nth [OF wf_last, of "s + i" rid]
    show "map ev_runSequence evs ! i = [Suc s..<Suc s'] ! i" by (auto simp del: upt_Suc)
  qed
  moreover obtain e1 t where one: "drain rid s d = (e1, t)" by force
  have wf: "wf_db d" and le: "s \<le> length (events_of rid d)"
    using growing_Cons [OF assms(1) [unfolded ds]] assms(3) unfolding ds by simp_all
  from drain_position [OF wf le one]
  have t: "t = min (s + 500) (length (events_of rid d))" "t \<le> length (events_of rid d)" by simp_all
  moreover have "t \<le> s'"
  proof (cases "rest = []")
    case True
    then show ?thesis using assms(4) one ds by simp
  next
    case False
    obtain e2 where r: "drains rid t rest = (e2, s')" using assms(4) one ds by (auto split: prod.splits)
    obtain d' rest' where rest: "rest = d' # rest'" using False by (cases rest) auto
    have g: "growing rid (d # d' # rest')" using assms(1) ds rest by simp
    then have "prefix (events_of rid d) (events_of rid d')" and g': "growing rid rest" using rest by simp_all
    then have "t \<le> length (events_of rid (hd rest))"
      using t(2) prefix_length_le unfolding rest by fastforce
    from drains_slice [OF g' False this r] show ?thesis by blast
  qed
  ultimately show ?thesis using sl ds t(1) by simp
qed

section \<open>The client's cache\<close>

definition mergeEvents :: "StoredEvent list \<Rightarrow> StoredEvent \<Rightarrow> StoredEvent list" where
  "mergeEvents events incoming =
     (if \<exists>e \<in> set events. ev_runSequence e = ev_runSequence incoming then events
      else sort_key ev_runSequence (events @ [incoming]))"

text \<open>The listener: the cache and the last position a reconnection asks for.\<close>

definition receive :: "StoredEvent list \<times> nat \<Rightarrow> StoredEvent \<Rightarrow> StoredEvent list \<times> nat" where
  "receive st e = (mergeEvents (fst st) e, max (snd st) (ev_runSequence e))"

lemma mergeEvents_set:
  "ev_runSequence ` set (mergeEvents es e) = insert (ev_runSequence e) (ev_runSequence ` set es)"
proof (cases "\<exists>f \<in> set es. ev_runSequence f = ev_runSequence e")
  case True
  then have "ev_runSequence e \<in> ev_runSequence ` set es" by (metis image_eqI)
  with True show ?thesis by (simp add: mergeEvents_def insert_absorb)
next
  case False
  then show ?thesis by (simp add: mergeEvents_def)
qed

lemma mergeEvents_inv:
  assumes "sorted (map ev_runSequence es)" and "distinct (map ev_runSequence es)"
  shows "sorted (map ev_runSequence (mergeEvents es e)) \<and> distinct (map ev_runSequence (mergeEvents es e))"
proof -
  have "distinct (map ev_runSequence (sort_key ev_runSequence (es @ [e])))"
    if "\<forall>f \<in> set es. ev_runSequence f \<noteq> ev_runSequence e"
  proof -
    have "distinct (map ev_runSequence (es @ [e]))" using assms(2) that by auto
    then show ?thesis by (simp only: distinct_map distinct_sort set_sort)
  qed
  with assms show ?thesis by (auto simp: mergeEvents_def)
qed

lemma foldl_max: "foldl max (s::nat) xs = Max (insert s (set xs))"
proof (induction xs arbitrary: s)
  case (Cons x xs)
  then show ?case by (cases "xs = []") (simp_all add: max.assoc)
qed simp

lemma receive_all:
  assumes "sorted (map ev_runSequence es)" and "distinct (map ev_runSequence es)"
  shows "sorted (map ev_runSequence (fst (foldl receive (es, s) incoming))) \<and>
    distinct (map ev_runSequence (fst (foldl receive (es, s) incoming))) \<and>
    ev_runSequence ` set (fst (foldl receive (es, s) incoming)) = ev_runSequence ` set (es @ incoming) \<and>
    set (fst (foldl receive (es, s) incoming)) \<subseteq> set (es @ incoming) \<and>
    snd (foldl receive (es, s) incoming) = foldl max s (map ev_runSequence incoming)"
  using assms
proof (induction incoming arbitrary: es s)
  case Nil
  then show ?case by simp
next
  case (Cons e incoming)
  have "set (mergeEvents es e) \<subseteq> insert e (set es)" by (auto simp: mergeEvents_def)
  with Cons.IH [of "mergeEvents es e" "max s (ev_runSequence e)"] mergeEvents_inv [OF Cons.prems, of e]
    mergeEvents_set [of es e]
  show ?case by (auto simp: receive_def image_Un)
qed

text \<open>
  The client's cache converges to the log: once a client has received every event of a run at least
  once, in any order and with any repetitions (reconnections included), its cache is the run's log,
  sorted and without duplicates, and the position it would reconnect from is the end of the log.
\<close>

theorem client_cache_is_log:
  assumes "wf_db d" and "set incoming = set (events_of rid d)"
  shows "foldl receive ([], 0) incoming = (events_of rid d, length (events_of rid d))"
proof -
  let ?E = "events_of rid d"
  obtain cache pos where fold: "foldl receive ([], 0) incoming = (cache, pos)" by force
  have E: "map ev_runSequence ?E = [1..<Suc (length ?E)]"
    by (rule nth_equalityI) (simp_all add: log_nth [OF assms(1)] del: upt_Suc)
  have inv: "sorted (map ev_runSequence cache)" "distinct (map ev_runSequence cache)"
      "ev_runSequence ` set cache = ev_runSequence ` set ?E" "set cache \<subseteq> set ?E"
      "pos = foldl max 0 (map ev_runSequence incoming)"
    using receive_all [of "[]" 0 incoming] fold assms(2) by simp_all
  have seqs: "map ev_runSequence cache = map ev_runSequence ?E"
  proof (rule sorted_distinct_set_unique)
    show "sorted (map ev_runSequence ?E)" "distinct (map ev_runSequence ?E)"
      unfolding E by (simp_all del: upt_Suc)
  qed (use inv in \<open>simp_all only: list.set_map\<close>)
  have "distinct (map ev_runSequence ?E)" unfolding E by (simp del: upt_Suc)
  then have "inj_on ev_runSequence (set cache \<union> set ?E)"
    using inv(4) by (simp add: distinct_map Un_absorb1)
  then have "cache = ?E" by (rule map_inj_on [OF seqs])
  moreover have "pos = length ?E"
  proof -
    have "pos = Max (insert 0 (ev_runSequence ` set incoming))"
      unfolding inv(5) foldl_max by simp
    also have "ev_runSequence ` set incoming = {1..<Suc (length ?E)}"
      using arg_cong [OF E, of set] assms(2) by (simp del: upt_Suc)
    also have "Max (insert 0 {1..<Suc (length ?E)}) = length ?E"
      by (rule Max_eqI) (auto simp: not_less_eq_eq)
    finally show ?thesis .
  qed
  ultimately show ?thesis using fold by simp
qed

end
