(* ===== verification/Handlers.thy ===== *)
theory Handlers
  imports Prelude
begin

text \<open>
  Handlers that run several transactions: what has been committed stays when a later step throws.
  \<open>hx_tx\<close> runs one transaction, \<open>hx_then\<close> continues after a success, \<open>hx_catch\<close> is a \<open>catch\<close> clause and
  \<open>hx_for\<close> a loop that an exception ends.
\<close>

type_synonym ('s, 'a) hx = "'s \<Rightarrow> (err + 'a) \<times> 's"

definition hx_return :: "'a \<Rightarrow> ('s, 'a) hx" where
  "hx_return a = (\<lambda>s. (Inr a, s))"

definition hx_throw :: "err \<Rightarrow> ('s, 'a) hx" where
  "hx_throw e = (\<lambda>s. (Inl e, s))"

definition hx_tx :: "('s, 'a) tx \<Rightarrow> ('s, 'a) hx" where
  "hx_tx m = (\<lambda>s. case m s of Inl e \<Rightarrow> (Inl e, s) | Inr (a, s') \<Rightarrow> (Inr a, s'))"

definition hx_then :: "('s, 'a) hx \<Rightarrow> ('a \<Rightarrow> ('s, 'b) hx) \<Rightarrow> ('s, 'b) hx" where
  "hx_then m f = (\<lambda>s. case m s of (Inl e, s') \<Rightarrow> (Inl e, s') | (Inr a, s') \<Rightarrow> f a s')"

definition hx_catch :: "('s, 'a) hx \<Rightarrow> (err \<Rightarrow> ('s, 'a) hx) \<Rightarrow> ('s, 'a) hx" where
  "hx_catch m h = (\<lambda>s. case m s of (Inl e, s') \<Rightarrow> h e s' | (Inr a, s') \<Rightarrow> (Inr a, s'))"

fun hx_for :: "'x list \<Rightarrow> ('x \<Rightarrow> ('s, unit) hx) \<Rightarrow> ('s, unit) hx" where
  "hx_for [] f = hx_return ()"
| "hx_for (x # xs) f = hx_then (f x) (\<lambda>_. hx_for xs f)"

lemmas hx_run = hx_return_def hx_throw_def hx_tx_def hx_then_def hx_catch_def

text \<open>\<open>hx_rel R m\<close>: the state after the handler is related to the state before, whatever happened.\<close>

definition hx_rel :: "('s \<Rightarrow> 's \<Rightarrow> bool) \<Rightarrow> ('s, 'a) hx \<Rightarrow> bool" where
  "hx_rel R m \<longleftrightarrow> (\<forall>s. R s (snd (m s)))"

lemma hx_relD: "hx_rel R m \<Longrightarrow> R s (snd (m s))"
  by (simp add: hx_rel_def)

lemma hx_rel_return: "reflp R \<Longrightarrow> hx_rel R (hx_return a)"
  by (simp add: hx_rel_def hx_return_def reflp_def)

lemma hx_rel_throw: "reflp R \<Longrightarrow> hx_rel R (hx_throw e)"
  by (simp add: hx_rel_def hx_throw_def reflp_def)

lemma hx_rel_tx: "reflp R \<Longrightarrow> tx_rel R m \<Longrightarrow> hx_rel R (hx_tx m)"
  by (auto simp: hx_rel_def hx_tx_def tx_rel_def reflp_def split: sum.splits)

lemma hx_rel_then: "transp R \<Longrightarrow> hx_rel R m \<Longrightarrow> (\<And>a. hx_rel R (f a)) \<Longrightarrow> hx_rel R (hx_then m f)"
  unfolding hx_rel_def hx_then_def
  by (auto split: prod.splits sum.splits) (metis snd_conv transpE)+

lemma hx_rel_catch: "transp R \<Longrightarrow> hx_rel R m \<Longrightarrow> (\<And>e. hx_rel R (h e)) \<Longrightarrow> hx_rel R (hx_catch m h)"
  unfolding hx_rel_def hx_catch_def
  by (auto split: prod.splits sum.splits) (metis snd_conv transpE)+

lemma hx_rel_if: "(b \<Longrightarrow> hx_rel R m) \<Longrightarrow> (\<not> b \<Longrightarrow> hx_rel R m') \<Longrightarrow> hx_rel R (if b then m else m')"
  by simp

lemma hx_rel_option: "hx_rel R m \<Longrightarrow> (\<And>x. hx_rel R (f x)) \<Longrightarrow> hx_rel R (case v of None \<Rightarrow> m | Some x \<Rightarrow> f x)"
  by (cases v) auto

lemma hx_rel_sum: "(\<And>x. hx_rel R (f x)) \<Longrightarrow> (\<And>y. hx_rel R (g y)) \<Longrightarrow> hx_rel R (case v of Inl x \<Rightarrow> f x | Inr y \<Rightarrow> g y)"
  by (cases v) auto

lemma hx_rel_for: "reflp R \<Longrightarrow> transp R \<Longrightarrow> (\<And>x. hx_rel R (f x)) \<Longrightarrow> hx_rel R (hx_for xs f)"
  by (induction xs) (auto intro: hx_rel_return hx_rel_then)

end
