(* ===== verification/Approvals.thy ===== *)
theory Approvals
  imports Drafts Handlers
begin

text \<open>
  The decision on a verified patch and its delivery: modules/approval/approval.service.ts for fixture
  tasks, modules/github/delivery.service.ts for snapshot tasks, and the outbound part of
  modules/github/github.service.ts.
\<close>

section \<open>Deciding (snapshot tasks)\<close>

definition reviewer_or :: "string \<Rightarrow> string option \<Rightarrow> string option" where
  "reviewer_or dflt r = (if truthy r then r else Some dflt)"

definition approval_decided :: "ctx \<Rightarrow> approval_status \<Rightarrow> string option \<Rightarrow> Approval \<Rightarrow> Approval" where
  "approval_decided c s reviewer a =
     a\<lparr> app_status := s, app_reviewer := reviewer, app_decidedAt := Some (c_now c) \<rparr>"

definition set_task_status :: "task_status \<Rightarrow> Task \<Rightarrow> Task" where
  "set_task_status s t = t\<lparr> task_status := s \<rparr>"

definition approval_findUniqueOrThrow :: "string \<Rightarrow> (db, Approval) tx" where
  "approval_findUniqueOrThrow pid = find_or_throw approvals app_id pid"

definition delivery_reject :: "ctx \<Rightarrow> string \<Rightarrow> string option \<Rightarrow> (db, unit) tx" where
  "delivery_reject c approvalId reviewer =
     and_then (approval_findUniqueOrThrow approvalId) (\<lambda>approval.
     if app_status approval = AP_REJECTED then tx_return ()
     else
       and_then (tx_check (app_status approval = AP_PENDING) (Conflict ''Approval is no longer pending'')) (\<lambda>_.
       and_then (approval_update approvalId (approval_decided c AP_REJECTED (reviewer_or ''local-user'' reviewer))) (\<lambda>_.
       and_then (task_update (app_taskId approval) (set_task_status T_REJECTED)) (\<lambda>_.
       tx_return ()))))"

definition deliveryBranch :: "string \<Rightarrow> string \<Rightarrow> string" where
  "deliveryBranch taskId digest = ''arp-fix/'' @ taskId @ ''-'' @ take 12 digest"

definition latest_patch :: "string \<Rightarrow> db \<Rightarrow> Artifact option" where
  "latest_patch runId d =
     latest_by art_createdAt (filter (\<lambda>a. art_runId a = runId \<and> art_kind a = K_PATCH) (artifacts d))"

definition new_job :: "ctx \<Rightarrow> Approval \<Rightarrow> string \<Rightarrow> DeliveryJob" where
  "new_job c a digest =
     \<lparr> job_id = c_cuid c 0, job_approvalId = app_id a, job_status = J_QUEUED, job_attempts = 0,
       job_patchDigest = digest, job_branch = deliveryBranch (app_taskId a) digest, job_commitSha = None,
       job_prUrl = None, job_error = None, job_leaseToken = None, job_leaseExpiresAt = None,
       job_createdAt = c_now c \<rparr>"

datatype delivery_reply = AlreadyApproved | PatchReady | DeliveryQueued DeliveryJob

definition delivery_approve :: "ctx \<Rightarrow> string \<Rightarrow> string option \<Rightarrow> (db, delivery_reply) tx" where
  "delivery_approve c approvalId reviewer =
     and_then (approval_findUniqueOrThrow approvalId) (\<lambda>a.
     and_then (task_findUniqueOrThrow (app_taskId a)) (\<lambda>task.
     if app_status a = AP_APPROVED then tx_return AlreadyApproved
     else
       and_then (tx_check (app_status a = AP_PENDING) (Conflict ''Approval is no longer pending'')) (\<lambda>_.
       and_then (tx_some (Option.bind (task_snapshot task) (TaskSnapshotSchema (c_isUrl c))) (SchemaError ''snapshot'')) (\<lambda>snapshot.
       and_then (tx_read (latest_patch (app_runId a))) (\<lambda>patch.
       and_then (tx_check (patch \<noteq> None \<and> Some (c_sha256 c (art_content (the patch))) = app_patchDigest a)
         (Conflict ''Approved patch identity changed'')) (\<lambda>_.
       and_then (approval_update approvalId (approval_decided c AP_APPROVED (reviewer_or ''local-user'' reviewer))) (\<lambda>_.
       and_then (task_update (app_taskId a) (set_task_status
         (if sd_kind (sn_delivery snapshot) = D_PATCH then T_RESOLVED else T_APPROVED))) (\<lambda>_.
       if sd_kind (sn_delivery snapshot) = D_PATCH then tx_return PatchReady
       else and_then (deliveryJob_create (new_job c a (the (app_patchDigest a)))) (\<lambda>job.
            tx_return (DeliveryQueued job))))))))))"

section \<open>Retrying and claiming a delivery\<close>

definition requeue_tx :: "DeliveryJob \<Rightarrow> string \<Rightarrow> (db, unit) tx" where
  "requeue_tx job approvalId =
     and_then (deliveryJob_updateMany (\<lambda>j. job_id j = job_id job \<and> job_status j = J_FAILED \<and> job_attempts j < 5)
       (\<lambda>j. j\<lparr> job_status := J_QUEUED, job_error := None \<rparr>)) (\<lambda>changed.
     and_then (tx_check (changed \<noteq> 0) (Conflict ''Delivery is already queued'')) (\<lambda>_.
     and_then (approval_update approvalId (\<lambda>a. a\<lparr> app_prError := None \<rparr>)) (\<lambda>approval.
     and_then (task_update (app_taskId approval)
       (\<lambda>t. t\<lparr> task_status := T_APPROVED, task_attentionReason := None \<rparr>)) (\<lambda>_.
     tx_return ()))))"

definition delivery_retry :: "string \<Rightarrow> (db, unit) tx" where
  "delivery_retry approvalId =
     and_then (find_or_throw deliveryJobs job_approvalId approvalId) (\<lambda>job.
     and_then (tx_check (\<not> (job_status job \<noteq> J_FAILED \<or> 5 \<le> job_attempts job))
       (Conflict ''Delivery is not retryable or retry limit reached'')) (\<lambda>_.
     requeue_tx job approvalId))"

definition job_expired :: "ctx \<Rightarrow> DeliveryJob \<Rightarrow> bool" where
  "job_expired c j = (case job_leaseExpiresAt j of None \<Rightarrow> False | Some t \<Rightarrow> t < c_now c)"

definition exhausted_message :: string where
  "exhausted_message = ''Delivery retry budget exhausted; patch retained''"

definition exhaust_tx :: "ctx \<Rightarrow> DeliveryJob \<Rightarrow> (db, unit) tx" where
  "exhaust_tx c job =
     and_then (deliveryJob_updateMany (\<lambda>j. job_id j = job_id job \<and> job_status j = J_RUNNING \<and> job_expired c j)
       (\<lambda>j. j\<lparr> job_status := J_FAILED, job_error := Some exhausted_message \<rparr>)) (\<lambda>changed.
     tx_when (changed \<noteq> 0)
       (and_then (approval_update (job_approvalId job) (\<lambda>a. a\<lparr> app_prError := Some exhausted_message \<rparr>)) (\<lambda>approval.
        and_then (task_update (app_taskId approval) (set_task_status T_PR_FAILED)) (\<lambda>_. tx_return ()))))"

definition exhausted_jobs :: "ctx \<Rightarrow> db \<Rightarrow> DeliveryJob list" where
  "exhausted_jobs c d =
     filter (\<lambda>j. job_status j = J_RUNNING \<and> 5 \<le> job_attempts j \<and> job_expired c j) (deliveryJobs d)"

definition candidate_job :: "ctx \<Rightarrow> db \<Rightarrow> DeliveryJob option" where
  "candidate_job c d = earliest_by job_createdAt (filter (\<lambda>j. job_attempts j < 5 \<and>
     (job_status j = J_QUEUED \<or> job_status j = J_RUNNING \<and> job_expired c j)) (deliveryJobs d))"

definition claim_job :: "ctx \<Rightarrow> DeliveryJob \<Rightarrow> (db, nat) tx" where
  "claim_job c candidate =
     deliveryJob_updateMany (\<lambda>j. job_id j = job_id candidate \<and> job_status j = job_status candidate \<and>
         (job_status candidate = J_RUNNING \<longrightarrow> job_expired c j))
       (\<lambda>j. j\<lparr> job_status := J_RUNNING, job_leaseToken := Some (c_uuid c),
              job_leaseExpiresAt := Some (c_now c + 600000), job_attempts := job_attempts j + 1 \<rparr>)"

text \<open>The renewal timer of a running delivery.\<close>

definition renew_job :: "ctx \<Rightarrow> string \<Rightarrow> string \<Rightarrow> (db, nat) tx" where
  "renew_job c jobId token =
     deliveryJob_updateMany (\<lambda>j. job_id j = jobId \<and> job_leaseToken j = Some token \<and> job_status j = J_RUNNING)
       (\<lambda>j. j\<lparr> job_leaseExpiresAt := Some (c_now c + 600000) \<rparr>)"

section \<open>Performing a delivery\<close>

text \<open>
  What the delivery learns from GitHub, git and the database while it runs: the pull requests of the
  branch (body and URL), the target branch's head at each of the three reads, the import check, the
  write credential, the commit made from the clone, the remote branch's commit (\<open>None\<close> when it does not
  exist), and the job's row at each of the two lease checks with the time of the check.
\<close>

record delivery_world =
  dw_prs :: "err + (string option \<times> string) list"
  dw_target :: "nat \<Rightarrow> err + string"
  dw_inspect :: "err + unit"
  dw_credential :: "err + string"
  dw_commit :: "string \<Rightarrow> string \<Rightarrow> string \<Rightarrow> err + string"
  dw_remoteRef :: "err + string option"
  dw_job :: "nat \<Rightarrow> (err + DeliveryJob) \<times> int"
  dw_push :: "err + unit"
  dw_open :: "err + string"

datatype remote_action = RecordCommit string | PushBranch string string | OpenPullRequest string string

text \<open>A result with the actions performed on the way.\<close>

type_synonym 'a act = "(err + 'a) \<times> remote_action list"

definition act_lift :: "err + 'a \<Rightarrow> 'a act" where
  "act_lift r = (r, [])"

definition act_check :: "bool \<Rightarrow> err \<Rightarrow> unit act" where
  "act_check b e = (if b then Inr () else Inl e, [])"

definition act_do :: "remote_action \<Rightarrow> err + 'a \<Rightarrow> 'a act" where
  "act_do a r = (r, case r of Inl e \<Rightarrow> [] | Inr x \<Rightarrow> [a])"

definition act_then :: "'a act \<Rightarrow> ('a \<Rightarrow> 'b act) \<Rightarrow> 'b act" where
  "act_then m f = (case m of (Inl e, as) \<Rightarrow> (Inl e, as) | (Inr x, as) \<Rightarrow> (case f x of (r, bs) \<Rightarrow> (r, as @ bs)))"

definition assertDeliveryTarget :: "string \<Rightarrow> string \<Rightarrow> err + unit" where
  "assertDeliveryTarget expected current =
     (if expected \<noteq> current then Inl (Conflict ''Target branch changed; create and verify a new task'') else Inr ())"

definition target_unchanged :: "delivery_world \<Rightarrow> string \<Rightarrow> nat \<Rightarrow> unit act" where
  "target_unchanged w expected k =
     act_then (act_lift (dw_target w k)) (\<lambda>current. act_lift (assertDeliveryTarget expected current))"

definition delivery_lease_held :: "string \<Rightarrow> DeliveryJob \<Rightarrow> int \<Rightarrow> bool" where
  "delivery_lease_held token j now \<longleftrightarrow> job_leaseToken j = Some token \<and> job_status j = J_RUNNING \<and>
     (case job_leaseExpiresAt j of None \<Rightarrow> False | Some t \<Rightarrow> now < t)"

definition assert_delivery_lease :: "delivery_world \<Rightarrow> string \<Rightarrow> nat \<Rightarrow> unit act" where
  "assert_delivery_lease w token k =
     act_then (act_lift (fst (dw_job w k))) (\<lambda>j.
     act_check (delivery_lease_held token j (snd (dw_job w k))) (Conflict ''Delivery lease expired''))"

definition delivery_marker :: "DeliveryJob \<Rightarrow> string" where
  "delivery_marker job = ''arp-delivery:'' @ job_id job @ '':'' @ job_patchDigest job"

definition marked :: "string \<Rightarrow> string option \<times> string \<Rightarrow> bool" where
  "marked m pr = (case fst pr of None \<Rightarrow> False | Some body \<Rightarrow> str_includes body m)"

text \<open>Clone, apply, commit, push and open, once the branch is known to be free.\<close>

definition perform_delivery ::
  "ctx \<Rightarrow> delivery_world \<Rightarrow> DeliveryJob \<Rightarrow> string \<Rightarrow> TaskSnapshot \<Rightarrow> Project \<Rightarrow> Artifact option \<Rightarrow> string act"
where
  "perform_delivery c w job token snapshot repo artifact =
     (let expected = sd_expectedTargetSha (sn_delivery snapshot) in
      act_then (target_unchanged w expected 0) (\<lambda>_.
      act_then (if sn_source snapshot = None then act_lift (Inr ()) else act_lift (dw_inspect w)) (\<lambda>_.
      act_then (act_check (artifact \<noteq> None \<and> c_sha256 c (art_content (the artifact)) = job_patchDigest job)
        (Conflict ''Patch changed after approval'')) (\<lambda>_.
      act_then (act_lift (dw_credential w)) (\<lambda>_.
      act_then (act_lift (dw_commit w (prj_repoPath repo) (sn_executionSha snapshot) (art_content (the artifact)))) (\<lambda>commit.
      act_then (act_check (\<not> (truthy (job_commitSha job) \<and> job_commitSha job \<noteq> Some commit))
        (Conflict ''Delivery commit changed'')) (\<lambda>_.
      act_then (act_do (RecordCommit commit) (Inr ())) (\<lambda>_.
      act_then (act_lift (dw_remoteRef w)) (\<lambda>ref.
      act_then (act_check (\<not> (ref \<noteq> None \<and> ref \<noteq> Some commit)) (Conflict ''Repair branch changed externally'')) (\<lambda>_.
      act_then (target_unchanged w expected 1) (\<lambda>_.
      act_then (assert_delivery_lease w token 0) (\<lambda>_.
      act_then (if ref = None then act_do (PushBranch (job_branch job) commit) (dw_push w) else act_lift (Inr ())) (\<lambda>_.
      act_then (target_unchanged w expected 2) (\<lambda>_.
      act_then (assert_delivery_lease w token 1) (\<lambda>_.
      act_do (OpenPullRequest (job_branch job) (sd_targetBranch (sn_delivery snapshot))) (dw_open w))))))))))))))))"

definition deliver ::
  "ctx \<Rightarrow> delivery_world \<Rightarrow> DeliveryJob \<Rightarrow> string \<Rightarrow> Task \<Rightarrow> Project \<Rightarrow> Artifact option \<Rightarrow> string act"
where
  "deliver c w job token task repo artifact =
     (case Option.bind (task_snapshot task) (TaskSnapshotSchema (c_isUrl c)) of
        None \<Rightarrow> act_lift (Inl (SchemaError ''snapshot''))
      | Some snapshot \<Rightarrow>
          if \<not> truthy (prj_writeCredential repo) \<or> \<not> truthy (prj_githubRepo repo)
          then act_lift (Inl (Failure ''Write credentials required''))
          else
            act_then (act_lift (dw_prs w)) (\<lambda>existing.
            case List.find (marked (delivery_marker job)) existing of
              Some found \<Rightarrow> act_lift (Inr (snd found))
            | None \<Rightarrow>
                if existing \<noteq> [] then act_lift (Inl (Conflict ''Delivery branch already belongs to another PR''))
                else perform_delivery c w job token snapshot repo artifact))"

section \<open>Recording the outcome\<close>

definition deliver_success_tx :: "DeliveryJob \<Rightarrow> string \<Rightarrow> string \<Rightarrow> (db, unit) tx" where
  "deliver_success_tx candidate token url =
     and_then (deliveryJob_updateMany (\<lambda>j. job_id j = job_id candidate \<and> job_leaseToken j = Some token \<and> job_status j = J_RUNNING)
       (\<lambda>j. j\<lparr> job_status := J_SUCCEEDED, job_prUrl := Some url, job_error := None \<rparr>)) (\<lambda>changed.
     tx_when (changed \<noteq> 0)
       (and_then (approval_update (job_approvalId candidate) (\<lambda>a. a\<lparr> app_prUrl := Some url, app_prError := None \<rparr>)) (\<lambda>a.
        and_then (task_update (app_taskId a) (set_task_status T_PR_CREATED)) (\<lambda>_. tx_return ()))))"

fun is_conflict :: "err \<Rightarrow> bool" where
  "is_conflict (Conflict m) \<longleftrightarrow> True"
| "is_conflict _ \<longleftrightarrow> False"

definition delivery_message :: "err \<Rightarrow> string" where
  "delivery_message e = (case e of Conflict m \<Rightarrow> m | _ \<Rightarrow>
     ''Delivery failed; check GitHub permissions, branch state and connectivity. Patch retained.'')"

definition deliver_failure_tx :: "DeliveryJob \<Rightarrow> string \<Rightarrow> err \<Rightarrow> (db, unit) tx" where
  "deliver_failure_tx candidate token e =
     and_then (deliveryJob_updateMany (\<lambda>j. job_id j = job_id candidate \<and> job_leaseToken j = Some token \<and> job_status j = J_RUNNING)
       (\<lambda>j. j\<lparr> job_status := (if is_conflict e then J_NEEDS_ATTENTION else J_FAILED),
              job_error := Some (delivery_message e) \<rparr>)) (\<lambda>changed.
     tx_when (changed \<noteq> 0)
       (and_then (approval_update (job_approvalId candidate) (\<lambda>a. a\<lparr> app_prError := Some (delivery_message e) \<rparr>)) (\<lambda>a.
        and_then (task_update (app_taskId a)
          (\<lambda>t. t\<lparr> task_status := T_PR_FAILED, task_attentionReason := Some (delivery_message e) \<rparr>)) (\<lambda>_. tx_return ()))))"

definition record_commit_tx :: "string \<Rightarrow> string \<Rightarrow> (db, nat) tx" where
  "record_commit_tx jobId commit =
     deliveryJob_updateMany (\<lambda>j. job_id j = jobId) (\<lambda>j. j\<lparr> job_commitSha := Some commit \<rparr>)"

text \<open>The writes of a delivery among its actions.\<close>

fun recorded_commits :: "remote_action list \<Rightarrow> string list" where
  "recorded_commits [] = []"
| "recorded_commits (RecordCommit sha # as) = sha # recorded_commits as"
| "recorded_commits (_ # as) = recorded_commits as"

definition run_delivery :: "ctx \<Rightarrow> delivery_world \<Rightarrow> DeliveryJob \<Rightarrow> string \<Rightarrow> (db, unit) hx" where
  "run_delivery c w candidate token =
     hx_catch
       (hx_then (hx_tx (and_then (find_or_throw deliveryJobs job_id (job_id candidate)) (\<lambda>job.
          and_then (approval_findUniqueOrThrow (job_approvalId job)) (\<lambda>a.
          and_then (task_findUniqueOrThrow (app_taskId a)) (\<lambda>task.
          and_then (find_or_throw projects prj_id (task_projectId task)) (\<lambda>repo.
          and_then (tx_read (latest_patch (app_runId a))) (\<lambda>artifact.
          tx_return (deliver c w job token task repo artifact)))))))) (\<lambda>(res, as).
        hx_then (hx_for (recorded_commits as)
          (\<lambda>sha. hx_tx (and_then (record_commit_tx (job_id candidate) sha) (\<lambda>_. tx_return ())))) (\<lambda>_.
        case res of Inl e \<Rightarrow> hx_throw e | Inr url \<Rightarrow> hx_tx (deliver_success_tx candidate token url))))
       (\<lambda>e. hx_tx (deliver_failure_tx candidate token e))"

definition delivery_tick :: "ctx \<Rightarrow> delivery_world \<Rightarrow> (db, unit) hx" where
  "delivery_tick c w =
     hx_then (hx_tx (tx_read (exhausted_jobs c))) (\<lambda>exhausted.
     hx_then (hx_for exhausted (\<lambda>j. hx_tx (exhaust_tx c j))) (\<lambda>_.
     hx_then (hx_tx (tx_read (candidate_job c))) (\<lambda>found.
     case found of
       None \<Rightarrow> hx_return ()
     | Some candidate \<Rightarrow>
         hx_then (hx_tx (claim_job c candidate)) (\<lambda>claimed.
         if claimed = 0 then hx_return () else run_delivery c w candidate (c_uuid c)))))"

section \<open>Deciding (fixture tasks)\<close>

definition legacy_reviewer :: "string option \<Rightarrow> string option" where
  "legacy_reviewer r = (case r of None \<Rightarrow> Some ''anonymous'' | Some x \<Rightarrow> Some x)"

definition legacy_decide_tx :: "ctx \<Rightarrow> string \<Rightarrow> string \<Rightarrow> approval_status \<Rightarrow> task_status \<Rightarrow> string option \<Rightarrow> (db, unit) tx" where
  "legacy_decide_tx c approvalId taskId s ts reviewer =
     and_then (approval_update approvalId (approval_decided c s (legacy_reviewer reviewer))) (\<lambda>_.
     and_then (task_update taskId (set_task_status ts)) (\<lambda>_. tx_return ()))"

text \<open>\<open>createFixPr\<close>: with GitHub disabled a mock URL, otherwise an error.\<close>

definition createFixPr :: "bool \<Rightarrow> string \<Rightarrow> err + string" where
  "createFixPr enabled taskId =
     (if enabled then Inl (Failure ''Legacy fixture delivery is disabled'')
      else Inr (''https://github.example.local/mock/pulls/'' @ taskId))"

definition pr_created_tx :: "string \<Rightarrow> string \<Rightarrow> string \<Rightarrow> (db, unit) tx" where
  "pr_created_tx approvalId taskId url =
     and_then (approval_update approvalId (\<lambda>a. a\<lparr> app_prUrl := Some url, app_prError := None \<rparr>)) (\<lambda>_.
     and_then (task_update taskId (set_task_status T_PR_CREATED)) (\<lambda>_. tx_return ()))"

definition pr_failed_tx :: "string \<Rightarrow> string \<Rightarrow> string \<Rightarrow> (db, unit) tx" where
  "pr_failed_tx approvalId taskId message =
     and_then (approval_update approvalId (\<lambda>a. a\<lparr> app_prError := Some message \<rparr>)) (\<lambda>_.
     and_then (task_update taskId (set_task_status T_PR_FAILED)) (\<lambda>_. tx_return ()))"

fun error_message :: "err \<Rightarrow> string" where
  "error_message (NotFound m) = m"
| "error_message (Conflict m) = m"
| "error_message (BadRequest m) = m"
| "error_message (Unauthorized m) = m"
| "error_message (Forbidden m) = m"
| "error_message (Unavailable m) = m"
| "error_message (InvalidTransition a b c) = b @ '' -> '' @ c"
| "error_message (RecordNotFound m) = m"
| "error_message (UniqueViolation m) = m"
| "error_message (SchemaError m) = m"
| "error_message (RangeError m) = m"
| "error_message (Failure m) = m"

definition createPr :: "bool \<Rightarrow> string \<Rightarrow> (db, string option) hx" where
  "createPr enabled approvalId =
     hx_then (hx_tx (and_then (approval_findUniqueOrThrow approvalId) (\<lambda>a.
        and_then (task_findUniqueOrThrow (app_taskId a)) (\<lambda>_. tx_return a)))) (\<lambda>a.
     hx_catch
       (case createFixPr enabled (app_taskId a) of
          Inl e \<Rightarrow> hx_throw e
        | Inr url \<Rightarrow> hx_then (hx_tx (pr_created_tx approvalId (app_taskId a) url)) (\<lambda>_. hx_return (Some url)))
       (\<lambda>e. hx_then (hx_tx (pr_failed_tx approvalId (app_taskId a) (error_message e))) (\<lambda>_. hx_return None)))"

datatype decision = Approve | Reject

datatype decide_reply = NoApproval | Decided approval_status "string option"

definition read_approval :: "string \<Rightarrow> (db, (Approval \<times> Task) option) tx" where
  "read_approval approvalId =
     and_then (find_unique approvals app_id approvalId) (\<lambda>found.
     case found of
       None \<Rightarrow> tx_return None
     | Some a \<Rightarrow> and_then (task_findUniqueOrThrow (app_taskId a)) (\<lambda>t. tx_return (Some (a, t))))"

text \<open>The decision over the rows that were read: nothing is checked again when it is written.\<close>

definition legacy_decide :: "ctx \<Rightarrow> bool \<Rightarrow> string \<Rightarrow> decision \<Rightarrow> string option \<Rightarrow> Approval \<times> Task \<Rightarrow> (db, decide_reply) hx" where
  "legacy_decide c enabled approvalId dec reviewer at =
     (case at of (a, task) \<Rightarrow>
        if app_status a \<noteq> AP_PENDING then hx_throw (Conflict ''Approval is already decided'')
        else case dec of
          Reject \<Rightarrow>
            (case task_assertTransition (task_status task) T_REJECTED of
               Inl e \<Rightarrow> hx_throw e
             | Inr _ \<Rightarrow> hx_then (hx_tx (legacy_decide_tx c approvalId (app_taskId a) AP_REJECTED T_REJECTED reviewer)) (\<lambda>_.
                 hx_return (Decided AP_REJECTED None)))
        | Approve \<Rightarrow>
            (case task_assertTransition (task_status task) T_APPROVED of
               Inl e \<Rightarrow> hx_throw e
             | Inr _ \<Rightarrow> hx_then (hx_tx (legacy_decide_tx c approvalId (app_taskId a) AP_APPROVED T_APPROVED reviewer)) (\<lambda>_.
                 hx_then (createPr enabled approvalId) (\<lambda>url. hx_return (Decided AP_APPROVED url)))))"

definition decide :: "ctx \<Rightarrow> bool \<Rightarrow> string \<Rightarrow> decision \<Rightarrow> string option \<Rightarrow> (db, decide_reply) hx" where
  "decide c enabled approvalId dec reviewer =
     hx_then (hx_tx (read_approval approvalId)) (\<lambda>found.
     case found of
       None \<Rightarrow> hx_return NoApproval
     | Some at \<Rightarrow>
         if task_snapshot (snd at) \<noteq> None
         then (case dec of
             Approve \<Rightarrow> hx_then (hx_tx (delivery_approve c approvalId reviewer)) (\<lambda>_. hx_return (Decided AP_APPROVED None))
           | Reject \<Rightarrow> hx_then (hx_tx (delivery_reject c approvalId reviewer)) (\<lambda>_. hx_return (Decided AP_REJECTED None)))
         else legacy_decide c enabled approvalId dec reviewer at)"

definition retryPr :: "bool \<Rightarrow> string \<Rightarrow> (db, decide_reply) hx" where
  "retryPr enabled approvalId =
     hx_then (hx_tx (read_approval approvalId)) (\<lambda>found.
     case found of
       None \<Rightarrow> hx_return NoApproval
     | Some at \<Rightarrow>
         if task_snapshot (snd at) \<noteq> None
         then hx_then (hx_tx (delivery_retry approvalId)) (\<lambda>_. hx_return (Decided AP_APPROVED None))
         else if task_status (snd at) \<noteq> T_PR_FAILED then hx_throw (Conflict ''Only PR_FAILED can be retried'')
         else hx_then (hx_tx (and_then (task_update (app_taskId (fst at)) (set_task_status T_APPROVED)) (\<lambda>_. tx_return ()))) (\<lambda>_.
              hx_then (createPr enabled approvalId) (\<lambda>url. hx_return (Decided AP_APPROVED url))))"

context effects
begin

lemma R_approval_find: "tx_rel R (approval_findUniqueOrThrow pid)"
  unfolding approval_findUniqueOrThrow_def by (intro R_ops)

lemma R_decided: "tx_rel R (approval_update pid (approval_decided c s r))"
  by (rule R_approval_update) (simp add: approval_decided_def approval_core_def)

lemma R_task_status: "tx_rel R (task_update tid (set_task_status s))"
  by (rule R_task_update) (simp add: set_task_status_def task_core_def)

lemmas R_approval_ops = R_ops R_approval_find R_decided R_task_status

lemmas R_hx = hx_rel_return [OF R_refl] hx_rel_throw [OF R_refl] hx_rel_tx [OF R_refl] hx_rel_then [OF R_trans]
  hx_rel_catch [OF R_trans] hx_rel_if hx_rel_option hx_rel_sum hx_rel_for [OF R_refl R_trans]

lemma R_delivery_reject: "tx_rel R (delivery_reject c pid r)"
  unfolding delivery_reject_def by (intro R_approval_ops)

lemma R_delivery_approve: "tx_rel R (delivery_approve c pid r)"
  unfolding delivery_approve_def by (intro R_approval_ops)

lemma R_requeue_tx: "tx_rel R (requeue_tx job pid)"
  unfolding requeue_tx_def by (intro R_approval_ops) (simp_all add: approval_core_def task_core_def)

lemma R_delivery_retry: "tx_rel R (delivery_retry pid)"
  unfolding delivery_retry_def by (intro R_approval_ops R_requeue_tx)

lemma R_exhaust_tx: "tx_rel R (exhaust_tx c job)"
  unfolding exhaust_tx_def by (intro R_approval_ops) (simp_all add: approval_core_def)

lemma R_claim_job: "tx_rel R (claim_job c job)"
  unfolding claim_job_def by (intro R_approval_ops)

lemma R_deliver_success_tx: "tx_rel R (deliver_success_tx job token url)"
  unfolding deliver_success_tx_def by (intro R_approval_ops) (simp_all add: approval_core_def)

lemma R_deliver_failure_tx: "tx_rel R (deliver_failure_tx job token e)"
  unfolding deliver_failure_tx_def by (intro R_approval_ops) (simp_all add: approval_core_def task_core_def)

lemma R_run_delivery: "hx_rel R (run_delivery c w job token)"
  unfolding run_delivery_def record_commit_tx_def case_prod_beta
  by (intro R_hx R_approval_ops R_deliver_success_tx R_deliver_failure_tx)

lemma R_delivery_tick: "hx_rel R (delivery_tick c w)"
  unfolding delivery_tick_def
  by (intro R_hx R_approval_ops R_exhaust_tx R_claim_job R_run_delivery)

lemma R_legacy_decide_tx: "tx_rel R (legacy_decide_tx c pid tid s ts r)"
  unfolding legacy_decide_tx_def by (intro R_approval_ops)

lemma R_createPr: "hx_rel R (createPr enabled pid)"
  unfolding createPr_def pr_created_tx_def pr_failed_tx_def
  by (intro R_hx R_approval_ops) (simp_all add: approval_core_def)

lemma R_decision: "hx_rel R m \<Longrightarrow> hx_rel R m' \<Longrightarrow> hx_rel R (case dec of Approve \<Rightarrow> m | Reject \<Rightarrow> m')"
  by (cases dec) auto

lemma R_legacy_decide: "hx_rel R (legacy_decide c enabled pid dec r at)"
  unfolding legacy_decide_def case_prod_beta
  by (intro R_hx R_decision R_legacy_decide_tx R_createPr)

lemma R_read_approval: "tx_rel R (read_approval pid)"
  unfolding read_approval_def by (intro R_approval_ops)

lemma R_decide: "hx_rel R (decide c enabled pid dec r)"
  unfolding decide_def
  by (intro R_hx R_decision R_read_approval R_delivery_approve R_delivery_reject R_legacy_decide)

lemma R_retryPr: "hx_rel R (retryPr enabled pid)"
  unfolding retryPr_def by (intro R_hx R_read_approval R_delivery_retry R_approval_ops R_createPr)

end

end
