(* ===== verification/Queue.thy ===== *)
theory Queue
  imports RunControl Handlers
begin

text \<open>
  The two timers of modules/dispatch: the outbox publisher, which puts the commands of the outbox on the
  Redis stream, and the lease monitor, which declares workers lost.
\<close>

section \<open>The outbox publisher\<close>

definition message_update :: "string \<Rightarrow> (OutboxMessage \<Rightarrow> OutboxMessage) \<Rightarrow> (db, OutboxMessage) tx" where
  "message_update mid f = update_unique outbox outbox_update msg_id mid f"

definition waiting_runs :: "ctx \<Rightarrow> db \<Rightarrow> Run list" where
  "waiting_runs c d =
     take 100 (filter (\<lambda>r. run_status r = R_DISPATCHED \<and> run_updatedAt r < c_now c - 60000) (runs d))"

text \<open>
  A run that was dispatched more than a minute ago and has not been claimed: its latest command, when it
  was published more than a minute ago, is published again.
\<close>

definition stale_message :: "ctx \<Rightarrow> OutboxMessage \<Rightarrow> bool" where
  "stale_message c m \<longleftrightarrow> msg_status m = O_PUBLISHED \<and>
     (case msg_publishedAt m of None \<Rightarrow> False | Some t \<Rightarrow> t < c_now c - 60000)"

definition reconcile_run :: "ctx \<Rightarrow> Run \<Rightarrow> (db, unit) hx" where
  "reconcile_run c run =
     hx_then (hx_tx (tx_read (\<lambda>d. latest_by msg_createdAt (messages_of (run_id run) d)))) (\<lambda>found.
     case found of
       None \<Rightarrow> hx_return ()
     | Some m \<Rightarrow>
         if stale_message c m
         then hx_then (hx_tx (message_update (msg_id m) (\<lambda>m. m\<lparr> msg_status := O_PENDING \<rparr>))) (\<lambda>_. hx_return ())
         else hx_return ())"

definition reconcile :: "ctx \<Rightarrow> (db, unit) hx" where
  "reconcile c =
     hx_then (hx_tx (tx_read (waiting_runs c))) (\<lambda>waiting. hx_for waiting (reconcile_run c))"

text \<open>
  The query sorts by creation time; the sort is stable on the order of creation.  \<open>notBefore <= now\<close> is
  the back-off of a recovery.
\<close>

definition pending_messages :: "ctx \<Rightarrow> db \<Rightarrow> OutboxMessage list" where
  "pending_messages c d = take 20 (sort_key msg_createdAt
     (filter (\<lambda>m. msg_status m = O_PENDING \<and> msg_notBefore m \<le> c_now c) (outbox d)))"

text \<open>
  The outside world of a tick: whether Redis takes a message, and whether the database records it as
  published.  What was added to the stream comes back with the new database.
\<close>

record redis_world =
  rw_xadd :: "OutboxMessage \<Rightarrow> bool"
  rw_mark :: "OutboxMessage \<Rightarrow> bool"

definition publish_one :: "ctx \<Rightarrow> redis_world \<Rightarrow> OutboxMessage \<Rightarrow> db \<Rightarrow> OutboxMessage list \<times> nat \<times> db" where
  "publish_one c w m d =
     (let sent = (msg_topic m = ''run-commands'' \<and> rw_xadd w m);
          published = (sent \<and> rw_mark w m \<and> find_row msg_id (msg_id m) (outbox d) \<noteq> None);
          d' = (if published
                then outbox_update (update_rows (\<lambda>r. msg_id r = msg_id m)
                  (\<lambda>r. r\<lparr> msg_status := O_PUBLISHED, msg_publishedAt := Some (c_now c) \<rparr>)) d
                else outbox_update (update_rows (\<lambda>r. msg_id r = msg_id m)
                  (\<lambda>r. r\<lparr> msg_attempts := msg_attempts r + 1 \<rparr>)) d)
      in (if sent then [m] else [], if published then 1 else 0, d'))"

fun publish_all :: "ctx \<Rightarrow> redis_world \<Rightarrow> OutboxMessage list \<Rightarrow> db \<Rightarrow> OutboxMessage list \<times> nat \<times> db" where
  "publish_all c w [] d = ([], 0, d)"
| "publish_all c w (m # ms) d =
     (case publish_one c w m d of (sent, n, d1) \<Rightarrow>
      case publish_all c w ms d1 of (sent', n', d2) \<Rightarrow> (sent @ sent', n + n', d2))"

text \<open>The publisher's own state is the time of its last reconciliation.\<close>

definition outbox_tick :: "ctx \<Rightarrow> redis_world \<Rightarrow> int \<Rightarrow> db \<Rightarrow> OutboxMessage list \<times> nat \<times> int \<times> db" where
  "outbox_tick c w reconciledAt d =
     (let due = 60000 < c_now c - reconciledAt;
          d1 = (if due then snd (reconcile c d) else d)
      in case publish_all c w (pending_messages c d1) d1 of
           (sent, n, d2) \<Rightarrow> (sent, n, if due then c_now c else reconciledAt, d2))"

section \<open>Nothing is lost, nothing is early\<close>

text \<open>A row keeps its command; its status stays, or becomes published if the message is among \<open>ids\<close>.\<close>

definition message_kept :: "string set \<Rightarrow> OutboxMessage \<Rightarrow> OutboxMessage \<Rightarrow> bool" where
  "message_kept ids r r' \<longleftrightarrow> msg_id r' = msg_id r \<and> msg_payload r' = msg_payload r \<and> msg_key r' = msg_key r \<and>
     msg_notBefore r' = msg_notBefore r \<and>
     (msg_status r' = msg_status r \<or> msg_status r' = O_PUBLISHED \<and> msg_id r \<in> ids)"

definition outbox_kept :: "string set \<Rightarrow> db \<Rightarrow> db \<Rightarrow> bool" where
  "outbox_kept ids d d' \<longleftrightarrow> list_all2 (message_kept ids) (outbox d) (outbox d')"

lemma message_kept_trans: "message_kept A r s \<Longrightarrow> message_kept B s t \<Longrightarrow> message_kept (A \<union> B) r t"
  by (auto simp: message_kept_def)

lemma outbox_kept_trans: "outbox_kept A d e \<Longrightarrow> outbox_kept B e f \<Longrightarrow> outbox_kept (A \<union> B) d f"
  unfolding outbox_kept_def by (rule list_all2_trans [of "message_kept A" "message_kept B"]) (auto intro: message_kept_trans)

lemma outbox_kept_update:
  "(\<And>r. message_kept ids r (if p r then f r else r)) \<Longrightarrow> outbox_kept ids d (outbox_update (update_rows p f) d)"
  by (simp add: outbox_kept_def update_rows_def list_all2_conv_all_nth)

lemma publish_one_effect:
  assumes "publish_one c w m d = (sent, n, d')"
  shows "set sent \<subseteq> {m} \<and> outbox_kept (msg_id ` set sent) d d'"
  using assms
  by (auto simp: publish_one_def Let_def message_kept_def intro!: outbox_kept_update split: if_splits)

lemma publish_all_effect:
  assumes "publish_all c w ms d = (sent, n, d')"
  shows "set sent \<subseteq> set ms \<and> outbox_kept (msg_id ` set sent) d d'"
  using assms
proof (induction ms arbitrary: d sent n d')
  case Nil
  then show ?case by (auto simp: outbox_kept_def message_kept_def list_all2_conv_all_nth)
next
  case (Cons m ms)
  obtain s1 n1 d1 where one: "publish_one c w m d = (s1, n1, d1)" by (cases "publish_one c w m d") auto
  obtain s2 n2 d2 where all: "publish_all c w ms d1 = (s2, n2, d2)" by (cases "publish_all c w ms d1") auto
  from Cons.prems one all have eq: "sent = s1 @ s2" "d' = d2" by simp_all
  note p1 = publish_one_effect [OF one] and p2 = Cons.IH [OF all]
  have k: "outbox_kept (msg_id ` set s1 \<union> msg_id ` set s2) d d2"
    by (rule outbox_kept_trans [OF conjunct2 [OF p1] conjunct2 [OF p2]])
  have "set (s1 @ s2) \<subseteq> set (m # ms)"
    using conjunct1 [OF p1] conjunct1 [OF p2] unfolding set_append list.set by blast
  then show ?case using k unfolding eq image_Un set_append by (rule conjI)
qed

lemma pending_in:
  "m \<in> set (pending_messages c d) \<Longrightarrow> m \<in> set (outbox d) \<and> msg_status m = O_PENDING \<and> msg_notBefore m \<le> c_now c"
  unfolding pending_messages_def by (drule in_set_takeD) simp

text \<open>
  C23. The publisher loses nothing and is never early: whichever calls to Redis and to the database fail, a
  batch publishes only messages that were pending and due, keeps every row of the outbox with its command,
  and marks a message as published only if the message was put on the stream in this very batch; every
  other message keeps the status it had, so that the next tick tries it again.
\<close>

theorem publisher_loses_nothing:
  assumes "publish_all c w (pending_messages c d) d = (sent, n, d')"
  shows "(\<forall>m \<in> set sent. m \<in> set (outbox d) \<and> msg_status m = O_PENDING \<and> msg_notBefore m \<le> c_now c) \<and>
    list_all2 (\<lambda>r r'. msg_id r' = msg_id r \<and> msg_payload r' = msg_payload r \<and> msg_key r' = msg_key r \<and>
      msg_notBefore r' = msg_notBefore r \<and>
      (msg_status r' = msg_status r \<or> msg_status r' = O_PUBLISHED \<and> msg_id r \<in> msg_id ` set sent))
      (outbox d) (outbox d')"
proof
  show "\<forall>m \<in> set sent. m \<in> set (outbox d) \<and> msg_status m = O_PENDING \<and> msg_notBefore m \<le> c_now c"
    using publish_all_effect [OF assms] pending_in [of _ c d] by blast
  show "list_all2 (\<lambda>r r'. msg_id r' = msg_id r \<and> msg_payload r' = msg_payload r \<and> msg_key r' = msg_key r \<and>
      msg_notBefore r' = msg_notBefore r \<and>
      (msg_status r' = msg_status r \<or> msg_status r' = O_PUBLISHED \<and> msg_id r \<in> msg_id ` set sent))
      (outbox d) (outbox d')"
    using publish_all_effect [OF assms] unfolding outbox_kept_def message_kept_def by (rule conjunct2)
qed

section \<open>The lease monitor\<close>

definition expired_attempts :: "ctx \<Rightarrow> db \<Rightarrow> Attempt list" where
  "expired_attempts c d = take 20 (filter (\<lambda>a. att_status a \<in> {A_CLAIMED, A_RUNNING} \<and>
     (case att_leaseExpiresAt a of None \<Rightarrow> False | Some t \<Rightarrow> t < c_now c)) (attempts d))"

text \<open>
  Each attempt is handled with the context of its own call: \<open>cs k\<close> is the context of the k-th.
\<close>

definition lease_tick :: "ctx \<Rightarrow> (nat \<Rightarrow> ctx) \<Rightarrow> (db, nat) hx" where
  "lease_tick c cs =
     hx_then (hx_tx (tx_read (expired_attempts c))) (\<lambda>expired.
     hx_then (hx_for (List.enumerate 0 expired) (\<lambda>ka. hx_tx (handleLeaseExpired (cs (fst ka)) (att_id (snd ka))))) (\<lambda>_.
     hx_return (length expired)))"

context effects
begin

lemma R_message_update: "tx_rel R (message_update mid f)"
proof (rule tx_relI)
  fix s a s' assume "message_update mid f s = Inr (a, s')"
  then show "R s s'"
    using tx_relD [OF R_outbox_update, of "\<lambda>m. msg_id m = mid" f s]
    by (auto simp: message_update_def tx_iff)
qed

lemma R_reconcile: "hx_rel R (reconcile c)"
  unfolding reconcile_def reconcile_run_def
  by (intro hx_rel_return [OF R_refl] hx_rel_tx [OF R_refl] hx_rel_then [OF R_trans] hx_rel_if hx_rel_option
      hx_rel_for [OF R_refl R_trans] R_ops R_message_update)

lemma R_lease_tick: "hx_rel R (lease_tick c cs)"
  unfolding lease_tick_def
  by (intro hx_rel_return [OF R_refl] hx_rel_tx [OF R_refl] hx_rel_then [OF R_trans]
      hx_rel_for [OF R_refl R_trans] R_ops R_handleLeaseExpired)

end

end
