(* ===== verification/System.thy ===== *)
theory System
  imports RunSteps RunMachine Ingest Approvals Queue
begin

text \<open>
  The control plane as a whole: a step is one committed transaction of one of its operations, and a
  transaction may rest on rows that its handler read from an earlier state.  A \<open>trace\<close> is the list of the
  states so far, newest first.  The theory shows that every state of every trace is well-formed, that the
  view of each run follows the run machine, and that history is permanent.

  Transactions on one run exclude each other (the operations lock the run's row first), and a transaction
  that throws leaves no state; so the committed transactions form a sequence.
\<close>

section \<open>The remaining operations leave every view alone\<close>

lemma quiet_approval_update: "(\<And>a. approval_core (f a) = approval_core a) \<Longrightarrow> quiet (approval_update pid f)"
  by (rule quietI, erule wf.R_approval_update) (auto simp: tx_iff intro: view_frame)

lemma quiet_job_ops: "quiet (deliveryJob_create j)" "quiet (deliveryJob_updateMany p f)"
  by (rule quietI, rule wf.R_rules, auto simp: tx_iff intro: view_frame)+

lemma quiet_decided: "quiet (approval_update pid (approval_decided c s r))"
  by (rule quiet_approval_update) (simp add: approval_decided_def approval_core_def)

lemma quiet_task_status: "quiet (task_update tid (set_task_status s))"
  by (rule quiet_task_update) (simp add: set_task_status_def task_core_def)

lemma quiet_approval_find: "quiet (approval_findUniqueOrThrow pid)"
  unfolding approval_findUniqueOrThrow_def by (intro quiet_rules)

lemmas quiet_all = quiet_rules quiet_finds quiet_approval_find quiet_job_ops quiet_decided quiet_task_status

lemma quiet_delivery:
  "quiet (delivery_reject c pid r)" "quiet (delivery_approve c pid r)" "quiet (exhaust_tx c job)" "quiet (claim_job c job)"
  "quiet (renew_job c jid token)" "quiet (record_commit_tx jid commit)" "quiet (deliver_success_tx job token url)"
  "quiet (legacy_decide_tx c pid tid s ts r)" "quiet (pr_created_tx pid tid url)" "quiet (pr_failed_tx pid tid message)"
  unfolding delivery_reject_def delivery_approve_def exhaust_tx_def claim_job_def renew_job_def record_commit_tx_def
    deliver_success_tx_def legacy_decide_tx_def pr_created_tx_def pr_failed_tx_def
  by (intro quiet_all quiet_approval_update, (simp add: approval_core_def)?)+

lemma quiet_delivery_tasks: "quiet (requeue_tx job pid)" "quiet (deliver_failure_tx job token e)"
  unfolding requeue_tx_def deliver_failure_tx_def
  by (intro quiet_all quiet_approval_update; simp add: approval_core_def task_core_def)+

lemma quiet_ingest_tx: "TraceEventSchema e \<Longrightarrow> quiet (ingest_tx c e)"
  unfolding ingest_tx_def by (rule quiet_store) (simp add: stored_event_def TraceEventSchema_def)

lemma quiet_draft_rows:
  "quiet (create_row drafts drafts_update draft_id r)" "quiet (tx_modify (configs_update (\<lambda>rows. rows @ [cv])))"
  by (rule quietI, rule wf.R_rules, auto simp: tx_iff intro: view_frame)+

lemma quiet_repository_get: "quiet (repository_get rid)"
  unfolding repository_get_def by (intro quiet_rules)

lemma quiet_createDraft: "quiet (createDraft c raw)"
  unfolding createDraft_def by (intro quiet_all quiet_repository_get quiet_draft_rows)

lemma quiet_configure: "quiet (configure rid raw)"
  unfolding configure_def Let_def by (intro quiet_all quiet_repository_get quiet_draft_rows)

definition message_core :: "OutboxMessage \<Rightarrow> _" where
  "message_core m = (msg_id m, msg_topic m, msg_key m, msg_payload m)"

lemma quiet_message_update:
  assumes "\<And>m. message_core (f m) = message_core m"
  shows "quiet (message_update mid f)"
proof (rule quietI, rule wf.R_message_update)
  fix d a d'
  assume "message_update mid f d = Inr (a, d')"
  then have d': "d' = d\<lparr> outbox := update_rows (\<lambda>m. msg_id m = mid) f (outbox d) \<rparr>"
    by (cases d) (auto simp: message_update_def tx_iff)
  have "map (\<lambda>m. cmd_attemptNo (msg_payload m))
      (filter (\<lambda>m. msg_key m = rid \<and> msg_topic m = ''run-commands'') (update_rows (\<lambda>m. msg_id m = mid) f rows)) =
    map (\<lambda>m. cmd_attemptNo (msg_payload m)) (filter (\<lambda>m. msg_key m = rid \<and> msg_topic m = ''run-commands'') rows)"
    for rid rows
    using assms by (induction rows) (auto simp: update_rows_def message_core_def)
  then show "view d' = view d" by (simp add: d' view_def fun_eq_iff)
qed

section \<open>Steps of the system\<close>

text \<open>
  \<open>system_step d0 d d'\<close>: a handler that read from \<open>d0\<close> commits a transaction that takes \<open>d\<close> to \<open>d'\<close>.
  Operations that read only inside their transaction do not mention \<open>d0\<close>.
\<close>

inductive system_step :: "db \<Rightarrow> db \<Rightarrow> db \<Rightarrow> bool" where
  createTask: "createTask c input d = Inr (ids, d') \<Longrightarrow> system_step d0 d d'"
| confirm: "TaskSnapshotSchema (c_isUrl c) raw = Some snapshot \<Longrightarrow>
    confirm_tx c repo snapshot (digest_json c (snapshot_json snapshot)) key d = Inr (ids, d') \<Longrightarrow> system_step d0 d d'"
| claim: "find_run rid d0 = Some run0 \<Longrightarrow> claimAttempt_tx c run0 rid n worker d = Inr (a, d') \<Longrightarrow> system_step d0 d d'"
| heartbeat: "heartbeat c aid d = Inr (ttl, d') \<Longrightarrow> system_step d0 d d'"
| complete: "read_attempt aid d0 = Inr ((a, run0, task0), d0) \<Longrightarrow>
    completeAttempt_tx c a run0 task0 outcome d = Inr (st, d') \<Longrightarrow> system_step d0 d d'"
| checkpoint: "saveCheckpoint c rid cp d = Inr (kid, d') \<Longrightarrow> system_step d0 d d'"
| lease_expired: "find_attempt aid d0 = Some a \<Longrightarrow> att_status a \<in> {A_RUNNING, A_CLAIMED} \<Longrightarrow>
    find_run (att_runId a) d0 = Some run0 \<Longrightarrow> handleLeaseExpired_tx c a run0 d = Inr (u, d') \<Longrightarrow> system_step d0 d d'"
| phase: "phase c aid token ph detail d = Inr (pr, d') \<Longrightarrow> system_step d0 d d'"
| environment: "environment c aid token fp img lg d = Inr (env, d') \<Longrightarrow> system_step d0 d d'"
| pause: "pause c aid token reason patch d = Inr (u, d') \<Longrightarrow> system_step d0 d d'"
| cancel: "cancel c rid d = Inr (u, d') \<Longrightarrow> system_step d0 d d'"
| resume: "resume c rid d = Inr (u, d') \<Longrightarrow> system_step d0 d d'"
| reserve: "reserve c rid aid token bid n d = Inr (call, d') \<Longrightarrow> system_step d0 d d'"
| settle: "settle c rid bid used d = Inr (call2, d') \<Longrightarrow> system_step d0 d d'"
| ingest: "TraceEventSchema e \<Longrightarrow> ingest_tx c e d = Inr (stored, d') \<Longrightarrow> system_step d0 d d'"
| draft: "createDraft c raw d = Inr (dr, d') \<Longrightarrow> system_step d0 d d'"
| configure: "configure pid cfg d = Inr (cv, d') \<Longrightarrow> system_step d0 d d'"
| publish: "f = (\<lambda>m. m\<lparr> msg_status := st, msg_publishedAt := at \<rparr>) \<or> f = (\<lambda>m. m\<lparr> msg_status := st \<rparr>) \<or>
      f = (\<lambda>m. m\<lparr> msg_attempts := msg_attempts m + 1 \<rparr>) \<Longrightarrow>
    message_update mid f d = Inr (m, d') \<Longrightarrow> system_step d0 d d'"
| reject: "delivery_reject c apid reviewer d = Inr (u, d') \<Longrightarrow> system_step d0 d d'"
| approve: "delivery_approve c apid reviewer d = Inr (rep, d') \<Longrightarrow> system_step d0 d d'"
| requeue: "find_row job_approvalId apid (deliveryJobs d0) = Some job \<Longrightarrow>
    requeue_tx job apid d = Inr (u, d') \<Longrightarrow> system_step d0 d d'"
| exhaust: "job \<in> set (exhausted_jobs c d0) \<Longrightarrow> exhaust_tx c job d = Inr (u, d') \<Longrightarrow> system_step d0 d d'"
| claim_job: "candidate_job c0 d0 = Some job \<Longrightarrow> claim_job c job d = Inr (n, d') \<Longrightarrow> system_step d0 d d'"
| renew_job: "renew_job c jid token d = Inr (n, d') \<Longrightarrow> system_step d0 d d'"
| record_commit: "record_commit_tx jid sha d = Inr (n, d') \<Longrightarrow> system_step d0 d d'"
| delivered: "deliver_success_tx job token url d = Inr (u, d') \<Longrightarrow> system_step d0 d d'"
| not_delivered: "deliver_failure_tx job token e d = Inr (u, d') \<Longrightarrow> system_step d0 d d'"
| legacy_decide: "read_approval apid d0 = Inr (Some (a, t), d0) \<Longrightarrow> task_snapshot t = None \<Longrightarrow> app_status a = AP_PENDING \<Longrightarrow>
    (s, ts) \<in> {(AP_APPROVED, T_APPROVED), (AP_REJECTED, T_REJECTED)} \<Longrightarrow> task_assertTransition (task_status t) ts = Inr ts' \<Longrightarrow>
    legacy_decide_tx c apid (app_taskId a) s ts reviewer d = Inr (u, d') \<Longrightarrow> system_step d0 d d'"
| legacy_retry: "read_approval apid d0 = Inr (Some (a, t), d0) \<Longrightarrow> task_snapshot t = None \<Longrightarrow> task_status t = T_PR_FAILED \<Longrightarrow>
    task_update (app_taskId a) (set_task_status T_APPROVED) d = Inr (t', d') \<Longrightarrow> system_step d0 d d'"
| pr_created: "read_approval apid d0 = Inr (Some (a, t), d0) \<Longrightarrow> task_snapshot t = None \<Longrightarrow>
    createFixPr enabled (app_taskId a) = Inr url \<Longrightarrow> pr_created_tx apid (app_taskId a) url d = Inr (u, d') \<Longrightarrow> system_step d0 d d'"
| pr_failed: "read_approval apid d0 = Inr (Some (a, t), d0) \<Longrightarrow> task_snapshot t = None \<Longrightarrow>
    pr_failed_tx apid (app_taskId a) message d = Inr (u, d') \<Longrightarrow> system_step d0 d d'"

inductive trace :: "db list \<Rightarrow> bool" where
  start: "trace [empty_db]"
| step: "trace (d # ds) \<Longrightarrow> d0 \<in> set (d # ds) \<Longrightarrow> system_step d0 d d' \<Longrightarrow> trace (d' # d # ds)"

inductive_cases trace_ConsE: "trace (d' # ds)"

section \<open>The view and the rows behind it\<close>

definition sys_inv :: "db \<Rightarrow> bool" where
  "sys_inv d \<longleftrightarrow> wf_db d \<and> (\<forall>rid. rinv (view d rid))"

lemma numbers_view: "numbers (view d rid) = map att_no (attempts_of rid d)"
  by (simp add: numbers_def view_def attempt_view_def comp_def)

lemma in_view_attempts:
  assumes "find_attempt aid d = Some a"
  shows "(aid, att_no a, att_status a) \<in> set (rv_attempts (view d (att_runId a)))"
proof -
  have "a \<in> set (attempts_of (att_runId a) d)" "att_id a = aid"
    using assms by (auto dest: find_row_in find_row_key)
  then have "attempt_view a \<in> set (map attempt_view (attempts_of (att_runId a) d))" by (metis image_eqI set_map)
  then show ?thesis using \<open>att_id a = aid\<close> by (simp add: view_def attempt_view_def)
qed

lemma not_in_view_attempts: "find_attempt aid d = None \<Longrightarrow> aid \<notin> fst ` set (rv_attempts (view d rid))"
  by (auto simp: find_row_None view_def attempt_view_def)

lemma active_is_last:
  assumes inv: "rinv v" and act: "(aid, n, s) \<in> set (rv_attempts v)" and s: "s \<in> {A_RUNNING, A_CLAIMED}"
  shows "s = A_RUNNING \<and> rv_status v = Some R_RUNNING \<and> n = claimed v \<and>
    (\<exists>as. rv_attempts v = as @ [(aid, n, A_RUNNING)] \<and> aid \<notin> fst ` set as)"
proof -
  obtain st where st: "rv_status v = Some st" using inv act by (cases "rv_status v") (auto simp: rinv_def)
  have mem: "s \<in> set (statuses v)" using act by (force simp: statuses_def)
  have run: "rv_status v = Some R_RUNNING"
  proof (rule ccontr)
    assume no: "rv_status v \<noteq> Some R_RUNNING"
    have "s \<notin> set (butlast (statuses v))"
      using inv st s by (auto simp: rinv_def list_all_iff ended_def)
    with mem have "last_opt (statuses v) = Some s"
      by (metis append_butlast_last_id empty_iff empty_set last_opt_def rotate1.simps(2) set_ConsD set_rotate1)
    with inv st no s show False
      by (cases st) (auto simp: rinv_def ended_def)
  qed
  from running_attempts [OF inv run] obtain as aid' where
      as: "rv_attempts v = as @ [(aid', length as + 1, A_RUNNING)]" "list_all ended (map (\<lambda>a. snd (snd a)) as)"
      "aid' \<notin> fst ` set as" by blast
  have "(aid, n, s) \<notin> set as" using as(2) s by (auto simp: list_all_iff ended_def)
  with act as(1) have "(aid, n, s) = (aid', length as + 1, A_RUNNING)" by auto
  with as run show ?thesis by auto
qed

lemma foldr_max: "foldr max xs (0::nat) = Max (insert 0 (set xs))"
proof (induction xs)
  case (Cons x xs)
  then show ?case by (cases "xs = []") (simp_all add: max.left_commute)
qed simp

lemma latest_no_claimed:
  assumes "rinv (view d rid)"
  shows "latest_no rid d = claimed (view d rid)" and "next_no (attempts_of rid d) = claimed (view d rid) + 1"
proof -
  let ?as = "attempts_of rid d" and ?n = "claimed (view d rid)"
  have len: "length ?as = ?n" by (simp add: view_def)
  have nos: "map att_no ?as = [1..<Suc ?n]"
  proof (cases "rv_status (view d rid)")
    case None
    with assms have "rv_attempts (view d rid) = []" by (simp add: rinv_def)
    then show ?thesis by (simp add: view_def)
  next
    case (Some st)
    with assms show ?thesis unfolding numbers_view [symmetric] by (simp add: rinv_def del: upt_Suc)
  qed
  show "latest_no rid d = ?n"
  proof (cases "latest_by (\<lambda>a. int (att_no a)) ?as")
    case None
    then show ?thesis using len by (simp add: latest_no_def)
  next
    case (Some a)
    then have "a \<in> set ?as" by (rule latest_by_in)
    then have "att_no a \<in> set (map att_no ?as)" by (metis image_eqI set_map)
    then have le: "att_no a \<le> ?n" unfolding nos by auto
    have "?as \<noteq> []" using Some by auto
    then have "0 < ?n" using len by (metis length_greater_0_conv)
    then have "?n \<in> set (map att_no ?as)" unfolding nos by (simp del: upt_Suc length_greater_0_conv add: Suc_le_eq)
    then obtain b where "b \<in> set ?as" "att_no b = ?n" by (metis (no_types, lifting) image_iff set_map)
    then have "?n \<le> att_no a" using latest_by_max [OF Some, of b] by simp
    with le Some show ?thesis by (simp add: latest_no_def)
  qed
  have "foldr max (map att_no ?as) 0 = Max (insert 0 {1..<Suc ?n})"
    unfolding nos foldr_max by (simp del: upt_Suc)
  also have "\<dots> = ?n" by (rule Max_eqI) (auto simp: not_less_eq_eq)
  finally show "next_no ?as = ?n + 1" by (simp add: next_no_def)
qed

section \<open>History\<close>

context effects
begin

lemma R_renew_job: "tx_rel R (renew_job c jid token)"
  unfolding renew_job_def by (intro R_ops)

lemma R_record_commit_tx: "tx_rel R (record_commit_tx jid sha)"
  unfolding record_commit_tx_def by (intro R_ops)

lemma R_pr_created_tx: "tx_rel R (pr_created_tx apid tid url)"
  unfolding pr_created_tx_def by (intro R_approval_ops) (simp add: approval_core_def)

lemma R_pr_failed_tx: "tx_rel R (pr_failed_tx apid tid message)"
  unfolding pr_failed_tx_def by (intro R_approval_ops) (simp add: approval_core_def)

text \<open>Every step but a successful completion is made of these effects.\<close>

lemma R_step_or_success:
  "system_step d0 d d' \<Longrightarrow> R d d' \<or> (\<exists>c aid a run0 task0 outcome.
     read_attempt aid d0 = Inr ((a, run0, task0), d0) \<and> att_status a = A_RUNNING \<and>
     complete_success c a run0 task0 outcome d = Inr ((), d'))"
proof (induction rule: system_step.induct)
  case (complete aid d0 a run0 task0 c outcome d st d')
  show ?case
  proof (cases "att_status a = A_RUNNING \<and> oc_failure outcome = None")
    case True
    with complete have "complete_success c a run0 task0 outcome d = Inr ((), d')"
      by (auto simp: completeAttempt_tx_def and_then_iff tx_return_iff)
    with True complete(1) show ?thesis by blast
  next
    case False
    have "tx_rel R (completeAttempt_tx c a run0 task0 outcome)"
      unfolding completeAttempt_tx_def using False
      by (cases "oc_failure outcome") (auto intro: R_ops R_complete_failure)
    from tx_relD [OF this complete(2)] show ?thesis ..
  qed
next
  case createTask then show ?case by (intro disjI1 tx_relD [OF R_createTask]) next

  case confirm then show ?case by (intro disjI1 tx_relD [OF R_confirm_tx]) next
  case claim then show ?case by (intro disjI1 tx_relD [OF R_claimAttempt_tx]) next
  case heartbeat then show ?case by (intro disjI1 tx_relD [OF R_heartbeat]) next
  case checkpoint then show ?case by (intro disjI1 tx_relD [OF R_saveCheckpoint]) next
  case lease_expired then show ?case by (intro disjI1 tx_relD [OF R_handleLeaseExpired_tx]) next
  case phase then show ?case by (intro disjI1 tx_relD [OF R_phase]) next
  case environment then show ?case by (intro disjI1 tx_relD [OF R_environment_op]) next
  case pause then show ?case by (intro disjI1 tx_relD [OF R_pause]) next
  case cancel then show ?case by (intro disjI1 tx_relD [OF R_cancel]) next
  case resume then show ?case by (intro disjI1 tx_relD [OF R_resume]) next
  case reserve then show ?case by (intro disjI1 tx_relD [OF R_reserve]) next
  case settle then show ?case by (intro disjI1 tx_relD [OF R_settle]) next
  case ingest then show ?case by (intro disjI1 tx_relD [OF R_ingest_tx [OF TraceEventSchema_type]]) next
  case draft then show ?case by (intro disjI1 tx_relD [OF R_createDraft]) next
  case configure then show ?case by (intro disjI1 tx_relD [OF R_configure]) next
  case publish then show ?case by (intro disjI1 tx_relD [OF R_message_update]) next
  case reject then show ?case by (intro disjI1 tx_relD [OF R_delivery_reject]) next
  case approve then show ?case by (intro disjI1 tx_relD [OF R_delivery_approve]) next
  case requeue then show ?case by (intro disjI1 tx_relD [OF R_requeue_tx]) next
  case exhaust then show ?case by (intro disjI1 tx_relD [OF R_exhaust_tx]) next
  case claim_job then show ?case by (intro disjI1 tx_relD [OF R_claim_job]) next
  case renew_job then show ?case by (intro disjI1 tx_relD [OF R_renew_job]) next
  case record_commit then show ?case by (intro disjI1 tx_relD [OF R_record_commit_tx]) next
  case delivered then show ?case by (intro disjI1 tx_relD [OF R_deliver_success_tx]) next
  case not_delivered then show ?case by (intro disjI1 tx_relD [OF R_deliver_failure_tx]) next
  case legacy_decide then show ?case by (intro disjI1 tx_relD [OF R_legacy_decide_tx]) next
  case legacy_retry then show ?case by (intro disjI1 tx_relD [OF R_task_status]) next
  case pr_created then show ?case by (intro disjI1 tx_relD [OF R_pr_created_tx]) next
  case pr_failed then show ?case by (intro disjI1 tx_relD [OF R_pr_failed_tx])
qed

end

context all_effects
begin

lemma R_system_step: "system_step d0 d d' \<Longrightarrow> R d d'"
  using R_step_or_success tx_relD [OF R_complete_success] by blast

end

lemma find_row_extends:
  assumes "extends (map core xs) (map core ys)" and "\<And>x y. core x = core y \<Longrightarrow> key x = key y"
    and "find_row key k xs = Some a"
  shows "\<exists>b. find_row key k ys = Some b \<and> core b = core a"
proof -
  obtain ys1 ys2 where "ys = ys1 @ ys2" and m: "map core ys1 = map core xs"
    using assms(1) unfolding extends_def by (metis append_eq_map_conv)
  moreover have "\<exists>b. find_row key k ys1 = Some b \<and> core b = core a"
    using m assms(3)
  proof (induction xs arbitrary: ys1)
    case (Cons x xs)
    then obtain y ys' where "ys1 = y # ys'" "core y = core x" "map core ys' = map core xs" by auto
    with Cons assms(2) [of y x] show ?case by (auto split: if_splits)
  qed simp
  ultimately show ?thesis by auto
qed

lemma history_attempt:
  assumes "history d0 d" and "find_attempt aid d0 = Some a"
  shows "\<exists>b. find_attempt aid d = Some b \<and> att_runId b = att_runId a \<and> att_no b = att_no a"
proof -
  have "\<exists>b. find_attempt aid d = Some b \<and> attempt_core b = attempt_core a"
    by (rule find_row_extends [OF _ _ assms(2)]) (use assms(1) in \<open>simp_all add: history_def attempt_core_def [abs_def]\<close>)
  then show ?thesis by (auto simp: attempt_core_def)
qed

section \<open>Every step follows the run machine\<close>

definition follows_machine :: "db \<Rightarrow> db \<Rightarrow> bool" where
  "follows_machine d d' \<longleftrightarrow> wf_db d' \<and>
     (view d' = view d \<or> (\<exists>rid v'. run_step (view d rid) v' \<and> view d' = (view d)(rid := v')))"

lemma follows_quiet: "quiet m \<Longrightarrow> wf_db d \<Longrightarrow> m d = Inr (a, d') \<Longrightarrow> follows_machine d d'"
  using quietD by (fastforce simp: follows_machine_def)

lemma followsI:
  "wf_db d' \<Longrightarrow> run_step (view d rid) v' \<Longrightarrow> view d' = (view d)(rid := v') \<Longrightarrow> follows_machine d d'"
  by (auto simp: follows_machine_def)

lemma follows_created:
  assumes "wf_db d'" and "rv_status (view d rid) = None" and "0 < m"
    and "view d' = (view d)(rid := (view d rid)\<lparr> rv_status := Some R_DISPATCHED, rv_max := m,
      rv_commands := rv_commands (view d rid) @ [1] \<rparr>)"
  shows "follows_machine d d'"
proof (rule followsI [OF assms(1) run_step.create [OF assms(2,3)]])
  show "view d' = (view d)(rid := (view d rid)\<lparr> rv_status := Some R_DISPATCHED,
      rv_commands := rv_commands (view d rid) @ [1], rv_max := m \<rparr>)"
    unfolding assms(4) by (cases "view d rid") simp
qed

lemma active_split:
  assumes "rinv v" and "(aid, n, A_RUNNING) \<in> set (rv_attempts v)"
  obtains as where "rv_status v = Some R_RUNNING" "n = claimed v" "rv_attempts v = as @ [(aid, n, A_RUNNING)]"
    "\<And>s. set_attempt aid s v = v\<lparr> rv_attempts := as @ [(aid, n, s)] \<rparr>"
proof -
  have "rv_status v = Some R_RUNNING \<and> n = claimed v \<and>
      (\<exists>as. rv_attempts v = as @ [(aid, n, A_RUNNING)] \<and> aid \<notin> fst ` set as)"
    using active_is_last [OF assms] by blast
  then obtain as where run: "rv_status v = Some R_RUNNING" "n = claimed v"
      and as: "rv_attempts v = as @ [(aid, n, A_RUNNING)]" "aid \<notin> fst ` set as" by blast
  have keep: "map (\<lambda>(i, n, t). (i, n, if i = aid then s else t)) as = as" for s
    using as(2) by (intro map_idI) (force split: prod.splits)
  have "set_attempt aid s v = v\<lparr> rv_attempts := as @ [(aid, n, s)] \<rparr>" for s
    unfolding set_attempt_def as(1) by (simp add: keep)
  with that run as show ?thesis by blast
qed

lemma follows_attempt_ended:
  assumes inv: "rinv (view d rid)" and own: "(aid, n, A_RUNNING) \<in> set (rv_attempts (view d rid))"
    and e: "attempt_ended rid aid n s d d'" and s: "ended s"
  shows "follows_machine d d'"
proof -
  define v where "v = view d rid"
  from active_split [OF inv own] obtain as where
      run: "rv_status v = Some R_RUNNING" "n = claimed v" and as: "rv_attempts v = as @ [(aid, n, A_RUNNING)]"
      and upd: "\<And>s. set_attempt aid s v = v\<lparr> rv_attempts := as @ [(aid, n, s)] \<rparr>"
    unfolding v_def by blast
  from e obtain st cmds where wf: "wf_db d'"
      and v: "view d' = (view d)(rid := v\<lparr> rv_status := Some st, rv_attempts := as @ [(aid, n, s)], rv_commands := rv_commands v @ cmds \<rparr>)"
      and c: "st \<in> {R_INTERRUPTED, R_FAILED} \<and> cmds = [] \<or> st = R_DISPATCHED \<and> cmds = [n + 1] \<and> n < rv_max v"
    unfolding attempt_ended_def v_def [symmetric] upd by (cases v) auto
  from c have "run_step v (v\<lparr> rv_status := Some st, rv_attempts := as @ [(aid, n, s)], rv_commands := rv_commands v @ cmds \<rparr>)"
  proof
    assume "st \<in> {R_INTERRUPTED, R_FAILED} \<and> cmds = []"
    with run_step.stop [OF run(1) as s, of st] show ?thesis by - (cases v, simp)
  next
    assume "st = R_DISPATCHED \<and> cmds = [n + 1] \<and> n < rv_max v"
    with run_step.recover [OF run(1) as s] run(2) show ?thesis by - (cases v, simp)
  qed
  then show ?thesis unfolding v_def using v by (intro followsI [OF wf]) (simp_all add: v_def)
qed


text \<open>Two facts about the rows a handler read earlier: an active attempt had a running run, and the attempt
  still belongs to the same run under the same number.\<close>

lemma read_active:
  assumes "sys_inv d0" and "find_attempt aid d0 = Some a" and "att_status a \<in> {A_RUNNING, A_CLAIMED}"
    and "find_run (att_runId a) d0 = Some run0"
  shows "run_status run0 = R_RUNNING" and "run_id run0 = att_runId a" and "att_id a = aid"
proof -
  have "rv_status (view d0 (att_runId a)) = Some R_RUNNING"
    using active_is_last [OF _ in_view_attempts [OF assms(2)] assms(3)] assms(1) unfolding sys_inv_def by blast
  then show "run_status run0 = R_RUNNING" using assms(4) by (simp add: view_def)
  show "run_id run0 = att_runId a" using assms(4) by (rule find_row_key)
  show "att_id a = aid" using assms(2) by (rule find_row_key)
qed

lemma same_attempt:
  assumes "history d0 d" and "find_attempt aid d0 = Some a" and "find_attempt aid d = Some owner"
  shows "att_runId owner = att_runId a" and "att_no owner = att_no a"
  using history_attempt [OF assms(1,2)] assms(3) by auto

lemma running_in_view:
  assumes "find_attempt aid d = Some owner" and "att_status owner = A_RUNNING"
  shows "(aid, att_no owner, A_RUNNING) \<in> set (rv_attempts (view d (att_runId owner)))"
  using in_view_attempts [OF assms(1)] assms(2) by simp

lemma no_claimed_attempts:
  assumes "rinv (view d rid)" and "find_attempt aid d = Some owner" and "att_runId owner = rid"
    and "att_status owner \<in> {A_CLAIMED, A_RUNNING}"
  shows "att_status owner = A_RUNNING"
  using active_is_last [OF assms(1)] in_view_attempts [OF assms(2)] assms(3,4) by blast

section \<open>Each operation follows the machine\<close>

lemma follows_createTask:
  assumes "wf_db d" and "createTask c input d = Inr (ids, d')"
  shows "follows_machine d d'"
proof -
  from createTask_is_tx [OF assms(2)] obtain input' fx base where
    tx: "createTask_tx c input' fx base d = Inr (ids, d')" by blast
  from view_createTask_tx [OF assms(1) tx] show ?thesis by (intro follows_created [of d' d "snd ids" 3]) auto
qed

lemma snapshot_attempts: "TaskSnapshotSchema u raw = Some s \<Longrightarrow> 0 < sb_maxAttempts (sn_budget s)"
  by (auto simp: TaskSnapshotSchema_def split: option.splits if_splits)

lemma follows_confirm:
  assumes "wf_db d" and "TaskSnapshotSchema u raw = Some snapshot"
    and "confirm_tx c repo snapshot digest key d = Inr (ids, d')"
  shows "follows_machine d d'"
proof (cases "view d' = view d")
  case True
  with view_confirm_tx [OF assms(1,3)] show ?thesis by (simp add: follows_machine_def)
next
  case False
  with view_confirm_tx [OF assms(1,3)] show ?thesis
    by (intro follows_created [OF _ _ snapshot_attempts [OF assms(2)]]) auto
qed

lemma follows_claim:
  assumes "sys_inv d" and "claimAttempt_tx c run0 rid n worker d = Inr (a, d')"
  shows "follows_machine d d'"
proof -
  have wf: "wf_db d" and inv: "rinv (view d rid)" using assms(1) by (simp_all add: sys_inv_def)
  note c = view_claimAttempt_tx [OF wf assms(2)]
  have "run_step (view d rid) ((view d rid)\<lparr> rv_status := Some R_RUNNING,
      rv_attempts := rv_attempts (view d rid) @ [(att_id a, claimed (view d rid) + 1, A_RUNNING)] \<rparr>)"
    using c latest_no_claimed [OF inv] by (intro run_step.claim not_in_view_attempts) auto
  with c latest_no_claimed [OF inv] show ?thesis by (intro followsI [of d' d rid]) auto
qed

lemma follows_complete:
  assumes inv: "sys_inv d" "sys_inv d0" and h: "history d0 d"
    and rd: "read_attempt aid d0 = Inr ((a, run0, task0), d0)"
    and run: "completeAttempt_tx c a run0 task0 outcome d = Inr (st, d')"
  shows "follows_machine d d'"
proof (cases "att_status a = A_RUNNING")
  case False
  with run inv show ?thesis by (simp add: completeAttempt_tx_def tx_return_iff follows_machine_def sys_inv_def)
next
  case True
  from rd have a: "find_attempt aid d0 = Some a" and r0: "find_run (att_runId a) d0 = Some run0"
    by (auto simp: read_attempt_def and_then_iff tx_read_iff tx_some_iff run_findUniqueOrThrow_iff tx_return_iff
        task_findUniqueOrThrow_iff)
  note r = read_active [OF inv(2) a _ r0]
  have wf: "wf_db d" and rinv: "rinv (view d (att_runId a))" using inv(1) by (simp_all add: sys_inv_def)
  show ?thesis
  proof (cases "oc_failure outcome")
    case None
    with run True have "complete_success c a run0 task0 outcome d = Inr ((), d')"
      by (auto simp: completeAttempt_tx_def and_then_iff tx_return_iff)
    from view_complete_success [OF wf this] obtain owner where
        wf': "wf_db d'" and o: "find_attempt (att_id a) d = Some owner" "att_status owner = A_RUNNING"
        and v: "att_runId owner = att_runId a \<longrightarrow> rv_status (view d (att_runId a)) = Some R_RUNNING \<and>
          view d' = (view d)(att_runId a := (set_attempt (att_id a) A_SUCCEEDED (view d (att_runId a)))
            \<lparr> rv_status := Some R_SUCCEEDED \<rparr>)" by blast
    have same: "att_runId owner = att_runId a" using same_attempt [OF h a] o(1) r(3) True by simp
    define w where "w = view d (att_runId a)"
    from active_split [OF rinv running_in_view [OF o, unfolded same]] obtain as where
        run: "rv_status w = Some R_RUNNING" and as: "rv_attempts w = as @ [(att_id a, att_no owner, A_RUNNING)]"
        and upd: "\<And>s. set_attempt (att_id a) s w = w\<lparr> rv_attempts := as @ [(att_id a, att_no owner, s)] \<rparr>"
      unfolding w_def by blast
    have "view d' = (view d)(att_runId a := w\<lparr> rv_status := Some R_SUCCEEDED,
        rv_attempts := as @ [(att_id a, att_no owner, A_SUCCEEDED)] \<rparr>)"
      using v same upd by (cases w) (simp add: w_def [symmetric])
    with run_step.succeed [OF run as] wf' show ?thesis
      unfolding w_def by (intro followsI [of d' d "att_runId a"])
  next
    case (Some code)
    with run True have "complete_failure c a run0 task0 outcome code d = Inr ((), d')"
      by (auto simp: completeAttempt_tx_def and_then_iff tx_return_iff run_findUniqueOrThrow_iff)
    from view_complete_failure [OF wf this] r True obtain owner where
        o: "find_attempt (att_id a) d = Some owner" "att_status owner = A_RUNNING"
        and e: "att_runId owner = att_runId a \<longrightarrow> attempt_ended (att_runId a) (att_id a) (att_no a) A_FAILED d d'" by blast
    have same: "att_runId owner = att_runId a" "att_no owner = att_no a"
      using same_attempt [OF h a] o(1) r(3) True by simp_all
    from follows_attempt_ended [OF rinv running_in_view [OF o, unfolded same]] e same
    show ?thesis by (simp add: ended_def)
  qed
qed

lemma follows_lease_expired:
  assumes inv: "sys_inv d" "sys_inv d0" and h: "history d0 d"
    and a: "find_attempt aid d0 = Some a" "att_status a \<in> {A_RUNNING, A_CLAIMED}" "find_run (att_runId a) d0 = Some run0"
    and run: "handleLeaseExpired_tx c a run0 d = Inr (u, d')"
  shows "follows_machine d d'"
proof -
  note r = read_active [OF inv(2) a]
  have wf: "wf_db d" and rinv: "rinv (view d (att_runId a))" using inv(1) by (simp_all add: sys_inv_def)
  from view_handleLeaseExpired_tx [OF wf run r(1,2)] consider
      (quiet) "wf_db d'" "view d' = view d" |
      (ended) owner where "find_attempt (att_id a) d = Some owner" "att_status owner \<in> {A_CLAIMED, A_RUNNING}"
        "att_runId owner = att_runId a \<longrightarrow> attempt_ended (att_runId a) (att_id a) (att_no a) A_LEASE_EXPIRED d d'" by blast
  then show ?thesis
  proof cases
    case quiet
    then show ?thesis by (simp add: follows_machine_def)
  next
    case ended
    have same: "att_runId owner = att_runId a" "att_no owner = att_no a"
      using same_attempt [OF h a(1)] ended(1) r(3) by simp_all
    have "att_status owner = A_RUNNING" using no_claimed_attempts [OF rinv ended(1) same(1) ended(2)] .
    from follows_attempt_ended [OF rinv running_in_view [OF ended(1) this, unfolded same]] ended(3) same
    show ?thesis by (simp add: ended_def)
  qed
qed

lemma follows_pause:
  assumes "sys_inv d" and "pause c aid token reason patch d = Inr (u, d')"
  shows "follows_machine d d'"
proof -
  have wf: "wf_db d" and rinv: "rinv (view d rid)" for rid using assms(1) by (simp_all add: sys_inv_def)
  from view_pause [OF wf assms(2)] obtain a where
    a: "find_attempt aid d = Some a" "att_status a = A_RUNNING"
    and e: "attempt_ended (att_runId a) aid (att_no a) A_FAILED d d'" by blast
  from follows_attempt_ended [OF rinv running_in_view [OF a] e] show ?thesis by (simp add: ended_def)
qed

lemma follows_cancel:
  assumes "sys_inv d" and "cancel c rid d = Inr (u, d')"
  shows "follows_machine d d'"
proof -
  have wf: "wf_db d" and rinv: "rinv (view d rid)" using assms(1) by (simp_all add: sys_inv_def)
  from view_cancel [OF wf assms(2)] have wf': "wf_db d'" and
    v: "view d' = view d \<or> rv_status (view d rid) \<notin> {None, Some R_CANCELLED, Some R_SUCCEEDED, Some R_FAILED} \<and>
      view d' = (view d)(rid := (cancel_attempts (view d rid))\<lparr> rv_status := Some R_CANCELLED \<rparr>)" by blast+
  from v show ?thesis
  proof
    assume "view d' = view d"
    with wf' show ?thesis by (simp add: follows_machine_def)
  next
    assume c: "rv_status (view d rid) \<notin> {None, Some R_CANCELLED, Some R_SUCCEEDED, Some R_FAILED} \<and>
      view d' = (view d)(rid := (cancel_attempts (view d rid))\<lparr> rv_status := Some R_CANCELLED \<rparr>)"
    then obtain st where st: "rv_status (view d rid) = Some st" by (cases "rv_status (view d rid)") auto
    with c rinv have "rv_status (view d rid) \<in> {Some R_DISPATCHED, Some R_RUNNING, Some R_INTERRUPTED}"
      by (cases st) (auto simp: rinv_def)
    moreover have "cancel_view v = (cancel_attempts v)\<lparr> rv_status := Some R_CANCELLED \<rparr>" for v
      by (cases v) (simp add: cancel_view_def cancel_attempts_def)
    ultimately show ?thesis using c by (intro followsI [OF wf' run_step.cancel]) simp_all
  qed
qed

lemma follows_resume:
  assumes "sys_inv d" and "resume c rid d = Inr (u, d')"
  shows "follows_machine d d'"
proof -
  have wf: "wf_db d" and rinv: "rinv (view d rid)" using assms(1) by (simp_all add: sys_inv_def)
  have n: "length (attempts_of rid d) = claimed (view d rid)" by (simp add: view_def)
  from view_resume [OF wf assms(2)] show ?thesis
    unfolding n latest_no_claimed(2) [OF rinv]
    by (elim conjE) (rule followsI [of d' d rid, OF _ run_step.resume])
qed

section \<open>The system refines the run machine\<close>

lemma step_sim:
  assumes "system_step d0 d d'" and inv: "sys_inv d" "sys_inv d0" and h: "history d0 d"
  shows "follows_machine d d'"
proof -
  have wf: "wf_db d" using inv(1) by (simp add: sys_inv_def)
  show ?thesis
    using assms(1)
  proof (cases rule: system_step.cases)
    case createTask then show ?thesis by (rule follows_createTask [OF wf]) next
    case confirm then show ?thesis by (rule follows_confirm [OF wf]) next
    case claim then show ?thesis by (intro follows_claim [OF inv(1)]) next
    case complete then show ?thesis by (rule follows_complete [OF inv h]) next
    case lease_expired then show ?thesis by (rule follows_lease_expired [OF inv h]) next
    case pause then show ?thesis by (rule follows_pause [OF inv(1)]) next
    case cancel then show ?thesis by (rule follows_cancel [OF inv(1)]) next
    case resume then show ?thesis by (rule follows_resume [OF inv(1)]) next
    case heartbeat then show ?thesis by (rule follows_quiet [OF quiet_heartbeat wf]) next
    case checkpoint then show ?thesis by (rule follows_quiet [OF quiet_saveCheckpoint wf]) next
    case phase then show ?thesis by (rule follows_quiet [OF quiet_phase wf]) next
    case environment then show ?thesis by (rule follows_quiet [OF quiet_environment wf]) next
    case reserve then show ?thesis by (rule follows_quiet [OF quiet_reserve wf]) next
    case settle then show ?thesis by (rule follows_quiet [OF quiet_settle wf]) next
    case ingest then show ?thesis by (rule follows_quiet [OF quiet_ingest_tx wf]) next
    case draft then show ?thesis by (rule follows_quiet [OF quiet_createDraft wf]) next
    case configure then show ?thesis by (rule follows_quiet [OF quiet_configure wf]) next
    case publish
    then show ?thesis by (intro follows_quiet [OF quiet_message_update wf]) (auto simp: message_core_def)
  next
    case reject then show ?thesis by (rule follows_quiet [OF quiet_delivery(1) wf]) next
    case approve then show ?thesis by (rule follows_quiet [OF quiet_delivery(2) wf]) next
    case requeue then show ?thesis by (intro follows_quiet [OF quiet_delivery_tasks(1) wf]) next
    case exhaust then show ?thesis by (intro follows_quiet [OF quiet_delivery(3) wf]) next
    case claim_job then show ?thesis by (intro follows_quiet [OF quiet_delivery(4) wf]) next
    case renew_job then show ?thesis by (rule follows_quiet [OF quiet_delivery(5) wf]) next
    case record_commit then show ?thesis by (rule follows_quiet [OF quiet_delivery(6) wf]) next
    case delivered then show ?thesis by (rule follows_quiet [OF quiet_delivery(7) wf]) next
    case not_delivered then show ?thesis by (rule follows_quiet [OF quiet_delivery_tasks(2) wf]) next
    case legacy_decide then show ?thesis by (intro follows_quiet [OF quiet_delivery(8) wf]) next
    case legacy_retry then show ?thesis by (intro follows_quiet [OF quiet_task_status wf]) next
    case pr_created then show ?thesis by (intro follows_quiet [OF quiet_delivery(9) wf]) next
    case pr_failed then show ?thesis by (intro follows_quiet [OF quiet_delivery(10) wf])
  qed
qed

lemma follows_inv: "follows_machine d d' \<Longrightarrow> sys_inv d \<Longrightarrow> sys_inv d'"
  unfolding follows_machine_def sys_inv_def using rinv_step by (metis fun_upd_apply)

lemma sys_inv_empty: "sys_inv empty_db"
  unfolding sys_inv_def by (simp add: wf_db_def empty_db_def view_def rinv_def)

lemma trace_inv:
  "trace ds \<Longrightarrow> (\<forall>d\<in>set ds. sys_inv d) \<and> sorted_wrt (\<lambda>d d0. history d0 d) ds"
proof (induction rule: trace.induct)
  case start
  then show ?case by (simp add: sys_inv_empty)
next
  case (step d ds d0 d')
  have h: "history x d" if "x \<in> set (d # ds)" for x
    using step.IH that by (auto simp: history_def)
  have "follows_machine d d'"
    using step.IH step.hyps(2) by (intro step_sim [OF step.hyps(3) _ _ h]) auto
  moreover have hd: "history d d'" by (rule hist.R_system_step [OF step.hyps(3)])
  moreover have "history x d'" if "x \<in> set (d # ds)" for x
    using h [OF that] hd by (auto simp: history_def intro: extends_trans)
  ultimately show ?case using step.IH follows_inv by auto
qed


section \<open>Finished runs\<close>

lemma follows_finished:
  assumes "follows_machine d d'" and "rv_status (view d rid) = Some st" and "finished st"
  shows "view d' rid = view d rid"
  using assms finished_final unfolding follows_machine_def by (metis fun_upd_apply)

lemma trace_finished:
  assumes "trace (d' # ds)" and "d \<in> set ds" and "rv_status (view d rid) = Some st" and "finished st"
  shows "view d' rid = view d rid"
  using assms
proof (induction "d' # ds" arbitrary: d' ds rule: trace.induct)
  case (step d1 ds1 d0 d2)
  have "view d1 rid = view d rid"
    using step by (cases "d = d1") auto
  moreover have "follows_machine d1 d2"
    using trace_inv [OF step.hyps(1)] step.hyps(3,4) by (intro step_sim [OF step.hyps(4)]) (auto simp: history_def)
  ultimately show ?case using follows_finished step.prems(2,3) by metis
qed simp

section \<open>Approvals\<close>

definition approval_inv :: "db \<Rightarrow> bool" where
  "approval_inv d \<longleftrightarrow> distinct (map app_runId (approvals d)) \<and>
     (\<forall>a \<in> set (approvals d). rv_status (view d (app_runId a)) = Some R_SUCCEEDED)"

lemma complete_success_approvals:
  assumes "complete_success c a run0 task0 outcome d = Inr ((), d')"
  shows "map approval_core (approvals d') = map approval_core (approvals d) @
    [approval_core (new_approval c (run_taskId run0) (att_runId a) (oc_patch outcome))]"
proof -
  let ?before = "\<lambda>d. and_then (attempt_update (att_id a)
        (\<lambda>a. a\<lparr> att_status := A_SUCCEEDED, att_endedAt := Some (c_now c) \<rparr>)) (\<lambda>_.
      and_then (persistExtras c a run0 task0 outcome) (\<lambda>_.
      and_then (transitionRun c (att_runId a) R_RUNNING R_VERIFYING) (\<lambda>_.
      and_then (transitionRun c (att_runId a) R_VERIFYING R_SUCCEEDED) (\<lambda>_.
      and_then (transitionTask (run_taskId run0) T_RUNNING T_AWAITING_APPROVAL) (\<lambda>_.
      run_update c (att_runId a) (\<lambda>r. r\<lparr> run_phase := ''AWAITING_APPROVAL'' \<rparr>)))))) d"
  from assms obtain r d1 ap d2 where before: "?before d = Inr (r, d1)"
      and create: "approval_create (new_approval c (run_taskId run0) (att_runId a) (oc_patch outcome)) d1 = Inr (ap, d2)"
      and event: "appendSyntheticEvent c (att_runId a) (ApprovalEvent AP_PENDING None None) None d2 = Inr ((), d')"
    unfolding complete_success_def Let_def and_then_iff attempt_findUniqueOrThrow_iff tx_check_iff tx_read_iff by blast
  have "tx_rel keeps_approvals ?before"
    by (intro appr.R_ops appr.R_persistExtras) (simp_all add: run_core_def attempt_core_def)
  with before have "keeps_approvals d d1" unfolding tx_rel_def by blast
  moreover have "keeps_approvals d2 d'"
    using appr.R_append event unfolding tx_rel_def by blast
  ultimately show ?thesis using create by (auto simp: keeps_approvals_def tx_iff)
qed

lemma map_through:
  assumes "map core xs = map core ys" and "\<And>x y. core x = core y \<Longrightarrow> f x = f y"
  shows "map f xs = map f ys"
proof (rule nth_equalityI)
  have len: "length xs = length ys" using assms(1) map_eq_imp_length_eq by blast
  then show "length (map f xs) = length (map f ys)" by simp
  fix i assume i: "i < length (map f xs)"
  then have "core (xs ! i) = core (ys ! i)" using assms(1) len by (metis length_map nth_map)
  then have "f (xs ! i) = f (ys ! i)" by (rule assms(2))
  with i len show "map f xs ! i = map f ys ! i" by simp
qed

lemma approval_inv_same:
  assumes "keeps_approvals d d'" and "follows_machine d d'" and "approval_inv d"
  shows "approval_inv d'"
proof -
  have ids: "map app_runId (approvals d') = map app_runId (approvals d)"
    by (rule map_through [where core = approval_core])
      (use assms(1) in \<open>simp_all add: keeps_approvals_def approval_core_def\<close>)
  then have "app_runId ` set (approvals d') = app_runId ` set (approvals d)" by (metis set_map)
  moreover have "rv_status (view d' (app_runId a)) = Some R_SUCCEEDED" if "a \<in> set (approvals d)" for a
    using follows_finished [OF assms(2)] assms(3) that by (simp add: approval_inv_def finished_def)
  ultimately have "\<forall>b \<in> set (approvals d'). rv_status (view d' (app_runId b)) = Some R_SUCCEEDED"
    by (metis (no_types, lifting) image_iff)
  with ids assms(3) show ?thesis by (simp add: approval_inv_def)
qed


lemma approval_inv_success:
  assumes inv: "sys_inv d" "sys_inv d0" and h: "history d0 d" and f: "follows_machine d d'"
    and rd: "read_attempt aid d0 = Inr ((a, run0, task0), d0)"
    and suc: "complete_success c a run0 task0 outcome d = Inr ((), d')" and old: "approval_inv d"
  shows "approval_inv d'"
proof -
  from rd have a: "find_attempt aid d0 = Some a"
    by (auto simp: read_attempt_def and_then_iff tx_read_iff tx_some_iff run_findUniqueOrThrow_iff tx_return_iff
        task_findUniqueOrThrow_iff)
  have wf: "wf_db d" using inv(1) by (simp add: sys_inv_def)
  obtain owner where o: "find_attempt (att_id a) d = Some owner" and
      v: "att_runId owner = att_runId a \<longrightarrow> rv_status (view d (att_runId a)) = Some R_RUNNING \<and>
        view d' = (view d)(att_runId a := (set_attempt (att_id a) A_SUCCEEDED (view d (att_runId a)))
          \<lparr> rv_status := Some R_SUCCEEDED \<rparr>)"
    using view_complete_success [OF wf suc] by blast
  have "att_runId owner = att_runId a" using same_attempt [OF h a] o find_row_key [OF a] by simp
  with v have run: "rv_status (view d (att_runId a)) = Some R_RUNNING"
      and new: "rv_status (view d' (att_runId a)) = Some R_SUCCEEDED" by simp_all
  obtain as p where as: "approvals d' = as @ [p]" "map approval_core as = map approval_core (approvals d)"
      "app_runId p = att_runId a"
    using complete_success_approvals [OF suc]
    by (auto simp: map_eq_append_conv approval_core_def new_approval_def)
  have ids: "map app_runId as = map app_runId (approvals d)"
    using as(2) by (rule map_through) (simp add: approval_core_def)
  then have mem: "app_runId ` set as = app_runId ` set (approvals d)" by (metis set_map)
  have succ: "rv_status (view d (app_runId x)) = Some R_SUCCEEDED" if "x \<in> set as" for x
    using mem that old unfolding approval_inv_def by (metis image_iff)
  then have "att_runId a \<notin> app_runId ` set as" using run by force
  then have "distinct (map app_runId (approvals d'))"
    using as(1,3) ids mem old by (simp add: approval_inv_def)
  moreover have "rv_status (view d' (app_runId x)) = Some R_SUCCEEDED" if "x \<in> set as" for x
    using follows_finished [OF f succ [OF that]] succ [OF that] by (simp add: finished_def)
  ultimately show ?thesis using as(1,3) new by (auto simp: approval_inv_def)
qed

lemma trace_approvals: "trace ds \<Longrightarrow> \<forall>d \<in> set ds. approval_inv d"
proof (induction rule: trace.induct)
  case start
  then show ?case by (simp add: approval_inv_def empty_db_def)
next
  case (step d ds d0 d')
  have inv: "sys_inv d" "sys_inv d0" and h: "history d0 d"
    using trace_inv [OF step.hyps(1)] step.hyps(2) by (auto simp: history_def)
  have f: "follows_machine d d'" by (rule step_sim [OF step.hyps(3) inv h])
  have "approval_inv d'"
    using appr.R_step_or_success [OF step.hyps(3)]
  proof
    assume "keeps_approvals d d'"
    then show ?thesis using approval_inv_same f step.IH by simp
  next
    assume "\<exists>c aid a run0 task0 outcome. read_attempt aid d0 = Inr ((a, run0, task0), d0) \<and>
      att_status a = A_RUNNING \<and> complete_success c a run0 task0 outcome d = Inr ((), d')"
    then show ?thesis using approval_inv_success [OF inv h f] step.IH by fastforce
  qed
  with step.IH show ?case by simp
qed

end
