(* ===== verification/Examples.thy ===== *)
theory Examples
  imports System
begin

text \<open>
  A short life of one run, used by the witnesses: a demo task is created, its first attempt claimed and
  completed, and the approval that follows decided.  Every state is computed by the operations.
\<close>

definition ex_ctx :: "string \<Rightarrow> int \<Rightarrow> ctx" where
  "ex_ctx tag now = \<lparr> c_now = now, c_cuid = (\<lambda>k. tag @ show_nat k), c_uuid = ''token-'' @ tag, c_leaseTtlMs = 60000,
     c_demo = False, c_fixtures = [], c_sha256 = (\<lambda>s. s), c_isUrl = (\<lambda>_. True), c_localeLe = code_le,
     c_git = (\<lambda>_ _. Inl (Failure ''git'')), c_fetch = (\<lambda>_ _ _ _. Inl (Failure ''git'')),
     c_prHead = (\<lambda>_ _ _. Inl (Failure ''github'')) \<rparr>"

definition ex_input :: CreateTaskInput where
  "ex_input = \<lparr> ci_fixtureId = ''fake'', ci_agentKind = SELF_LANGGRAPH, ci_recoveryDisabled = None,
     ci_feedbackMode = None, ci_budgetTokens = None, ci_budgetSeconds = None, ci_budgetTurns = None,
     ci_source = None, ci_sourceRef = None \<rparr>"

definition ex_state :: "(db, 'a) tx \<Rightarrow> db \<Rightarrow> db" where
  "ex_state m d = (case m d of Inl _ \<Rightarrow> empty_db | Inr (_, d') \<Rightarrow> d')"

definition ex_created :: db where
  "ex_created = ex_state (createTask (ex_ctx ''a'' 1000) ex_input) empty_db"

definition ex_claimed :: db where
  "ex_claimed = ex_state (claimAttempt (ex_ctx ''b'' 2000) ''a3'' 1 ''worker'') ex_created"

definition ex_outcome :: Outcome where
  "ex_outcome = \<lparr> oc_failure = None, oc_usedTokens = Some 10, oc_usedSeconds = Some 1, oc_verification = [],
     oc_patch = Some ''diff'', oc_judge = None \<rparr>"

definition ex_done :: db where
  "ex_done = ex_state (completeAttempt (ex_ctx ''c'' 3000) ''b0'' ex_outcome) ex_claimed"

definition ex_run :: Run where
  "ex_run = the (find_run ''a3'' ex_created)"

definition ex_attempt :: Attempt where
  "ex_attempt = the (find_attempt ''b0'' ex_claimed)"

definition ex_run2 :: Run where
  "ex_run2 = the (find_run ''a3'' ex_claimed)"

definition ex_task2 :: Task where
  "ex_task2 = the (find_task ''a2'' ex_claimed)"

lemma ex_created: "createTask (ex_ctx ''a'' 1000) ex_input empty_db = Inr ((''a2'', ''a3''), ex_created)"
  by code_simp

lemma ex_claimed: "find_run ''a3'' ex_created = Some ex_run"
  "claimAttempt_tx (ex_ctx ''b'' 2000) ex_run ''a3'' 1 ''worker'' ex_created =
     Inr (new_attempt (ex_ctx ''b'' 2000) ''a3'' 1 ''worker'', ex_claimed)"
  by code_simp+

lemma ex_done: "read_attempt ''b0'' ex_claimed = Inr ((ex_attempt, ex_run2, ex_task2), ex_claimed)"
  "completeAttempt_tx (ex_ctx ''c'' 3000) ex_attempt ex_run2 ex_task2 ex_outcome ex_claimed =
     Inr ((A_SUCCEEDED, R_SUCCEEDED), ex_done)"
  by code_simp+

lemma ex_trace1: "trace [ex_created, empty_db]"
  by (rule trace.step [OF trace.start _ system_step.createTask [OF ex_created], of empty_db]) simp

lemma ex_trace2: "trace [ex_claimed, ex_created, empty_db]"
  by (rule trace.step [OF ex_trace1 _ system_step.claim [OF ex_claimed]]) simp

lemma ex_trace3: "trace [ex_done, ex_claimed, ex_created, empty_db]"
  by (rule trace.step [OF ex_trace2 _ system_step.complete [OF ex_done]]) simp

definition ex_run3 :: Run where
  "ex_run3 = the (find_run ''a3'' ex_done)"

lemma ex_done_run: "find_run ''a3'' ex_done = Some ex_run3"
  by code_simp

definition ex_approval :: Approval where
  "ex_approval = the (find_approval ''c4'' ex_done)"

lemma ex_done_approval: "find_approval ''c4'' ex_done = Some ex_approval"
  by code_simp

text \<open>A later step on the finished run: its approval is rejected by the legacy path.\<close>

definition ex_approved_task :: Task where
  "ex_approved_task = the (find_task ''a2'' ex_done)"

definition ex_rejected :: db where
  "ex_rejected = ex_state (legacy_decide_tx (ex_ctx ''d'' 4000) ''c4'' ''a2'' AP_REJECTED T_REJECTED None) ex_done"

lemma ex_rejected: "read_approval ''c4'' ex_done = Inr (Some (ex_approval, ex_approved_task), ex_done)"
  "task_snapshot ex_approved_task = None" "app_status ex_approval = AP_PENDING"
  "task_assertTransition (task_status ex_approved_task) T_REJECTED = Inr T_REJECTED" "app_taskId ex_approval = ''a2''"
  "legacy_decide_tx (ex_ctx ''d'' 4000) ''c4'' ''a2'' AP_REJECTED T_REJECTED None ex_done = Inr ((), ex_rejected)"
  by code_simp+

lemma ex_trace4: "trace [ex_rejected, ex_done, ex_claimed, ex_created, empty_db]"
proof (rule trace.step [OF ex_trace3])
  show "ex_done \<in> set [ex_done, ex_claimed, ex_created, empty_db]" by simp
  show "system_step ex_done ex_done ex_rejected"
    by (rule system_step.legacy_decide [OF ex_rejected(1,2,3) _ ex_rejected(4), of AP_REJECTED "ex_ctx ''d'' 4000" None])
      (simp_all add: ex_rejected(5,6))
qed

end
