(* ===== verification/Guarantees.thy ===== *)
theory Guarantees
  imports Examples
begin

text \<open>
  What holds of every state the control plane can reach, over all interleavings of the transactions of
  its services: the results of System, stated on the rows of the database.
\<close>

lemma trace_sys_inv: "trace (d # ds) \<Longrightarrow> sys_inv d"
  using trace_inv by auto

lemma trace_rinv: "trace (d # ds) \<Longrightarrow> rinv (view d rid)"
  using trace_sys_inv by (simp add: sys_inv_def)

section \<open>Refinement\<close>

text \<open>
  C1. The services refine the run machine: whatever transactions are committed, in whatever order and
  with whatever their handlers had read before, every step either changes no run's status, attempts or
  commands, or is one step of the run machine on one run.
\<close>

theorem services_refine_run_machine:
  assumes "trace (d' # d # ds)"
  shows "view d' = view d \<or> (\<exists>rid v'. run_step (view d rid) v' \<and> view d' = (view d)(rid := v'))"
  using assms
proof (cases rule: trace.cases)
  case (step d0)
  have "follows_machine d d'"
    using trace_inv [OF step(1)] step(2) by (intro step_sim [OF step(3)]) (auto simp: history_def)
  then show ?thesis by (simp add: follows_machine_def)
qed

theorem services_refine_run_machine_witness:
  "trace [ex_done, ex_claimed, ex_created, empty_db] \<and>
   (view ex_done = view ex_claimed \<or>
    (\<exists>rid v'. run_step (view ex_claimed rid) v' \<and> view ex_done = (view ex_claimed)(rid := v')))"
  using ex_trace3 services_refine_run_machine [OF ex_trace3] by blast

section \<open>Attempts and commands\<close>

text \<open>
  C3. The attempts of a run, in every reachable state: they are numbered 1, 2, \<dots> without gaps and
  never exceed the run's limit; all but the last one have ended in failure or with an expired lease, so
  that at most one is ever active; a run is RUNNING exactly while one of its attempts is, and SUCCEEDED
  exactly when one of them has; and no run is left in PENDING, VERIFYING or RECOVERING, the states that
  a transaction only passes through.
\<close>

theorem attempts_of_reachable_run:
  assumes "trace (d # ds)" and "find_run rid d = Some r"
  shows "map att_no (attempts_of rid d) = [1..<Suc (length (attempts_of rid d))] \<and>
    length (attempts_of rid d) \<le> run_maxAttempts r \<and>
    (\<forall>a \<in> set (butlast (attempts_of rid d)). att_status a \<in> {A_FAILED, A_LEASE_EXPIRED}) \<and>
    (run_status r = R_RUNNING \<longleftrightarrow> A_RUNNING \<in> att_status ` set (attempts_of rid d)) \<and>
    (run_status r = R_SUCCEEDED \<longleftrightarrow> A_SUCCEEDED \<in> att_status ` set (attempts_of rid d)) \<and>
    run_status r \<notin> {R_PENDING, R_VERIFYING, R_RECOVERING}"
proof -
  let ?as = "attempts_of rid d"
  have inv: "rinv (view d rid)" by (rule trace_rinv [OF assms(1)])
  have st: "statuses (view d rid) = map att_status ?as"
    by (simp add: statuses_def view_def attempt_view_def comp_def)
  have sv: "rv_status (view d rid) = Some (run_status r)" "rv_max (view d rid) = run_maxAttempts r"
      "claimed (view d rid) = length ?as"
    using assms(2) by (simp_all add: view_def)
  have n: "map att_no ?as = [1..<Suc (length ?as)]" and le: "length ?as \<le> run_maxAttempts r"
      and bl: "list_all ended (butlast (map att_status ?as))"
      and fits: "status_fits (run_status r) (last_opt (map att_status ?as))"
    using inv unfolding rinv_def sv numbers_view st by (auto simp del: upt_Suc)
  have ended: "\<forall>a \<in> set (butlast ?as). att_status a \<in> {A_FAILED, A_LEASE_EXPIRED}"
    using bl by (simp add: map_butlast [symmetric] list_all_iff ended_def)
  have mem: "s \<in> att_status ` set ?as \<longleftrightarrow> last_opt (map att_status ?as) = Some s" if "\<not> ended s" for s
  proof (cases "?as" rule: rev_cases)
    case (snoc as a)
    have "s \<notin> att_status ` set as" using ended that snoc by (auto simp: ended_def)
    then show ?thesis using snoc by auto
  qed simp
  have "run_status r = R_RUNNING \<longleftrightarrow> A_RUNNING \<in> att_status ` set ?as"
      "run_status r = R_SUCCEEDED \<longleftrightarrow> A_SUCCEEDED \<in> att_status ` set ?as"
      "run_status r \<notin> {R_PENDING, R_VERIFYING, R_RECOVERING}"
    using fits mem by (cases "run_status r"; auto simp: ended_def split: option.splits)+
  with n le ended show ?thesis by blast
qed

theorem attempts_of_reachable_run_witness:
  "trace [ex_done, ex_claimed, ex_created, empty_db] \<and> find_run ''a3'' ex_done = Some ex_run3 \<and>
   length (attempts_of ''a3'' ex_done) \<le> run_maxAttempts ex_run3"
  using ex_trace3 ex_done_run attempts_of_reachable_run [OF ex_trace3 ex_done_run] by blast

text \<open>
  C4. The commands sent for a run, in every reachable state: one per attempt, numbered 1, 2, \<dots> without
  repetition; while the run is DISPATCHED exactly one command is ahead of the attempts claimed so far
  and an attempt is still allowed, and otherwise none is (a run may have been cancelled before its last
  command was claimed).  So no attempt is started that was not commanded, and no command is repeated.
\<close>

theorem commands_of_reachable_run:
  assumes "trace (d # ds)" and "find_run rid d = Some r"
  shows "map (\<lambda>m. cmd_attemptNo (msg_payload m)) (messages_of rid d) = [1..<Suc (length (messages_of rid d))] \<and>
    (if run_status r = R_DISPATCHED
     then length (messages_of rid d) = length (attempts_of rid d) + 1 \<and> length (attempts_of rid d) < run_maxAttempts r
     else length (attempts_of rid d) \<le> length (messages_of rid d) \<and>
       (run_status r \<noteq> R_CANCELLED \<longrightarrow> length (messages_of rid d) = length (attempts_of rid d)))"
proof -
  have inv: "rinv (view d rid)" by (rule trace_rinv [OF assms(1)])
  have sv: "rv_status (view d rid) = Some (run_status r)" "rv_max (view d rid) = run_maxAttempts r"
      "claimed (view d rid) = length (attempts_of rid d)"
      "rv_commands (view d rid) = map (\<lambda>m. cmd_attemptNo (msg_payload m)) (messages_of rid d)"
    using assms(2) by (simp_all add: view_def)
  show ?thesis using inv unfolding rinv_def sv commands_fit_def length_map by (auto simp del: upt_Suc split: if_splits)
qed

theorem commands_of_reachable_run_witness:
  "trace [ex_done, ex_claimed, ex_created, empty_db] \<and> find_run ''a3'' ex_done = Some ex_run3 \<and>
   map (\<lambda>m. cmd_attemptNo (msg_payload m)) (messages_of ''a3'' ex_done) = [1..<Suc (length (messages_of ''a3'' ex_done))]"
  using ex_trace3 ex_done_run commands_of_reachable_run [OF ex_trace3 ex_done_run] by blast

text \<open>
  C2. A finished run stays as it is: once a run has succeeded, failed or been cancelled, no later
  transaction changes its status, its attempts, or sends another command for it, however stale the rows
  that the transaction's handler had read.
\<close>

theorem finished_runs_are_final:
  assumes "trace (d' # ds)" and "d \<in> set ds" and "find_run rid d = Some r"
    and "run_status r \<in> {R_SUCCEEDED, R_FAILED, R_CANCELLED}"
  shows "view d' rid = view d rid"
proof (rule trace_finished [OF assms(1,2)])
  show "rv_status (view d rid) = Some (run_status r)" using assms(3) by (simp add: view_def)
  show "finished (run_status r)" using assms(4) by (simp add: finished_def)
qed

theorem finished_runs_are_final_witness:
  "trace [ex_rejected, ex_done, ex_claimed, ex_created, empty_db] \<and> find_run ''a3'' ex_done = Some ex_run3 \<and>
   run_status ex_run3 = R_SUCCEEDED \<and> view ex_rejected ''a3'' = view ex_done ''a3''"
proof -
  have m: "ex_done \<in> set [ex_done, ex_claimed, ex_created, empty_db]" by simp
  have s: "run_status ex_run3 = R_SUCCEEDED" by code_simp
  from finished_runs_are_final [OF ex_trace4 m ex_done_run] s ex_trace4 ex_done_run show ?thesis by simp
qed

section \<open>The log and the record\<close>

text \<open>
  C11. The event log of every run is gap-free in every reachable state: its events carry the sequence
  numbers 1, 2, up to the run's \<open>lastSequence\<close> in the order they were stored, each exactly once, and
  every event belongs to a run and carries the payload that its type announces.
\<close>

theorem event_log_gap_free:
  assumes "trace (d # ds)" and "r \<in> set (runs d)"
  shows "map ev_runSequence (events_of (run_id r) d) = [1..<Suc (run_lastSequence r)] \<and>
    (\<forall>e \<in> set (traceEvents d). find_run (ev_runId e) d \<noteq> None \<and> ev_type e = payload_type (ev_payload e))"
  using trace_sys_inv [OF assms(1)] assms(2) by (auto simp: sys_inv_def wf_db_def log_of_def simp del: upt_Suc)

theorem event_log_gap_free_witness:
  "trace [ex_done, ex_claimed, ex_created, empty_db] \<and> ex_run3 \<in> set (runs ex_done) \<and>
   map ev_runSequence (events_of (run_id ex_run3) ex_done) = [1..<Suc (run_lastSequence ex_run3)]"
proof -
  have r: "ex_run3 \<in> set (runs ex_done)" using ex_done_run by (rule find_row_in)
  from event_log_gap_free [OF ex_trace3 r] ex_trace3 r show ?thesis by blast
qed

text \<open>
  C12. History is never rewritten: from any earlier state to any later one, the stored events, the
  checkpoints and the policy decisions are only extended at the end, and every run, task, attempt and
  approval is still there with the columns that say what it is about unchanged (for an approval: its
  run, its task and the digest of the patch it approves).
\<close>

theorem history_is_permanent:
  assumes "trace (d' # ds)" and "d \<in> set ds"
  shows "(\<exists>es ks ps. traceEvents d' = traceEvents d @ es \<and> checkpoints d' = checkpoints d @ ks \<and>
      policyDecisions d' = policyDecisions d @ ps) \<and>
    (\<exists>rs ts. map run_core (runs d') = map run_core (runs d) @ rs \<and> map task_core (tasks d') = map task_core (tasks d) @ ts) \<and>
    (\<exists>as ps. map attempt_core (attempts d') = map attempt_core (attempts d) @ as \<and>
      map approval_core (approvals d') = map approval_core (approvals d) @ ps)"
proof -
  have "history d d'" using trace_inv [OF assms(1)] assms(2) by simp
  then show ?thesis unfolding history_def extends_def by blast
qed

theorem history_is_permanent_witness:
  "trace [ex_done, ex_claimed, ex_created, empty_db] \<and> ex_created \<in> set [ex_claimed, ex_created, empty_db] \<and>
   (\<exists>es ks ps. traceEvents ex_done = traceEvents ex_created @ es \<and> checkpoints ex_done = checkpoints ex_created @ ks \<and>
     policyDecisions ex_done = policyDecisions ex_created @ ps)"
proof -
  have m: "ex_created \<in> set [ex_claimed, ex_created, empty_db]" by simp
  from history_is_permanent [OF ex_trace3 m] ex_trace3 m show ?thesis by blast
qed

section \<open>Approvals\<close>

text \<open>
  C6. Only verified work is put up for approval: in every reachable state the run of every approval is
  SUCCEEDED, and no run has two approvals.
\<close>

theorem approvals_only_for_succeeded_runs:
  assumes "trace (d # ds)" and "p \<in> set (approvals d)"
  shows "(\<exists>r. find_run (app_runId p) d = Some r \<and> run_status r = R_SUCCEEDED) \<and>
    (\<forall>q \<in> set (approvals d). app_runId q = app_runId p \<longrightarrow> q = p)"
proof -
  have "approval_inv d" using trace_approvals [OF assms(1)] by simp
  then have "distinct (map app_runId (approvals d))" "rv_status (view d (app_runId p)) = Some R_SUCCEEDED"
    using assms(2) by (simp_all add: approval_inv_def)
  then show ?thesis
    using assms(2) by (auto simp: view_def distinct_map inj_on_def)
qed

theorem approvals_only_for_succeeded_runs_witness:
  "trace [ex_done, ex_claimed, ex_created, empty_db] \<and> ex_approval \<in> set (approvals ex_done) \<and>
   (\<exists>r. find_run (app_runId ex_approval) ex_done = Some r \<and> run_status r = R_SUCCEEDED)"
proof -
  have p: "ex_approval \<in> set (approvals ex_done)" using ex_done_approval by (rule find_row_in)
  from approvals_only_for_succeeded_runs [OF ex_trace3 p] ex_trace3 p show ?thesis by blast
qed

end
