(* ===== verification/Bodies.thy ===== *)
theory Bodies
  imports BudgetCalls "HOL-Library.Monad_Syntax"
begin

text \<open>
  Request bodies: the zod schemas of the controllers as parsers of JSON values, built from a few
  combinators.  A parser returns the typed value, or \<open>None\<close> where \<open>safeParse\<close> reports issues and \<open>parse\<close>
  throws.  Objects drop unknown keys, strict objects reject them; numbers are integers, and \<open>int()\<close>
  accepts the safe ones only.
\<close>

section \<open>Combinators\<close>

type_synonym 'a zod = "json \<Rightarrow> 'a option"
type_synonym 'a zod_field = "(string \<times> json) list \<Rightarrow> 'a option"

definition max_safe :: int where
  "max_safe = 9007199254740991"

definition z_string :: "string zod" where
  "z_string j = (case j of JStr s \<Rightarrow> Some s | _ \<Rightarrow> None)"

definition z_bool :: "bool zod" where
  "z_bool j = (case j of JBool b \<Rightarrow> Some b | _ \<Rightarrow> None)"

definition z_int :: "int zod" where
  "z_int j = (case j of JNum n \<Rightarrow> if \<bar>n\<bar> \<le> max_safe then Some n else None | _ \<Rightarrow> None)"

definition z_refine :: "('a \<Rightarrow> bool) \<Rightarrow> 'a zod \<Rightarrow> 'a zod" where
  "z_refine p z j = (case z j of Some x \<Rightarrow> if p x then Some x else None | None \<Rightarrow> None)"

definition z_name :: "string zod" where
  "z_name = z_refine (\<lambda>s. s \<noteq> []) z_string"

definition z_positive :: "nat zod" where
  "z_positive j = map_option nat (z_refine (\<lambda>n. 0 < n) z_int j)"

definition z_nonneg :: "int zod" where
  "z_nonneg = z_refine (\<lambda>n. 0 \<le> n) z_int"

definition z_enum :: "('a \<Rightarrow> string) \<Rightarrow> 'a list \<Rightarrow> 'a zod" where
  "z_enum name vals j = Option.bind (z_string j) (parse_enum name vals)"

definition z_array :: "'a zod \<Rightarrow> 'a list zod" where
  "z_array z j = (case j of JArr xs \<Rightarrow> map_all z xs | _ \<Rightarrow> None)"

definition z_record :: "(string \<times> json) list zod" where
  "z_record j = (case j of JObj kvs \<Rightarrow> Some kvs | _ \<Rightarrow> None)"

definition z_record_of :: "'a zod \<Rightarrow> (string \<times> 'a) list zod" where
  "z_record_of z j = Option.bind (z_record j) (map_all (\<lambda>(k, v). map_option (Pair k) (z v)))"

definition z_nullable :: "'a zod \<Rightarrow> 'a option zod" where
  "z_nullable z j = (case j of JNull \<Rightarrow> Some None | _ \<Rightarrow> map_option Some (z j))"

definition z_field :: "string \<Rightarrow> 'a zod \<Rightarrow> 'a zod_field" where
  "z_field k z kvs = Option.bind (map_of kvs k) z"

definition z_optional :: "string \<Rightarrow> 'a zod \<Rightarrow> 'a option zod_field" where
  "z_optional k z kvs = (case map_of kvs k of None \<Rightarrow> Some None | Some j \<Rightarrow> map_option Some (z j))"

definition z_default :: "string \<Rightarrow> 'a zod \<Rightarrow> 'a \<Rightarrow> 'a zod_field" where
  "z_default k z v kvs = (case map_of kvs k of None \<Rightarrow> Some v | Some j \<Rightarrow> z j)"

definition z_object :: "'a zod_field \<Rightarrow> 'a zod" where
  "z_object f j = Option.bind (z_record j) f"

definition z_strict :: "string list \<Rightarrow> 'a zod_field \<Rightarrow> 'a zod" where
  "z_strict ks f j = Option.bind (z_record j) (\<lambda>kvs. if list_all (\<lambda>kv. fst kv \<in> set ks) kvs then f kvs else None)"

lemmas zod_defs = z_string_def z_bool_def z_int_def z_refine_def z_name_def z_positive_def z_nonneg_def
  z_enum_def z_array_def z_record_def z_record_of_def z_nullable_def z_field_def z_optional_def
  z_default_def z_object_def z_strict_def

lemma z_refine_Some [simp]: "z_refine p z j = Some x \<longleftrightarrow> z j = Some x \<and> p x"
  by (auto simp: z_refine_def split: option.splits)

lemma z_object_Some [simp]: "z_object f j = Some x \<longleftrightarrow> (\<exists>kvs. j = JObj kvs \<and> f kvs = Some x)"
  by (cases j) (auto simp: z_object_def z_record_def)

lemma z_field_Some [simp]: "z_field k z kvs = Some x \<longleftrightarrow> (\<exists>j. map_of kvs k = Some j \<and> z j = Some x)"
  by (cases "map_of kvs k") (auto simp: z_field_def)

lemma z_positive_Some: "z_positive j = Some n \<Longrightarrow> 0 < n \<and> int n \<le> max_safe"
  by (auto simp: z_positive_def z_int_def split: json.splits if_splits)

lemma z_nonneg_Some: "z_nonneg j = Some n \<Longrightarrow> 0 \<le> n \<and> n \<le> max_safe"
  by (auto simp: z_nonneg_def z_int_def split: json.splits if_splits)

section \<open>The worker's requests (internal.controller.ts)\<close>

definition ClaimSchema :: "(string \<times> nat \<times> string) zod" where
  "ClaimSchema = z_object (\<lambda>kvs. do {
     runId \<leftarrow> z_field ''runId'' z_name kvs;
     attemptNo \<leftarrow> z_field ''attemptNo'' z_positive kvs;
     workerId \<leftarrow> z_field ''workerId'' z_name kvs;
     Some (runId, attemptNo, workerId) })"

definition VerificationResultSchema :: "VerificationReport zod" where
  "VerificationResultSchema = z_object (\<lambda>kvs. do {
     step \<leftarrow> z_field ''step'' (z_enum verifier_step_name VERIFIER_STEPS) kvs;
     passed \<leftarrow> z_field ''passed'' z_bool kvs;
     code \<leftarrow> z_field ''failureCode'' (z_nullable (z_enum failure_code_name FAILURE_CODES)) kvs;
     detail \<leftarrow> z_field ''detail'' z_record kvs;
     duration \<leftarrow> z_field ''durationMs'' z_nonneg kvs;
     Some \<lparr> vr_step = step, vr_passed = passed, vr_failureCode = code, vr_detail = detail,
       vr_durationMs = duration \<rparr> })"

definition CompleteExtrasSchema :: "failure_code option \<Rightarrow> Outcome zod_field" where
  "CompleteExtrasSchema failure kvs = do {
     usedTokens \<leftarrow> z_optional ''usedTokens'' z_nonneg kvs;
     usedSeconds \<leftarrow> z_optional ''usedSeconds'' z_nonneg kvs;
     verification \<leftarrow> z_optional ''verification'' (z_array VerificationResultSchema) kvs;
     patch \<leftarrow> z_optional ''patch'' z_string kvs;
     judge \<leftarrow> z_optional ''judge'' z_record kvs;
     Some \<lparr> oc_failure = failure, oc_usedTokens = usedTokens, oc_usedSeconds = usedSeconds,
       oc_verification = (case verification of None \<Rightarrow> [] | Some vs \<Rightarrow> vs), oc_patch = patch,
       oc_judge = map_option JObj judge \<rparr> }"

definition CompleteSchema :: "Outcome zod" where
  "CompleteSchema = z_object (\<lambda>kvs. do {
     status \<leftarrow> z_field ''status'' z_string kvs;
     if status = ''SUCCEEDED'' then CompleteExtrasSchema None kvs
     else if status = ''FAILED'' then do {
       code \<leftarrow> z_field ''failureCode'' (z_enum failure_code_name FAILURE_CODES) kvs;
       CompleteExtrasSchema (Some code) kvs }
     else None })"

definition CheckpointSchema :: "CheckpointInput zod" where
  "CheckpointSchema = z_object (\<lambda>kvs. do {
     attemptId \<leftarrow> z_field ''attemptId'' z_name kvs;
     threadId \<leftarrow> z_field ''threadId'' z_name kvs;
     baseCommit \<leftarrow> z_field ''baseCommit'' z_name kvs;
     sha \<leftarrow> z_field ''appliedPatchSha'' (z_nullable z_string) kvs;
     patch \<leftarrow> z_field ''appliedPatch'' (z_nullable z_string) kvs;
     calls \<leftarrow> z_field ''completedToolCalls'' (z_record_of z_string) kvs;
     usedTokens \<leftarrow> z_field ''usedTokens'' z_nonneg kvs;
     usedSeconds \<leftarrow> z_field ''usedSeconds'' z_nonneg kvs;
     Some \<lparr> kp_attemptId = attemptId, kp_threadId = threadId, kp_baseCommit = baseCommit,
       kp_appliedPatchSha = sha, kp_appliedPatch = patch, kp_completedToolCalls = calls,
       kp_usedTokens = usedTokens, kp_usedSeconds = usedSeconds \<rparr> })"

text \<open>\<open>z.string().max(n)\<close>, and the hex digests of the environment report.\<close>

definition z_string_max :: "nat \<Rightarrow> string zod" where
  "z_string_max n = z_refine (\<lambda>s. length s \<le> n) z_string"

definition hex64 :: "string \<Rightarrow> bool" where
  "hex64 s \<longleftrightarrow> length s = 64 \<and> list_all is_hex s"

definition EvidenceSchema :: "string \<Rightarrow> (string \<times> (string \<times> json) list) zod" where
  "EvidenceSchema attemptId = z_object (\<lambda>kvs. do {
     _ \<leftarrow> z_field ''attemptId'' (z_refine (\<lambda>s. s = attemptId) z_string) kvs;
     patch \<leftarrow> z_field ''patch'' (z_string_max 8000000) kvs;
     report \<leftarrow> z_field ''report'' z_record kvs;
     Some (patch, report) })"

definition PHASES :: "string list" where
  "PHASES = [''PREPARING'', ''REPRODUCING'', ''REPAIRING'', ''VERIFYING'', ''BASELINE'']"

definition PhaseSchema :: "(string \<times> json option) zod" where
  "PhaseSchema = z_object (\<lambda>kvs. do {
     ph \<leftarrow> z_field ''phase'' (z_refine (\<lambda>s. s \<in> set PHASES) z_string) kvs;
     detail \<leftarrow> z_optional ''detail'' z_record kvs;
     Some (ph, map_option JObj detail) })"

definition PauseSchema :: "(string \<times> string option) zod" where
  "PauseSchema = z_object (\<lambda>kvs. do {
     reason \<leftarrow> z_field ''reason'' (z_refine (\<lambda>s. 1 \<le> length s \<and> length s \<le> 2000) z_string) kvs;
     patch \<leftarrow> z_optional ''patch'' (z_string_max 8000000) kvs;
     Some (reason, patch) })"

definition EnvironmentSchema :: "(string \<times> string \<times> string) zod" where
  "EnvironmentSchema = z_object (\<lambda>kvs. do {
     fingerprint \<leftarrow> z_field ''fingerprint'' (z_refine hex64 z_string) kvs;
     imageId \<leftarrow> z_field ''imageId'' (z_refine (\<lambda>s. startsWith s ''sha256:'' \<and> hex64 (drop 7 s)) z_string) kvs;
     log \<leftarrow> z_field ''log'' (z_string_max 20000) kvs;
     Some (fingerprint, imageId, log) })"

text \<open>\<open>isUuid\<close> stands for zod's \<open>uuid()\<close> check, code outside the repository.\<close>

definition ReserveSchema :: "(string \<Rightarrow> bool) \<Rightarrow> (string \<times> string \<times> nat) zod" where
  "ReserveSchema isUuid = z_object (\<lambda>kvs. do {
     attemptId \<leftarrow> z_field ''attemptId'' z_string kvs;
     callId \<leftarrow> z_field ''id'' (z_refine isUuid z_string) kvs;
     reserved \<leftarrow> z_field ''reserved'' z_positive kvs;
     Some (attemptId, callId, reserved) })"

definition SettleSchema :: "(string \<Rightarrow> bool) \<Rightarrow> (string \<times> int option) zod" where
  "SettleSchema isUuid = z_object (\<lambda>kvs. do {
     callId \<leftarrow> z_field ''id'' (z_refine isUuid z_string) kvs;
     used \<leftarrow> z_field ''used'' (z_nullable z_nonneg) kvs;
     Some (callId, used) })"

end
