(* ===== verification/Queries.thy ===== *)
theory Queries
  imports Bodies Ingest "HOL-Library.AList"
begin

text \<open>
  What the web application reads: the task list and a task (modules/task/task.controller.ts), a run with
  its parts, its events, its artifacts and its patch (modules/run/run.controller.ts).  A query changes
  nothing; the database orders strings by a collation, which is the argument \<open>le\<close>.
\<close>

section \<open>Sorting by a comparison\<close>

fun insert_by :: "('r \<Rightarrow> 'r \<Rightarrow> bool) \<Rightarrow> 'r \<Rightarrow> 'r list \<Rightarrow> 'r list" where
  "insert_by before x [] = [x]"
| "insert_by before x (y # ys) = (if before x y then x # y # ys else y # insert_by before x ys)"

definition order_by :: "('r \<Rightarrow> 'r \<Rightarrow> bool) \<Rightarrow> 'r list \<Rightarrow> 'r list" where
  "order_by before xs = foldr (insert_by before) xs []"

lemma set_insert_by [simp]: "set (insert_by before x ys) = insert x (set ys)"
  by (induction ys) auto

lemma set_order_by [simp]: "set (order_by before xs) = set xs"
  unfolding order_by_def by (induction xs) auto

lemma length_insert_by [simp]: "length (insert_by before x ys) = Suc (length ys)"
  by (induction ys) auto

lemma length_order_by [simp]: "length (order_by before xs) = length xs"
  unfolding order_by_def by (induction xs) auto

lemma distinct_insert_by: "distinct (map f (insert_by before x ys)) \<longleftrightarrow> distinct (map f (x # ys))"
  by (induction ys) auto

lemma distinct_order_by: "distinct (map f (order_by before xs)) \<longleftrightarrow> distinct (map f xs)"
proof (induction xs)
  case (Cons x xs)
  have "order_by before (x # xs) = insert_by before x (order_by before xs)" by (simp add: order_by_def)
  then show ?case using Cons by (simp only: distinct_insert_by list.map distinct.simps set_map set_order_by)
qed (simp add: order_by_def)

lemma sorted_insert_by:
  assumes "\<And>x y z. before x y \<Longrightarrow> before y z \<Longrightarrow> before x z" and "\<And>x y. before x y \<or> before y x"
    and "sorted_wrt before ys"
  shows "sorted_wrt before (insert_by before x ys)"
  using assms(3) by (induction ys) (use assms(1,2) in \<open>auto\<close>, (meson assms(1))+)

lemma sorted_order_by:
  assumes "\<And>x y z. before x y \<Longrightarrow> before y z \<Longrightarrow> before x z" and "\<And>x y. before x y \<or> before y x"
  shows "sorted_wrt before (order_by before xs)"
  unfolding order_by_def
proof (induction xs)
  case (Cons x xs)
  show ?case unfolding foldr.simps comp_def by (rule sorted_insert_by [OF assms Cons.IH])
qed simp

section \<open>The task list\<close>

text \<open>\<open>z.string().regex(/^\d+$/).transform(Number).pipe(z.number().int().positive())\<close>\<close>

definition PositiveIntegerQuery :: "nat zod" where
  "PositiveIntegerQuery j =
     (case z_string j of
        None \<Rightarrow> None
      | Some s \<Rightarrow> if s \<noteq> [] \<and> list_all is_digit s \<and> 0 < read_nat s \<and> int (read_nat s) \<le> max_safe
          then Some (read_nat s) else None)"

text \<open>\<open>prefault\<close>: the default goes through the parser.\<close>

definition z_prefault :: "string \<Rightarrow> 'a zod \<Rightarrow> json \<Rightarrow> 'a zod_field" where
  "z_prefault k z v kvs = (case map_of kvs k of None \<Rightarrow> z v | Some j \<Rightarrow> z j)"

definition ListTasksSchema :: "(nat \<times> nat) zod" where
  "ListTasksSchema = z_object (\<lambda>kvs. do {
     page \<leftarrow> z_prefault ''page'' PositiveIntegerQuery (JStr ''1'') kvs;
     pageSize \<leftarrow> z_prefault ''pageSize'' (z_refine (\<lambda>n. n \<le> 100) PositiveIntegerQuery) (JStr ''20'') kvs;
     if int ((page - 1) * pageSize) \<le> max_safe then Some (page, pageSize) else None })"

record RunSummary =
  rs_id :: string
  rs_agentKind :: agent_kind
  rs_status :: run_status
  rs_createdAt :: int

record ApprovalSummary =
  as_id :: string
  as_status :: approval_status
  as_prUrl :: "string option"

record TaskItem =
  ti_task :: Task
  ti_runs :: "RunSummary list"
  ti_approval :: "ApprovalSummary option"

record TaskPage =
  tp_items :: "TaskItem list"
  tp_total :: nat
  tp_page :: nat
  tp_pageSize :: nat

definition run_summary :: "Run \<Rightarrow> RunSummary" where
  "run_summary r = \<lparr> rs_id = run_id r, rs_agentKind = run_agentKind r, rs_status = run_status r, rs_createdAt = run_createdAt r \<rparr>"

definition runs_of_task :: "string \<Rightarrow> db \<Rightarrow> Run list" where
  "runs_of_task tid d = filter (\<lambda>r. run_taskId r = tid) (runs d)"

definition approval_of_task :: "string \<Rightarrow> db \<Rightarrow> Approval option" where
  "approval_of_task tid d = find_row app_taskId tid (approvals d)"

definition task_item :: "db \<Rightarrow> Task \<Rightarrow> TaskItem" where
  "task_item d t = \<lparr> ti_task = t, ti_runs = map run_summary (runs_of_task (task_id t) d),
     ti_approval = map_option (\<lambda>a. \<lparr> as_id = app_id a, as_status = app_status a, as_prUrl = app_prUrl a \<rparr>)
       (approval_of_task (task_id t) d) \<rparr>"

text \<open>\<open>orderBy: [{ createdAt: 'desc' }, { id: 'desc' }]\<close>\<close>

definition newer_task :: "(string \<Rightarrow> string \<Rightarrow> bool) \<Rightarrow> Task \<Rightarrow> Task \<Rightarrow> bool" where
  "newer_task le t u \<longleftrightarrow> task_createdAt u < task_createdAt t \<or>
     task_createdAt u = task_createdAt t \<and> le (task_id u) (task_id t)"

definition list_tasks :: "(string \<Rightarrow> string \<Rightarrow> bool) \<Rightarrow> json \<Rightarrow> (db, TaskPage) tx" where
  "list_tasks le query =
     (case ListTasksSchema query of
        None \<Rightarrow> tx_throw (BadRequest ''query'')
      | Some (page, pageSize) \<Rightarrow> tx_read (\<lambda>d.
          \<lparr> tp_items = map (task_item d) (take pageSize (drop ((page - 1) * pageSize) (order_by (newer_task le) (tasks d)))),
            tp_total = length (tasks d), tp_page = page, tp_pageSize = pageSize \<rparr>))"

record TaskDetail =
  td_task :: Task
  td_runs :: "RunSummary list"
  td_approval :: "Approval option"

definition get_task :: "string \<Rightarrow> (db, TaskDetail) tx" where
  "get_task tid =
     and_then (find_unique tasks task_id tid) (\<lambda>found.
     case found of None \<Rightarrow> tx_throw (NotFound ''Task'')
     | Some t \<Rightarrow> tx_read (\<lambda>d. \<lparr> td_task = t, td_runs = map run_summary (runs_of_task tid d),
         td_approval = approval_of_task tid d \<rparr>))"

section \<open>Runs\<close>

record ArtifactSummary =
  ar_id :: string
  ar_name :: string
  ar_kind :: artifact_kind
  ar_createdAt :: int

record RunDetail =
  rd_run :: Run
  rd_task :: Task
  rd_artifacts :: "ArtifactSummary list"
  rd_attempts :: "Attempt list"
  rd_policyDecisions :: "PolicyDecision list"
  rd_verificationResults :: "VerificationRow list"

definition artifact_summary :: "Artifact \<Rightarrow> ArtifactSummary" where
  "artifact_summary a = \<lparr> ar_id = art_id a, ar_name = art_name a, ar_kind = art_kind a, ar_createdAt = art_createdAt a \<rparr>"

text \<open>Policy decisions carry no other time than the order in which they were stored.\<close>

definition get_run :: "string \<Rightarrow> (db, RunDetail) tx" where
  "get_run rid =
     and_then (find_unique runs run_id rid) (\<lambda>found.
     case found of None \<Rightarrow> tx_throw (NotFound ''Run'')
     | Some r \<Rightarrow>
         and_then (task_findUniqueOrThrow (run_taskId r)) (\<lambda>t.
         tx_read (\<lambda>d. \<lparr> rd_run = r, rd_task = t,
           rd_artifacts = map artifact_summary (filter (\<lambda>a. art_runId a = rid) (artifacts d)),
           rd_attempts = sort_key att_no (attempts_of rid d),
           rd_policyDecisions = filter (\<lambda>p. pol_runId p = rid) (policyDecisions d),
           rd_verificationResults = sort_key ver_createdAt (filter (\<lambda>v. ver_runId v = rid) (verifications d)) \<rparr>)))"

record EventView =
  vw_runSequence :: nat
  vw_attemptId :: "string option"
  vw_attemptSequence :: nat
  vw_type :: trace_event_type
  vw_payload :: trace_payload
  vw_occurredAt :: int

definition event_view :: "StoredEvent \<Rightarrow> EventView" where
  "event_view e = \<lparr> vw_runSequence = ev_runSequence e, vw_attemptId = ev_attemptId e,
     vw_attemptSequence = ev_attemptSequence e, vw_type = ev_type e, vw_payload = ev_payload e,
     vw_occurredAt = ev_occurredAt e \<rparr>"

text \<open>A type that is not one of \<open>TRACE_EVENT_TYPES\<close> does not filter.\<close>

definition run_events :: "string \<Rightarrow> string option \<Rightarrow> (db, EventView list) tx" where
  "run_events rid type =
     and_then (find_unique runs run_id rid) (\<lambda>found.
     case found of None \<Rightarrow> tx_throw (NotFound ''Run'')
     | Some _ \<Rightarrow> tx_read (\<lambda>d. map event_view (sort_key ev_runSequence
         (filter (\<lambda>e. ev_runId e = rid \<and>
            (case Option.bind type (parse_enum trace_event_type_name TRACE_EVENT_TYPES) of
               None \<Rightarrow> True | Some ty \<Rightarrow> ev_type e = ty)) (traceEvents d)))))"

definition run_artifact :: "string \<Rightarrow> string \<Rightarrow> (db, Artifact) tx" where
  "run_artifact rid artifactId =
     and_then (tx_read (\<lambda>d. find_row art_id artifactId (filter (\<lambda>a. art_runId a = rid) (artifacts d)))) (\<lambda>found.
     tx_some found (NotFound ''Artifact not found''))"

definition run_diff :: "string \<Rightarrow> (db, string \<times> string \<times> int) tx" where
  "run_diff rid =
     and_then (tx_read (\<lambda>d. latest_by art_createdAt
       (filter (\<lambda>a. art_runId a = rid \<and> art_kind a = K_PATCH) (artifacts d)))) (\<lambda>found.
     and_then (tx_some found (NotFound ''patch'')) (\<lambda>a. tx_return (art_name a, art_content a, art_createdAt a)))"

text \<open>
  The judge's report: \<open>{ ...JSON.parse(content), createdAt }\<close>. \<open>parse\<close> is \<open>JSON.parse\<close>, which throws where it
  gives \<open>None\<close>; \<open>showTime\<close> is the text a time is sent as. What is spread of a value that is not an object
  are the members of a list or the characters of a text, under their indices.
\<close>

definition spread :: "json \<Rightarrow> (string \<times> json) list" where
  "spread j = (case j of
     JObj kvs \<Rightarrow> kvs
   | JArr vs \<Rightarrow> map (\<lambda>(i, v). (show_nat i, v)) (List.enumerate 0 vs)
   | JStr s \<Rightarrow> map (\<lambda>(i, ch). (show_nat i, JStr [ch])) (List.enumerate 0 s)
   | _ \<Rightarrow> [])"

definition run_judge :: "(string \<Rightarrow> json option) \<Rightarrow> (int \<Rightarrow> string) \<Rightarrow> string \<Rightarrow> (db, (string \<times> json) list) tx" where
  "run_judge parse showTime rid =
     and_then (tx_read (\<lambda>d. latest_by art_createdAt
       (filter (\<lambda>a. art_runId a = rid \<and> art_kind a = K_JUDGE_REPORT) (artifacts d)))) (\<lambda>found.
     and_then (tx_some found (NotFound ''judge'')) (\<lambda>a.
     and_then (tx_some (parse (art_content a)) (Failure ''SyntaxError'')) (\<lambda>report.
     tx_return (AList.update ''createdAt'' (JStr (showTime (art_createdAt a))) (spread report)))))"

section \<open>Properties\<close>

lemma take_drop_pages:
  "0 < k \<Longrightarrow> concat (map (\<lambda>p. take k (drop (p * k) xs)) [0..<n]) = take (n * k) xs"
proof (induction n)
  case (Suc n)
  have "take (Suc n * k) xs = take (n * k) xs @ take k (drop (n * k) xs)"
    using take_add [of "n * k" k xs] by (simp add: add.commute)
  with Suc show ?case by simp
qed simp

text \<open>The query of page \<open>p\<close> (from 0) of size \<open>k\<close>, and the tasks the reply shows.\<close>

definition page_query :: "nat \<Rightarrow> nat \<Rightarrow> json" where
  "page_query k p = JObj [(''page'', JStr (show_nat (Suc p))), (''pageSize'', JStr (show_nat k))]"

definition tasks_shown :: "(string \<Rightarrow> string \<Rightarrow> bool) \<Rightarrow> nat \<Rightarrow> db \<Rightarrow> nat \<Rightarrow> Task list" where
  "tasks_shown le k d p = (case list_tasks le (page_query k p) d of Inl _ \<Rightarrow> [] | Inr (tp, _) \<Rightarrow> map ti_task (tp_items tp))"

text \<open>
  C34. Paging through the tasks shows every task exactly once: for a page size of 1 to 100, the pages 1 up
  to the last one, put together, are all tasks of the database in one order, newest first, without a
  repetition, and every page reports the same total.  The collation of ids is a total order.
\<close>

theorem task_pages_cover_all:
  assumes order: "\<And>x y z. le x y \<Longrightarrow> le y z \<Longrightarrow> le x z" "\<And>x y. le x y \<or> le y x"
    and ids: "distinct (map task_id (tasks d))"
    and size: "0 < k" "k \<le> 100" and n: "length (tasks d) \<le> n * k" "int (n * k) \<le> max_safe"
  shows "sorted_wrt (newer_task le) (concat (map (tasks_shown le k d) [0..<n])) \<and>
    distinct (map task_id (concat (map (tasks_shown le k d) [0..<n]))) \<and> set (concat (map (tasks_shown le k d) [0..<n])) = set (tasks d) \<and>
    (p < n \<longrightarrow> (\<exists>tp. list_tasks le (page_query k p) d = Inr (tp, d) \<and> tp_total tp = length (tasks d)))"
proof -
  let ?all = "order_by (newer_task le) (tasks d)"
  have digits: "s \<noteq> [] \<and> list_all is_digit s" if "s = show_nat m" for s m
    using that show_nat_digits by (auto simp: list_all_iff)
  have reply: "list_tasks le (page_query k p) d = Inr (\<lparr> tp_items = map (task_item d) (take k (drop (p * k) ?all)),
      tp_total = length (tasks d), tp_page = Suc p, tp_pageSize = k \<rparr>, d)" if "p < n" for p
  proof -
    have "p * k \<le> n * k" "Suc p \<le> n * k"
      using that size(1) by (simp, metis Suc_leI mult.right_neutral mult_le_mono Suc_leI One_nat_def)
    then have "int (p * k) \<le> max_safe" "int (Suc p) \<le> max_safe"
      using n(2) by linarith+
    then have "ListTasksSchema (page_query k p) = Some (Suc p, k)"
      using size by (simp add: ListTasksSchema_def page_query_def z_prefault_def PositiveIntegerQuery_def z_string_def
        read_show_nat digits max_safe_def z_object_def z_record_def z_refine_def)
    then show ?thesis by (simp add: list_tasks_def tx_run)
  qed
  have "tasks_shown le k d p = take k (drop (p * k) ?all)" if "p < n" for p
    using reply [OF that] by (simp add: tasks_shown_def task_item_def comp_def)
  then have "concat (map (tasks_shown le k d) [0..<n]) = concat (map (\<lambda>p. take k (drop (p * k) ?all)) [0..<n])"
    by (intro arg_cong [of _ _ concat]) simp
  also have "\<dots> = ?all" using n(1) by (simp add: take_drop_pages [OF size(1)])
  finally have all: "concat (map (tasks_shown le k d) [0..<n]) = ?all" .
  have "sorted_wrt (newer_task le) ?all"
  proof (rule sorted_order_by)
    fix t u v :: Task
    show "newer_task le t v" if "newer_task le t u" "newer_task le u v"
      using that order(1) [of "task_id v" "task_id u" "task_id t"] by (auto simp: newer_task_def)
    show "newer_task le t u \<or> newer_task le u t"
      using order(2) [of "task_id t" "task_id u"] by (auto simp: newer_task_def)
  qed
  moreover have "distinct (map task_id ?all)" using ids by (simp only: distinct_order_by)
  moreover have "\<exists>tp. list_tasks le (page_query k p) d = Inr (tp, d) \<and> tp_total tp = length (tasks d)" if "p < n"
    unfolding reply [OF that] by simp
  ultimately show ?thesis unfolding all set_order_by by blast
qed

text \<open>
  The JSON list of a run's events and the live stream agree: in a well-formed database the route
  returns the whole log in order, numbered 1, 2, \<dots>, whether or not an unknown type is asked for, and the
  same events that a stream from the beginning has delivered once it has caught up.
\<close>

theorem event_list_is_stream:
  assumes wf: "wf_db d" and run: "find_run rid d = Some r"
    and type: "Option.bind type (parse_enum trace_event_type_name TRACE_EVENT_TYPES) = None"
    and caught: "drains rid 0 (replicate n d) = (evs, s')" "length (events_of rid d) \<le> n * 500" "0 < n"
  shows "run_events rid type d = Inr (map event_view evs, d) \<and> map ev_runSequence evs = [1..<Suc (run_lastSequence r)]"
proof -
  have sorted: "sort_key ev_runSequence (events_of rid d) = events_of rid d"
    by (rule sort_key_id_if_sorted) (auto simp: log_sorted [OF wf run] simp del: upt_Suc)
  have pos: "snd (drains rid s (replicate m d)) = min (s + m * 500) (length (events_of rid d))"
    if "s \<le> length (events_of rid d)" for s m
    using that
  proof (induction m arbitrary: s)
    case (Suc m)
    obtain e t where dr: "drain rid s d = (e, t)" by force
    have t: "t = min (s + 500) (length (events_of rid d))" using drain_position [OF wf Suc.prems dr] by blast
    obtain e' t' where rest: "drains rid t (replicate m d) = (e', t')" by force
    have "t' = min (t + m * 500) (length (events_of rid d))" using Suc.IH [of t] t rest by simp
    then show ?case using dr rest t by simp
  qed simp
  have g: "growing rid (replicate n d)"
  proof (induction n)
    case (Suc n)
    then show ?case using wf by (cases n) auto
  qed simp
  have "replicate n d \<noteq> []" using caught(3) by simp
  moreover have "hd (replicate n d) = d" "last (replicate n d) = d" using caught(3) by simp_all
  moreover have "s' = length (events_of rid d)" using pos [of 0 n] caught by simp
  ultimately have evs: "evs = events_of rid d"
    using drains_slice [OF g _ _ caught(1)] by simp
  have "run_events rid type d = Inr (map event_view (events_of rid d), d)"
    using run type sorted by (simp add: run_events_def tx_run find_unique_def)
  then show ?thesis using evs log_sorted [OF wf run] by simp
qed

end
