(* ===== verification/Evaluation.thy ===== *)
theory Evaluation
  imports Queries Complex_Main
begin

text \<open>
  Evaluation batches (modules/evaluation/evaluation.controller.ts): what the evaluation CLI writes, and the
  summary the evaluation page shows.  The two tables extend the database.  Rates and averages are exact
  fractions; costs are fractions, rounded to the column's four decimals when they are stored.
\<close>

section \<open>Rows and bodies\<close>

record EvaluationRun =
  evr_id :: string
  evr_suite :: string
  evr_agentKind :: agent_kind
  evr_faultInjection :: "string option"
  evr_startedAt :: int
  evr_finishedAt :: "int option"

record EvaluationResult =
  res_id :: string
  res_evaluationRunId :: string
  res_fixtureId :: string
  res_runId :: string
  res_resolved :: bool
  res_firstTrySuccess :: bool
  res_recovered :: "bool option"
  res_recoveryMode :: "string option"
  res_scopeViolations :: int
  res_tokens :: int
  res_costUsd :: rat
  res_wallSeconds :: int
  res_judgeScores :: json

record eval_db = db +
  evaluationRuns :: "EvaluationRun list"
  evaluationResults :: "EvaluationResult list"

definition CreateEvaluationSchema :: "(string \<times> agent_kind \<times> string option) zod" where
  "CreateEvaluationSchema = z_object (\<lambda>kvs. do {
     suite \<leftarrow> z_field ''suite'' z_name kvs;
     kind \<leftarrow> z_field ''agentKind'' (z_enum agent_kind_name AGENT_KINDS) kvs;
     fault \<leftarrow> z_optional ''faultInjection'' (z_nullable z_string) kvs;
     Some (suite, kind, Option.bind fault (\<lambda>x. x)) })"

text \<open>The body of a result, with its numbers as fractions.\<close>

record ResultInput =
  ri_fixtureId :: string
  ri_runId :: string
  ri_resolved :: bool
  ri_firstTrySuccess :: bool
  ri_recovered :: "bool option"
  ri_recoveryMode :: "string option"
  ri_scopeViolations :: rat
  ri_tokens :: rat
  ri_costUsd :: rat
  ri_wallSeconds :: rat
  ri_judgeScores :: "(string \<times> json) list"

definition nonnegative_int :: "rat \<Rightarrow> bool" where
  "nonnegative_int r \<longleftrightarrow> of_int \<lfloor>r\<rfloor> = r \<and> 0 \<le> r \<and> r \<le> of_int max_safe"

definition CreateResultSchema :: "ResultInput \<Rightarrow> bool" where
  "CreateResultSchema b \<longleftrightarrow> ri_fixtureId b \<noteq> [] \<and> ri_runId b \<noteq> [] \<and>
     ri_recoveryMode b \<in> {None, Some ''checkpoint'', Some ''attempt-restart''} \<and>
     nonnegative_int (ri_scopeViolations b) \<and> nonnegative_int (ri_tokens b) \<and> 0 \<le> ri_costUsd b \<and>
     nonnegative_int (ri_wallSeconds b)"

section \<open>Summaries\<close>

definition average :: "rat list \<Rightarrow> rat option" where
  "average values = (if values = [] then None else Some (sum_list values / of_nat (length values)))"

text \<open>\<open>Math.round\<close>: to the nearest integer, halves upwards.\<close>

definition js_round :: "rat \<Rightarrow> int" where
  "js_round r = \<lfloor>r + 1 / 2\<rfloor>"

text \<open>
  The scores of the criteria in a judge's report: no report or no criteria is no score, a criterion without
  a score counts as 0.  The code asserts the shape; a value of another shape is an error here.
\<close>

definition criterion_score :: "json \<Rightarrow> err + rat" where
  "criterion_score j =
     (case j of
        JNull \<Rightarrow> Inl (Failure ''score of null'')
      | JObj kvs \<Rightarrow> (case map_of kvs ''score'' of None \<Rightarrow> Inr 0 | Some JNull \<Rightarrow> Inr 0 | Some (JNum n) \<Rightarrow> Inr (of_int n)
          | Some _ \<Rightarrow> Inl (Failure ''score''))
      | _ \<Rightarrow> Inr 0)"

fun all_right :: "(err + 'a) list \<Rightarrow> err + 'a list" where
  "all_right [] = Inr []"
| "all_right (x # xs) = (case x of Inl e \<Rightarrow> Inl e | Inr a \<Rightarrow> map_sum id ((#) a) (all_right xs))"

definition judge_criteria :: "json \<Rightarrow> err + rat list" where
  "judge_criteria j =
     (case j of
        JObj kvs \<Rightarrow> (case map_of kvs ''criteria'' of None \<Rightarrow> Inr [] | Some JNull \<Rightarrow> Inr []
          | Some (JArr cs) \<Rightarrow> all_right (map criterion_score cs)
          | Some _ \<Rightarrow> Inl (Failure ''criteria.map is not a function''))
      | _ \<Rightarrow> Inr [])"

record Summary =
  sm_total :: nat
  sm_resolved :: nat
  sm_resolveRate :: rat
  sm_firstTrySuccessRate :: rat
  sm_recoveredRate :: "rat option"
  sm_scopeViolations :: int
  sm_avgTokens :: int
  sm_totalCostUsd :: rat
  sm_avgWallSeconds :: int
  sm_avgJudgeScore :: "rat option"

definition or_nought :: "rat option \<Rightarrow> rat" where
  "or_nought x = (case x of None \<Rightarrow> 0 | Some r \<Rightarrow> r)"

definition share :: "nat \<Rightarrow> nat \<Rightarrow> rat" where
  "share n m = of_nat n / of_nat m"

definition summarize :: "EvaluationResult list \<Rightarrow> err + Summary option" where
  "summarize results =
     (let m = length results in
      if m = 0 then Inr None
      else (let resolved = length (filter res_resolved results);
                withFault = filter (\<lambda>r. res_recovered r \<noteq> None) results in
        case all_right (map (\<lambda>r. judge_criteria (res_judgeScores r)) results) of
          Inl e \<Rightarrow> Inl e
        | Inr scores \<Rightarrow> Inr (Some \<lparr> sm_total = m, sm_resolved = resolved,
            sm_resolveRate = share resolved m,
            sm_firstTrySuccessRate = share (length (filter res_firstTrySuccess results)) m,
            sm_recoveredRate = (if withFault = [] then None
              else Some (share (length (filter (\<lambda>r. res_recovered r = Some True) withFault)) (length withFault))),
            sm_scopeViolations = sum_list (map res_scopeViolations results),
            sm_avgTokens = js_round (or_nought (average (map (\<lambda>r. of_int (res_tokens r)) results))),
            sm_totalCostUsd = sum_list (map res_costUsd results),
            sm_avgWallSeconds = js_round (or_nought (average (map (\<lambda>r. of_int (res_wallSeconds r)) results))),
            sm_avgJudgeScore = average (concat scores) \<rparr>)))"

section \<open>The routes\<close>

definition evaluation_create :: "ctx \<Rightarrow> json \<Rightarrow> (eval_db, EvaluationRun) tx" where
  "evaluation_create c body =
     (case CreateEvaluationSchema body of
        None \<Rightarrow> tx_throw (BadRequest ''evaluation'')
      | Some (suite, kind, fault) \<Rightarrow>
          create_row evaluationRuns evaluationRuns_update evr_id
            \<lparr> evr_id = c_cuid c 0, evr_suite = suite, evr_agentKind = kind, evr_faultInjection = fault,
              evr_startedAt = c_now c, evr_finishedAt = None \<rparr>)"

text \<open>The columns are 32-bit integers and a decimal of ten digits, four of them after the point.\<close>

definition decimal4 :: "rat \<Rightarrow> rat" where
  "decimal4 r = of_int \<lfloor>r * 10000 + 1 / 2\<rfloor> / 10000"

definition result_fits :: "EvaluationResult \<Rightarrow> bool" where
  "result_fits r \<longleftrightarrow> res_scopeViolations r < 2 ^ 31 \<and> res_tokens r < 2 ^ 31 \<and> res_wallSeconds r < 2 ^ 31 \<and>
     res_costUsd r < 1000000"

definition new_result :: "ctx \<Rightarrow> string \<Rightarrow> ResultInput \<Rightarrow> EvaluationResult" where
  "new_result c evaluationId b =
     \<lparr> res_id = c_cuid c 0, res_evaluationRunId = evaluationId, res_fixtureId = ri_fixtureId b,
       res_runId = ri_runId b, res_resolved = ri_resolved b, res_firstTrySuccess = ri_firstTrySuccess b,
       res_recovered = ri_recovered b, res_recoveryMode = ri_recoveryMode b,
       res_scopeViolations = \<lfloor>ri_scopeViolations b\<rfloor>, res_tokens = \<lfloor>ri_tokens b\<rfloor>,
       res_costUsd = decimal4 (ri_costUsd b), res_wallSeconds = \<lfloor>ri_wallSeconds b\<rfloor>,
       res_judgeScores = JObj (ri_judgeScores b) \<rparr>"

text \<open>The foreign key to the run fails with P2003.\<close>

definition evaluation_addResult :: "ctx \<Rightarrow> string \<Rightarrow> ResultInput \<Rightarrow> (eval_db, EvaluationResult) tx" where
  "evaluation_addResult c evaluationId body =
     and_then (tx_check (CreateResultSchema body) (BadRequest ''result'')) (\<lambda>_.
     and_then (find_unique evaluationRuns evr_id evaluationId) (\<lambda>found.
     and_then (tx_some found (NotFound ''EvaluationRun'')) (\<lambda>_.
     and_then (tx_check (result_fits (new_result c evaluationId body)) (Failure ''P2020'')) (\<lambda>_.
     and_then (tx_read (\<lambda>d. find_row run_id (ri_runId body) (runs d))) (\<lambda>run.
     and_then (tx_some run (Failure ''P2003'')) (\<lambda>_.
     create_row evaluationResults evaluationResults_update res_id (new_result c evaluationId body)))))))"

definition evaluation_finish :: "ctx \<Rightarrow> string \<Rightarrow> (eval_db, EvaluationRun) tx" where
  "evaluation_finish c evaluationId =
     update_unique evaluationRuns evaluationRuns_update evr_id evaluationId (\<lambda>e. e\<lparr> evr_finishedAt := Some (c_now c) \<rparr>)"

definition results_of :: "string \<Rightarrow> eval_db \<Rightarrow> EvaluationResult list" where
  "results_of evaluationId d = filter (\<lambda>r. res_evaluationRunId r = evaluationId) (evaluationResults d)"

definition evaluation_list :: "(eval_db, (EvaluationRun \<times> Summary option) list) tx" where
  "evaluation_list =
     and_then (tx_read (\<lambda>d. map (\<lambda>e. map_sum id (Pair e) (summarize (results_of (evr_id e) d)))
       (take 50 (order_by (\<lambda>e f. evr_startedAt f \<le> evr_startedAt e) (evaluationRuns d))))) (\<lambda>rows.
     tx_lift (all_right rows))"

definition evaluation_get ::
  "(string \<Rightarrow> string \<Rightarrow> bool) \<Rightarrow> string \<Rightarrow> (eval_db, EvaluationRun \<times> EvaluationResult list \<times> Summary option) tx"
where
  "evaluation_get le evaluationId =
     and_then (find_unique evaluationRuns evr_id evaluationId) (\<lambda>found.
     and_then (tx_some found (NotFound ''EvaluationRun'')) (\<lambda>e.
     and_then (tx_read (\<lambda>d. order_by (\<lambda>r s. le (res_fixtureId r) (res_fixtureId s)) (results_of evaluationId d))) (\<lambda>results.
     and_then (tx_lift (summarize results)) (\<lambda>summary.
     tx_return (e, results, summary)))))"

section \<open>Properties\<close>

lemma share_bounds: "n \<le> m \<Longrightarrow> 0 \<le> share n m \<and> share n m \<le> 1"
  by (cases "m = 0") (simp_all add: share_def field_simps)

lemma sum_list_bounds:
  fixes lo hi :: rat
  assumes "list_all (\<lambda>x. lo \<le> x \<and> x \<le> hi) xs"
  shows "lo * of_nat (length xs) \<le> sum_list xs \<and> sum_list xs \<le> hi * of_nat (length xs)"
  using assms by (induction xs) (auto simp: algebra_simps)

lemma average_bounds:
  assumes "list_all (\<lambda>x. lo \<le> x \<and> x \<le> hi) xs" and "average xs = Some a"
  shows "lo \<le> a \<and> a \<le> hi"
proof -
  have len: "(0 :: rat) < of_nat (length xs)" using assms(2) by (auto simp: average_def split: if_splits)
  have "a = sum_list xs / of_nat (length xs)" using assms(2) by (auto simp: average_def split: if_splits)
  then show ?thesis
    using sum_list_bounds [OF assms(1)] len by (simp add: pos_le_divide_eq pos_divide_le_eq)
qed

lemma js_round_bounds:
  assumes "of_int lo \<le> r" and "r \<le> of_int hi"
  shows "lo \<le> js_round r \<and> js_round r \<le> hi"
proof -
  have "lo \<le> \<lfloor>r + 1 / 2\<rfloor>" using assms(1) by (simp add: le_floor_iff)
  moreover have "r + 1 / 2 < of_int (hi + 1)" using assms(2) by simp
  then have "\<lfloor>r + 1 / 2\<rfloor> < hi + 1" by (simp only: floor_less_iff)
  ultimately show ?thesis by (simp add: js_round_def)
qed

lemma average_rounded:
  assumes "results \<noteq> []" and "list_all (\<lambda>r. lo \<le> f r \<and> f r \<le> hi) results"
  shows "lo \<le> js_round (or_nought (average (map (\<lambda>r. of_int (f r)) results))) \<and>
    js_round (or_nought (average (map (\<lambda>r. of_int (f r)) results))) \<le> hi"
proof -
  let ?xs = "map (\<lambda>r. of_int (f r)) results :: rat list"
  obtain a where a: "average ?xs = Some a" using assms(1) by (simp add: average_def)
  have "list_all (\<lambda>x. of_int lo \<le> x \<and> x \<le> of_int hi) ?xs" using assms(2) by (auto simp: list_all_iff)
  from average_bounds [OF this a] show ?thesis using a js_round_bounds [of lo a hi] by (simp add: or_nought_def)
qed

lemma summarize_fields:
  assumes "summarize results = Inr (Some s)"
  shows "results \<noteq> [] \<and> sm_total s = length results \<and> sm_resolved s = length (filter res_resolved results) \<and>
    sm_resolveRate s = share (sm_resolved s) (sm_total s) \<and>
    sm_firstTrySuccessRate s = share (length (filter res_firstTrySuccess results)) (sm_total s) \<and>
    sm_recoveredRate s = (let faulty = filter (\<lambda>r. res_recovered r \<noteq> None) results in
      if faulty = [] then None
      else Some (share (length (filter (\<lambda>r. res_recovered r = Some True) faulty)) (length faulty))) \<and>
    sm_avgTokens s = js_round (or_nought (average (map (\<lambda>r. of_int (res_tokens r)) results))) \<and>
    sm_avgWallSeconds s = js_round (or_nought (average (map (\<lambda>r. of_int (res_wallSeconds r)) results)))"
  using assms
  by (auto simp: summarize_def Let_def split: sum.splits if_splits)

text \<open>
  The summary of a batch is within bounds: there is one as soon as the batch has a result; every rate
  lies between 0 and 1, and the first-try rate counts at most all results; and the average number of tokens
  and seconds, although rounded, lies between the smallest and the largest number of any result.
\<close>

theorem summary_within_bounds:
  assumes "summarize results = Inr (Some s)"
    and "list_all (\<lambda>r. lo \<le> res_tokens r \<and> res_tokens r \<le> hi) results"
    and "list_all (\<lambda>r. ls \<le> res_wallSeconds r \<and> res_wallSeconds r \<le> hs) results"
  shows "results \<noteq> [] \<and> sm_resolved s \<le> sm_total s \<and> 0 \<le> sm_resolveRate s \<and> sm_resolveRate s \<le> 1 \<and>
    0 \<le> sm_firstTrySuccessRate s \<and> sm_firstTrySuccessRate s \<le> 1 \<and>
    (\<forall>q. sm_recoveredRate s = Some q \<longrightarrow> 0 \<le> q \<and> q \<le> 1) \<and>
    lo \<le> sm_avgTokens s \<and> sm_avgTokens s \<le> hi \<and> ls \<le> sm_avgWallSeconds s \<and> sm_avgWallSeconds s \<le> hs"
proof -
  note f = summarize_fields [OF assms(1)]
  then have ne: "results \<noteq> []" by simp
  have "sm_resolved s \<le> sm_total s" "length (filter res_firstTrySuccess results) \<le> sm_total s" using f by simp_all
  moreover have "0 \<le> q \<and> q \<le> 1" if q: "sm_recoveredRate s = Some q" for q
  proof -
    define faulty where "faulty = filter (\<lambda>r. res_recovered r \<noteq> None) results"
    have "sm_recoveredRate s = (if faulty = [] then None
        else Some (share (length (filter (\<lambda>r. res_recovered r = Some True) faulty)) (length faulty)))"
      using f unfolding Let_def faulty_def [symmetric] by blast
    then have "q = share (length (filter (\<lambda>r. res_recovered r = Some True) faulty)) (length faulty)"
      using q by (simp split: if_splits)
    then show ?thesis using share_bounds [OF length_filter_le] by simp
  qed
  ultimately show ?thesis
    using f share_bounds [of "sm_resolved s" "sm_total s"] share_bounds [of "length (filter res_firstTrySuccess results)" "sm_total s"]
      average_rounded [OF ne assms(2)] average_rounded [OF ne assms(3)]
    by simp
qed

definition ex_result :: "int \<Rightarrow> EvaluationResult" where
  "ex_result n = \<lparr> res_id = ''r'', res_evaluationRunId = ''e'', res_fixtureId = ''f'', res_runId = ''a3'',
     res_resolved = (n = 3), res_firstTrySuccess = False, res_recovered = Some (n = 4), res_recoveryMode = None,
     res_scopeViolations = 0, res_tokens = n, res_costUsd = 1 / 2, res_wallSeconds = 2 * n,
     res_judgeScores = JObj [(''criteria'', JArr [JObj [(''score'', JNum 5)], JObj []])] \<rparr>"

theorem summary_within_bounds_witness:
  "(case summarize [ex_result 3, ex_result 4] of Inr (Some s) \<Rightarrow> sm_avgTokens s \<le> 4 \<and> sm_resolveRate s \<le> 1 \<and>
     sm_avgTokens s = 4 \<and> sm_resolveRate s = 1 / 2 \<and> sm_avgJudgeScore s = Some (5 / 2) | _ \<Rightarrow> False)"
proof -
  have "case summarize [ex_result 3, ex_result 4] of Inr (Some s) \<Rightarrow>
     sm_avgTokens s = 4 \<and> sm_resolveRate s = 1 / 2 \<and> sm_avgJudgeScore s = Some (5 / 2) | _ \<Rightarrow> False" by code_simp
  then obtain s where s: "summarize [ex_result 3, ex_result 4] = Inr (Some s)"
      "sm_avgTokens s = 4" "sm_resolveRate s = 1 / 2" "sm_avgJudgeScore s = Some (5 / 2)"
    by (auto split: sum.splits option.splits)
  have t: "list_all (\<lambda>r. 3 \<le> res_tokens r \<and> res_tokens r \<le> 4) [ex_result 3, ex_result 4]"
      "list_all (\<lambda>r. 6 \<le> res_wallSeconds r \<and> res_wallSeconds r \<le> 8) [ex_result 3, ex_result 4]" by code_simp+
  from summary_within_bounds [OF s(1) t] s show ?thesis by simp
qed


end
