(* ===== verification/GithubInput.thy ===== *)
theory GithubInput
  imports Queue Bodies Drafts "HOL-Library.Monad_Syntax"
begin

text \<open>
  What comes in from GitHub (modules/github): the parsers of issue links, run commands and pull request
  links, the signature check of the webhook and the webhook itself, and the comment that is written back.
  The regular expressions of the code are given as the scanners they describe.
\<close>

section \<open>Scanning\<close>

definition is_word :: "char \<Rightarrow> bool" where
  "is_word ch \<longleftrightarrow> word_char ch \<or> ch = CHR ''.'' \<or> ch = CHR ''-''"

text \<open>\<open>strip p s\<close>: what follows the prefix \<open>p\<close> of \<open>s\<close>.\<close>

definition strip :: "string \<Rightarrow> string \<Rightarrow> string option" where
  "strip p s = (if startsWith s p then Some (drop (length p) s) else None)"

lemma strip_Some: "strip p s = Some r \<longleftrightarrow> s = p @ r"
  by (auto simp: strip_def startsWith_def) (metis append_take_drop_id)

text \<open>A longest non-empty run of characters, the \<open>+\<close> of a character class whose complement follows.\<close>

definition run_of :: "(char \<Rightarrow> bool) \<Rightarrow> string \<Rightarrow> (string \<times> string) option" where
  "run_of p s = (case takeWhile p s of [] \<Rightarrow> None | t \<Rightarrow> Some (t, dropWhile p s))"

lemma run_of_Some: "run_of p s = Some (t, r) \<longleftrightarrow> t \<noteq> [] \<and> s = t @ r \<and> list_all p t \<and> (r = [] \<or> \<not> p (hd r))"
proof
  assume "run_of p s = Some (t, r)"
  then have "t = takeWhile p s" "r = dropWhile p s" "t \<noteq> []"
    by (auto simp: run_of_def split: list.splits)
  then show "t \<noteq> [] \<and> s = t @ r \<and> list_all p t \<and> (r = [] \<or> \<not> p (hd r))"
    by (metis hd_dropWhile list_all_iff set_takeWhileD takeWhile_dropWhile_id)
next
  assume a: "t \<noteq> [] \<and> s = t @ r \<and> list_all p t \<and> (r = [] \<or> \<not> p (hd r))"
  then have "takeWhile p s = t" "dropWhile p s = r"
    by (cases r; simp add: list_all_iff takeWhile_append2 dropWhile_append2)+
  with a show "run_of p s = Some (t, r)" by (cases t) (auto simp: run_of_def)
qed

section \<open>Links\<close>

text \<open>
  \<open>^https://github.com/([^/]+/[^/]+)/(?:issues|pull)/(\d+)\<close>: the anchor is at the start only, so
  anything may follow the number.
\<close>

definition parseIssueRef :: "string option \<Rightarrow> (string \<times> nat) option" where
  "parseIssueRef url = do {
     u \<leftarrow> (case url of None \<Rightarrow> None | Some u \<Rightarrow> if u = [] then None else Some u);
     s1 \<leftarrow> strip ''https://github.com/'' u;
     (owner, s2) \<leftarrow> run_of (\<lambda>c. c \<noteq> CHR ''/'') s1;
     s3 \<leftarrow> strip ''/'' s2;
     (repo, s4) \<leftarrow> run_of (\<lambda>c. c \<noteq> CHR ''/'') s3;
     s5 \<leftarrow> (case strip ''/issues/'' s4 of None \<Rightarrow> strip ''/pull/'' s4 | Some r \<Rightarrow> Some r);
     (digits, _) \<leftarrow> run_of is_digit s5;
     Some (owner @ ''/'' @ repo, read_nat digits) }"

text \<open>\<open>^https://github.com/([\w.-]+)/([\w.-]+)/pull/([1-9]\d*)/?$\<close>\<close>

definition parsePrUrl :: "string \<Rightarrow> (string \<times> nat) option" where
  "parsePrUrl u = do {
     s1 \<leftarrow> strip ''https://github.com/'' u;
     (owner, s2) \<leftarrow> run_of is_word s1;
     s3 \<leftarrow> strip ''/'' s2;
     (repo, s4) \<leftarrow> run_of is_word s3;
     s5 \<leftarrow> strip ''/pull/'' s4;
     (digits, s6) \<leftarrow> run_of is_digit s5;
     if hd digits \<noteq> CHR ''0'' \<and> s6 \<in> {[], ''/''} then Some (owner @ ''/'' @ repo, read_nat digits) else None }"

lemma show_nat_hd: "0 < n \<Longrightarrow> hd (show_nat n) \<noteq> CHR ''0''"
proof (induction n rule: show_nat.induct)
  case (1 n)
  show ?case
  proof (cases "n < 10")
    case True
    have "char_of (48 + n) \<noteq> (CHR ''0'' :: char)"
    proof
      assume "char_of (48 + n) = (CHR ''0'' :: char)"
      then have "(of_char (char_of (48 + n) :: char) :: nat) = of_char (CHR ''0'')" by (rule arg_cong)
      with True 1(2) show False by simp
    qed
    with True show ?thesis by (subst show_nat.simps) simp
  next
    case False
    with 1 show ?thesis by (subst show_nat.simps) simp
  qed
qed

section \<open>The run command of a comment\<close>

text \<open>\<open>^\<close> and \<open>$\<close> match at line ends (flag \<open>m\<close>); words are separated by blanks and tabs only, so that a
  command never reaches over to the next line.\<close>

definition lines_of :: "string \<Rightarrow> string list" where
  "lines_of s = concat (map (split_on (CHR 0x0D)) (split_on (CHR 0x0A) s))"

definition blank :: "char \<Rightarrow> bool" where
  "blank ch \<longleftrightarrow> ch = CHR '' '' \<or> ch = CHR 0x09"

definition words :: "string \<Rightarrow> string list" where
  "words line = filter (\<lambda>w. w \<noteq> []) (concat (map (split_on (CHR 0x09)) (split_on (CHR '' '') line)))"

text \<open>\<open>^\/arp[ \t]+run[ \t]+(\S+)(?:[ \t]+(\S+))?[ \t]*$\<close>\<close>

definition run_command_line :: "string \<Rightarrow> bool" where
  "run_command_line line \<longleftrightarrow>
     line \<noteq> [] \<and> \<not> blank (hd line) \<and>
     (case words line of
        w1 # w2 # rest \<Rightarrow> w1 = ''/arp'' \<and> w2 = ''run'' \<and> length rest \<in> {1, 2} \<and>
          list_all (list_all (\<lambda>ch. \<not> is_space ch)) rest
      | _ \<Rightarrow> False)"

definition parseRunCommand :: "string \<Rightarrow> (string \<times> agent_kind) option" where
  "parseRunCommand comment =
     (case List.find run_command_line (lines_of comment) of
        None \<Rightarrow> None
      | Some line \<Rightarrow>
          (case words line of
             [_, _, fixtureId] \<Rightarrow> Some (fixtureId, SELF_LANGGRAPH)
           | [_, _, fixtureId, kind] \<Rightarrow> map_option (Pair fixtureId) (parse_enum agent_kind_name AGENT_KINDS kind)
           | _ \<Rightarrow> None))"

section \<open>The signature of the webhook\<close>

text \<open>\<open>Buffer.from(s, 'hex')\<close> decodes pairs of hex digits of either case up to the first pair that is not one.\<close>

definition hex_value :: "char \<Rightarrow> nat option" where
  "hex_value ch = (let n = of_char ch :: nat in
     if 48 \<le> n \<and> n \<le> 57 then Some (n - 48)
     else if 97 \<le> n \<and> n \<le> 102 then Some (n - 87)
     else if 65 \<le> n \<and> n \<le> 70 then Some (n - 55) else None)"

fun from_hex :: "string \<Rightarrow> nat list" where
  "from_hex (a # b # r) =
     (case (hex_value a, hex_value b) of (Some x, Some y) \<Rightarrow> (16 * x + y) # from_hex r | _ \<Rightarrow> [])"
| "from_hex _ = []"

definition timingSafeEqual :: "nat list \<Rightarrow> nat list \<Rightarrow> err + bool" where
  "timingSafeEqual xs ys =
     (if length xs \<noteq> length ys then Inl (RangeError ''Input buffers must have the same byte length'') else Inr (xs = ys))"

text \<open>\<open>hmac secret body\<close> is the hex HMAC-SHA256 of the body.\<close>

definition verifyWebhookSignature ::
  "(string \<Rightarrow> string \<Rightarrow> string) \<Rightarrow> string \<Rightarrow> string \<Rightarrow> string option \<Rightarrow> err + bool"
where
  "verifyWebhookSignature hmac secret rawBody signature =
     (case Option.bind signature (strip ''sha256='') of
        None \<Rightarrow> Inr False
      | Some provided \<Rightarrow>
          (let expected = hmac secret rawBody in
           if length provided \<noteq> length expected then Inr False
           else timingSafeEqual (from_hex provided) (from_hex expected)))"

section \<open>The webhook\<close>

datatype webhook_reply = WPong | WSkipped string | WTask string string

definition json_get :: "string \<Rightarrow> json \<Rightarrow> json option" where
  "json_get k j = (case j of JObj kvs \<Rightarrow> map_of kvs k | _ \<Rightarrow> None)"

text \<open>\<open>payload.comment?.body ?? ''\<close>: matching a body that is not a string throws.\<close>

definition comment_body :: "json \<Rightarrow> err + string" where
  "comment_body payload =
     (case Option.bind (json_get ''comment'' payload) (json_get ''body'') of
        None \<Rightarrow> Inr []
      | Some JNull \<Rightarrow> Inr []
      | Some (JStr s) \<Rightarrow> Inr s
      | Some _ \<Rightarrow> Inl (Failure ''comment.match is not a function''))"

definition issue_url :: "json \<Rightarrow> err + string option" where
  "issue_url payload =
     (case Option.bind (json_get ''issue'' payload) (json_get ''html_url'') of
        None \<Rightarrow> Inr None
      | Some JNull \<Rightarrow> Inr None
      | Some (JStr s) \<Rightarrow> Inr (Some s)
      | Some _ \<Rightarrow> Inl (BadRequest ''sourceRef''))"

definition webhook_input :: "string \<Rightarrow> agent_kind \<Rightarrow> string option \<Rightarrow> CreateTaskInput" where
  "webhook_input fixtureId kind ref = \<lparr> ci_fixtureId = fixtureId, ci_agentKind = kind, ci_recoveryDisabled = None,
     ci_feedbackMode = None, ci_budgetTokens = None, ci_budgetSeconds = None, ci_budgetTurns = None,
     ci_source = Some S_GITHUB_ISSUE, ci_sourceRef = ref \<rparr>"

text \<open>Creating the task: every error becomes a 400, with its message.\<close>

definition webhook_task :: "ctx \<Rightarrow> string \<Rightarrow> agent_kind \<Rightarrow> json \<Rightarrow> (db, webhook_reply) tx" where
  "webhook_task c fixtureId kind payload = (\<lambda>d.
     case and_then (tx_lift (issue_url payload)) (\<lambda>ref. createTask c (webhook_input fixtureId kind ref)) d of
       Inl _ \<Rightarrow> Inl (BadRequest ''createTask'')
     | Inr ((taskId, runId), d') \<Rightarrow> Inr (WTask taskId runId, d'))"

definition webhook ::
  "ctx \<Rightarrow> (string \<Rightarrow> string \<Rightarrow> string) \<Rightarrow> string \<Rightarrow> string option \<Rightarrow> string option \<Rightarrow> string option \<Rightarrow> json \<Rightarrow>
   (db, webhook_reply) tx"
where
  "webhook c hmac secret rawBody signature event payload =
     and_then (tx_check (secret \<noteq> []) (Unavailable ''GITHUB_WEBHOOK_SECRET'')) (\<lambda>_.
     and_then (tx_lift (case rawBody of None \<Rightarrow> Inr False
       | Some b \<Rightarrow> verifyWebhookSignature hmac secret b signature)) (\<lambda>valid.
     and_then (tx_check valid (Unauthorized ''signature'')) (\<lambda>_.
     if event = Some ''ping'' then tx_return WPong
     else if event \<noteq> Some ''issue_comment'' then tx_return (WSkipped ''event'')
     else if json_get ''action'' payload \<noteq> Some (JStr ''created'') then tx_return (WSkipped ''action'')
     else and_then (tx_lift (comment_body payload)) (\<lambda>comment.
       case parseRunCommand comment of
         None \<Rightarrow> tx_return (WSkipped ''command'')
       | Some (fixtureId, kind) \<Rightarrow> webhook_task c fixtureId kind payload))))"

section \<open>Comments written back\<close>

text \<open>\<open>commentOnIssue\<close> makes at most one request, whose failure is only logged: it is the path and the body.\<close>

definition commentOnIssue :: "bool \<Rightarrow> string option \<Rightarrow> string \<Rightarrow> (string \<times> string) option" where
  "commentOnIssue enabled sourceRef body =
     (if \<not> enabled then None
      else map_option (\<lambda>(repo, n). (''/repos/'' @ repo @ ''/issues/'' @ show_nat n @ ''/comments'', body))
        (parseIssueRef sourceRef))"

section \<open>Properties\<close>

lemma run_of_append:
  "t \<noteq> [] \<Longrightarrow> list_all p t \<Longrightarrow> r = [] \<or> \<not> p (hd r) \<Longrightarrow> run_of p (t @ r) = Some (t, r)"
  by (simp add: run_of_Some)

lemma strip_append [simp]: "strip p (p @ r) = Some r"
  by (simp add: strip_Some)

lemma strip_simps [simp]: "strip [] s = Some s" "strip (x # p) [] = None"
  "strip (x # p) (y # s) = (if x = y then strip p s else None)"
  by (auto simp: strip_def startsWith_def)

lemma slash_not_word [simp]: "\<not> is_word (CHR ''/'')"
  by (simp add: is_word_def word_char_def)

lemma slash_not_digit [simp]: "\<not> is_digit (CHR ''/'')"
  by (simp add: is_digit_def)

text \<open>
  The link of a pull request is read back exactly: for a repository name of the characters GitHub
  allows and a positive number, the link GitHub shows, with or without a final slash, is parsed to that
  repository and that number.
\<close>

theorem pr_url_roundtrip:
  assumes "owner \<noteq> []" "repo \<noteq> []" "list_all is_word owner" "list_all is_word repo" "0 < n" "tail \<in> {[], ''/''}"
  shows "parsePrUrl (''https://github.com/'' @ owner @ ''/'' @ repo @ ''/pull/'' @ show_nat n @ tail) =
    Some (owner @ ''/'' @ repo, n)"
proof -
  have digits: "list_all is_digit (show_nat n)" using show_nat_digits by (simp add: list_all_iff)
  have "run_of is_word (owner @ ''/'' @ repo @ ''/pull/'' @ show_nat n @ tail) =
      Some (owner, ''/'' @ repo @ ''/pull/'' @ show_nat n @ tail)"
    using assms by (intro run_of_append) auto
  moreover have "run_of is_word (repo @ ''/pull/'' @ show_nat n @ tail) = Some (repo, ''/pull/'' @ show_nat n @ tail)"
    using assms by (intro run_of_append) auto
  moreover have "run_of is_digit (show_nat n @ tail) = Some (show_nat n, tail)"
    using assms digits by (intro run_of_append) auto
  ultimately show ?thesis
    unfolding parsePrUrl_def using show_nat_hd [OF assms(5)] assms(6)
    by (simp only: strip_append Option.bind.simps prod.case read_show_nat) simp
qed

theorem pr_url_roundtrip_witness:
  "parsePrUrl ''https://github.com/arp/fixture/pull/12/'' = Some (''arp/fixture'', 12)"
proof -
  have "list_all is_word ''arp''" "list_all is_word ''fixture''" by (simp_all add: is_word_def word_char_def)
  moreover have "show_nat 12 = ''12''" by code_simp
  ultimately show ?thesis using pr_url_roundtrip [of "''arp''" "''fixture''" 12 "''/''"] by simp
qed

lemma from_hex_length: "length s = 2 * n \<Longrightarrow> list_all (\<lambda>ch. hex_value ch \<noteq> None) s \<Longrightarrow> length (from_hex s) = n"
proof (induction s arbitrary: n rule: from_hex.induct)
  case (1 a b r)
  then show ?case by (cases n) (auto split: option.splits)
qed auto

definition low :: "nat \<Rightarrow> nat" where
  "low k = (if 65 \<le> k \<and> k \<le> 90 then k + 32 else k)"

lemma lower_char_low: "lower_char c = char_of (low (of_char c))"
  by (simp add: lower_char_def low_def Let_def)

lemma char_of_inject: "i < 256 \<Longrightarrow> j < 256 \<Longrightarrow> char_of i = (char_of j :: char) \<longleftrightarrow> i = (j :: nat)"
  by (metis of_char_of mod_less)

lemma hex_value_cases:
  assumes "hex_value ch = Some c"
  obtains (digit) n where "48 \<le> n" "n \<le> 57" "c = n - 48" "lower_char ch = char_of n"
    | (letter) n where "97 \<le> n" "n \<le> 102" "c = n - 87" "lower_char ch = char_of n"
proof -
  let ?n = "of_char ch :: nat"
  consider "48 \<le> ?n \<and> ?n \<le> 57 \<and> c = ?n - 48" | "97 \<le> ?n \<and> ?n \<le> 102 \<and> c = ?n - 87" | "65 \<le> ?n \<and> ?n \<le> 70 \<and> c = ?n - 55"
    using assms by (auto simp: hex_value_def Let_def split: if_splits)
  then show thesis
  proof cases
    case 1
    with digit [of ?n] show ?thesis by (simp add: lower_char_low low_def)
  next
    case 2
    with letter [of ?n] show ?thesis by (simp add: lower_char_low low_def)
  next
    case 3
    with letter [of "?n + 32"] show ?thesis by (simp add: lower_char_low low_def)
  qed
qed

lemma hex_value_lower:
  assumes "hex_value a = Some x" and "hex_value b = Some y"
  shows "x = y \<longleftrightarrow> lower_char a = lower_char b"
  using assms(1)
proof (cases rule: hex_value_cases)
  case (digit m)
  from assms(2) show ?thesis
    by (cases rule: hex_value_cases) (use digit in \<open>auto simp: char_of_inject\<close>)
next
  case (letter m)
  from assms(2) show ?thesis
    by (cases rule: hex_value_cases) (use letter in \<open>auto simp: char_of_inject\<close>)
qed

lemma hex_value_less: "hex_value a = Some x \<Longrightarrow> x < 16"
  by (auto simp: hex_value_def Let_def split: if_splits)

lemma hex_pair_inject:
  fixes x y x' y' :: nat
  assumes "y < 16" and "y' < 16"
  shows "16 * x + y = 16 * x' + y' \<longleftrightarrow> x = x' \<and> y = y'"
proof
  assume eq: "16 * x + y = 16 * x' + y'"
  then have "(16 * x + y) mod 16 = (16 * x' + y') mod 16" by simp
  then have "y = y'" using assms by simp
  with eq show "x = x' \<and> y = y'" by simp
qed simp

lemma from_hex_inject:
  "length s = length t \<Longrightarrow> even (length s) \<Longrightarrow> list_all (\<lambda>ch. hex_value ch \<noteq> None) s \<Longrightarrow>
    list_all (\<lambda>ch. hex_value ch \<noteq> None) t \<Longrightarrow> from_hex s = from_hex t \<longleftrightarrow> toLowerCase s = toLowerCase t"
proof (induction s arbitrary: t rule: from_hex.induct)
  case (1 a b r)
  from "1.prems"(1) obtain a' b' r' where t: "t = a' # b' # r'"
    by (cases t; cases "tl t") auto
  from "1.prems" t obtain x y x' y' where v: "hex_value a = Some x" "hex_value b = Some y" "hex_value a' = Some x'"
      "hex_value b' = Some y'" by auto
  have "16 * x + y = 16 * x' + y' \<longleftrightarrow> x = x' \<and> y = y'"
    by (rule hex_pair_inject [OF hex_value_less [OF v(2)] hex_value_less [OF v(4)]])
  then have "16 * x + y = 16 * x' + y' \<longleftrightarrow> lower_char a = lower_char a' \<and> lower_char b = lower_char b'"
    using hex_value_lower [OF v(1,3)] hex_value_lower [OF v(2,4)] by simp
  moreover have "from_hex r = from_hex r' \<longleftrightarrow> toLowerCase r = toLowerCase r'"
    using "1.prems" t v by (intro "1.IH") auto
  ultimately show ?case using t v by (simp add: toLowerCase_def)
qed (auto simp: toLowerCase_def)

lemma from_hex_short:
  "length s = 2 * n \<Longrightarrow> \<not> list_all (\<lambda>ch. hex_value ch \<noteq> None) s \<Longrightarrow> length (from_hex s) < n"
proof (induction s arbitrary: n rule: from_hex.induct)
  case (1 a b r)
  then show ?case by (cases n) (auto split: option.splits)
qed auto

lemma is_hex_value: "is_hex ch \<Longrightarrow> hex_value ch \<noteq> None \<and> lower_char ch = ch"
  by (auto simp: is_hex_def is_digit_def hex_value_def lower_char_def Let_def)

lemma hex64_lower: "hex64 s \<Longrightarrow> toLowerCase s = s \<and> list_all (\<lambda>ch. hex_value ch \<noteq> None) s \<and> length s = 64"
  using is_hex_value by (auto simp: hex64_def list_all_iff toLowerCase_def intro: map_idI)

text \<open>
  C27. A webhook signature is accepted exactly when it is the HMAC of the body in hex, in lower or upper
  case; a signature of another length or with other digits is refused.  A signature of the right length
  that is not hex is not refused but throws, because the comparison requires buffers of equal length.
\<close>

theorem webhook_signature_check:
  assumes "hex64 (hmac secret body)"
  shows "verifyWebhookSignature hmac secret body (Some (''sha256='' @ p)) =
    (if length p \<noteq> 64 then Inr False
     else if list_all (\<lambda>ch. hex_value ch \<noteq> None) p then Inr (toLowerCase p = hmac secret body)
     else Inl (RangeError ''Input buffers must have the same byte length''))"
proof -
  let ?e = "hmac secret body"
  note e = hex64_lower [OF assms]
  have len_e: "length (from_hex ?e) = 32" using e by (intro from_hex_length) auto
  consider "length p \<noteq> 64" | "length p = 64" "list_all (\<lambda>ch. hex_value ch \<noteq> None) p"
    | "length p = 64" "\<not> list_all (\<lambda>ch. hex_value ch \<noteq> None) p" by blast
  then show ?thesis
  proof cases
    case 2
    then have "length (from_hex p) = 32" by (intro from_hex_length) auto
    with 2 e len_e from_hex_inject [of p ?e] show ?thesis
      by (simp add: verifyWebhookSignature_def timingSafeEqual_def)
  next
    case 3
    then have "length (from_hex p) < 32" by (intro from_hex_short) auto
    with 3 e len_e show ?thesis by (simp add: verifyWebhookSignature_def timingSafeEqual_def)
  qed (use e in \<open>simp add: verifyWebhookSignature_def\<close>)
qed

definition ex_hmac :: "string \<Rightarrow> string \<Rightarrow> string" where
  "ex_hmac secret body = replicate 64 (CHR ''a'')"

theorem webhook_signature_check_witness:
  "hex64 (ex_hmac ''k'' ''body'') \<and>
   verifyWebhookSignature ex_hmac ''k'' ''body'' (Some (''sha256='' @ replicate 64 (CHR ''A''))) = Inr True \<and>
   verifyWebhookSignature ex_hmac ''k'' ''body'' (Some (''sha256='' @ replicate 64 (CHR ''z''))) =
     Inl (RangeError ''Input buffers must have the same byte length'')"
proof -
  have h: "hex64 (ex_hmac ''k'' ''body'')"
    by (simp add: hex64_def ex_hmac_def is_hex_def list_all_iff)
  have l: "toLowerCase (replicate 64 (CHR ''A'')) = replicate 64 (CHR ''a'')"
      "list_all (\<lambda>ch. hex_value ch \<noteq> None) (replicate 64 (CHR ''A''))"
      "\<not> list_all (\<lambda>ch. hex_value ch \<noteq> None) (replicate 64 (CHR ''z''))" by code_simp+
  show ?thesis
    using h l unfolding webhook_signature_check [of ex_hmac "''k''" "''body''", OF h]
    by (simp add: ex_hmac_def)
qed

end
