(* ===== verification/Access.thy ===== *)
theory Access
  imports GithubInput Complex_Main
begin

text \<open>
  Who may call the control plane: the credential store (modules/credentials/credential-store.ts), the
  guard in front of every route and the session it accepts (modules/auth/local-auth.guard.ts), and the
  route that stores a credential (modules/repository/repository.controller.ts).  The file system is a
  map from paths to contents; HMAC and random values are arguments.
\<close>

section \<open>The credential store\<close>

type_synonym files = "string \<Rightarrow> string option"

text \<open>\<open>process.env.ARP_DATA_DIR || join(homedir(), '.arp')\<close>\<close>

definition dataDirectory :: "string option \<Rightarrow> string \<Rightarrow> string" where
  "dataDirectory env home = (if truthy env then the env else home @ ''/.arp'')"

definition credential_file :: "string \<Rightarrow> string \<Rightarrow> string" where
  "credential_file dir ref = dir @ ''/credentials/'' @ ref"

definition access_file :: "string \<Rightarrow> string" where
  "access_file dir = dir @ ''/access-token''"

text \<open>\<open>/[\r\n\0]/\<close>\<close>

definition control_char :: "char \<Rightarrow> bool" where
  "control_char ch \<longleftrightarrow> ch = CHR 0x0D \<or> ch = CHR 0x0A \<or> ch = CHR 0x00"

definition credential_ok :: "string \<Rightarrow> string \<Rightarrow> bool" where
  "credential_ok kind value \<longleftrightarrow> kind \<in> {''github'', ''model''} \<and> trim value \<noteq> [] \<and> length value \<le> 8192 \<and>
     \<not> list_ex control_char value"

text \<open>\<open>flag: 'wx'\<close> refuses to overwrite a file.\<close>

definition write_new :: "string \<Rightarrow> string \<Rightarrow> files \<Rightarrow> err + files" where
  "write_new path content fs = (if fs path \<noteq> None then Inl (Failure ''EEXIST'') else Inr (fs(path \<mapsto> content)))"

definition save_credential :: "string \<Rightarrow> string \<Rightarrow> string \<Rightarrow> string \<Rightarrow> files \<Rightarrow> err + string \<times> files" where
  "save_credential dir uuid kind value fs =
     (if \<not> credential_ok kind value then Inl (Failure ''Invalid credential'')
      else (let ref = kind @ ''-'' @ uuid in
        case write_new (credential_file dir ref) value fs of Inl e \<Rightarrow> Inl e | Inr fs' \<Rightarrow> Inr (ref, fs')))"

text \<open>\<open>/^(github|model)-[a-f0-9-]{36}$/\<close>\<close>

definition uuid_like :: "string \<Rightarrow> bool" where
  "uuid_like s \<longleftrightarrow> length s = 36 \<and> list_all (\<lambda>ch. is_hex ch \<or> ch = CHR ''-'') s"

definition reference_ok :: "string \<Rightarrow> bool" where
  "reference_ok ref \<longleftrightarrow> list_ex (\<lambda>kind. case strip (kind @ ''-'') ref of None \<Rightarrow> False | Some u \<Rightarrow> uuid_like u)
     [''github'', ''model'']"

definition read_credential :: "string \<Rightarrow> string \<Rightarrow> files \<Rightarrow> err + string" where
  "read_credential dir ref fs =
     (if \<not> reference_ok ref then Inl (Failure ''Invalid credential reference'')
      else case fs (credential_file dir ref) of None \<Rightarrow> Inl (Failure ''ENOENT'') | Some v \<Rightarrow> Inr v)"

text \<open>The first call creates the token, every later one reads it.\<close>

definition accessToken :: "string \<Rightarrow> string \<Rightarrow> files \<Rightarrow> string \<times> files" where
  "accessToken dir random fs =
     (let fs' = (case write_new (access_file dir) random fs of Inl _ \<Rightarrow> fs | Inr fs' \<Rightarrow> fs') in
      (trim (the (fs' (access_file dir))), fs'))"

text \<open>The route that stores a credential: a strict object.\<close>

definition CredentialSchema :: "(string \<times> string) zod" where
  "CredentialSchema = z_strict [''kind'', ''value''] (\<lambda>kvs. do {
     kind \<leftarrow> z_field ''kind'' (z_refine (\<lambda>s. s \<in> {''github'', ''model''}) z_string) kvs;
     value \<leftarrow> z_field ''value'' z_name kvs;
     Some (kind, value) })"

definition create_credential :: "string \<Rightarrow> string \<Rightarrow> json \<Rightarrow> files \<Rightarrow> err + string \<times> files" where
  "create_credential dir uuid raw fs =
     (case CredentialSchema raw of
        None \<Rightarrow> Inl (BadRequest ''Invalid credential'')
      | Some (kind, value) \<Rightarrow> save_credential dir uuid kind value fs)"

section \<open>Tokens\<close>

definition bytes_of :: "string \<Rightarrow> nat list" where
  "bytes_of s = map of_char s"

definition tokenMatches :: "string \<Rightarrow> string \<Rightarrow> bool" where
  "tokenMatches actual expected \<longleftrightarrow> actual \<noteq> [] \<and> expected \<noteq> [] \<and> length actual = length expected \<and>
     timingSafeEqual (bytes_of actual) (bytes_of expected) = Inr True"

definition isLocalOrigin :: "string option \<Rightarrow> string \<Rightarrow> bool" where
  "isLocalOrigin origin allowed \<longleftrightarrow> \<not> truthy origin \<or> origin = Some allowed"

lemma bytes_of_inject: "bytes_of s = bytes_of t \<longleftrightarrow> s = t"
  unfolding bytes_of_def by (rule inj_map_eq_map) (auto intro: injI)

lemma tokenMatches_iff: "tokenMatches s t \<longleftrightarrow> s \<noteq> [] \<and> s = t"
  by (auto simp: tokenMatches_def timingSafeEqual_def bytes_of_inject)

section \<open>The guard\<close>

record request =
  rq_path :: string
  rq_origin :: "string option"
  rq_authorization :: "string option"
  rq_cookie :: "string option"

record guard =
  g_publicDemo :: "string option"
  g_webOrigin :: "string option"
  g_access :: string
  g_hmac :: "string \<Rightarrow> string \<Rightarrow> string"

text \<open>\<open>authorization?.replace(/^Bearer /, '') ?? ''\<close>\<close>

definition bearer_of :: "request \<Rightarrow> string" where
  "bearer_of rq = (case rq_authorization rq of None \<Rightarrow> []
     | Some h \<Rightarrow> (case strip ''Bearer '' h of None \<Rightarrow> h | Some t \<Rightarrow> t))"

definition session_cookie :: "request \<Rightarrow> string" where
  "session_cookie rq = (case rq_cookie rq of None \<Rightarrow> []
     | Some h \<Rightarrow> (case List.find (\<lambda>s. startsWith s ''arp_session='') (map trim (split_on CHR '';'' h)) of
         None \<Rightarrow> [] | Some s \<Rightarrow> drop 12 s))"

text \<open>\<open>/^\/(internal|api\/(repositories|credentials|drafts|session))/\<close>\<close>

definition personal_path :: "string \<Rightarrow> bool" where
  "personal_path path \<longleftrightarrow> list_ex (startsWith path)
     [''/internal'', ''/api/repositories'', ''/api/credentials'', ''/api/drafts'', ''/api/session'']"

definition workerToken :: "guard \<Rightarrow> string" where
  "workerToken g = g_hmac g (g_access g) ''arp-worker''"

definition canActivate :: "guard \<Rightarrow> request \<Rightarrow> err + bool" where
  "canActivate g rq =
     (if rq_path rq = ''/api/health'' \<or> rq_path rq = ''/health'' then Inr True
      else if g_publicDemo g = Some ''true'' \<and> \<not> personal_path (rq_path rq) then Inr True
      else if rq_path rq = ''/api/github/webhook'' then Inr True
      else (let origin = (if truthy (g_webOrigin g) then the (g_webOrigin g) else ''http://localhost:3000'') in
        if \<not> isLocalOrigin (rq_origin rq) origin then Inl (Forbidden ''Untrusted browser origin'')
        else if startsWith (rq_path rq) ''/internal/'' then
          (if \<not> tokenMatches (bearer_of rq) (workerToken g) then Inl (Unauthorized ''Worker authorization required'')
           else Inr True)
        else if \<not> tokenMatches (bearer_of rq) (g_access g) \<and> \<not> tokenMatches (session_cookie rq) (g_access g)
          then Inl (Unauthorized ''Local access token required'')
        else Inr True))"

text \<open>The cookie a login sets: its name and value (\<open>httpOnly\<close>, \<open>sameSite: strict\<close>, one day).\<close>

record cookie =
  ck_name :: string
  ck_value :: string
  ck_httpOnly :: bool
  ck_sameSite :: string
  ck_path :: string
  ck_maxAge :: int

definition login :: "string \<Rightarrow> request \<Rightarrow> err + cookie" where
  "login access rq =
     (if \<not> tokenMatches (bearer_of rq) access then Inl (Unauthorized [])
      else Inr \<lparr> ck_name = ''arp_session'', ck_value = access, ck_httpOnly = True, ck_sameSite = ''strict'',
        ck_path = ''/'', ck_maxAge = 86400000 \<rparr>)"

section \<open>The environment (config/env.ts)\<close>

text \<open>
  \<open>Number(s)\<close> of a string: white space is trimmed, the empty string is 0, then a decimal literal with an
  optional sign, fraction and exponent, or an unsigned hexadecimal, octal or binary one.  The value is
  exact; \<open>None\<close> is \<open>NaN\<close> or infinite.
\<close>

definition js_exponent :: "string \<Rightarrow> int option" where
  "js_exponent r =
     (case r of [] \<Rightarrow> Some 0
      | ch # t \<Rightarrow>
          if ch \<noteq> CHR ''e'' \<and> ch \<noteq> CHR ''E'' then None
          else (let (sign, ds) = (case t of c # u \<Rightarrow>
                   if c = CHR ''-'' then (- 1, u) else if c = CHR ''+'' then (1, u) else (1, t)
                 | [] \<Rightarrow> (1, [])) in
            if ds \<noteq> [] \<and> list_all is_digit ds then Some (sign * int (read_nat ds)) else None))"

definition scale10 :: "rat \<Rightarrow> int \<Rightarrow> rat" where
  "scale10 m k = (if 0 \<le> k then m * 10 ^ nat k else m / 10 ^ nat (- k))"

definition js_decimal :: "string \<Rightarrow> rat option" where
  "js_decimal s =
     (let ip = takeWhile is_digit s; r = dropWhile is_digit s;
          (fp, r') = (case r of c # t \<Rightarrow> if c = CHR ''.'' then (takeWhile is_digit t, dropWhile is_digit t) else ([], r)
            | [] \<Rightarrow> ([], [])) in
      if ip = [] \<and> fp = [] then None
      else map_option (\<lambda>e. scale10 (of_nat (read_nat (ip @ fp))) (e - int (length fp))) (js_exponent r'))"

definition js_radix :: "nat \<Rightarrow> string \<Rightarrow> rat option" where
  "js_radix b s =
     (if s \<noteq> [] \<and> list_all (\<lambda>ch. case hex_value ch of None \<Rightarrow> False | Some v \<Rightarrow> v < b) s
      then Some (of_nat (foldl (\<lambda>n ch. b * n + the (hex_value ch)) 0 s)) else None)"

definition js_number :: "string \<Rightarrow> rat option" where
  "js_number raw =
     (let s = trim raw in
      case s of
        [] \<Rightarrow> Some 0
      | c # t \<Rightarrow>
          if c = CHR ''-'' then map_option uminus (js_decimal t)
          else if c = CHR ''+'' then js_decimal t
          else if take 2 s \<in> {''0x'', ''0X''} then js_radix 16 (drop 2 s)
          else if take 2 s \<in> {''0o'', ''0O''} then js_radix 8 (drop 2 s)
          else if take 2 s \<in> {''0b'', ''0B''} then js_radix 2 (drop 2 s)
          else js_decimal s)"

text \<open>\<open>z.coerce.number().int().positive().default(n)\<close> on an environment variable.\<close>

definition env_positive :: "nat \<Rightarrow> string option \<Rightarrow> nat option" where
  "env_positive n v =
     (case v of None \<Rightarrow> Some n
      | Some s \<Rightarrow> (case js_number s of None \<Rightarrow> None
          | Some r \<Rightarrow> if of_int \<lfloor>r\<rfloor> = r \<and> 0 < r \<and> r \<le> of_int max_safe then Some (nat \<lfloor>r\<rfloor>) else None))"

definition env_name :: "string option \<Rightarrow> string option" where
  "env_name v = (case v of None \<Rightarrow> None | Some s \<Rightarrow> if s = [] then None else Some s)"

definition env_default :: "string \<Rightarrow> string option \<Rightarrow> string" where
  "env_default s v = (case v of None \<Rightarrow> s | Some t \<Rightarrow> t)"

record Env =
  DATABASE_URL :: string
  REDIS_URL :: string
  PORT :: nat
  LEASE_TTL_MS :: nat
  OUTBOX_POLL_MS :: nat
  SSE_HEARTBEAT_MS :: nat
  FIXTURE_REPO_PATH :: string
  GITHUB_ENABLED :: bool
  GITHUB_TOKEN :: string
  GITHUB_REPO :: string
  GITHUB_BASE_BRANCH :: string
  GITHUB_WEBHOOK_SECRET :: string
  OTEL_EXPORTER_OTLP_ENDPOINT :: string

definition EnvSchema :: "(string \<Rightarrow> string option) \<Rightarrow> Env option" where
  "EnvSchema env = do {
     database \<leftarrow> env_name (env ''DATABASE_URL'');
     redis \<leftarrow> env_name (env ''REDIS_URL'');
     port \<leftarrow> env_positive 3001 (env ''PORT'');
     lease \<leftarrow> env_positive 30000 (env ''LEASE_TTL_MS'');
     poll \<leftarrow> env_positive 500 (env ''OUTBOX_POLL_MS'');
     heartbeat \<leftarrow> env_positive 15000 (env ''SSE_HEARTBEAT_MS'');
     Some \<lparr> DATABASE_URL = database, REDIS_URL = redis, PORT = port, LEASE_TTL_MS = lease,
       OUTBOX_POLL_MS = poll, SSE_HEARTBEAT_MS = heartbeat,
       FIXTURE_REPO_PATH = env_default ''~/Coding/agent-reliability/agent-fixture-repo'' (env ''FIXTURE_REPO_PATH''),
       GITHUB_ENABLED = (env_default ''false'' (env ''GITHUB_ENABLED'') = ''true''),
       GITHUB_TOKEN = env_default [] (env ''GITHUB_TOKEN''),
       GITHUB_REPO = env_default [] (env ''GITHUB_REPO''),
       GITHUB_BASE_BRANCH = env_default ''main'' (env ''GITHUB_BASE_BRANCH''),
       GITHUB_WEBHOOK_SECRET = env_default [] (env ''GITHUB_WEBHOOK_SECRET''),
       OTEL_EXPORTER_OTLP_ENDPOINT = env_default [] (env ''OTEL_EXPORTER_OTLP_ENDPOINT'') \<rparr> }"

definition missing_github :: "Env \<Rightarrow> string list" where
  "missing_github e = map fst (filter (\<lambda>(_, v). v = [])
     [(''GITHUB_TOKEN'', GITHUB_TOKEN e), (''GITHUB_REPO'', GITHUB_REPO e)])"

text \<open>The module's variable \<open>cached\<close> is passed and returned.\<close>

definition loadEnv :: "(string \<Rightarrow> string option) \<Rightarrow> Env option \<Rightarrow> err + Env \<times> Env option" where
  "loadEnv source cached =
     (case cached of
        Some e \<Rightarrow> Inr (e, cached)
      | None \<Rightarrow>
          (case EnvSchema source of
             None \<Rightarrow> Inl (Failure ''environment'')
           | Some e \<Rightarrow>
               if GITHUB_ENABLED e \<and> missing_github e \<noteq> [] then Inl (Failure ''GITHUB_ENABLED=true'')
               else Inr (e, Some e)))"

section \<open>Properties\<close>

text \<open>
  C32. A stored credential is read back unchanged under the reference that was returned, whatever other
  credentials are stored; storing it changes no other file, and neither a second credential nor the access
  token can overwrite it.  The identifiers of \<open>randomUUID\<close> are 36 hex digits and dashes.
\<close>

theorem credential_roundtrip:
  assumes "uuid_like uuid" and "save_credential dir uuid kind value fs = Inr (ref, fs')"
  shows "read_credential dir ref fs' = Inr value \<and>
    (\<forall>path. path \<noteq> credential_file dir ref \<longrightarrow> fs' path = fs path) \<and>
    fs (credential_file dir ref) = None \<and>
    save_credential dir uuid kind other fs' \<in> {Inl (Failure ''EEXIST''), Inl (Failure ''Invalid credential'')} \<and>
    snd (accessToken dir random fs') (credential_file dir ref) = Some value"
proof -
  from assms(2) have ok: "credential_ok kind value" "ref = kind @ ''-'' @ uuid" "fs (credential_file dir ref) = None"
      "fs' = fs(credential_file dir ref \<mapsto> value)"
    by (auto simp: save_credential_def write_new_def Let_def split: if_splits)
  then have kind: "kind \<in> {''github'', ''model''}" by (simp add: credential_ok_def)
  have "reference_ok ref" using kind assms(1) ok(2) by (auto simp: reference_ok_def)
  moreover have "access_file dir \<noteq> credential_file dir ref"
    by (simp add: access_file_def credential_file_def)
  ultimately show ?thesis using ok
    by (auto simp: read_credential_def save_credential_def write_new_def accessToken_def Let_def)
qed

definition ex_uuid :: string where
  "ex_uuid = ''0a1b2c3d-0000-4000-8000-0123456789ab''"

theorem credential_roundtrip_witness:
  "read_credential ''/arp'' (''github-'' @ ex_uuid) ((\<lambda>_. None)(credential_file ''/arp'' (''github-'' @ ex_uuid) \<mapsto> ''secret'')) =
     Inr ''secret''"
proof -
  have u: "uuid_like ex_uuid" by code_simp
  have k: "credential_ok ''github'' ''secret''" by code_simp
  have s: "save_credential ''/arp'' ex_uuid ''github'' ''secret'' (\<lambda>_. None) =
      Inr (''github-'' @ ex_uuid, (\<lambda>_. None)(credential_file ''/arp'' (''github-'' @ ex_uuid) \<mapsto> ''secret''))"
    using k by (simp add: save_credential_def write_new_def Let_def)
  from credential_roundtrip [OF u s] show ?thesis by blast
qed

lemma startsWith_append [simp]: "startsWith (p @ r) p"
  by (simp add: startsWith_def)

lemma startsWith_rest: "startsWith s p \<Longrightarrow> s = p @ drop (length p) s"
  unfolding startsWith_def by (metis append_take_drop_id)

lemma internal_personal:
  assumes "startsWith path ''/internal/''"
  shows "personal_path path"
proof -
  obtain r where "path = ''/internal'' @ ''/'' @ r" using startsWith_rest [OF assms] by simp
  then have "startsWith path ''/internal''" by (simp only: startsWith_append)
  then show ?thesis by (simp add: personal_path_def)
qed


text \<open>
  The pattern of the personal paths minds the case of letters, which the router does not: with the public
  demo a request for \<open>/API/credentials\<close> passes without a token.
\<close>

lemma demo_guard_minds_case:
  "g_publicDemo g = Some ''true'' \<Longrightarrow> rq_path rq = ''/API/credentials'' \<Longrightarrow> canActivate g rq = Inr True"
  by (simp add: canActivate_def personal_path_def startsWith_def)

definition ex_guard :: guard where
  "ex_guard = \<lparr> g_publicDemo = Some ''true'', g_webOrigin = None, g_access = ''key'', g_hmac = (\<lambda>k m. k @ m) \<rparr>"

definition ex_request :: request where
  "ex_request = \<lparr> rq_path = ''/internal/attempts/claim'', rq_origin = None,
     rq_authorization = Some ''Bearer keyarp-worker'', rq_cookie = None \<rparr>"


text \<open>Pieces of a cookie header.\<close>

lemma split_on_append: "c \<notin> set s \<Longrightarrow> split_on c (s @ c # t) = s # split_on c t"
  by (induction s) auto

lemma split_on_single: "c \<notin> set s \<Longrightarrow> split_on c s = [s]"
  by (induction s) auto

lemma session_cookie_found:
  assumes "CHR '';'' \<notin> set token" and "trim (''arp_session='' @ token) = ''arp_session='' @ token"
    and "list_all (\<lambda>s. CHR '';'' \<notin> set s \<and> \<not> startsWith (trim s) ''arp_session='') before"
    and "rq_cookie rq = Some (concat (map (\<lambda>s. s @ '';'') before) @ ''arp_session='' @ token @ after)"
    and "after = [] \<or> hd after = CHR '';''"
  shows "session_cookie rq = token"
proof -
  let ?c = "''arp_session='' @ token"
  have tail: "\<exists>rest. split_on CHR '';'' (?c @ after) = ?c # rest"
    using assms(1,5) by (cases after) (auto simp: split_on_append [of "CHR '';''" ?c, simplified] split_on_single)
  have "\<exists>rest. split_on CHR '';'' (concat (map (\<lambda>s. s @ '';'') before) @ ?c @ after) = before @ ?c # rest"
    using assms(3)
  proof (induction before)
    case Nil
    show ?case using tail by simp
  next
    case (Cons s ss)
    then show ?case by (auto simp: split_on_append)
  qed
  then obtain rest where sp: "split_on CHR '';'' (concat (map (\<lambda>s. s @ '';'') before) @ ?c @ after) = before @ ?c # rest" ..
  have none: "List.find (\<lambda>s. startsWith s ''arp_session='') (map trim before @ xs) =
      List.find (\<lambda>s. startsWith s ''arp_session='') xs" for xs
    using assms(3) by (induction before) auto
  show ?thesis
    unfolding session_cookie_def assms(4) using sp none assms(2)
    by (simp add: startsWith_def)
qed



text \<open>
  The configuration is checked once and then fixed: after a successful load the required values are
  there, every number is positive, the GitHub integration is on only with a token and a repository, and
  every later load returns the same configuration whatever the environment has become.
\<close>

theorem environment_fixed_once_loaded:
  assumes "loadEnv source None = Inr (env, cached)"
  shows "loadEnv source' cached = Inr (env, cached) \<and> DATABASE_URL env \<noteq> [] \<and> REDIS_URL env \<noteq> [] \<and>
    0 < PORT env \<and> 0 < LEASE_TTL_MS env \<and> 0 < OUTBOX_POLL_MS env \<and> 0 < SSE_HEARTBEAT_MS env \<and>
    (GITHUB_ENABLED env \<longrightarrow> GITHUB_TOKEN env \<noteq> [] \<and> GITHUB_REPO env \<noteq> [])"
proof -
  have pos: "0 < n" if "env_positive k v = Some n" "0 < k" for k v n
    using that by (auto simp: env_positive_def split: option.splits if_splits)
  have name: "s \<noteq> []" if "env_name v = Some s" for v s
    using that by (auto simp: env_name_def split: option.splits if_splits)
  from assms have e: "EnvSchema source = Some env" "cached = Some env" "GITHUB_ENABLED env \<longrightarrow> missing_github env = []"
    by (auto simp: loadEnv_def split: option.splits if_splits)
  then show ?thesis
    by (auto simp: EnvSchema_def bind_eq_Some_conv loadEnv_def missing_github_def dest: pos name split: if_splits)
qed

definition ex_env :: "string \<Rightarrow> string option" where
  "ex_env = (\<lambda>_. None)(''DATABASE_URL'' := Some ''postgres'', ''REDIS_URL'' := Some ''redis'', ''PORT'' := Some '' 3e3 '')"

theorem environment_fixed_once_loaded_witness:
  "(case loadEnv ex_env None of Inl _ \<Rightarrow> False
    | Inr (env, cached) \<Rightarrow> loadEnv (\<lambda>_. None) cached = Inr (env, cached) \<and> PORT env = 3000)"
proof -
  have "case loadEnv ex_env None of Inl _ \<Rightarrow> False | Inr (env, _) \<Rightarrow> PORT env = 3000" by code_simp
  then obtain env cached where l: "loadEnv ex_env None = Inr (env, cached)" and p: "PORT env = 3000"
    by (auto split: sum.splits)
  from environment_fixed_once_loaded [OF l, of "\<lambda>_. None"] l p show ?thesis by simp
qed

end
