(* ===== verification/Registration.thy ===== *)
theory Registration
  imports Access Drafts "HOL-Library.AList"
begin

text \<open>
  What tasks can be created for: the fixtures loaded from the fixture repository
  (modules/fixture/fixture-registry.ts) and the registered GitHub repositories
  (modules/repository/repository.service.ts).
\<close>

section \<open>Fixtures\<close>

text \<open>A task.yaml, and what the registry finds in the tasks directory: for every name in it, no
  task.yaml, one that does not parse, or a parsed one.\<close>

record TaskYaml =
  ty_id :: string
  ty_title :: string
  ty_category :: string
  ty_language :: string
  ty_workdir :: string
  ty_base_ref :: string
  ty_description :: string
  ty_allowed_paths :: "string list"
  ty_setup :: "string list"
  ty_static_check :: "string list option"
  ty_fail_to_pass :: "string list option"
  ty_pass_to_pass :: "string list option"
  ty_gold_patch :: string
  ty_acceptance_criteria :: "string list option"
  ty_repo_path :: "string option"
  ty_test_patch :: "string option"

datatype task_file = NoYaml | Unparsable | Parsed TaskYaml

text \<open>\<open>s.replace(/^~/, homedir())\<close>\<close>

definition expand_home :: "string \<Rightarrow> string \<Rightarrow> string" where
  "expand_home home s = (case s of c # r \<Rightarrow> if c = CHR ''~'' then home @ r else s | [] \<Rightarrow> [])"

definition strings_or_none :: "string list option \<Rightarrow> string list" where
  "strings_or_none x = (case x of None \<Rightarrow> [] | Some ss \<Rightarrow> ss)"

definition fixture_of_yaml :: "string \<Rightarrow> string \<Rightarrow> TaskYaml \<Rightarrow> FixtureDefinition" where
  "fixture_of_yaml home repoPath raw =
     \<lparr> fx_id = ty_id raw, fx_title = ty_title raw, fx_category = ty_category raw,
       fx_repoPath = (if truthy (ty_repo_path raw) then expand_home home (the (ty_repo_path raw)) else repoPath),
       fx_baseCommit = ty_base_ref raw, fx_goldPatch = ty_gold_patch raw,
       fx_acceptanceCriteria = strings_or_none (ty_acceptance_criteria raw),
       fx_taskSpec = \<lparr> ts_fixtureId = Some (ty_id raw), ts_description = ty_description raw,
         ts_workdir = ty_workdir raw, ts_allowedPaths = ty_allowed_paths raw,
         ts_staticCheck = strings_or_none (ty_static_check raw),
         ts_failToPass = strings_or_none (ty_fail_to_pass raw),
         ts_passToPass = strings_or_none (ty_pass_to_pass raw),
         ts_acceptanceCriteria = strings_or_none (ty_acceptance_criteria raw),
         ts_testPatch = present (ty_test_patch raw) \<rparr> \<rparr>"

text \<open>A JavaScript \<open>Map\<close>: a key that is set again keeps its place.  \<open>None\<close> is a missing tasks directory.\<close>

definition load_fixtures ::
  "string \<Rightarrow> string \<Rightarrow> (string \<times> task_file) list option \<Rightarrow> (string \<times> FixtureDefinition) list"
where
  "load_fixtures home repoPath dir =
     (let start = [(''fake'', fake_fixture)] in
      case dir of
        None \<Rightarrow> start
      | Some entries \<Rightarrow> foldl (\<lambda>m entry. case snd entry of
            Parsed raw \<Rightarrow> AList.update (ty_id raw) (fixture_of_yaml home repoPath raw) m
          | _ \<Rightarrow> m) start entries)"

text \<open>The cache: the directory is read once.\<close>

definition registry_load ::
  "string \<Rightarrow> string \<Rightarrow> (string \<times> task_file) list option \<Rightarrow> (string \<times> FixtureDefinition) list option \<Rightarrow>
   (string \<times> FixtureDefinition) list \<times> (string \<times> FixtureDefinition) list option"
where
  "registry_load home fixtureRepoPath dir cache =
     (case cache of Some m \<Rightarrow> (m, cache)
      | None \<Rightarrow> (let m = load_fixtures home (expand_home home fixtureRepoPath) dir in (m, Some m)))"

definition registry_get :: "(string \<times> FixtureDefinition) list \<Rightarrow> string \<Rightarrow> err + FixtureDefinition" where
  "registry_get m fixtureId = (case map_of m fixtureId of None \<Rightarrow> Inl (NotFound ''unknown fixture'') | Some def \<Rightarrow> Inr def)"

definition registry_list :: "(string \<times> FixtureDefinition) list \<Rightarrow> FixtureDefinition list" where
  "registry_list m = map snd m"

record FixtureView =
  fv_id :: string
  fv_title :: string
  fv_category :: string
  fv_description :: string

definition fixtures_route :: "(string \<times> FixtureDefinition) list \<Rightarrow> FixtureView list" where
  "fixtures_route m = map (\<lambda>f. \<lparr> fv_id = fx_id f, fv_title = fx_title f, fv_category = fx_category f,
     fv_description = ts_description (fx_taskSpec f) \<rparr>) (registry_list m)"

text \<open>The definitions that were loaded, in the order of the directory: the \<open>c_fixtures\<close> of a call.\<close>

definition loaded_fixtures :: "string \<Rightarrow> string \<Rightarrow> (string \<times> task_file) list option \<Rightarrow> FixtureDefinition list" where
  "loaded_fixtures home repoPath dir =
     concat (map (\<lambda>entry. case snd entry of Parsed raw \<Rightarrow> [fixture_of_yaml home repoPath raw] | _ \<Rightarrow> [])
       (case dir of None \<Rightarrow> [] | Some entries \<Rightarrow> entries))"

lemma map_of_load:
  "map_of (foldl (\<lambda>m entry. case snd entry of
        Parsed raw \<Rightarrow> AList.update (ty_id raw) (fixture_of_yaml home repoPath raw) m | _ \<Rightarrow> m) m entries) k =
   (case find_row fx_id k (rev (concat (map (\<lambda>entry. case snd entry of
        Parsed raw \<Rightarrow> [fixture_of_yaml home repoPath raw] | _ \<Rightarrow> []) entries))) of
      None \<Rightarrow> map_of m k | Some f \<Rightarrow> Some f)"
proof (induction entries arbitrary: m)
  case (Cons entry entries)
  then show ?case
    by (cases "snd entry") (auto simp: AList.update_conv' fixture_of_yaml_def split: option.splits)
qed simp

section \<open>Repositories\<close>

record RepositoryInput =
  rp_name :: string
  rp_repoPath :: string
  rp_repoUrl :: string
  rp_defaultBranch :: "string option"
  rp_readCredential :: "string option"
  rp_writeCredential :: "string option"
  rp_config :: RepositoryConfig

definition github_reference :: "string option \<Rightarrow> bool" where
  "github_reference ref = (case ref of None \<Rightarrow> True
     | Some r \<Rightarrow> (case strip ''github-'' r of None \<Rightarrow> False | Some u \<Rightarrow> uuid_like u))"

text \<open>\<open>/^https:\/\/github\.com\/[\w.-]+\/[\w.-]+(?:\.git)?$/\<close>: the ending is a special case of the name.\<close>

definition repo_url_ok :: "string \<Rightarrow> bool" where
  "repo_url_ok url \<longleftrightarrow> repo_name_ok (strip ''https://github.com/'' url)"

text \<open>The parsed input: the default branch is filled in and the configuration parsed.\<close>

definition RepositoryInputSchema :: "RepositoryInput \<Rightarrow> RepositoryInput option" where
  "RepositoryInputSchema raw =
     (let branch = (case rp_defaultBranch raw of None \<Rightarrow> ''main'' | Some b \<Rightarrow> b) in
      if 1 \<le> length (rp_name raw) \<and> length (rp_name raw) \<le> 200 \<and> rp_repoPath raw \<noteq> [] \<and>
         repo_url_ok (rp_repoUrl raw) \<and> branch \<noteq> [] \<and> github_reference (rp_readCredential raw) \<and>
         github_reference (rp_writeCredential raw)
      then map_option (\<lambda>cfg. raw\<lparr> rp_defaultBranch := Some branch, rp_config := cfg \<rparr>)
        (RepositoryConfigSchema (rp_config raw))
      else None)"

text \<open>
  The path of a parsed URL has its dot segments removed: \<open>.\<close> is dropped and \<open>..\<close> takes its predecessor
  away, and either leaves an empty segment when it is the last.
\<close>

fun path_segments :: "string list \<Rightarrow> string list \<Rightarrow> string list" where
  "path_segments acc [] = acc"
| "path_segments acc (s # rest) =
     (if s = ''..'' then (if rest = [] then butlast acc @ [[]] else path_segments (butlast acc) rest)
      else if s = ''.'' then (if rest = [] then acc @ [[]] else path_segments acc rest)
      else path_segments (acc @ [s]) rest)"

definition url_pathname :: "string \<Rightarrow> string" where
  "url_pathname url = (case strip ''https://github.com'' url of
     Some (_ # path) \<Rightarrow> CHR ''/'' # join_with CHR ''/'' (path_segments [] (split_on CHR ''/'' path))
   | _ \<Rightarrow> ''/'')"

text \<open>\<open>.replace(/\.git$/, '')\<close>\<close>

definition without_git :: "string \<Rightarrow> string" where
  "without_git s = (case strip (rev ''.git'') (rev s) of None \<Rightarrow> s | Some r \<Rightarrow> rev r)"

definition github_repo :: "string \<Rightarrow> string" where
  "github_repo url = without_git (drop 1 (url_pathname url))"

text \<open>\<open>realpath\<close> gives the real path and whether it is a directory.\<close>

definition create_repository_tx :: "ctx \<Rightarrow> string \<Rightarrow> RepositoryInput \<Rightarrow> (db, Project) tx" where
  "create_repository_tx c repoPath input =
     and_then (tx_read workspaces) (\<lambda>ws.
     and_then (case ws of w # _ \<Rightarrow> tx_return w
       | [] \<Rightarrow> create_row workspaces workspaces_update ws_id \<lparr> ws_id = c_cuid c 0, ws_name = ''Local'' \<rparr>) (\<lambda>workspace.
     and_then (create_row projects projects_update prj_id
       \<lparr> prj_id = c_cuid c 1, prj_workspaceId = ws_id workspace, prj_name = rp_name input, prj_repoPath = repoPath,
         prj_githubRepo = Some (github_repo (rp_repoUrl input)), prj_defaultBranch = the (rp_defaultBranch input),
         prj_repoUrl = Some (rp_repoUrl input), prj_readCredential = rp_readCredential input,
         prj_writeCredential = rp_writeCredential input \<rparr>) (\<lambda>project.
     and_then (tx_modify (configs_update (\<lambda>rows. rows @
       [\<lparr> rcv_projectId = prj_id project, rcv_version = 1, rcv_config = rp_config input \<rparr>]))) (\<lambda>_.
     tx_return project))))"

definition create_repository ::
  "ctx \<Rightarrow> (string \<Rightarrow> err + string \<times> bool) \<Rightarrow> RepositoryInput \<Rightarrow> (db, Project) tx"
where
  "create_repository c realpath raw =
     and_then (tx_some (RepositoryInputSchema raw) (BadRequest ''repository'')) (\<lambda>input.
     and_then (tx_lift (realpath (rp_repoPath input))) (\<lambda>(repoPath, isDirectory).
     and_then (tx_check isDirectory (BadRequest ''Repository path is not a directory'')) (\<lambda>_.
     and_then (tx_lift (git_resolve c repoPath (the (rp_defaultBranch input)))) (\<lambda>_.
     create_repository_tx c repoPath input))))"

text \<open>Projects have no time but the order in which they were stored; each is shown with its latest configuration.\<close>

definition list_repositories :: "db \<Rightarrow> (Project \<times> RepositoryConfigVersion list) list" where
  "list_repositories d = map (\<lambda>p. (p, case latest_by (\<lambda>v. int (rcv_version v)) (configs_of (prj_id p) d) of None \<Rightarrow> [] | Some v \<Rightarrow> [v]))
     (rev (filter (\<lambda>p. prj_repoUrl p \<noteq> None) (projects d)))"

definition get_repository :: "string \<Rightarrow> (db, Project \<times> RepositoryConfigVersion list) tx" where
  "get_repository rid =
     and_then (repository_get rid) (\<lambda>p. tx_read (\<lambda>d. (p, rev (sort_key rcv_version (configs_of rid d)))))"

section \<open>Properties\<close>

text \<open>
  C37. The registry serves what the task files say: looking a fixture up finds the last file that declares
  the id (the built-in fixture only if no file does), the same one that task creation and command building
  use; the list shows every id once, and the built-in fixture is always there.
\<close>

theorem fixture_lookup_agrees:
  assumes "c_fixtures c = loaded_fixtures home (expand_home home repo) dir"
    and "fst (registry_load home repo dir None) = m"
  shows "registry_get m fixtureId = fixture_get c fixtureId \<and>
    distinct (map fst m) \<and> (\<exists>f. registry_get m ''fake'' = Inr f) \<and>
    fst (registry_load home repo dir' (snd (registry_load home repo dir None))) = m"
proof -
  let ?update = "\<lambda>m entry. case snd entry of
    Parsed raw \<Rightarrow> AList.update (ty_id raw) (fixture_of_yaml home (expand_home home repo) raw) m | _ \<Rightarrow> m"
  let ?entries = "case dir of None \<Rightarrow> [] | Some entries \<Rightarrow> entries"
  have m: "m = foldl ?update [(''fake'', fake_fixture)] ?entries"
    using assms(2) by (auto simp: registry_load_def load_fixtures_def Let_def split: option.splits)
  have get: "map_of m k = find_row fx_id k (fixture_load (c_fixtures c))" for k
    unfolding m map_of_load
    by (simp add: fixture_load_def assms(1) loaded_fixtures_def fake_fixture_def split: option.splits)
  have dist: "distinct (map fst (foldl ?update m0 es))" if "distinct (map fst m0)" for m0 es
    using that
  proof (induction es arbitrary: m0)
    case (Cons e es)
    then show ?case by (cases "snd e") (simp_all add: distinct_update)
  qed simp
  have "distinct (map fst m)" unfolding m by (rule dist) simp
  moreover have "map_of m ''fake'' \<noteq> None"
  proof -
    have "find_row fx_id ''fake'' [fake_fixture] = Some fake_fixture" by code_simp
    then show ?thesis unfolding get fixture_load_def by (simp split: option.splits)
  qed
  ultimately show ?thesis
    using get assms(2) by (auto simp: registry_get_def fixture_get_def registry_load_def Let_def split: option.splits)
qed

definition ex_yaml :: TaskYaml where
  "ex_yaml = \<lparr> ty_id = ''bug-1'', ty_title = ''bug'', ty_category = ''logic'', ty_language = ''python'', ty_workdir = ''.'',
     ty_base_ref = ''v1'', ty_description = ''fix'', ty_allowed_paths = [''src''], ty_setup = [], ty_static_check = None,
     ty_fail_to_pass = Some [''pytest''], ty_pass_to_pass = None, ty_gold_patch = [], ty_acceptance_criteria = None,
     ty_repo_path = Some ''~/repo'', ty_test_patch = None \<rparr>"

lemma split_two:
  assumes "CHR ''/'' \<notin> set owner" and "CHR ''/'' \<notin> set name"
  shows "split_on CHR ''/'' (owner @ CHR ''/'' # name) = [owner, name]"
  using assms by (simp add: split_on_append split_on_single)

lemma name_part_slash: "name_part s \<Longrightarrow> CHR ''/'' \<notin> set s"
  by (auto simp: name_part_def list_all_iff word_char_def)

lemma without_git_append: "without_git (s @ ''.git'') = s"
  by (simp add: without_git_def)

lemma without_git_keep:
  assumes "without_git name = name"
  shows "without_git (owner @ CHR ''/'' # name) = owner @ CHR ''/'' # name"
proof (cases "strip (rev ''.git'') (rev (owner @ CHR ''/'' # name))")
  case None
  then show ?thesis by (simp add: without_git_def)
next
  case (Some r)
  have no: "rev name \<noteq> rev ''.git'' @ us" for us
  proof
    assume e: "rev name = rev ''.git'' @ us"
    then have "rev us = name" using assms by (simp add: without_git_def)
    then show False using arg_cong [OF e, of length] by auto
  qed
  from Some have e: "rev name @ CHR ''/'' # rev owner = rev ''.git'' @ r" by (simp add: strip_Some)
  from e [unfolded append_eq_append_conv2] consider us where "rev name = rev ''.git'' @ us" | us where "rev name @ us = rev ''.git''" "CHR ''/'' # rev owner = us @ r"
    by blast
  then show ?thesis
  proof cases
    case (1 us)
    with no show ?thesis by blast
  next
    case (2 us)
    have "CHR ''/'' \<notin> set (rev ''.git'')" by simp
    then have "CHR ''/'' \<notin> set us" unfolding 2(1) [symmetric] by simp
    with 2(2) have "us = []" by (cases us) auto
    with 2(1) no [of "[]"] show ?thesis by simp
  qed
qed

text \<open>
  A registered repository can be fetched: the name that registration derives from a GitHub link, with or
  without the ending \<open>.git\<close>, is exactly owner and name, and passes the check that fetching a commit
  makes before it contacts GitHub.  (The names \<open>.\<close> and \<open>..\<close>, which GitHub does not allow, are the exception.)
\<close>

theorem registered_name_is_fetchable:
  assumes "create_repository c realpath raw d = Inr (project, d')"
    and "rp_repoUrl raw = ''https://github.com/'' @ owner @ ''/'' @ name @ ending" and "ending \<in> {[], ''.git''}"
    and "name_part owner" and "name_part name" and "{owner, name} \<inter> {''.'', ''..''} = {}"
    and "ending = [] \<longrightarrow> without_git name = name"
  shows "prj_githubRepo project = Some (owner @ ''/'' @ name) \<and> repo_name_ok (prj_githubRepo project) \<and>
    find_row prj_id (prj_id project) (projects d') = Some project \<and>
    (\<exists>v \<in> set (configs_of (prj_id project) d'). rcv_version v = 1 \<and> RepositoryConfigSchema (rp_config raw) = Some (rcv_config v))"
proof -
  from assms(1) obtain input repoPath where input: "RepositoryInputSchema raw = Some input"
      and cr: "create_repository_tx c repoPath input d = Inr (project, d')"
    by (auto simp: create_repository_def tx_iff)
  have url: "rp_repoUrl input = rp_repoUrl raw" and cfg: "RepositoryConfigSchema (rp_config raw) = Some (rp_config input)"
    using input by (auto simp: RepositoryInputSchema_def Let_def split: if_splits)
  have tail: "name @ ending \<notin> {''.'', ''..''}" "CHR ''/'' \<notin> set (name @ ending)" "CHR ''/'' \<notin> set owner"
    using assms(3,5,6) name_part_slash [OF assms(4)] name_part_slash [OF assms(5)]
    by (auto simp: name_part_def append_eq_Cons_conv)
  have "path_segments [] [owner, name @ ending] = [owner, name @ ending]"
  proof -
    have "owner \<noteq> ''.''" "owner \<noteq> ''..''" using assms(6) by blast+
    with tail(1) show ?thesis by simp
  qed
  then have path: "url_pathname (rp_repoUrl raw) = ''/'' @ owner @ ''/'' @ name @ ending"
    using split_two [OF tail(3,2)] by (simp add: url_pathname_def assms(2))
  have "without_git (owner @ ''/'' @ name @ ending) = owner @ ''/'' @ name"
  proof (cases "ending = []")
    case True
    then show ?thesis using without_git_keep assms(7) by simp
  next
    case False
    then show ?thesis using assms(3) without_git_append [of "owner @ ''/'' @ name"] by simp
  qed
  then have repo: "github_repo (rp_repoUrl raw) = owner @ ''/'' @ name"
    by (simp add: github_repo_def path)
  have p: "prj_githubRepo project = Some (owner @ ''/'' @ name)"
    using cr url repo by (auto simp: create_repository_tx_def tx_iff split: list.splits)
  have ok: "repo_name_ok (Some (owner @ ''/'' @ name))"
    using assms(4,5) split_two [of owner name] name_part_slash by (simp add: repo_name_ok_def)
  show ?thesis
    using cr cfg p ok
    by (auto simp: create_repository_tx_def tx_iff configs_of_def split: list.splits)
qed

end
