(* ===== verification/Consumer.thy ===== *)
theory Consumer
  imports Ingest
begin

text \<open>
  The loop that keeps events flowing (modules/events/trace-event-ingestor.ts): the consumer group of the
  trace stream with its errors, redeliveries and acknowledgements. No entry is lost, what is broadcast is
  what was stored, and recovered events are stored.
\<close>

section \<open>The consumer group\<close>

text \<open>
  Redis is a parameter: a state \<open>'s\<close> and the four commands of the group on it. A command answers with the
  text of its error or with its result; \<open>rg_autoclaim\<close> takes the idle time and the count,
  \<open>rg_readgroup\<close> the count and the time to block, and the empty list is its \<open>null\<close>.
\<close>

type_synonym entries = "(string \<times> stream_entry) list"

record 's redis_group =
  rg_create :: "'s \<Rightarrow> string option \<times> 's"
  rg_autoclaim :: "nat \<Rightarrow> nat \<Rightarrow> 's \<Rightarrow> (string + entries) \<times> 's"
  rg_readgroup :: "nat \<Rightarrow> nat \<Rightarrow> 's \<Rightarrow> (string + entries) \<times> 's"
  rg_ack :: "string \<Rightarrow> 's \<Rightarrow> string option \<times> 's"

text \<open>\<open>Some\<close> error is thrown; an existing group is no error.\<close>

definition ensureGroup :: "'s redis_group \<Rightarrow> 's \<Rightarrow> string option \<times> 's" where
  "ensureGroup rg s =
     (case rg_create rg s of
        (Some e, s') \<Rightarrow> (if str_includes e ''BUSYGROUP'' then None else Some e, s')
      | (None, s') \<Rightarrow> (None, s'))"

text \<open>The consumer: Redis, the database, and the events broadcast so far.\<close>

record 's consumer =
  co_redis :: 's
  co_db :: db
  co_published :: "StoredEvent list"

text \<open>
  \<open>handleEntry\<close> catches every error of its body, the acknowledgement's too; only the acknowledgement inside
  the handler of the unique violation throws.
\<close>

definition violates :: "ctx \<Rightarrow> stream_entry \<Rightarrow> db \<Rightarrow> bool" where
  "violates c entry d =
     (case entry of
        Shaped e \<Rightarrow> TraceEventSchema e \<and> \<not> event_known (tev_idempotencyKey e) d \<and>
          (case ingest_tx c e d of Inl (UniqueViolation _) \<Rightarrow> True | _ \<Rightarrow> False)
      | _ \<Rightarrow> False)"

definition deliver :: "'s redis_group \<Rightarrow> ctx \<Rightarrow> string \<times> stream_entry \<Rightarrow> 's consumer \<Rightarrow> string option \<times> 's consumer" where
  "deliver rg c entry st =
     (case handleEntry c (snd entry) (co_db st) of (res, d') \<Rightarrow>
        let st' = st\<lparr> co_db := d', co_published := co_published st @ er_published res \<rparr> in
        if er_acked res then
          (case rg_ack rg (fst entry) (co_redis st) of (thrown, s') \<Rightarrow>
             (if violates c (snd entry) (co_db st) then thrown else None, st'\<lparr> co_redis := s' \<rparr>))
        else (None, st'))"

fun deliver_all :: "'s redis_group \<Rightarrow> ctx \<Rightarrow> entries \<Rightarrow> 's consumer \<Rightarrow> string option \<times> 's consumer" where
  "deliver_all rg c [] st = (None, st)"
| "deliver_all rg c (entry # es) st =
     (case deliver rg c entry st of
        (Some e, st') \<Rightarrow> (Some e, st')
      | (None, st') \<Rightarrow> deliver_all rg c es st')"

text \<open>One pass of the loop, up to the error that ends it.\<close>

definition consume_round :: "'s redis_group \<Rightarrow> ctx \<Rightarrow> 's consumer \<Rightarrow> string option \<times> 's consumer" where
  "consume_round rg c st =
     (case rg_autoclaim rg 30000 50 (co_redis st) of
        (Inl e, s) \<Rightarrow> (Some e, st\<lparr> co_redis := s \<rparr>)
      | (Inr recovered, s) \<Rightarrow>
          (case deliver_all rg c recovered (st\<lparr> co_redis := s \<rparr>) of
             (Some e, st') \<Rightarrow> (Some e, st')
           | (None, st') \<Rightarrow>
               (case rg_readgroup rg 50 2000 (co_redis st') of
                  (Inl e, s') \<Rightarrow> (Some e, st'\<lparr> co_redis := s' \<rparr>)
                | (Inr new, s') \<Rightarrow> deliver_all rg c new (st'\<lparr> co_redis := s' \<rparr>))))"

text \<open>After an error the group may have to be created again; an error of that is dropped.\<close>

definition after_error :: "'s redis_group \<Rightarrow> string \<Rightarrow> 's consumer \<Rightarrow> 's consumer" where
  "after_error rg e st =
     (if str_includes e ''NOGROUP'' then st\<lparr> co_redis := snd (ensureGroup rg (co_redis st)) \<rparr> else st)"

text \<open>
  The loop, as long as the list says: each pass reads the flag \<open>stopped\<close> at its start and, after an
  error, once more.
\<close>

fun consumeLoop :: "'s redis_group \<Rightarrow> ctx \<Rightarrow> (bool \<times> bool) list \<Rightarrow> 's consumer \<Rightarrow> 's consumer" where
  "consumeLoop rg c [] st = st"
| "consumeLoop rg c ((stopped, stopped_then) # ticks) st =
     (if stopped then st
      else case consume_round rg c st of
          (None, st') \<Rightarrow> consumeLoop rg c ticks st'
        | (Some e, st') \<Rightarrow> if stopped_then then st' else consumeLoop rg c ticks (after_error rg e st'))"

text \<open>The start of the module: nothing under test; an error of the group keeps the process from starting.\<close>

definition start_consumer ::
  "'s redis_group \<Rightarrow> ctx \<Rightarrow> bool \<Rightarrow> (bool \<times> bool) list \<Rightarrow> 's consumer \<Rightarrow> string option \<times> 's consumer" where
  "start_consumer rg c under_test ticks st =
     (if under_test then (None, st)
      else case ensureGroup rg (co_redis st) of
          (Some e, s) \<Rightarrow> (Some e, st\<lparr> co_redis := s \<rparr>)
        | (None, s) \<Rightarrow> (None, consumeLoop rg c ticks (st\<lparr> co_redis := s \<rparr>)))"

section \<open>Invariants of the loop\<close>

text \<open>
  What has to be shown of a property of the consumer for it to hold throughout the loop: each of Redis's
  answers keeps it and hands over good entries, and so does the handling of a good entry.
\<close>

locale loop_invariant =
  fixes rg :: "'s redis_group" and c :: ctx and P :: "'s consumer \<Rightarrow> bool" and good :: "string \<times> stream_entry \<Rightarrow> bool"
  assumes claimed: "P st \<Longrightarrow> rg_autoclaim rg idle n (co_redis st) = (r, s) \<Longrightarrow>
      P (st\<lparr> co_redis := s \<rparr>) \<and> (\<forall>es. r = Inr es \<longrightarrow> list_all good es)"
    and read: "P st \<Longrightarrow> rg_readgroup rg n block (co_redis st) = (r, s) \<Longrightarrow>
      P (st\<lparr> co_redis := s \<rparr>) \<and> (\<forall>es. r = Inr es \<longrightarrow> list_all good es)"
    and created: "P st \<Longrightarrow> P (st\<lparr> co_redis := snd (rg_create rg (co_redis st)) \<rparr>)"
    and delivered: "P st \<Longrightarrow> good entry \<Longrightarrow> P (snd (deliver rg c entry st))"
begin

lemma all: "\<lbrakk>P st; list_all good es\<rbrakk> \<Longrightarrow> P (snd (deliver_all rg c es st))"
proof (induction es arbitrary: st)
  case (Cons x es)
  obtain t st' where d: "deliver rg c x st = (t, st')" by fastforce
  with delivered [of st x] Cons show ?case by (cases t) simp_all
qed simp

lemma round:
  assumes "P st"
  shows "P (snd (consume_round rg c st))"
proof -
  obtain r s where claim: "rg_autoclaim rg 30000 50 (co_redis st) = (r, s)" by fastforce
  note h = claimed [OF assms claim]
  show ?thesis
  proof (cases r)
    case (Inl e)
    with claim h show ?thesis by (simp add: consume_round_def)
  next
    case (Inr recovered)
    obtain t st' where d: "deliver_all rg c recovered (st\<lparr> co_redis := s \<rparr>) = (t, st')" by fastforce
    have h': "P st'" using all [of "st\<lparr> co_redis := s \<rparr>" recovered] h Inr d by simp
    obtain r' s' where new: "rg_readgroup rg 50 2000 (co_redis st') = (r', s')" by fastforce
    show ?thesis
      using claim Inr d h' new read [OF h' new] all by (cases t; cases r') (simp_all add: consume_round_def)
  qed
qed

lemma recovers: "P st \<Longrightarrow> P (after_error rg e st)"
  using created [of st]
  by (cases "rg_create rg (co_redis st)") (auto simp: after_error_def ensureGroup_def split: option.splits)

lemma loop: "P st \<Longrightarrow> P (consumeLoop rg c ticks st)"
proof (induction ticks arbitrary: st)
  case (Cons tick ticks)
  obtain stopped stopped_then where t: "tick = (stopped, stopped_then)" by fastforce
  obtain e st' where r: "consume_round rg c st = (e, st')" by fastforce
  have "P st'" using round [OF Cons.prems] r by simp
  with Cons recovers t r show ?case by (cases e) simp_all
qed simp

end

section \<open>What the group guarantees\<close>

text \<open>
  The documented behaviour of a consumer group whose stream is not trimmed: \<open>pend s\<close> are the entries
  delivered and not acknowledged, \<open>field\<close> what the entries hold. Nothing leaves \<open>pend\<close> but by its
  acknowledgement, and an entry reads the same at each delivery.
\<close>

definition group_law :: "'s redis_group \<Rightarrow> ('s \<Rightarrow> string set) \<Rightarrow> (string \<Rightarrow> stream_entry) \<Rightarrow> bool" where
  "group_law rg pend field \<longleftrightarrow>
     (\<forall>s. pend s \<subseteq> pend (snd (rg_create rg s))) \<and>
     (\<forall>idle n s. pend s \<subseteq> pend (snd (rg_autoclaim rg idle n s))) \<and>
     (\<forall>n block s. pend s \<subseteq> pend (snd (rg_readgroup rg n block s))) \<and>
     (\<forall>k s. pend s - {k} \<subseteq> pend (snd (rg_ack rg k s))) \<and>
     (\<forall>idle n s es. fst (rg_autoclaim rg idle n s) = Inr es \<longrightarrow> (\<forall>x \<in> set es. snd x = field (fst x))) \<and>
     (\<forall>n block s es. fst (rg_readgroup rg n block s) = Inr es \<longrightarrow> (\<forall>x \<in> set es. snd x = field (fst x)))"

lemma group_grows:
  assumes "group_law rg pend field"
  shows "pend s \<subseteq> pend (snd (rg_create rg s))" and "pend s \<subseteq> pend (snd (rg_autoclaim rg idle n s))"
    and "pend s \<subseteq> pend (snd (rg_readgroup rg m block s))" and "pend s - {k} \<subseteq> pend (snd (rg_ack rg k s))"
  using assms unfolding group_law_def by (elim conjE; simp)+

lemma group_reads:
  assumes "group_law rg pend field"
  shows "fst (rg_autoclaim rg idle n s) = Inr es \<Longrightarrow> \<forall>x \<in> set es. snd x = field (fst x)"
    and "fst (rg_readgroup rg m block s) = Inr es \<Longrightarrow> \<forall>x \<in> set es. snd x = field (fst x)"
  using assms unfolding group_law_def by (elim conjE; simp)+

text \<open>An entry is settled when its event is stored, or when it is no event at all.\<close>

definition settled :: "stream_entry \<Rightarrow> db \<Rightarrow> bool" where
  "settled entry d =
     (case entry of
        NotJson \<Rightarrow> False
      | Misshapen \<Rightarrow> True
      | Shaped e \<Rightarrow> TraceEventSchema e \<longrightarrow> event_known (tev_idempotencyKey e) d)"

lemma ingest_keys: "ingest_tx c e d = Inr (stored, d') \<Longrightarrow> keys_of d' = keys_of d @ [tev_idempotencyKey e]"
  by (auto simp: ingest_tx_def store_next_event_def tx_iff keys_of_def stored_event_def)

text \<open>In a well-formed database the only unique constraint an event can violate is that of its key.\<close>

lemma ingest_violation:
  assumes wf: "wf_db d" and v: "ingest_tx c e d = Inl (UniqueViolation k)"
  shows "event_known (tev_idempotencyKey e) d"
proof (rule ccontr)
  assume new: "\<not> event_known (tev_idempotencyKey e) d"
  have "\<not> addressed e d"
    using ingest_fresh [OF wf _ new [unfolded event_known_iff], of c] v by auto
  then consider "find_run (tev_runId e) d = None"
    | run where "find_run (tev_runId e) d = Some run" and "find_attempt (tev_attemptId e) d = None"
    by (auto simp: addressed_def)
  then show False
  proof cases
    case 1
    then show ?thesis using v
      by (simp add: ingest_tx_def store_next_event_def run_update_def update_unique_def and_then_def
          find_or_throw_def find_unique_def tx_read_def tx_some_def tx_throw_def)
  next
    case (2 run)
    let ?d = "d\<lparr> runs := update_rows (\<lambda>r. run_id r = tev_runId e)
      (\<lambda>r. r\<lparr> run_lastSequence := run_lastSequence r + 1, run_updatedAt := c_now c \<rparr>) (runs d) \<rparr>"
    have "run_update c (tev_runId e) (\<lambda>r. r\<lparr> run_lastSequence := run_lastSequence r + 1 \<rparr>) d =
        Inr (run\<lparr> run_lastSequence := run_lastSequence run + 1, run_updatedAt := c_now c \<rparr>, ?d)"
      using 2 by (auto simp: run_update_iff)
    then have t: "traceEvent_create (stored_event e (run_lastSequence run + 1)) ?d = Inl (UniqueViolation k)"
      using v by (simp add: ingest_tx_def store_next_event_def and_then_def)
    have "list_all (\<lambda>f. \<not> (ev_runId f = tev_runId e \<and> ev_runSequence f = Suc (run_lastSequence run))) (traceEvents d)"
      using fresh_sequence [OF wf 2(1)] by (fastforce simp: list_all_iff)
    with t 2 show ?thesis
      by (simp add: traceEvent_create_def and_then_def tx_read_def tx_check_def stored_event_def tx_throw_def
          tx_return_def)
  qed
qed

lemma handleEntry_settles:
  assumes wf: "wf_db d" and h: "handleEntry c entry d = (res, d')"
  shows "wf_db d' \<and> set (keys_of d) \<subseteq> set (keys_of d') \<and> (er_acked res \<longrightarrow> settled entry d')"
proof -
  have "wf_db d'" using wf.R_handleEntry [of d c entry] wf h by (simp add: keeps_wf_def)
  moreover have "set (keys_of d) \<subseteq> set (keys_of d') \<and> (er_acked res \<longrightarrow> settled entry d')"
    using h ingest_violation [OF wf]
    by (auto simp: handleEntry_def handle_parsed_def settled_def acked_def left_pending_def event_known_iff
        dest!: ingest_keys split: stream_entry.splits if_splits sum.splits err.splits)
  ultimately show ?thesis by simp
qed

lemma settled_mono: "\<lbrakk>settled entry d; set (keys_of d) \<subseteq> set (keys_of d')\<rbrakk> \<Longrightarrow> settled entry d'"
  by (auto simp: settled_def event_known_iff split: stream_entry.splits)

text \<open>The invariant of the loop, for each entry of the group.\<close>

definition held :: "('s \<Rightarrow> string set) \<Rightarrow> (string \<Rightarrow> stream_entry) \<Rightarrow> string \<Rightarrow> 's consumer \<Rightarrow> bool" where
  "held pend field k st \<longleftrightarrow> wf_db (co_db st) \<and> (k \<in> pend (co_redis st) \<or> settled (field k) (co_db st))"

lemma held_redis:
  assumes "held pend field k st" and "pend (co_redis st) \<subseteq> pend s"
  shows "held pend field k (st\<lparr> co_redis := s \<rparr>)"
  using assms by (auto simp: held_def)

lemma held_deliver:
  assumes law: "group_law rg pend field" and e: "entry = (i, field i)" and h: "held pend field k st"
  shows "held pend field k (snd (deliver rg c entry st))"
proof -
  obtain res d' where r: "handleEntry c (field i) (co_db st) = (res, d')" by fastforce
  note hs = handleEntry_settles [OF _ r]
  have ack: "pend (co_redis st) - {i} \<subseteq> pend (snd (rg_ack rg i (co_redis st)))"
    by (rule group_grows(4) [OF law])
  have s': "settled (field k) d'" if "settled (field k) (co_db st)"
    using settled_mono [OF that] hs h by (simp add: held_def)
  show ?thesis using h r e hs ack s' unfolding held_def deliver_def Let_def
    by (auto split: prod.splits)
qed

lemma held_loop_invariant:
  assumes law: "group_law rg pend field"
  shows "loop_invariant rg c (held pend field k) (\<lambda>x. snd x = field (fst x))"
proof
  fix st idle n block r s entry
  assume h: "held pend field k st"
  show "held pend field k (st\<lparr> co_redis := s \<rparr>) \<and> (\<forall>es. r = Inr es \<longrightarrow> list_all (\<lambda>x. snd x = field (fst x)) es)"
    if "rg_autoclaim rg idle n (co_redis st) = (r, s)"
    using held_redis [OF h] group_grows(2) [OF law, of "co_redis st" idle n]
      group_reads(1) [OF law, of idle n "co_redis st"] that by (simp add: list_all_iff)
  show "held pend field k (st\<lparr> co_redis := s \<rparr>) \<and> (\<forall>es. r = Inr es \<longrightarrow> list_all (\<lambda>x. snd x = field (fst x)) es)"
    if "rg_readgroup rg n block (co_redis st) = (r, s)"
    using held_redis [OF h] group_grows(3) [OF law, of "co_redis st" n block]
      group_reads(2) [OF law, of n block "co_redis st"] that by (simp add: list_all_iff)
  show "held pend field k (st\<lparr> co_redis := snd (rg_create rg (co_redis st)) \<rparr>)"
    by (rule held_redis [OF h group_grows(1) [OF law]])
  show "held pend field k (snd (deliver rg c entry st))" if "snd entry = field (fst entry)"
    using held_deliver [OF law _ h, of entry "fst entry"] that by (simp add: prod_eq_iff)
qed

text \<open>
  C13. The consumer loses no event: whatever errors Redis answers with, however entries are redelivered
  and wherever the loop stops, an entry that was waiting for its acknowledgement still waits for it,
  or its event is stored in the database, or it is not a valid trace event.
\<close>

theorem consumer_loses_nothing:
  assumes "group_law rg pend field" and "wf_db (co_db st)" and "k \<in> pend (co_redis st)"
  shows "k \<in> pend (co_redis (consumeLoop rg c ticks st)) \<or> settled (field k) (co_db (consumeLoop rg c ticks st))"
  using loop_invariant.loop [OF held_loop_invariant [OF assms(1)], of k st c ticks] assms(2,3)
  by (simp add: held_def)

text \<open>An entry that is not JSON is never settled: it waits for its acknowledgement for ever.\<close>

lemma malformed_entry_stays:
  assumes "group_law rg pend field" and "wf_db (co_db st)" and "k \<in> pend (co_redis st)" and "field k = NotJson"
  shows "k \<in> pend (co_redis (consumeLoop rg c ticks st))"
  using loop_invariant.loop [OF held_loop_invariant [OF assms(1)], of k st c ticks] assms(2-)
  by (simp add: held_def settled_def)

text \<open>What is broadcast is what is stored.\<close>

lemma handleEntry_published:
  "handleEntry c entry d = (res, d') \<Longrightarrow> traceEvents d' = traceEvents d @ er_published res"
  by (auto simp: handleEntry_def handle_parsed_def acked_def left_pending_def ingest_tx_def store_next_event_def tx_iff
      split: stream_entry.splits if_splits sum.splits err.splits)

definition broadcasts :: "'s consumer \<Rightarrow> 's consumer \<Rightarrow> bool" where
  "broadcasts st st' \<longleftrightarrow>
     (\<exists>new. traceEvents (co_db st') = traceEvents (co_db st) @ new \<and> co_published st' = co_published st @ new)"

lemma broadcasts_deliver: "broadcasts st (snd (deliver rg c entry st))"
proof -
  obtain res d' where r: "handleEntry c (snd entry) (co_db st) = (res, d')" by fastforce
  from handleEntry_published [OF r] r show ?thesis
    by (auto simp: deliver_def broadcasts_def Let_def split: prod.splits)
qed

interpretation bc: loop_invariant rg c "broadcasts st" "\<lambda>_. True" for rg c st
proof
  show "broadcasts st (snd (deliver rg c entry st'))" if "broadcasts st st'" for entry st'
    using that broadcasts_deliver [of st' rg c entry] by (auto simp: broadcasts_def)
qed (auto simp: broadcasts_def list_all_iff)

text \<open>
  C15. The bus carries the log: over any run of the consumer, with whatever errors and redeliveries, the
  events broadcast are exactly the events stored, each once, in the order they were stored.
\<close>

theorem bus_carries_the_log:
  "\<exists>new. traceEvents (co_db (consumeLoop rg c ticks st)) = traceEvents (co_db st) @ new \<and>
     co_published (consumeLoop rg c ticks st) = co_published st @ new"
  using bc.loop [of st st rg c ticks] by (simp add: broadcasts_def)

section \<open>Progress\<close>

lemma handleEntry_addressed:
  assumes "handleEntry c entry d = (res, d')" and "addressed e d"
  shows "addressed e d'"
  using assms
  by (auto simp: handleEntry_def handle_parsed_def addressed_def ingest_tx_def store_next_event_def tx_iff
      find_row_update_key split: stream_entry.splits if_splits sum.splits err.splits)

definition acks :: "'s redis_group \<Rightarrow> ('s \<Rightarrow> string set) \<Rightarrow> bool" where
  "acks rg pend \<longleftrightarrow> (\<forall>k s. fst (rg_ack rg k s) = None \<and> pend (snd (rg_ack rg k s)) = pend s - {k})"

lemma deliver_acked:
  assumes a: "acks rg pend" and wf: "wf_db (co_db st)" and d: "deliver rg c x st = (t, st')"
  shows "t = None \<and> wf_db (co_db st') \<and> pend (co_redis st') \<subseteq> pend (co_redis st) \<and>
    set (keys_of (co_db st)) \<subseteq> set (keys_of (co_db st')) \<and>
    (\<forall>e. addressed e (co_db st) \<longrightarrow> addressed e (co_db st'))"
proof -
  obtain res d' where r: "handleEntry c (snd x) (co_db st) = (res, d')" by fastforce
  from handleEntry_settles [OF wf r] handleEntry_addressed [OF r] a d r show ?thesis
    by (auto simp: deliver_def Let_def acks_def split: if_splits prod.splits)
      (metis fst_conv snd_conv Diff_iff)+
qed

lemma deliver_all_acked:
  assumes a: "acks rg pend" and "wf_db (co_db st)"
  shows "\<exists>st'. deliver_all rg c es st = (None, st') \<and> wf_db (co_db st') \<and>
    pend (co_redis st') \<subseteq> pend (co_redis st) \<and> set (keys_of (co_db st)) \<subseteq> set (keys_of (co_db st'))"
  using assms(2)
proof (induction es arbitrary: st)
  case (Cons x es)
  obtain t st' where d: "deliver rg c x st = (t, st')" by fastforce
  note one = deliver_acked [OF a Cons.prems d]
  from Cons.IH [of st'] one obtain st'' where
    "deliver_all rg c es st' = (None, st'')" "wf_db (co_db st'')" "pend (co_redis st'') \<subseteq> pend (co_redis st')"
    "set (keys_of (co_db st')) \<subseteq> set (keys_of (co_db st''))" by blast
  with one d show ?case by auto
qed simp

lemma batch_settles:
  assumes a: "acks rg pend" and "wf_db (co_db st)" and "(k, Shaped e) \<in> set es"
    and ok: "TraceEventSchema e" and "addressed e (co_db st)"
  shows "\<exists>st'. deliver_all rg c es st = (None, st') \<and> wf_db (co_db st') \<and> k \<notin> pend (co_redis st') \<and>
    event_known (tev_idempotencyKey e) (co_db st')"
  using assms(2,3,5)
proof (induction es arbitrary: st)
  case (Cons x es)
  obtain t st' where d: "deliver rg c x st = (t, st')" by fastforce
  note one = deliver_acked [OF a Cons.prems(1) d]
  show ?case
  proof (cases "x = (k, Shaped e)")
    case True
    obtain res d' where r: "handleEntry c (Shaped e) (co_db st) = (res, d')" by fastforce
    have ack: "er_acked res" and known: "event_known (tev_idempotencyKey e) d'"
      using r ok Cons.prems(3) ingest_fresh [OF Cons.prems(1,3), of c]
      by (auto simp: handleEntry_def handle_parsed_def acked_def event_known_iff keys_of_def stored_event_def
          split: if_splits sum.splits)
    have "co_db st' = d'" "k \<notin> pend (co_redis st')"
      using a d r True ack by (auto simp: deliver_def Let_def acks_def split: prod.splits) (metis Diff_iff insertI1 snd_conv)
    moreover from deliver_all_acked [OF a, of st' c es] one obtain st'' where
      "deliver_all rg c es st' = (None, st'')" "wf_db (co_db st'')" "pend (co_redis st'') \<subseteq> pend (co_redis st')"
      "set (keys_of (co_db st')) \<subseteq> set (keys_of (co_db st''))" by blast
    ultimately show ?thesis using d one known by (auto simp: event_known_iff)
  next
    case False
    with Cons.IH [of st'] Cons.prems one d show ?thesis by auto
  qed
qed simp

text \<open>
  C14. Recovered events are stored: when Redis hands over the entries a consumer left unacknowledged and
  accepts acknowledgements, every valid event of a known run and attempt among them is stored by the
  end of the pass, and its entry is acknowledged, whatever the other entries of the batch are.
\<close>

theorem recovered_events_are_stored:
  assumes "acks rg pend" and "wf_db (co_db st)" and "rg_autoclaim rg 30000 50 (co_redis st) = (Inr es, s)"
    and "(k, Shaped e) \<in> set es" and "TraceEventSchema e" and "addressed e (co_db st)"
  shows "event_known (tev_idempotencyKey e) (co_db (snd (consume_round rg c st))) \<and>
    k \<notin> pend (co_redis (snd (deliver_all rg c es (st\<lparr> co_redis := s \<rparr>))))"
proof -
  have "wf_db (co_db (st\<lparr> co_redis := s \<rparr>))" "addressed e (co_db (st\<lparr> co_redis := s \<rparr>))" using assms by simp_all
  from batch_settles [OF assms(1) this(1) assms(4,5) this(2), of c] obtain st' where
    b: "deliver_all rg c es (st\<lparr> co_redis := s \<rparr>) = (None, st')" "wf_db (co_db st')" "k \<notin> pend (co_redis st')"
    "event_known (tev_idempotencyKey e) (co_db st')" by blast
  obtain r s' where n: "rg_readgroup rg 50 2000 (co_redis st') = (r, s')" by fastforce
  have "event_known (tev_idempotencyKey e) (co_db (snd (deliver_all rg c new (st'\<lparr> co_redis := s' \<rparr>))))" for new
    using deliver_all_acked [OF assms(1), of "st'\<lparr> co_redis := s' \<rparr>" c new] b(2,4)
    by (auto simp: event_known_iff)
  with assms(3) b n show ?thesis by (cases r) (simp_all add: consume_round_def)
qed

end
