(* ===== verification/Connection.thy ===== *)
theory Connection
  imports Ingest
begin

text \<open>
  The two ends of a live event stream: the bus of the process that stores events
  (modules/events/run-events.bus.ts) and the connection of a browser that shows a run
  (apps/web/src/lib/use-run-events.ts).
\<close>

section \<open>The bus\<close>

text \<open>The event emitter: its listeners in the order they were added, each with its channel.\<close>

type_synonym 'l bus = "(string \<times> 'l) list"

definition channel :: "string \<Rightarrow> string" where
  "channel runId = ''run:'' @ runId"

text \<open>\<open>emit\<close>: the listeners called, in order, with the event.\<close>

definition publish :: "'l bus \<Rightarrow> StoredEvent \<Rightarrow> ('l \<times> StoredEvent) list" where
  "publish bus event = map (\<lambda>x. (snd x, event)) (filter (\<lambda>x. fst x = channel (ev_runId event)) bus)"

definition subscribe :: "'l bus \<Rightarrow> string \<Rightarrow> 'l \<Rightarrow> 'l bus" where
  "subscribe bus runId listener = bus @ [(channel runId, listener)]"

text \<open>\<open>off\<close> removes the most recently added registration of the listener, if there is one.\<close>

definition unsubscribe :: "'l bus \<Rightarrow> string \<Rightarrow> 'l \<Rightarrow> 'l bus" where
  "unsubscribe bus runId listener = rev (remove1 (channel runId, listener) (rev bus))"

lemma unsubscribe_subscribe: "unsubscribe (subscribe bus runId l) runId l = bus"
  by (simp add: unsubscribe_def subscribe_def)

lemma publish_subscribed:
  "publish (subscribe bus runId l) e = publish bus e @ (if ev_runId e = runId then [(l, e)] else [])"
  by (auto simp: publish_def subscribe_def channel_def)

section \<open>The connection of a browser\<close>

text \<open>
  The references of the hook, the cached logs by run, and the runs whose query was invalidated. The
  effect of opening gives the URL the \<open>EventSource\<close> is created with.
\<close>

record browser =
  br_failures :: nat
  br_disconnected :: bool
  br_nonce :: nat
  br_lastSequence :: nat
  br_previousRun :: string
  br_cache :: "string \<Rightarrow> StoredEvent list option"
  br_stale :: "string list"

definition opened :: "string \<Rightarrow> browser" where
  "opened runId = \<lparr> br_failures = 0, br_disconnected = False, br_nonce = 0, br_lastSequence = 0,
     br_previousRun = runId, br_cache = (\<lambda>_. None), br_stale = [] \<rparr>"

definition stream_url :: "string \<Rightarrow> string \<Rightarrow> nat \<Rightarrow> string" where
  "stream_url base runId lastSequence = base @ ''/api/runs/'' @ runId @ ''/events/stream'' @
     (if 0 < lastSequence then ''?lastEventId='' @ show_nat lastSequence else [])"

definition connect :: "string \<Rightarrow> string \<Rightarrow> browser \<Rightarrow> string \<times> browser" where
  "connect base runId br =
     (let br' = if br_previousRun br \<noteq> runId then br\<lparr> br_lastSequence := 0, br_previousRun := runId \<rparr> else br
      in (stream_url base runId (br_lastSequence br'), br'))"

definition on_trace :: "string \<Rightarrow> StoredEvent \<Rightarrow> browser \<Rightarrow> browser" where
  "on_trace runId event br =
     br\<lparr> br_failures := 0, br_disconnected := False,
         br_lastSequence := max (br_lastSequence br) (ev_runSequence event),
         br_cache := (br_cache br)(runId \<mapsto>
           mergeEvents (case br_cache br runId of None \<Rightarrow> [] | Some events \<Rightarrow> events) event),
         br_stale := (if ev_type event = E_STATE_TRANSITION \<or> ev_type event = E_APPROVAL_EVENT
           then br_stale br @ [runId] else br_stale br) \<rparr>"

definition on_error :: "browser \<Rightarrow> browser" where
  "on_error br =
     (let failures = br_failures br + 1 in
      br\<lparr> br_failures := failures, br_disconnected := br_disconnected br \<or> 5 \<le> failures \<rparr>)"

definition retry :: "browser \<Rightarrow> browser" where
  "retry br = br\<lparr> br_failures := 0, br_disconnected := False, br_nonce := br_nonce br + 1 \<rparr>"

text \<open>What happens to the hook, in any order: a connection, a message, an error, a click on retry.\<close>

datatype happening = Connect string | Message string StoredEvent | Fails | Retries

primrec browser_step :: "string \<Rightarrow> happening \<Rightarrow> browser \<Rightarrow> browser" where
  "browser_step base (Connect runId) br = snd (connect base runId br)"
| "browser_step base (Message runId event) br = on_trace runId event br"
| "browser_step base Fails br = on_error br"
| "browser_step base Retries br = retry br"

definition browser_after :: "string \<Rightarrow> happening list \<Rightarrow> browser \<Rightarrow> browser" where
  "browser_after base hs br = foldl (\<lambda>br h. browser_step base h br) br hs"

text \<open>The errors since the last message or click.\<close>

definition recent_failures :: "happening list \<Rightarrow> nat" where
  "recent_failures hs =
     length (takeWhile (\<lambda>h. h = Fails) (rev (filter (\<lambda>h. \<not> (\<exists>runId. h = Connect runId)) hs)))"

lemma recent_failures_snoc:
  "recent_failures (hs @ [h]) =
     (case h of Connect _ \<Rightarrow> recent_failures hs | Fails \<Rightarrow> Suc (recent_failures hs) | _ \<Rightarrow> 0)"
  by (cases h) (simp_all add: recent_failures_def)

lemma failures_counted:
  "br_failures (browser_after base hs (opened runId)) = recent_failures hs \<and>
   (br_disconnected (browser_after base hs (opened runId)) \<longleftrightarrow> 5 \<le> recent_failures hs)"
proof (induction hs rule: rev_induct)
  case Nil
  then show ?case by (simp add: browser_after_def opened_def recent_failures_def)
next
  case (snoc h hs)
  then show ?case
    by (cases h) (auto simp: browser_after_def recent_failures_snoc connect_def on_trace_def on_error_def retry_def Let_def)
qed

text \<open>
  The banner tells the truth: in whatever order connections, messages, errors and clicks on retry
  come, the page says that the connection is interrupted exactly when at least five errors came since
  the last message or click, reconnections in between notwithstanding.
\<close>

theorem banner_counts_failures:
  "br_disconnected (browser_after base hs (opened runId)) \<longleftrightarrow> 5 \<le> recent_failures hs"
  by (rule conjunct2 [OF failures_counted])

primrec concerns :: "string \<Rightarrow> happening \<Rightarrow> bool" where
  "concerns runId (Connect r) \<longleftrightarrow> r = runId"
| "concerns runId (Message r e) \<longleftrightarrow> r = runId"
| "concerns runId Fails \<longleftrightarrow> True"
| "concerns runId Retries \<longleftrightarrow> True"

text \<open>The sequence numbers of the messages, in the order they came.\<close>

fun sequences :: "happening list \<Rightarrow> nat list" where
  "sequences [] = []"
| "sequences (Message r e # hs) = ev_runSequence e # sequences hs"
| "sequences (h # hs) = sequences hs"

lemma sequences_snoc:
  "sequences (hs @ [h]) = sequences hs @ (case h of Message _ e \<Rightarrow> [ev_runSequence e] | _ \<Rightarrow> [])"
  by (induction hs rule: sequences.induct) (simp_all split: happening.splits)

definition cached :: "browser \<Rightarrow> string \<Rightarrow> StoredEvent list" where
  "cached br runId = (case br_cache br runId of None \<Rightarrow> [] | Some events \<Rightarrow> events)"

lemma browser_cache:
  assumes "list_all (concerns runId) hs"
  shows "sorted (map ev_runSequence (cached (browser_after base hs (opened runId)) runId)) \<and>
    distinct (map ev_runSequence (cached (browser_after base hs (opened runId)) runId)) \<and>
    ev_runSequence ` set (cached (browser_after base hs (opened runId)) runId) = set (sequences hs) \<and>
    br_previousRun (browser_after base hs (opened runId)) = runId \<and>
    br_lastSequence (browser_after base hs (opened runId)) = Max (insert 0 (set (sequences hs)))"
  using assms
proof (induction hs rule: rev_induct)
  case Nil
  then show ?case by (simp add: browser_after_def opened_def cached_def)
next
  case (snoc h hs)
  define br where "br = browser_after base hs (opened runId)"
  have step: "browser_after base (hs @ [h]) (opened runId) = browser_step base h br"
    by (simp add: br_def browser_after_def)
  note IH = snoc.IH [folded br_def]
  show ?case
  proof (cases "\<exists>r e. h = Message r e")
    case True
    then obtain r e where Message: "h = Message r e" by blast
    with snoc.prems have r: "r = runId" by simp
    have new: "cached (on_trace runId e br) runId = mergeEvents (cached br runId) e"
      by (simp add: on_trace_def cached_def)
    have "finite (set (sequences hs))" by (rule finite_set)
    then have "Max (insert 0 (set (sequences (hs @ [h])))) = max (Max (insert 0 (set (sequences hs)))) (ev_runSequence e)"
      using Message by (simp add: sequences_snoc insert_commute [of 0] Max_insert max.commute)
    then show ?thesis
      using IH snoc.prems mergeEvents_inv [of "cached br runId" e] Message r new
      unfolding step by (simp add: mergeEvents_set sequences_snoc) (simp add: on_trace_def)
  next
    case False
    then have "sequences (hs @ [h]) = sequences hs" by (cases h) (simp_all add: sequences_snoc)
    moreover have "cached (browser_step base h br) runId = cached br runId \<and>
        br_previousRun (browser_step base h br) = runId \<and>
        br_lastSequence (browser_step base h br) = br_lastSequence br"
      using IH snoc.prems False
      by (cases h) (simp_all add: cached_def connect_def on_error_def retry_def Let_def)
    ultimately show ?thesis using IH snoc.prems unfolding step by simp
  qed
qed

text \<open>
  C20. A reconnection asks for what is missing: after any messages of a run arrived, in any order and any
  number of times, interleaved with errors, retries and reconnections, the cache of the run holds the
  sequence numbers received, each once and in order, and the next connection is opened with the
  greatest of them as its position.
\<close>

theorem reconnection_resumes:
  assumes "list_all (concerns runId) hs"
  shows "map ev_runSequence (cached (browser_after base hs (opened runId)) runId) =
      sorted_list_of_set (set (sequences hs)) \<and>
    fst (connect base runId (browser_after base hs (opened runId))) =
      stream_url base runId (Max (insert 0 (set (sequences hs))))"
proof
  note inv = browser_cache [OF assms, of base]
  then show "map ev_runSequence (cached (browser_after base hs (opened runId)) runId) =
      sorted_list_of_set (set (sequences hs))"
    by (metis sorted_list_of_set.idem_if_sorted_distinct set_map)
  show "fst (connect base runId (browser_after base hs (opened runId))) =
      stream_url base runId (Max (insert 0 (set (sequences hs))))"
    using inv by (simp add: connect_def Let_def)
qed

end
