(* ===== verification/Api.thy ===== *)
theory Api
  imports Queries Json Complex_Main
begin

text \<open>
  What the pages of the web application share: the shapes in which they read the control plane's
  replies and the function that fetches them (apps/web/src/lib/api.ts), the form of a repository's
  configuration (apps/web/src/lib/repository.ts, components/repository-config-form.tsx), and the badges,
  notifications and run controls (components/).
\<close>

section \<open>Shapes of the replies\<close>

text \<open>Times are the text the control plane sends; unknown values are JSON.\<close>

record ApiRun =
  ar_run_id :: string
  ar_run_agentKind :: agent_kind
  ar_run_status :: string
  ar_run_createdAt :: string

record ApiApproval =
  aa_id :: string
  aa_status :: string
  aa_prUrl :: "string option"
  aa_prError :: "string option"

record ApiTaskListItem =
  at_id :: string
  at_title :: string
  at_status :: string
  at_fixtureId :: "string option"
  at_createdAt :: string
  at_runs :: "ApiRun list"
  at_approval :: "ApiApproval option"

record ApiTaskListResponse =
  al_items :: "ApiTaskListItem list"
  al_total :: nat
  al_page :: nat
  al_pageSize :: nat

record ApiFixture =
  af_id :: string
  af_title :: string
  af_category :: string
  af_acceptanceCriteria :: "string list"

record ApiAttempt =
  ap_id :: string
  ap_no :: nat
  ap_status :: string
  ap_failureCode :: "string option"
  ap_workerId :: "string option"
  ap_createdAt :: string
  ap_endedAt :: "string option"

record ApiPolicyDecision =
  ad_id :: string
  ad_attemptId :: string
  ad_failureCode :: string
  ad_action :: string
  ad_reason :: string
  ad_createdAt :: string

record ApiVerificationResult =
  av_id :: string
  av_attemptId :: string
  av_step :: verifier_step
  av_passed :: bool
  av_failureCode :: "string option"
  av_detail :: "(string \<times> json) list"
  av_durationMs :: int
  av_createdAt :: string

record ApiRunDetail =
  ard_id :: string
  ard_taskId :: string
  ard_agentKind :: agent_kind
  ard_status :: string
  ard_budgetTokens :: int
  ard_budgetSeconds :: int
  ard_budgetTurns :: int
  ard_usedTokens :: int
  ard_usedSeconds :: int
  ard_createdAt :: string
  ard_updatedAt :: string
  ard_attempts :: "ApiAttempt list"
  ard_policyDecisions :: "ApiPolicyDecision list"
  ard_verificationResults :: "ApiVerificationResult list"

record ApiTraceEvent =
  ae_runSequence :: nat
  ae_attemptId :: "string option"
  ae_attemptSequence :: nat
  ae_type :: string
  ae_payload :: "(string \<times> json) list"
  ae_occurredAt :: string

record ApiCriterion =
  ac_criterion :: string
  ac_score :: rat
  ac_rationale :: string

record ApiJudgeReport =
  aj_model :: string
  aj_criteria :: "ApiCriterion list"
  aj_overallComment :: string

record ApiEvaluationSummary =
  as_total :: nat
  as_resolved :: nat
  as_resolveRate :: rat
  as_firstTrySuccessRate :: rat
  as_recoveredRate :: "rat option"
  as_scopeViolations :: rat
  as_avgTokens :: rat
  as_totalCostUsd :: rat
  as_avgWallSeconds :: rat
  as_avgJudgeScore :: "rat option"

record ApiEvaluationRun =
  aer_id :: string
  aer_suite :: string
  aer_agentKind :: agent_kind
  aer_faultInjection :: "string option"
  aer_startedAt :: string
  aer_finishedAt :: "string option"
  aer_summary :: "ApiEvaluationSummary option"

record ApiEvaluationResultRow =
  aew_id :: string
  aew_fixtureId :: string
  aew_runId :: string
  aew_resolved :: bool
  aew_firstTrySuccess :: bool
  aew_recovered :: "bool option"
  aew_recoveryMode :: "string option"
  aew_scopeViolations :: int
  aew_tokens :: int
  aew_costUsd :: string
  aew_wallSeconds :: int
  aew_judgeScores :: "(string \<times> rat) list option option"

record ApiEvaluationDetail = ApiEvaluationRun +
  aed_results :: "ApiEvaluationResultRow list"

section \<open>Values of JavaScript\<close>

text \<open>
  The text of a value in a template, where a missing property is undefined, and whether a value counts
  as true.
\<close>

fun js_text :: "json \<Rightarrow> string" where
  "js_text JNull = ''null''"
| "js_text (JBool b) = (if b then ''true'' else ''false'')"
| "js_text (JNum n) = show_int n"
| "js_text (JStr s) = s"
| "js_text (JArr vs) = commas (map (\<lambda>v. if v = JNull then [] else js_text v) vs)"
| "js_text (JObj _) = ''[object Object]''"

definition js_shown :: "json option \<Rightarrow> string" where
  "js_shown v = (case v of None \<Rightarrow> ''undefined'' | Some j \<Rightarrow> js_text j)"

definition js_true :: "json option \<Rightarrow> bool" where
  "js_true v \<longleftrightarrow> v \<notin> {None, Some JNull, Some (JBool False), Some (JNum 0), Some (JStr [])}"

text \<open>\<open>v ?? w\<close>.\<close>

definition js_else :: "json option \<Rightarrow> json \<Rightarrow> json" where
  "js_else v w = (case v of None \<Rightarrow> w | Some JNull \<Rightarrow> w | Some j \<Rightarrow> j)"

text \<open>\<open>s.slice(-n)\<close>.\<close>

definition last_chars :: "nat \<Rightarrow> string \<Rightarrow> string" where
  "last_chars n s = drop (length s - n) s"

text \<open>\<open>v?.k\<close>.\<close>

definition js_field :: "json option \<Rightarrow> string \<Rightarrow> json option" where
  "js_field v k = (case v of Some (JObj kvs) \<Rightarrow> map_of kvs k | _ \<Rightarrow> None)"

section \<open>Fetching\<close>

text \<open>
  A reply: the status, the text of the body (\<open>None\<close> when reading it fails) and its value as JSON
  (\<open>None\<close> when it is not JSON).
\<close>

datatype fetched = Unreachable string | Reply nat "string option" "json option"

definition request_headers :: "(string \<times> string) list \<Rightarrow> string \<Rightarrow> string option" where
  "request_headers headers = map_of (rev ((''Content-Type'', ''application/json'') # headers))"

definition fetchJson :: "string \<Rightarrow> string option \<Rightarrow> fetched \<Rightarrow> string + json" where
  "fetchJson path request_method reply =
     (case reply of
        Unreachable e \<Rightarrow> Inl e
      | Reply status body value \<Rightarrow>
          if 200 \<le> status \<and> status \<le> 299 then (case value of None \<Rightarrow> Inl ''SyntaxError'' | Some j \<Rightarrow> Inr j)
          else Inl ((case request_method of None \<Rightarrow> ''GET'' | Some m \<Rightarrow> m) @ '' '' @ path @ '' '' @ show_nat status @ '': '' @
            take 300 (case body of None \<Rightarrow> [] | Some t \<Rightarrow> t)))"

section \<open>The configuration form\<close>

definition lines :: "string \<Rightarrow> string list" where
  "lines s = filter (\<lambda>l. l \<noteq> []) (map trim (split_on (CHR 0x0A) s))"

text \<open>The default criterion is not ASCII text: its bytes in UTF-8.\<close>

definition default_criterion :: string where
  "default_criterion =
    [CHR 0xE5, CHR 0x8E, CHR 0x9F, CHR 0xE5, CHR 0xA4, CHR 0xB1, CHR 0xE8, CHR 0xB4, CHR 0xA5, CHR 0xE6,
     CHR 0xA3, CHR 0x80, CHR 0xE6, CHR 0x9F, CHR 0xA5, CHR 0xE9, CHR 0x80, CHR 0x9A, CHR 0xE8, CHR 0xBF,
     CHR 0x87, CHR 0xEF, CHR 0xBC, CHR 0x8C, CHR 0xE5, CHR 0x9B, CHR 0x9E, CHR 0xE5, CHR 0xBD, CHR 0x92,
     CHR 0xE6, CHR 0xA3, CHR 0x80, CHR 0xE6, CHR 0x9F, CHR 0xA5, CHR 0xE6, CHR 0x97, CHR 0xA0, CHR 0xE6,
     CHR 0x96, CHR 0xB0, CHR 0xE5, CHR 0xA2, CHR 0x9E, CHR 0xE5, CHR 0xA4, CHR 0xB1, CHR 0xE8, CHR 0xB4,
     CHR 0xA5]"

definition defaultConfig :: RepositoryConfig where
  "defaultConfig = \<lparr> rc_runtime = PYTHON_PYTEST, rc_defaultDelivery = None, rc_preparation = PREP_IMAGE,
     rc_image = ''arp-sandbox:latest'', rc_dependencyFiles = [], rc_workdir = ''.'',
     rc_allowedPaths = [''src/**''], rc_protectedPaths = [''tests/**'', ''**/conftest.py''],
     rc_staticCheck = [], rc_failToPass = [''python -m pytest -q''], rc_passToPass = [],
     rc_acceptanceCriteria = [default_criterion] \<rparr>"

text \<open>The fields of the form, and what an edit of one makes of the configuration.\<close>

datatype config_edit =
    EditDelivery delivery_kind | EditPreparation preparation | EditImage string | EditWorkdir string
  | EditDependencyFiles string | EditAllowedPaths string | EditProtectedPaths string
  | EditStaticCheck string | EditFailToPass string | EditPassToPass string | EditAcceptanceCriteria string

primrec edit_config :: "config_edit \<Rightarrow> RepositoryConfig \<Rightarrow> RepositoryConfig" where
  "edit_config (EditDelivery k) c = c\<lparr> rc_defaultDelivery := Some k \<rparr>"
| "edit_config (EditPreparation p) c = c\<lparr> rc_preparation := p \<rparr>"
| "edit_config (EditImage s) c = c\<lparr> rc_image := s \<rparr>"
| "edit_config (EditWorkdir s) c = c\<lparr> rc_workdir := s \<rparr>"
| "edit_config (EditDependencyFiles s) c = c\<lparr> rc_dependencyFiles := lines s \<rparr>"
| "edit_config (EditAllowedPaths s) c = c\<lparr> rc_allowedPaths := lines s \<rparr>"
| "edit_config (EditProtectedPaths s) c = c\<lparr> rc_protectedPaths := lines s \<rparr>"
| "edit_config (EditStaticCheck s) c = c\<lparr> rc_staticCheck := lines s \<rparr>"
| "edit_config (EditFailToPass s) c = c\<lparr> rc_failToPass := lines s \<rparr>"
| "edit_config (EditPassToPass s) c = c\<lparr> rc_passToPass := lines s \<rparr>"
| "edit_config (EditAcceptanceCriteria s) c = c\<lparr> rc_acceptanceCriteria := lines s \<rparr>"

text \<open>The delivery the form shows.\<close>

definition delivery_choice :: "RepositoryConfig \<Rightarrow> delivery_kind" where
  "delivery_choice c = (case rc_defaultDelivery c of None \<Rightarrow> D_PATCH | Some k \<Rightarrow> k)"

section \<open>Badges, notifications, controls\<close>

record ApiNotice =
  an_id :: string
  an_message :: string
  an_readAt :: "string option"

definition unread :: "ApiNotice list option \<Rightarrow> ApiNotice list" where
  "unread notices = (case notices of None \<Rightarrow> [] | Some ns \<Rightarrow> filter (\<lambda>n. \<not> truthy (an_readAt n)) ns)"

definition STATUS_STYLES :: "(string \<times> string) list" where
  "STATUS_STYLES = [
     (''NEEDS_ATTENTION'', ''bg-orange-100 text-orange-800''),
     (''CREATED'', ''bg-zinc-100 text-zinc-600''),
     (''QUEUED'', ''bg-amber-50 text-amber-700''),
     (''AWAITING_APPROVAL'', ''bg-violet-50 text-violet-700''),
     (''APPROVED'', ''bg-emerald-50 text-emerald-700''),
     (''PR_CREATED'', ''bg-emerald-100 text-emerald-800''),
     (''PR_FAILED'', ''bg-red-50 text-red-700''),
     (''RESOLVED'', ''bg-emerald-100 text-emerald-800''),
     (''REJECTED'', ''bg-red-50 text-red-700''),
     (''CANCELLED'', ''bg-zinc-100 text-zinc-500''),
     (''PENDING'', ''bg-zinc-100 text-zinc-600''),
     (''DISPATCHED'', ''bg-amber-50 text-amber-700''),
     (''RUNNING'', ''bg-sky-50 text-sky-700''),
     (''VERIFYING'', ''bg-indigo-50 text-indigo-700''),
     (''INTERRUPTED'', ''bg-orange-50 text-orange-700''),
     (''RECOVERING'', ''bg-orange-100 text-orange-800''),
     (''SUCCEEDED'', ''bg-emerald-50 text-emerald-700''),
     (''FAILED'', ''bg-red-50 text-red-700''),
     (''CLAIMED'', ''bg-amber-50 text-amber-700''),
     (''CRASHED'', ''bg-red-50 text-red-700''),
     (''TIMED_OUT'', ''bg-red-50 text-red-700''),
     (''LEASE_EXPIRED'', ''bg-orange-50 text-orange-700'')]"

definition status_style :: "string \<Rightarrow> string" where
  "status_style status =
     (case map_of STATUS_STYLES status of None \<Rightarrow> ''bg-zinc-100 text-zinc-600'' | Some s \<Rightarrow> s)"

definition agent_style :: "string \<Rightarrow> string" where
  "agent_style kind = (if kind = ''SELF_LANGGRAPH'' then ''bg-blue-50 text-blue-700'' else ''bg-fuchsia-50 text-fuchsia-700'')"

text \<open>The controls a run's page offers, by the path each posts to, and the phase it shows.\<close>

definition run_actions :: "string \<Rightarrow> string list" where
  "run_actions status =
     (if status = ''RUNNING'' then [''pause''] else []) @
     (if status = ''INTERRUPTED'' then [''resume''] else []) @
     (if status \<notin> {''SUCCEEDED'', ''FAILED'', ''CANCELLED''} then [''cancel''] else [])"

definition shown_phase :: "string \<Rightarrow> string \<Rightarrow> string" where
  "shown_phase taskStatus runPhase =
     (if taskStatus \<in> {''APPROVED'', ''PR_CREATED'', ''PR_FAILED'', ''RESOLVED'', ''REJECTED''} then taskStatus else runPhase)"

section \<open>The form keeps the configuration well-formed\<close>

lemma trim_lines: "l \<in> set (lines s) \<Longrightarrow> trim l = l \<and> l \<noteq> []"
  by (auto simp: lines_def)

text \<open>No command of the form has white space at its ends.\<close>

definition trimmed_commands :: "RepositoryConfig \<Rightarrow> bool" where
  "trimmed_commands c \<longleftrightarrow> list_all (\<lambda>l. trim l = l) (rc_staticCheck c @ rc_failToPass c @ rc_passToPass c)"

lemma trimmed_default: "trimmed_commands defaultConfig"
  by code_simp

lemma trimmed_edit: "trimmed_commands c \<Longrightarrow> trimmed_commands (edit_config e c)"
  using trim_lines by (cases e) (auto simp: trimmed_commands_def list_all_iff)

lemma trimmed_edits: "trimmed_commands c \<Longrightarrow> trimmed_commands (fold edit_config es c)"
  by (induction es arbitrary: c) (simp_all add: trimmed_edit)

lemma map_all_trimmed: "\<lbrakk>map_all CommandSchema xs = Some ys; \<forall>l \<in> set xs. trim l = l\<rbrakk> \<Longrightarrow> ys = xs"
  by (induction xs arbitrary: ys) (auto simp: CommandSchema_def Let_def split: option.splits if_splits)

text \<open>
  What the form shows is what is stored: whatever edits are made to the default configuration, the
  control plane's schema either rejects the result or returns it unchanged, since every command the
  form makes of its lines is free of white space at its ends.
\<close>

theorem form_config_unchanged:
  assumes "RepositoryConfigSchema (fold edit_config edits defaultConfig) = Some c"
  shows "c = fold edit_config edits defaultConfig"
proof -
  have "trimmed_commands (fold edit_config edits defaultConfig)" by (rule trimmed_edits [OF trimmed_default])
  then show ?thesis using assms map_all_trimmed
    unfolding RepositoryConfigSchema_def trimmed_commands_def list_all_iff
    by (auto split: option.splits if_splits intro!: RepositoryConfig.equality)
qed

theorem form_config_unchanged_witness:
  "fold edit_config [EditStaticCheck ''  ruff check . '', EditImage ''py:3.12''] defaultConfig =
     defaultConfig\<lparr> rc_staticCheck := [''ruff check .''], rc_image := ''py:3.12'' \<rparr>"
proof -
  have "RepositoryConfigSchema (fold edit_config [EditStaticCheck ''  ruff check . '', EditImage ''py:3.12''] defaultConfig) =
      Some (defaultConfig\<lparr> rc_staticCheck := [''ruff check .''], rc_image := ''py:3.12'' \<rparr>)" by code_simp
  from form_config_unchanged [OF this] show ?thesis by simp
qed

end
