(* ===== verification/RunPages.thy ===== *)
theory RunPages
  imports Api
begin

text \<open>
  The pages that show a run: its timeline (apps/web/src/app/runs/[runId]/page.tsx), its review
  (app/runs/[runId]/review/page.tsx), and the evaluation batches (app/evaluations/page.tsx). What a page
  shows is a value computed from the replies; the mark-up around it is left out.
\<close>

section \<open>The timeline\<close>

text \<open>Milliseconds until the run is fetched again; a finished run is not.\<close>

definition refetch_interval :: "string option \<Rightarrow> nat option" where
  "refetch_interval status =
     (if (case status of None \<Rightarrow> [] | Some s \<Rightarrow> s) \<in> {''SUCCEEDED'', ''FAILED'', ''CANCELLED''} then None else Some 5000)"

definition loaded :: "'a list option \<Rightarrow> 'a list" where
  "loaded xs = (case xs of None \<Rightarrow> [] | Some ys \<Rightarrow> ys)"

definition budget_update :: "ApiTraceEvent list option \<Rightarrow> (string \<times> json) list option" where
  "budget_update events =
     (case filter (\<lambda>e. ae_type e = ''BUDGET_UPDATE'') (loaded events) of
        [] \<Rightarrow> None
      | es \<Rightarrow> Some (ae_payload (last es)))"

definition used_tokens_shown :: "ApiTraceEvent list option \<Rightarrow> ApiRunDetail \<Rightarrow> json" where
  "used_tokens_shown events detail =
     js_else (Option.bind (budget_update events) (\<lambda>p. map_of p ''usedTokens'')) (JNum (ard_usedTokens detail))"

definition used_turns_shown :: "ApiTraceEvent list option \<Rightarrow> json" where
  "used_turns_shown events = js_else (Option.bind (budget_update events) (\<lambda>p. map_of p ''usedTurns'')) (JNum 0)"

text \<open>The log in segments of one attempt each.\<close>

type_synonym segment = "string option \<times> ApiTraceEvent list"

definition push_event :: "segment list \<Rightarrow> ApiTraceEvent \<Rightarrow> segment list" where
  "push_event result event =
     (if result \<noteq> [] \<and> fst (last result) = ae_attemptId event
      then butlast result @ [(fst (last result), snd (last result) @ [event])]
      else result @ [(ae_attemptId event, [event])])"

definition segments :: "ApiTraceEvent list option \<Rightarrow> segment list" where
  "segments events = foldl push_event [] (loaded events)"

text \<open>Later attempts with the same id would win, as in \<open>Map.set\<close>.\<close>

definition attempt_no_by_id :: "ApiAttempt list \<Rightarrow> string \<Rightarrow> nat option" where
  "attempt_no_by_id as = map_of (rev (map (\<lambda>a. (ap_id a, ap_no a)) as))"

datatype attempt_label = Unlabelled | Unknown | Numbered nat

definition attempt_label :: "ApiAttempt list \<Rightarrow> segment \<Rightarrow> attempt_label" where
  "attempt_label as seg =
     (if truthy (fst seg)
      then (case attempt_no_by_id as (the (fst seg)) of None \<Rightarrow> Unknown | Some n \<Rightarrow> Numbered n)
      else Unlabelled)"

definition ATTEMPT_COLORS :: "string list" where
  "ATTEMPT_COLORS = [''border-blue-300 bg-blue-50/40'', ''border-orange-300 bg-orange-50/40'',
     ''border-violet-300 bg-violet-50/40'', ''border-teal-300 bg-teal-50/40'']"

text \<open>A number 0 would give the index -1, which is undefined; attempts are numbered from 1.\<close>

definition attempt_color :: "attempt_label \<Rightarrow> string option" where
  "attempt_color label =
     (case label of
        Numbered n \<Rightarrow> if n = 0 then None else Some (ATTEMPT_COLORS ! ((n - 1) mod length ATTEMPT_COLORS))
      | _ \<Rightarrow> Some (ATTEMPT_COLORS ! 0))"

definition segment_attempt :: "ApiAttempt list \<Rightarrow> segment \<Rightarrow> ApiAttempt option" where
  "segment_attempt as seg = find (\<lambda>a. Some (ap_id a) = fst seg) as"

definition segment_decision :: "ApiPolicyDecision list \<Rightarrow> segment \<Rightarrow> ApiPolicyDecision option" where
  "segment_decision ds seg = find (\<lambda>p. Some (ad_attemptId p) = fst seg) ds"

section \<open>One line for an event\<close>

text \<open>The characters that are not ASCII are their bytes in UTF-8: a dot, an arrow, a stop sign, a tick, a cross.\<close>

definition dot :: string where
  "dot = [CHR 0x20, CHR 0xC2, CHR 0xB7, CHR 0x20]"

definition arrow :: string where
  "arrow = [CHR 0x20, CHR 0xE2, CHR 0x86, CHR 0x92, CHR 0x20]"

definition stop_sign :: string where
  "stop_sign = [CHR 0x20, CHR 0xE2, CHR 0x9B, CHR 0x94, CHR 0x20]"

definition tick_passed :: string where
  "tick_passed = [CHR 0xE2, CHR 0x9C, CHR 0x93, CHR 0x20, CHR 0xE9, CHR 0x80, CHR 0x9A, CHR 0xE8, CHR 0xBF, CHR 0x87]"

definition cross_mark :: string where
  "cross_mark = [CHR 0xE2, CHR 0x9C, CHR 0x97, CHR 0x20]"

definition word_failed :: string where
  "word_failed = [CHR 0xE5, CHR 0xA4, CHR 0xB1, CHR 0xE8, CHR 0xB4, CHR 0xA5]"

definition eventSummary :: "ApiTraceEvent \<Rightarrow> string" where
  "eventSummary event =
     (let p = ae_payload event; v = map_of p; sh = (\<lambda>k. js_shown (map_of p k)); type = ae_type event in
      if type = ''MODEL_CALL'' then
        sh ''model'' @ dot @ sh ''promptTokens'' @ ''+'' @ sh ''completionTokens'' @ '' tok'' @ dot @ sh ''latencyMs'' @
        ''ms'' @ dot @ ''turn '' @ sh ''turn''
      else if type = ''TOOL_CALL'' then
        sh ''tool'' @ ''('' @ take 80 (stringify (js_else (v ''args'') (JObj []))) @ '')'' @
        (if js_true (v ''error'') then stop_sign @ take 80 (sh ''error'')
         else if js_true (v ''cached'') then '' [cached]'' else [])
      else if type = ''COMMAND_EXEC'' then take 60 (sh ''command'') @ arrow @ ''exit '' @ sh ''exitCode''
      else if type = ''FILE_CHANGE'' then
        sh ''changeType'' @ '' '' @ sh ''path'' @ '' (+'' @
        js_text (js_else (js_field (v ''diffStat'') ''additions'') (JNum 0)) @ ''/-'' @
        js_text (js_else (js_field (v ''diffStat'') ''deletions'') (JNum 0)) @ '')''
      else if type = ''STATE_TRANSITION'' then sh ''entity'' @ '': '' @ sh ''from'' @ arrow @ sh ''to''
      else if type = ''CHECKPOINT_SAVED'' then
        ''checkpoint '' @ last_chars 8 (sh ''checkpointId'') @ dot @ sh ''usedTokens'' @ '' tok''
      else if type = ''FAILURE_DETECTED'' then sh ''failureCode'' @ '': '' @ take 80 (sh ''message'')
      else if type = ''RECOVERY_ACTION'' then sh ''action'' @ arrow @ ''attempt #'' @ sh ''newAttemptNo''
      else if type = ''VERIFICATION_RESULT'' then
        sh ''step'' @ '' '' @ (if js_true (v ''passed'') then tick_passed
          else cross_mark @ js_text (js_else (v ''failureCode'') (JStr word_failed)))
      else if type = ''APPROVAL_EVENT'' then
        sh ''status'' @ (if js_true (v ''prUrl'') then dot @ sh ''prUrl'' else [])
      else if type = ''BUDGET_UPDATE'' then
        sh ''usedTokens'' @ '' tok'' @ dot @ sh ''usedSeconds'' @ ''s'' @ dot @ sh ''usedTurns'' @ '' turns''
      else take 80 (stringify (JObj p)))"

section \<open>The budget bar\<close>

definition bar_ratio :: "int \<Rightarrow> int \<Rightarrow> rat" where
  "bar_ratio used limit = min 1 (if 0 < limit then of_int used / of_int limit else 0)"

definition bar_color :: "int \<Rightarrow> int \<Rightarrow> string" where
  "bar_color used limit =
     (if 9 / 10 < bar_ratio used limit then ''bg-red-500''
      else if 7 / 10 < bar_ratio used limit then ''bg-amber-500'' else ''bg-emerald-500'')"

section \<open>The review\<close>

datatype panel_item =
  DecideButtons | CreatedPr string | PatchApproved | DeliveryPending | DeliveryError string | RetryButton | RejectedNote
  | NotVerified string

definition review_panel :: "string \<Rightarrow> string option \<Rightarrow> ApiApproval option \<Rightarrow> panel_item list" where
  "review_panel runStatus taskStatus approval =
     (case approval of
        None \<Rightarrow> if runStatus \<noteq> ''SUCCEEDED'' then [NotVerified runStatus] else []
      | Some a \<Rightarrow>
          (if aa_status a = ''PENDING'' then [DecideButtons] else []) @
          (if aa_status a = ''APPROVED'' \<and> truthy (aa_prUrl a) then [CreatedPr (the (aa_prUrl a))] else []) @
          (if aa_status a = ''APPROVED'' \<and> \<not> truthy (aa_prUrl a) then
             (if taskStatus = Some ''RESOLVED'' then [PatchApproved] else [DeliveryPending]) @
             (if truthy (aa_prError a) then [DeliveryError (the (aa_prError a))] else []) @
             (if taskStatus = Some ''PR_FAILED'' then [RetryButton] else [])
           else []) @
          (if aa_status a = ''REJECTED'' then [RejectedNote] else []))"

definition decide_body :: "string \<Rightarrow> json" where
  "decide_body decision = JObj [(''decision'', JStr decision), (''reviewer'', JStr ''reviewer@local'')]"

definition STEP_NAMES :: "verifier_step list" where
  "STEP_NAMES = [V1, V2, V3, V4, V5, V6]"

definition latest_result :: "ApiVerificationResult list \<Rightarrow> verifier_step \<Rightarrow> ApiVerificationResult option" where
  "latest_result results step =
     (case filter (\<lambda>v. av_step v = step) results of [] \<Rightarrow> None | vs \<Rightarrow> Some (last vs))"

datatype verifier_mark = NotRun | NotConfigured | PassedMark | FailedMark

definition verifier_mark :: "ApiVerificationResult option \<Rightarrow> verifier_mark" where
  "verifier_mark result =
     (case result of
        None \<Rightarrow> NotRun
      | Some v \<Rightarrow> if js_true (map_of (av_detail v) ''skipped'') then NotConfigured
          else if av_passed v then PassedMark else FailedMark)"

definition card_style :: "ApiVerificationResult option \<Rightarrow> string" where
  "card_style result =
     (case result of
        None \<Rightarrow> ''border-zinc-200 bg-white opacity-60''
      | Some v \<Rightarrow> if av_passed v then ''border-emerald-200 bg-emerald-50/50'' else ''border-red-200 bg-red-50/50'')"

definition verifier_cards :: "ApiRunDetail \<Rightarrow> (verifier_step \<times> ApiVerificationResult option) list" where
  "verifier_cards detail = map (\<lambda>step. (step, latest_result (ard_verificationResults detail) step)) STEP_NAMES"

definition score_color :: "rat \<Rightarrow> string" where
  "score_color score =
     (if 4 \<le> score then ''bg-emerald-100 text-emerald-800''
      else if 3 \<le> score then ''bg-amber-100 text-amber-800'' else ''bg-red-100 text-red-800'')"

section \<open>Evaluation batches\<close>

text \<open>
  \<open>toFixed\<close> on a fraction below \<open>10 ^ 21\<close>: the nearest decimal, the greater of two, of the absolute value.
\<close>

definition digits_fixed :: "nat \<Rightarrow> nat \<Rightarrow> string" where
  "digits_fixed f n =
     (if f = 0 then show_nat n
      else let s = show_nat n; t = replicate (f + 1 - length s) (CHR ''0'') @ s in
        take (length t - f) t @ ''.'' @ drop (length t - f) t)"

definition to_fixed :: "nat \<Rightarrow> rat \<Rightarrow> string" where
  "to_fixed f x =
     (if x < 0 then ''-'' @ digits_fixed f (nat \<lfloor>- x * 10 ^ f + 1 / 2\<rfloor>) else digits_fixed f (nat \<lfloor>x * 10 ^ f + 1 / 2\<rfloor>))"

datatype metric_format = PercentFormat | IntFormat | UsdFormat | ScoreFormat

text \<open>\<open>toLocaleString\<close> depends on the runtime's locale: the argument \<open>locale_text\<close>. A missing value is a dash.\<close>

definition metric_text :: "(rat \<Rightarrow> string) \<Rightarrow> metric_format \<Rightarrow> rat option \<Rightarrow> string option" where
  "metric_text locale_text format value =
     map_option (\<lambda>v. case format of
        PercentFormat \<Rightarrow> to_fixed 0 (v * 100) @ ''%''
      | IntFormat \<Rightarrow> locale_text v
      | UsdFormat \<Rightarrow> ''$'' @ to_fixed 2 v
      | ScoreFormat \<Rightarrow> to_fixed 2 v) value"

text \<open>A click on a batch opens its details or closes them.\<close>

definition toggle :: "string option \<Rightarrow> string \<Rightarrow> string option" where
  "toggle selected i = (if selected = Some i then None else Some i)"

text \<open>The metrics of a batch's row, in the order of the columns.\<close>

definition batch_metrics :: "ApiEvaluationRun \<Rightarrow> (metric_format \<times> rat option) list" where
  "batch_metrics ev =
     (let field = (\<lambda>f. Option.bind (aer_summary ev) f) in
      [(PercentFormat, field (\<lambda>s. Some (as_resolveRate s))),
       (PercentFormat, field (\<lambda>s. Some (as_firstTrySuccessRate s))),
       (PercentFormat, field as_recoveredRate),
       (IntFormat, field (\<lambda>s. Some (as_avgTokens s))),
       (UsdFormat, field (\<lambda>s. Some (as_totalCostUsd s))),
       (ScoreFormat, field as_avgJudgeScore)])"

definition judge_average :: "ApiEvaluationResultRow \<Rightarrow> string option" where
  "judge_average row =
     (let scores = (case aew_judgeScores row of Some (Some cs) \<Rightarrow> map snd cs | _ \<Rightarrow> []) in
      if scores \<noteq> [] then Some (to_fixed 1 (sum_list scores / of_nat (length scores))) else None)"

datatype row_mark = Dash | Tick | Cross

definition row_marks :: "ApiEvaluationResultRow \<Rightarrow> row_mark list" where
  "row_marks row =
     [if aew_resolved row then Tick else Cross,
      if aew_firstTrySuccess row then Tick else Dash,
      (case aew_recovered row of None \<Rightarrow> Dash | Some b \<Rightarrow> if b then Tick else Cross)]"

definition recovery_style :: "ApiEvaluationResultRow \<Rightarrow> string option" where
  "recovery_style row =
     (if truthy (aew_recoveryMode row)
      then Some (if aew_recoveryMode row = Some ''checkpoint'' then ''bg-blue-50 text-blue-700'' else ''bg-fuchsia-50 text-fuchsia-700'')
      else None)"

section \<open>The timeline shows the whole log\<close>

definition segmented :: "segment list \<Rightarrow> ApiTraceEvent list \<Rightarrow> bool" where
  "segmented segs es \<longleftrightarrow>
     concat (map snd segs) = es \<and>
     list_all (\<lambda>seg. snd seg \<noteq> [] \<and> list_all (\<lambda>e. ae_attemptId e = fst seg) (snd seg)) segs \<and>
     successively (\<lambda>s t. fst s \<noteq> fst t) segs"

lemma segmented_push: "segmented segs es \<Longrightarrow> segmented (push_event segs e) (es @ [e])"
proof (cases segs rule: rev_cases)
  case (snoc front seg)
  assume s: "segmented segs es"
  show ?thesis
  proof (cases "fst seg = ae_attemptId e")
    case True
    with s snoc show ?thesis by (auto simp: segmented_def push_event_def successively_append_iff)
  next
    case False
    with s snoc show ?thesis by (auto simp: segmented_def push_event_def successively_append_iff)
  qed
qed (simp add: segmented_def push_event_def)

text \<open>
  Read from top to bottom, the segments are the events of the log in their order, each one once; a
  segment has the events of one attempt, is not empty, and its neighbours belong to other attempts, so
  every change of attempt is a boundary and nothing else is.
\<close>

theorem segments_segmented:
  "segmented (segments events) (loaded events)"
proof -
  have "segmented (foldl push_event [] es) es" for es
  proof (induction es rule: rev_induct)
    case Nil
    then show ?case by (simp add: segmented_def)
  next
    case (snoc e es)
    then show ?case by (simp add: segmented_push)
  qed
  then show ?thesis by (simp add: segments_def)
qed

end
