(* ===== verification/InternalApi.thy ===== *)
theory InternalApi
  imports Bodies Examples
begin

text \<open>
  The worker's API (modules/internal/internal.controller.ts): every route with its body schema, the
  lease check it makes and the service call it ends in.  A header that is missing is \<open>None\<close>.
\<close>

section \<open>Bodies in handlers\<close>

text \<open>\<open>safeParse\<close> with \<open>BadRequestException\<close>, and \<open>parse\<close>, which throws.\<close>

definition checked :: "'b zod \<Rightarrow> json \<Rightarrow> ('b \<Rightarrow> ('s, 'a) tx) \<Rightarrow> ('s, 'a) tx" where
  "checked schema raw k = (case schema raw of None \<Rightarrow> tx_throw (BadRequest ''body'') | Some b \<Rightarrow> k b)"

definition parsed :: "'b zod \<Rightarrow> json \<Rightarrow> ('b \<Rightarrow> ('s, 'a) tx) \<Rightarrow> ('s, 'a) tx" where
  "parsed schema raw k = (case schema raw of None \<Rightarrow> tx_throw (SchemaError ''body'') | Some b \<Rightarrow> k b)"

lemma checked_iff: "checked schema raw k d = Inr r \<longleftrightarrow> (\<exists>b. schema raw = Some b \<and> k b d = Inr r)"
  by (auto simp: checked_def tx_throw_iff split: option.splits)

lemma parsed_iff: "parsed schema raw k d = Inr r \<longleftrightarrow> (\<exists>b. schema raw = Some b \<and> k b d = Inr r)"
  by (auto simp: parsed_def tx_throw_iff split: option.splits)

text \<open>A missing header passed on as a string: the services compare it with a token, and no token is empty.\<close>

definition header :: "string option \<Rightarrow> string" where
  "header h = (case h of None \<Rightarrow> [] | Some t \<Rightarrow> t)"

section \<open>The routes\<close>

definition active_route :: "ctx \<Rightarrow> string \<Rightarrow> (db, bool) tx" where
  "active_route c attemptId =
     tx_read (\<lambda>d. case find_attempt attemptId d of
       None \<Rightarrow> False
     | Some a \<Rightarrow> att_status a = A_RUNNING \<and> lease_valid c a \<and>
         (case find_run (att_runId a) d of None \<Rightarrow> False | Some r \<Rightarrow> run_status r \<in> {R_RUNNING, R_VERIFYING}))"

definition retained_evidence :: "ctx \<Rightarrow> Attempt \<Rightarrow> string \<Rightarrow> (string \<times> json) list \<Rightarrow> Artifact" where
  "retained_evidence c a patch report =
     (let content = stringify (JObj [(''attemptId'', JStr (att_id a)), (''patch'', JStr patch), (''report'', JObj report)]) in
      \<lparr> art_id = ''evidence-'' @ c_sha256 c (att_id a @ content), art_runId = att_runId a, art_attemptId = att_id a,
        art_kind = K_TEST_REPORT, art_name = ''retained-evidence.json'', art_content = content,
        art_sizeBytes = length content, art_createdAt = c_now c \<rparr>)"

text \<open>\<open>upsert\<close> with an empty update.\<close>

definition evidence_route :: "ctx \<Rightarrow> string \<Rightarrow> json \<Rightarrow> (db, Artifact) tx" where
  "evidence_route c attemptId raw =
     parsed (EvidenceSchema attemptId) raw (\<lambda>(patch, report).
     and_then (attempt_findUniqueOrThrow attemptId) (\<lambda>attempt.
     (let row = retained_evidence c attempt patch report in
      and_then (find_unique artifacts art_id (art_id row)) (\<lambda>old.
      case old of Some a \<Rightarrow> tx_return a | None \<Rightarrow> artifact_create row))))"

definition claim_route :: "ctx \<Rightarrow> json \<Rightarrow> (db, ClaimReply) tx" where
  "claim_route c raw = checked ClaimSchema raw (\<lambda>(runId, n, worker). claimAttempt c runId n worker)"

definition heartbeat_route :: "ctx \<Rightarrow> string \<Rightarrow> string option \<Rightarrow> (db, int) tx" where
  "heartbeat_route c attemptId token =
     and_then (lease c attemptId token True) (\<lambda>_. heartbeat c attemptId)"

definition complete_route :: "ctx \<Rightarrow> string \<Rightarrow> string option \<Rightarrow> json \<Rightarrow> (db, attempt_status \<times> run_status) tx" where
  "complete_route c attemptId token raw =
     and_then (lease c attemptId token True) (\<lambda>_.
     checked CompleteSchema raw (completeAttempt c attemptId))"

definition checkpoint_route :: "ctx \<Rightarrow> string \<Rightarrow> string option \<Rightarrow> json \<Rightarrow> (db, string) tx" where
  "checkpoint_route c runId token raw =
     checked CheckpointSchema raw (\<lambda>input.
     and_then (lease c (kp_attemptId input) token True) (\<lambda>(attempt, run).
     and_then (tx_check (att_runId attempt = runId \<and> run_baseCommit run = kp_baseCommit input)
       (BadRequest ''Checkpoint mismatch'')) (\<lambda>_.
     saveCheckpoint c runId input)))"

definition get_checkpoint_route :: "string \<Rightarrow> (db, CheckpointReply) tx" where
  "get_checkpoint_route checkpointId = getCheckpoint checkpointId"

definition phase_route :: "ctx \<Rightarrow> string \<Rightarrow> string option \<Rightarrow> json \<Rightarrow> (db, PhaseReply) tx" where
  "phase_route c attemptId token raw =
     parsed PhaseSchema raw (\<lambda>(ph, detail). phase c attemptId (header token) ph detail)"

definition pause_route :: "ctx \<Rightarrow> string \<Rightarrow> string option \<Rightarrow> json \<Rightarrow> (db, unit) tx" where
  "pause_route c attemptId token raw =
     parsed PauseSchema raw (\<lambda>(reason, patch). pause c attemptId (header token) reason patch)"

definition environment_route :: "ctx \<Rightarrow> string \<Rightarrow> string option \<Rightarrow> json \<Rightarrow> (db, EnvironmentVersion) tx" where
  "environment_route c attemptId token raw =
     parsed EnvironmentSchema raw (\<lambda>(fingerprint, imageId, log).
     environment c attemptId (header token) fingerprint imageId log)"

definition reserve_route ::
  "ctx \<Rightarrow> (string \<Rightarrow> bool) \<Rightarrow> string \<Rightarrow> string option \<Rightarrow> json \<Rightarrow> (db, BudgetCall \<times> int) tx"
where
  "reserve_route c isUuid runId token raw =
     parsed (ReserveSchema isUuid) raw (\<lambda>(attemptId, callId, n). reserve c runId attemptId token callId (int n))"

definition settle_route :: "ctx \<Rightarrow> (string \<Rightarrow> bool) \<Rightarrow> string \<Rightarrow> json \<Rightarrow> (db, BudgetCall) tx" where
  "settle_route c isUuid runId raw =
     parsed (SettleSchema isUuid) raw (\<lambda>(callId, used). settle c runId callId used)"

section \<open>What the routes require of the caller\<close>

lemma lease_iff:
  "lease c aid token check d = Inr (ar, d') \<longleftrightarrow>
     (\<exists>a r. find_attempt aid d = Some a \<and> find_run (att_runId a) d = Some r \<and> lease_held c token a r \<and>
        \<not> (check \<and> time_exhausted c r) \<and> ar = (a, r) \<and> d' = d)"
  by (auto simp: lease_def tx_iff attempt_findUniqueOrThrow_iff run_findUniqueOrThrow_iff)

text \<open>What it means that a request comes from the worker that holds the attempt.\<close>

definition holds_lease :: "ctx \<Rightarrow> string \<Rightarrow> string option \<Rightarrow> db \<Rightarrow> bool" where
  "holds_lease c attemptId token d \<longleftrightarrow>
     (\<exists>a r t. find_attempt attemptId d = Some a \<and> find_run (att_runId a) d = Some r \<and>
        token = Some t \<and> t \<noteq> [] \<and> att_leaseToken a = Some t \<and> att_status a = A_RUNNING \<and>
        (\<exists>e. att_leaseExpiresAt a = Some e \<and> c_now c < e) \<and> run_status r \<in> {R_RUNNING, R_VERIFYING})"

lemma lease_held_holds:
  assumes "find_attempt aid d = Some a" and "find_run (att_runId a) d = Some r" and "lease_held c token a r"
  shows "holds_lease c aid token d"
proof -
  from assms(3) obtain t e where "token = Some t" "t \<noteq> []" "att_leaseToken a = Some t" "att_status a = A_RUNNING"
      "att_leaseExpiresAt a = Some e" "c_now c < e" "run_status r \<in> {R_RUNNING, R_VERIFYING}"
    by (cases token; cases "att_leaseExpiresAt a") (auto simp: lease_held_def lease_valid_def)
  with assms(1,2) show ?thesis unfolding holds_lease_def by blast
qed

lemma withLease_holds:
  assumes "withLease c aid token op check d = Inr (x, d')"
  shows "holds_lease c aid (Some token) d"
  using assms
  by (auto simp: withLease_def and_then_iff attempt_findUniqueOrThrow_iff lease_iff intro: lease_held_holds)

lemma header_holds: "holds_lease c aid (Some (header token)) d \<Longrightarrow> holds_lease c aid token d"
  by (cases token) (auto simp: header_def holds_lease_def)

text \<open>
  C5. A worker that has lost its lease changes nothing: heartbeat, completion, checkpoint, phase, pause
  and environment requests succeed only when the request carries the attempt's own lease token, the
  attempt is still RUNNING, its lease has not expired at the time of the request and its run is RUNNING
  or VERIFYING; a request without the header is always refused.
\<close>

theorem worker_requests_need_the_lease:
  assumes "heartbeat_route c aid token d = Inr (ttl, d') \<or>
    complete_route c aid token raw d = Inr (st, d') \<or>
    (checkpoint_route c rid token raw d = Inr (kid, d') \<and> CheckpointSchema raw = Some input \<and> kp_attemptId input = aid) \<or>
    phase_route c aid token raw d = Inr (ph, d') \<or>
    pause_route c aid token raw d = Inr (u, d') \<or>
    environment_route c aid token raw d = Inr (e, d')"
  shows "holds_lease c aid token d"
  using assms
proof (elim disjE)
  assume "heartbeat_route c aid token d = Inr (ttl, d')"
  then show ?thesis by (auto simp: heartbeat_route_def and_then_iff lease_iff intro: lease_held_holds)
next
  assume "complete_route c aid token raw d = Inr (st, d')"
  then show ?thesis by (auto simp: complete_route_def and_then_iff lease_iff intro: lease_held_holds)
next
  assume "checkpoint_route c rid token raw d = Inr (kid, d') \<and> CheckpointSchema raw = Some input \<and> kp_attemptId input = aid"
  then show ?thesis
    by (auto simp: checkpoint_route_def checked_iff and_then_iff lease_iff intro: lease_held_holds)
next
  assume "phase_route c aid token raw d = Inr (ph, d')"
  then have "holds_lease c aid (Some (header token)) d"
    by (auto simp: phase_route_def parsed_iff phase_def dest: withLease_holds)
  then show ?thesis by (rule header_holds)
next
  assume "pause_route c aid token raw d = Inr (u, d')"
  then have "holds_lease c aid (Some (header token)) d"
    by (auto simp: pause_route_def parsed_iff pause_def dest: withLease_holds)
  then show ?thesis by (rule header_holds)
next
  assume "environment_route c aid token raw d = Inr (e, d')"
  then have "holds_lease c aid (Some (header token)) d"
    by (auto simp: environment_route_def parsed_iff environment_def dest: withLease_holds)
  then show ?thesis by (rule header_holds)
qed

theorem worker_requests_need_the_lease_witness:
  "(\<exists>d'. heartbeat_route (ex_ctx ''c'' 3000) ''b0'' (Some ''token-b'') ex_claimed = Inr (60000, d')) \<and>
   holds_lease (ex_ctx ''c'' 3000) ''b0'' (Some ''token-b'') ex_claimed"
proof -
  obtain d' where h: "heartbeat_route (ex_ctx ''c'' 3000) ''b0'' (Some ''token-b'') ex_claimed = Inr (60000, d')"
  proof
    show "heartbeat_route (ex_ctx ''c'' 3000) ''b0'' (Some ''token-b'') ex_claimed = Inr (60000,
        ex_state (heartbeat_route (ex_ctx ''c'' 3000) ''b0'' (Some ''token-b'')) ex_claimed)"
      by code_simp
  qed
  from worker_requests_need_the_lease [of "ex_ctx ''c'' 3000" "''b0''" "Some ''token-b''" ex_claimed 60000 d'] h
  show ?thesis by blast
qed

definition ex_reserve :: json where
  "ex_reserve = JObj [(''attemptId'', JStr ''b0''), (''id'', JStr ''call''), (''reserved'', JNum 100)]"


end
