(* ===== verification/PullRequests.thy ===== *)
theory PullRequests
  imports Registration "HOL-Library.Sublist"
begin

text \<open>
  What is read from GitHub: requests with a stored credential, the inspection of a pull request, the logs of
  a job (modules/github/pr-import.service.ts), the routes that import them (task-draft.service.ts,
  task-draft.controller.ts) and the check of a repository's access (repository.controller.ts).  GitHub is a
  function from paths and tokens to replies; what it returns is JSON of any shape.
\<close>

section \<open>Properties of JSON values\<close>

text \<open>\<open>x.k\<close> and \<open>x?.k\<close>, where \<open>None\<close> is \<open>undefined\<close>.\<close>

definition js_get :: "string \<Rightarrow> json option \<Rightarrow> err + json option" where
  "js_get k x = (case x of None \<Rightarrow> Inl (Failure k) | Some JNull \<Rightarrow> Inl (Failure k)
     | Some (JObj kvs) \<Rightarrow> Inr (map_of kvs k) | Some _ \<Rightarrow> Inr None)"

definition js_maybe :: "string \<Rightarrow> json option \<Rightarrow> err + json option" where
  "js_maybe k x = (if x = None \<or> x = Some JNull then Inr None else js_get k x)"

definition err_bind :: "err + 'a \<Rightarrow> ('a \<Rightarrow> err + 'b) \<Rightarrow> err + 'b" where
  "err_bind x f = (case x of Inl e \<Rightarrow> Inl e | Inr a \<Rightarrow> f a)"

lemma err_bind_iff: "err_bind x f = Inr b \<longleftrightarrow> (\<exists>a. x = Inr a \<and> f a = Inr b)"
  by (auto simp: err_bind_def split: sum.splits)

text \<open>\<open>x?.slice(0, n)\<close> on text and lists; the text GitHub returns is counted in characters.\<close>

definition js_slice :: "nat \<Rightarrow> json option \<Rightarrow> err + json option" where
  "js_slice n x = (case x of None \<Rightarrow> Inr None | Some JNull \<Rightarrow> Inr None
     | Some (JStr s) \<Rightarrow> Inr (Some (JStr (take n s))) | Some (JArr xs) \<Rightarrow> Inr (Some (JArr (take n xs)))
     | Some _ \<Rightarrow> Inl (Failure ''slice is not a function''))"

definition js_list :: "json option \<Rightarrow> err + json list" where
  "js_list x = (case x of Some (JArr xs) \<Rightarrow> Inr xs | _ \<Rightarrow> Inl (Failure ''map is not a function''))"

fun err_map :: "('a \<Rightarrow> err + 'b) \<Rightarrow> 'a list \<Rightarrow> err + 'b list" where
  "err_map f [] = Inr []"
| "err_map f (x # xs) = err_bind (f x) (\<lambda>y. err_bind (err_map f xs) (\<lambda>ys. Inr (y # ys)))"

text \<open>A value in a template literal or a link: what the code reads there is text.\<close>

definition js_text :: "json option \<Rightarrow> string" where
  "js_text x = (case x of Some (JStr s) \<Rightarrow> s | Some JNull \<Rightarrow> ''null'' | None \<Rightarrow> ''undefined'' | Some j \<Rightarrow> stringify j)"

section \<open>Requests\<close>

text \<open>A reply: the status and the JSON body; a request that fails throws.\<close>

type_synonym github = "string \<Rightarrow> string \<Rightarrow> err + nat \<times> json"

definition credential_token :: "(string \<Rightarrow> err + string) \<Rightarrow> string option \<Rightarrow> err + string" where
  "credential_token read cred = (if truthy cred then read (the cred) else Inr [])"

definition status_ok :: "nat \<Rightarrow> bool" where
  "status_ok s \<longleftrightarrow> 200 \<le> s \<and> s < 300"

definition request :: "github \<Rightarrow> (string \<Rightarrow> err + string) \<Rightarrow> string \<Rightarrow> string option \<Rightarrow> err + json" where
  "request github read path cred =
     err_bind (credential_token read cred) (\<lambda>token.
     err_bind (github path token) (\<lambda>(status, body).
     if \<not> status_ok status then Inl (BadRequest (''GitHub HTTP '' @ show_nat status)) else Inr body))"

text \<open>
  The paging loops: at most \<open>n\<close> pages, ended by one with fewer than 100 entries.  A page is the number of
  entries GitHub sent and what the code keeps of them.
\<close>

fun fetch_pages :: "(nat \<Rightarrow> err + nat \<times> 'x list) \<Rightarrow> nat \<Rightarrow> nat \<Rightarrow> err + 'x list" where
  "fetch_pages get page 0 = Inr []"
| "fetch_pages get page (Suc n) =
     err_bind (get page) (\<lambda>(entries, kept).
     if entries < 100 then Inr kept
     else err_bind (fetch_pages get (Suc page) n) (\<lambda>rest. Inr (kept @ rest)))"

section \<open>Inspecting a pull request\<close>

record ImportedFile =
  if_filename :: "json option"
  if_status :: "json option"
  if_patch :: "json option"

record FailedCheck =
  fc_id :: "json option"
  fc_name :: "json option"
  fc_sha :: "json option"
  fc_conclusion :: "json option"
  fc_url :: "json option"
  fc_summary :: json
  fc_text :: json

record WorkflowRun =
  wr_id :: "json option"
  wr_name :: "json option"
  wr_attempt :: "json option"
  wr_sha :: "json option"
  wr_conclusion :: "json option"
  wr_url :: "json option"
  wr_createdAt :: "json option"

record PrInfo =
  pr_title :: "json option"
  pr_description :: "json option"
  pr_headSha :: "json option"
  pr_baseSha :: "json option"
  pr_headBranch :: "json option"
  pr_baseBranch :: "json option"
  pr_files :: "ImportedFile list"
  pr_checks :: "FailedCheck list"
  pr_runs :: "WorkflowRun list"

definition imported_file :: "json \<Rightarrow> err + ImportedFile" where
  "imported_file f =
     err_bind (js_get ''filename'' (Some f)) (\<lambda>name.
     err_bind (js_get ''status'' (Some f)) (\<lambda>status.
     err_bind (js_get ''patch'' (Some f)) (\<lambda>patch.
     err_bind (js_slice 10000 patch) (\<lambda>cut.
     Inr \<lparr> if_filename = name, if_status = status, if_patch = cut \<rparr>))))"

definition FAILED_CONCLUSIONS :: "string list" where
  "FAILED_CONCLUSIONS = [''failure'', ''timed_out'', ''cancelled'', ''action_required'']"

definition failed_check :: "json \<Rightarrow> err + bool" where
  "failed_check ch = err_bind (js_get ''conclusion'' (Some ch)) (\<lambda>v. Inr (v \<in> Some ` JStr ` set FAILED_CONCLUSIONS))"

text \<open>\<open>c.output?.summary?.slice(0, 20000) ?? ''\<close>\<close>

definition check_output :: "string \<Rightarrow> json \<Rightarrow> err + json" where
  "check_output k ch =
     err_bind (js_get ''output'' (Some ch)) (\<lambda>out.
     err_bind (js_maybe k out) (\<lambda>v.
     err_bind (js_slice 20000 v) (\<lambda>cut. Inr (case cut of None \<Rightarrow> JStr [] | Some j \<Rightarrow> j))))"

definition check_entry :: "json \<Rightarrow> err + FailedCheck" where
  "check_entry ch =
     err_bind (check_output ''summary'' ch) (\<lambda>summary.
     err_bind (check_output ''text'' ch) (\<lambda>txt.
     err_bind (err_map (\<lambda>k. js_get k (Some ch)) [''id'', ''name'', ''head_sha'', ''conclusion'', ''details_url'']) (\<lambda>vs.
     Inr \<lparr> fc_id = vs ! 0, fc_name = vs ! 1, fc_sha = vs ! 2, fc_conclusion = vs ! 3, fc_url = vs ! 4,
       fc_summary = summary, fc_text = txt \<rparr>)))"

fun err_filter :: "('a \<Rightarrow> err + bool) \<Rightarrow> 'a list \<Rightarrow> err + 'a list" where
  "err_filter p [] = Inr []"
| "err_filter p (x # xs) = err_bind (p x) (\<lambda>b. err_bind (err_filter p xs) (\<lambda>ys. Inr (if b then x # ys else ys)))"

definition workflow_run :: "json \<Rightarrow> err + WorkflowRun" where
  "workflow_run r =
     err_bind (err_map (\<lambda>k. js_get k (Some r))
       [''id'', ''name'', ''run_attempt'', ''head_sha'', ''conclusion'', ''html_url'', ''created_at'']) (\<lambda>vs.
     Inr \<lparr> wr_id = vs ! 0, wr_name = vs ! 1, wr_attempt = vs ! 2, wr_sha = vs ! 3, wr_conclusion = vs ! 4,
       wr_url = vs ! 5, wr_createdAt = vs ! 6 \<rparr>)"

definition page_query_string :: "nat \<Rightarrow> string" where
  "page_query_string page = ''per_page=100&page='' @ show_nat page"

definition files_page :: "github \<Rightarrow> (string \<Rightarrow> err + string) \<Rightarrow> string \<Rightarrow> nat \<Rightarrow> string option \<Rightarrow> nat \<Rightarrow>
    err + nat \<times> ImportedFile list" where
  "files_page github read repo number cred page =
     err_bind (request github read (''/repos/'' @ repo @ ''/pulls/'' @ show_nat number @ ''/files?'' @ page_query_string page) cred) (\<lambda>body.
     err_bind (js_list (Some body)) (\<lambda>batch.
     err_bind (err_map imported_file batch) (\<lambda>files. Inr (length batch, files))))"

definition checks_page :: "github \<Rightarrow> (string \<Rightarrow> err + string) \<Rightarrow> string \<Rightarrow> string \<Rightarrow> string option \<Rightarrow> nat \<Rightarrow>
    err + nat \<times> FailedCheck list" where
  "checks_page github read repo sha cred page =
     err_bind (request github read (''/repos/'' @ repo @ ''/commits/'' @ sha @ ''/check-runs?'' @ page_query_string page) cred) (\<lambda>body.
     err_bind (js_get ''check_runs'' (Some body)) (\<lambda>v.
     err_bind (js_list v) (\<lambda>batch.
     err_bind (err_filter failed_check batch) (\<lambda>failed.
     err_bind (err_map check_entry failed) (\<lambda>checks. Inr (length batch, checks))))))"

text \<open>\<open>pr.head.repo?.full_name !== pr.base.repo?.full_name\<close>; two missing names are equal.\<close>

definition same_repository :: "json option \<Rightarrow> json option \<Rightarrow> err + bool" where
  "same_repository head base =
     err_bind (js_get ''repo'' head) (\<lambda>hr. err_bind (js_maybe ''full_name'' hr) (\<lambda>hn.
     err_bind (js_get ''repo'' base) (\<lambda>br. err_bind (js_maybe ''full_name'' br) (\<lambda>bn. Inr (hn = bn)))))"

text \<open>\<open>x || y\<close>\<close>

definition js_or :: "json option \<Rightarrow> json option \<Rightarrow> json option" where
  "js_or body title = (if body \<in> {None, Some JNull, Some (JStr []), Some (JBool False), Some (JNum 0)} then title else body)"

definition inspect :: "github \<Rightarrow> (string \<Rightarrow> err + string) \<Rightarrow> string \<Rightarrow> string \<Rightarrow> string option \<Rightarrow> err + PrInfo" where
  "inspect github read url repo cred =
     (case parsePrUrl url of
        None \<Rightarrow> Inl (BadRequest ''Expected a GitHub pull request URL'')
      | Some (named, number) \<Rightarrow>
          if toLowerCase named \<noteq> toLowerCase repo then Inl (BadRequest ''PR does not belong to the selected repository'')
          else err_bind (request github read (''/repos/'' @ repo @ ''/pulls/'' @ show_nat number) cred) (\<lambda>pr.
            err_bind (js_get ''state'' (Some pr)) (\<lambda>state.
            err_bind (js_get ''head'' (Some pr)) (\<lambda>head.
            err_bind (js_get ''base'' (Some pr)) (\<lambda>base.
            err_bind (if state \<noteq> Some (JStr ''open'') then Inr False else same_repository head base) (\<lambda>ok.
            if \<not> ok then Inl (BadRequest ''Only open, same-repository PRs are supported'')
            else
              err_bind (fetch_pages (files_page github read repo number cred) 1 30) (\<lambda>files.
              err_bind (js_get ''sha'' head) (\<lambda>sha.
              err_bind (fetch_pages (checks_page github read repo (js_text sha) cred) 1 10) (\<lambda>checks.
              err_bind (request github read (''/repos/'' @ repo @ ''/actions/runs?head_sha='' @ js_text sha @ ''&per_page=100'') cred) (\<lambda>wr.
              err_bind (js_get ''workflow_runs'' (Some wr)) (\<lambda>v.
              err_bind (js_list v) (\<lambda>rs.
              err_bind (err_map workflow_run rs) (\<lambda>runs.
              err_bind (err_map (\<lambda>k. js_get k (Some pr)) [''title'', ''body'']) (\<lambda>tb.
              err_bind (js_get ''sha'' base) (\<lambda>baseSha.
              err_bind (js_get ''ref'' head) (\<lambda>headRef.
              err_bind (js_get ''ref'' base) (\<lambda>baseRef.
              Inr \<lparr> pr_title = tb ! 0, pr_description = js_or (tb ! 1) (tb ! 0), pr_headSha = sha,
                pr_baseSha = baseSha, pr_headBranch = headRef, pr_baseBranch = baseRef, pr_files = files,
                pr_checks = checks, pr_runs = runs \<rparr>)))))))))))))))))"

section \<open>Job logs\<close>

text \<open>A reply with a body: the chunks it arrives in.  \<open>None\<close> is a missing body.\<close>

record log_reply =
  lg_status :: nat
  lg_location :: "string option"
  lg_body :: "string list option"

definition LOG_LIMIT :: nat where
  "LOG_LIMIT = 200000"

text \<open>The reader takes chunks until the limit is reached, and cuts the last one.\<close>

fun read_chunks :: "nat \<Rightarrow> string list \<Rightarrow> string" where
  "read_chunks n [] = []"
| "read_chunks n (ch # cs) =
     (if LOG_LIMIT \<le> n then []
      else (let part = take (LOG_LIMIT - n) ch in part @ read_chunks (n + length part) cs))"

text \<open>\<open>text.split(token).join(mark)\<close>\<close>

function replace_all :: "string \<Rightarrow> string \<Rightarrow> string \<Rightarrow> string" where
  "replace_all token mark [] = []"
| "replace_all token mark (x # xs) =
     (if token \<noteq> [] \<and> startsWith (x # xs) token then mark @ replace_all token mark (drop (length token) (x # xs))
      else x # replace_all token mark xs)"
  by pat_completeness auto
termination
  by (relation "measure (\<lambda>(_, _, s). length s)") auto

definition MARK :: string where
  "MARK = ''[REDACTED]''"

text \<open>\<open>(?:gh[pousr]_[A-Za-z0-9_]+|github_pat_[A-Za-z0-9_]+)\<close>: what is left after a match at the front.\<close>

definition TOKEN_PREFIXES :: "string list" where
  "TOKEN_PREFIXES = [''ghp_'', ''gho_'', ''ghu_'', ''ghs_'', ''ghr_'', ''github_pat_'']"

definition token_match :: "string \<Rightarrow> string option" where
  "token_match s =
     (case List.find (\<lambda>p. startsWith s p \<and> takeWhile word_char (drop (length p) s) \<noteq> []) TOKEN_PREFIXES of
        None \<Rightarrow> None
      | Some p \<Rightarrow> Some (dropWhile word_char (drop (length p) s)))"

lemma token_match_shorter: "token_match s = Some r \<Longrightarrow> \<exists>m. m \<noteq> [] \<and> s = m @ r"
proof -
  assume "token_match s = Some r"
  then obtain p where p: "p \<in> set TOKEN_PREFIXES" "startsWith s p" "r = dropWhile word_char (drop (length p) s)"
    by (auto simp: token_match_def find_Some_iff split: option.splits) (metis nth_mem)
  have "s = (p @ takeWhile word_char (drop (length p) s)) @ r"
    using startsWith_rest [OF p(2)] p(3) by simp
  moreover have "p \<noteq> []" using p(1) by (auto simp: TOKEN_PREFIXES_def)
  ultimately show ?thesis by blast
qed

function redact_tokens :: "string \<Rightarrow> string" where
  "redact_tokens [] = []"
| "redact_tokens (x # xs) =
     (case token_match (x # xs) of Some r \<Rightarrow> MARK @ redact_tokens r | None \<Rightarrow> x # redact_tokens xs)"
  by pat_completeness auto
termination
proof (relation "measure length")
  fix x xs r
  assume "token_match (x # xs) = Some r"
  from token_match_shorter [OF this] obtain m where "m \<noteq> []" "x # xs = m @ r" by blast
  then show "(r, x # xs) \<in> measure length" by (cases m) auto
qed auto

definition TRUNCATED :: string where
  "TRUNCATED = CHR 0x0A # ''[log truncated at 200 KB]''"

text \<open>
  The request to GitHub with the credential, and the download of a redirect, which carries none;
  \<open>protocol\<close> is that of a parsed URL.
\<close>

definition jobLog ::
  "(string \<Rightarrow> string \<Rightarrow> err + log_reply) \<Rightarrow> (string \<Rightarrow> err + log_reply) \<Rightarrow> (string \<Rightarrow> err + string) \<Rightarrow>
   (string \<Rightarrow> err + string) \<Rightarrow> string \<Rightarrow> nat \<Rightarrow> string option \<Rightarrow> err + string"
where
  "jobLog github download protocol read repo jobId cred =
     err_bind (credential_token read cred) (\<lambda>token.
     err_bind (github (''/repos/'' @ repo @ ''/actions/jobs/'' @ show_nat jobId @ ''/logs'') token) (\<lambda>response.
     err_bind
       (if lg_status response = 302
        then (if \<not> truthy (lg_location response) then Inl (BadRequest ''Invalid log download location'')
          else err_bind (protocol (the (lg_location response))) (\<lambda>pr.
            if pr \<noteq> ''https:'' then Inl (BadRequest ''Invalid log download location'')
            else download (the (lg_location response))))
        else Inr response) (\<lambda>result.
     if \<not> status_ok (lg_status result) \<or> lg_body result = None then Inl (BadRequest ''Logs unavailable'')
     else (let raw = read_chunks 0 (the (lg_body result));
               text = (if token \<noteq> [] then replace_all token MARK raw else raw) in
       Inr (redact_tokens text @ (if LOG_LIMIT \<le> length raw then TRUNCATED else []))))))"

section \<open>The routes of the drafts\<close>

definition importPr :: "github \<Rightarrow> (string \<Rightarrow> err + string) \<Rightarrow> string \<Rightarrow> string \<Rightarrow> (db, PrInfo) tx" where
  "importPr github read repositoryId url =
     and_then (repository_get repositoryId) (\<lambda>repo.
     tx_lift (inspect github read url (the (prj_githubRepo repo)) (prj_readCredential repo)))"

definition job_entry :: "json \<Rightarrow> err + json option list" where
  "job_entry j = err_map (\<lambda>k. js_get k (Some j)) [''id'', ''name'', ''conclusion'', ''html_url'', ''steps'']"

definition jobs_page :: "github \<Rightarrow> (string \<Rightarrow> err + string) \<Rightarrow> string \<Rightarrow> nat \<Rightarrow> nat \<Rightarrow> string option \<Rightarrow> nat \<Rightarrow>
    err + nat \<times> json option list list" where
  "jobs_page github read repo runId attempt cred page =
     err_bind (request github read (''/repos/'' @ repo @ ''/actions/runs/'' @ show_nat runId @ ''/attempts/'' @
       show_nat attempt @ ''/jobs?'' @ page_query_string page) cred) (\<lambda>body.
     err_bind (js_get ''jobs'' (Some body)) (\<lambda>v.
     err_bind (js_list v) (\<lambda>batch.
     err_bind (err_map job_entry batch) (\<lambda>jobs. Inr (length batch, jobs)))))"

definition workflowJobs ::
  "github \<Rightarrow> (string \<Rightarrow> err + string) \<Rightarrow> string \<Rightarrow> nat \<Rightarrow> nat \<Rightarrow> (db, json option list list) tx"
where
  "workflowJobs github read repositoryId runId attempt =
     and_then (repository_get repositoryId) (\<lambda>repo.
     tx_lift (fetch_pages (jobs_page github read (the (prj_githubRepo repo)) runId attempt (prj_readCredential repo)) 1 10))"

text \<open>The bodies of the routes.\<close>

definition ImportSchema :: "(string \<times> string) zod" where
  "ImportSchema = z_strict [''repositoryId'', ''url''] (\<lambda>kvs. do {
     repositoryId \<leftarrow> z_field ''repositoryId'' z_string kvs;
     url \<leftarrow> z_field ''url'' z_string kvs;
     Some (repositoryId, url) })"

definition JobsSchema :: "(string \<times> nat \<times> nat) zod" where
  "JobsSchema = z_object (\<lambda>kvs. do {
     repositoryId \<leftarrow> z_field ''repositoryId'' z_string kvs;
     runId \<leftarrow> z_field ''runId'' z_positive kvs;
     attempt \<leftarrow> z_field ''attempt'' z_positive kvs;
     Some (repositoryId, runId, attempt) })"

definition JobLogSchema :: "(string \<times> nat) zod" where
  "JobLogSchema = z_object (\<lambda>kvs. do {
     repositoryId \<leftarrow> z_field ''repositoryId'' z_string kvs;
     jobId \<leftarrow> z_field ''jobId'' z_positive kvs;
     Some (repositoryId, jobId) })"

text \<open>\<open>POST repositories/:id/check\<close>: what the credentials can do.\<close>

record AccessReport =
  acc_readable :: bool
  acc_writeConfigured :: bool
  acc_push :: bool

definition check_repository :: "github \<Rightarrow> (string \<Rightarrow> err + string) \<Rightarrow> string \<Rightarrow> (db, AccessReport) tx" where
  "check_repository github read rid =
     and_then (repository_get rid) (\<lambda>repo.
     (let path = ''/repos/'' @ (case prj_githubRepo repo of None \<Rightarrow> ''null'' | Some r \<Rightarrow> r) in
      tx_lift (
        err_bind (request github read path (prj_readCredential repo)) (\<lambda>r.
        err_bind (if truthy (prj_writeCredential repo)
            then map_sum id Some (request github read path (prj_writeCredential repo)) else Inr None) (\<lambda>w.
        err_bind (js_get ''full_name'' (Some r)) (\<lambda>name.
        err_bind (js_maybe ''permissions'' w) (\<lambda>perms.
        err_bind (js_maybe ''push'' perms) (\<lambda>push.
        Inr \<lparr> acc_readable = (js_or name None \<noteq> None), acc_writeConfigured = truthy (prj_writeCredential repo),
          acc_push = (push = Some (JBool True)) \<rparr>))))))))"

section \<open>Properties\<close>

lemma err_map_Cons: "err_map f (x # xs) = Inr ys \<longleftrightarrow> (\<exists>z zs. f x = Inr z \<and> err_map f xs = Inr zs \<and> ys = z # zs)"
  by (auto simp: err_bind_iff)

lemma err_map_take_drop:
  "err_map f xs = Inr ys \<Longrightarrow> err_map f (take n xs) = Inr (take n ys) \<and> err_map f (drop n xs) = Inr (drop n ys)"
proof (induction xs arbitrary: n ys)
  case (Cons x xs)
  then show ?case by (cases n) (auto simp: err_map_Cons simp del: err_map.simps(2))
qed simp

lemma err_map_length: "err_map f xs = Inr ys \<Longrightarrow> length ys = length xs"
  by (induction xs arbitrary: ys) (auto simp: err_map_Cons simp del: err_map.simps(2))

text \<open>The paging loop collects the first \<open>100 n\<close> entries of a list that is served in pages of 100.\<close>

lemma fetch_pages_slices:
  assumes "\<And>k. get (Suc k) = Inr (length (take 100 (drop (100 * k) items)), take 100 (drop (100 * k) items))"
  shows "fetch_pages get (Suc k) n = Inr (take (100 * n) (drop (100 * k) items))"
proof (induction n arbitrary: k)
  case (Suc n)
  show ?case
  proof (cases "length (take 100 (drop (100 * k) items)) < 100")
    case True
    then have len: "length (drop (100 * k) items) < 100" by simp
    then have "take 100 (drop (100 * k) items) = drop (100 * k) items"
        "take (100 * Suc n) (drop (100 * k) items) = drop (100 * k) items" by simp_all
    with assms [of k] len show ?thesis by (simp only: fetch_pages.simps err_bind_def) simp
  next
    case False
    have "take (100 * Suc n) (drop (100 * k) items) =
        take 100 (drop (100 * k) items) @ take (100 * n) (drop (100 * Suc k) items)"
      using take_add [of 100 "100 * n" "drop (100 * k) items"] by (simp add: add.commute)
    with False Suc.IH [of "Suc k"] assms [of k] show ?thesis by (simp add: err_bind_def)
  qed
qed simp

lemma files_collected:
  assumes "credential_token read cred = Inr token"
    and "\<forall>k. github (''/repos/'' @ repo @ ''/pulls/'' @ show_nat number @ ''/files?'' @ page_query_string (Suc k)) token =
      Inr (200, JArr (take 100 (drop (100 * k) files)))"
    and "err_map imported_file files = Inr entries"
  shows "fetch_pages (files_page github read repo number cred) 1 30 = Inr (take 3000 entries)"
proof -
  have "files_page github read repo number cred (Suc k) =
      Inr (length (take 100 (drop (100 * k) entries)), take 100 (drop (100 * k) entries))" for k
  proof -
    have "err_map imported_file (take 100 (drop (100 * k) files)) = Inr (take 100 (drop (100 * k) entries))"
      using err_map_take_drop [OF conjunct2 [OF err_map_take_drop [OF assms(3)]]] by blast
    moreover have "length (take 100 (drop (100 * k) files)) = length (take 100 (drop (100 * k) entries))"
      using err_map_length [OF assms(3)] by simp
    ultimately show ?thesis
      using assms(1,2) by (simp add: files_page_def request_def err_bind_def status_ok_def js_list_def)
  qed
  from fetch_pages_slices [of "files_page github read repo number cred" entries, OF this, of 0 30]
  show ?thesis by simp
qed

text \<open>
  C29. Importing a pull request shows every changed file, whatever pages GitHub sends them in: for a list of
  changed files served in pages of 100, the import returns exactly the entries of that list in its order,
  each with its patch cut at 10,000 characters, up to the first 3,000 (the limit of GitHub's API).
\<close>

theorem import_shows_every_changed_file:
  assumes "inspect github read url repo cred = Inr info" and "parsePrUrl url = Some (named, number)"
    and "credential_token read cred = Inr token"
    and "\<forall>k. github (''/repos/'' @ repo @ ''/pulls/'' @ show_nat number @ ''/files?'' @ page_query_string (Suc k)) token =
      Inr (200, JArr (take 100 (drop (100 * k) files)))"
    and "err_map imported_file files = Inr entries"
  shows "pr_files info = take 3000 entries \<and> (length files \<le> 3000 \<longrightarrow> length (pr_files info) = length files)"
proof -
  have "fetch_pages (files_page github read repo number cred) 1 30 = Inr (take 3000 entries)"
    using files_collected [of read cred token github repo number files entries] assms(3-5) by blast
  then have "pr_files info = take 3000 entries"
    using assms(1,2) by (auto simp: inspect_def err_bind_iff split: if_splits)
  then show ?thesis using err_map_length [OF assms(5)] by simp
qed

subsection \<open>Logs\<close>

lemma read_chunks_take: "n \<le> LOG_LIMIT \<Longrightarrow> read_chunks n cs = take (LOG_LIMIT - n) (concat cs)"
proof (induction cs arbitrary: n)
  case (Cons ch cs)
  have "read_chunks (n + length (take (LOG_LIMIT - n) ch)) cs =
      take (LOG_LIMIT - (n + length (take (LOG_LIMIT - n) ch))) (concat cs)"
    using Cons.prems by (intro Cons.IH) auto
  then show ?case using Cons.prems by (auto simp: Let_def min_def)
qed simp

lemma sublist_separated:
  assumes "ch \<notin> set u"
  shows "sublist u (a @ ch # b) \<longleftrightarrow> sublist u a \<or> sublist u b"
proof
  assume "sublist u (a @ ch # b)"
  then consider "sublist u a" | "prefix u (ch # b)" | "sublist u b" | v w where "u = v @ w" "suffix v a" "prefix w (ch # b)"
    by (auto simp: sublist_append sublist_Cons_right)
  then show "sublist u a \<or> sublist u b"
  proof cases
    case 2
    with assms have "u = []" by (cases u) auto
    then show ?thesis by simp
  next
    case (4 v w)
    with assms have "w = []" by (cases w) auto
    with 4 show ?thesis by (simp add: suffix_imp_sublist)
  qed simp_all
next
  assume "sublist u a \<or> sublist u b"
  then show "sublist u (a @ ch # b)" by (auto simp: sublist_append sublist_Cons_right)
qed

lemma sublist_short: "length a < length u \<Longrightarrow> \<not> sublist u a"
  by (auto simp: sublist_def)

text \<open>A secret: at least ten characters, all of them letters, digits or underscores.\<close>

definition secret :: "string \<Rightarrow> bool" where
  "secret u \<longleftrightarrow> 9 < length u \<and> list_all word_char u"

lemma secret_free: "secret u \<Longrightarrow> \<not> word_char ch \<Longrightarrow> ch \<notin> set u"
  by (auto simp: secret_def list_all_iff)

lemma secret_marks:
  assumes "secret u"
  shows "CHR ''['' \<notin> set u" "CHR '']'' \<notin> set u" "CHR '' '' \<notin> set u" "CHR 0x0A \<notin> set u"
  using secret_free [OF assms] by (simp_all add: word_char_def)

lemma sublist_MARK:
  assumes "secret u"
  shows "sublist u (MARK @ t) \<longleftrightarrow> sublist u t"
proof -
  note ch = secret_marks(1,2) [OF assms]
  have len: "\<not> sublist u ''REDACTED''" "\<not> sublist u []" using assms by (auto intro!: sublist_short simp: secret_def)
  have "MARK @ t = [] @ CHR ''['' # (''REDACTED'' @ CHR '']'' # t)" by (simp add: MARK_def)
  then have "sublist u (MARK @ t) \<longleftrightarrow> sublist u (''REDACTED'' @ CHR '']'' # t)"
    using sublist_separated [OF ch(1), of "[]" "''REDACTED'' @ CHR '']'' # t"] len(2) by (simp only:) simp
  also have "\<dots> \<longleftrightarrow> sublist u t" using sublist_separated [OF ch(2), of "''REDACTED''" t] len(1) by blast
  finally show ?thesis .
qed

lemma sublist_TRUNCATED:
  assumes "secret u"
  shows "sublist u (t @ TRUNCATED) \<longleftrightarrow> sublist u t"
proof -
  note ch = secret_marks(4,3) [OF assms]
  have short: "\<not> sublist u w" if "length w \<le> 9" for w
    using assms that by (auto intro!: sublist_short simp: secret_def)
  have "sublist u ''[log truncated at 200 KB]'' \<longleftrightarrow> sublist u ''[log'' \<or> sublist u ''truncated at 200 KB]''"
    using sublist_separated [OF ch(2), of "''[log''" "''truncated at 200 KB]''"] by simp
  also have "\<dots> \<longleftrightarrow> sublist u ''truncated at 200 KB]''" using short [of "''[log''"] by simp
  also have "\<dots> \<longleftrightarrow> sublist u ''truncated'' \<or> sublist u ''at 200 KB]''"
    using sublist_separated [OF ch(2), of "''truncated''" "''at 200 KB]''"] by simp
  also have "\<dots> \<longleftrightarrow> sublist u ''at 200 KB]''" using short [of "''truncated''"] by simp
  also have "\<dots> \<longleftrightarrow> sublist u ''at 200'' \<or> sublist u ''KB]''"
    using sublist_separated [OF ch(2), of "''at 200''" "''KB]''"] by simp
  also have "\<dots> \<longleftrightarrow> False" using short [of "''at 200''"] short [of "''KB]''"] by simp
  finally show ?thesis using sublist_separated [OF ch(1), of t] unfolding TRUNCATED_def by simp
qed

text \<open>Both redactions copy the text, and put the mark in the place of some pieces.\<close>

inductive marked :: "string \<Rightarrow> string \<Rightarrow> bool" where
  empty: "marked [] []"
| copy: "marked xs t \<Longrightarrow> marked (x # xs) (x # t)"
| mark: "marked r t \<Longrightarrow> m \<noteq> [] \<Longrightarrow> marked (m @ r) (MARK @ t)"

lemma marked_redact: "marked s (redact_tokens s)"
proof (induction s rule: redact_tokens.induct)
  case (2 x xs)
  show ?case
  proof (cases "token_match (x # xs)")
    case None
    with 2 show ?thesis by (auto intro: marked.copy)
  next
    case (Some r)
    from token_match_shorter [OF Some] obtain m where m: "m \<noteq> []" "x # xs = m @ r" by blast
    have "marked r (redact_tokens r)" "redact_tokens (x # xs) = MARK @ redact_tokens r" using 2 Some by simp_all
    with marked.mark [OF _ m(1)] show ?thesis unfolding m(2) by simp
  qed
qed (simp add: marked.empty)

lemma marked_replace: "marked s (replace_all token MARK s)"
proof (induction token MARK s rule: replace_all.induct)
  case (2 token x xs)
  show ?case
  proof (cases "token \<noteq> [] \<and> startsWith (x # xs) token")
    case True
    then have "x # xs = token @ drop (length token) (x # xs)" using startsWith_rest by blast
    with True 2 marked.mark [of "drop (length token) (x # xs)" _ token] show ?thesis by (metis replace_all.simps(2))
  next
    case False
    with 2 show ?thesis by (auto intro: marked.copy)
  qed
qed (simp add: marked.empty)

lemma marked_prefix: "marked s t \<Longrightarrow> CHR ''['' \<notin> set u \<Longrightarrow> prefix u t \<Longrightarrow> prefix u s"
proof (induction arbitrary: u rule: marked.induct)
  case (copy xs t x)
  then show ?case by (cases u) auto
next
  case (mark r t m)
  then show ?case by (cases u) (auto simp: MARK_def)
qed simp

lemma marked_keeps_secret_out:
  "marked s t \<Longrightarrow> secret u \<Longrightarrow> \<not> sublist u s \<Longrightarrow> \<not> sublist u t"
proof (induction rule: marked.induct)
  case (copy xs t x)
  have "\<not> prefix u (x # t)"
    using secret_marks(1) [OF copy.prems(1)] marked_prefix [OF marked.copy [OF copy.hyps]] copy.prems(2) by (auto simp: sublist_Cons_right)
  then show ?case using copy by (auto simp: sublist_Cons_right)
next
  case (mark r t m)
  then have "\<not> sublist u r" by (auto simp: sublist_append)
  with mark show ?case by (simp add: sublist_MARK)
qed simp

lemma replace_all_removes:
  "secret token \<Longrightarrow> \<not> sublist token (replace_all token MARK s)"
proof (induction token MARK s rule: replace_all.induct)
  case (1 token)
  then show ?case by (cases token) (auto simp: secret_def)
next
  case (2 token x xs)
  show ?case
  proof (cases "token \<noteq> [] \<and> startsWith (x # xs) token")
    case True
    with 2 show ?thesis by (simp add: sublist_MARK)
  next
    case False
    have "token \<noteq> []" using 2(3) by (auto simp: secret_def)
    with False have "\<not> prefix token (x # xs)" using startsWith_append by (auto simp: prefix_def)
    then have "\<not> prefix token (x # replace_all token MARK xs)"
      using secret_marks(1) [OF 2(3)] marked_prefix [OF marked.copy [OF marked_replace]] by blast
    with 2 False show ?thesis by (auto simp: sublist_Cons_right)
  qed
qed

text \<open>
  C28. An imported log never shows the credential it was read with: whatever the log contains, and in
  whatever chunks it arrives, the text that is returned does not contain the repository's token (ten or more
  letters, digits or underscores, as every GitHub token); only what of the token survives the cut at the
  size limit is not covered.
\<close>

theorem job_log_hides_the_credential:
  assumes "jobLog github download protocol read repo jobId cred = Inr text"
    and "credential_token read cred = Inr token" and "secret token"
  shows "\<not> sublist token text"
proof -
  have ne: "token \<noteq> []" using assms(3) by (auto simp: secret_def)
  from assms(1) [unfolded jobLog_def err_bind_iff] obtain t and result :: log_reply
    where t: "credential_token read cred = Inr t" and reply: "(if \<not> status_ok (lg_status result) \<or> lg_body result = None then Inl (BadRequest ''Logs unavailable'')
        else (let raw = read_chunks 0 (the (lg_body result));
                  text = (if t \<noteq> [] then replace_all t MARK raw else raw) in
          Inr (redact_tokens text @ (if LOG_LIMIT \<le> length raw then TRUNCATED else [])))) = Inr text"
    by (elim exE conjE) (rule that)
  define raw where "raw = read_chunks 0 (the (lg_body result))"
  have "t = token" using t assms(2) by simp
  with reply ne have eq: "text = redact_tokens (replace_all token MARK raw) @ (if LOG_LIMIT \<le> length raw then TRUNCATED else [])"
    unfolding Let_def raw_def by (simp only: if_P split: if_splits) simp_all
  have "\<not> sublist token (redact_tokens (replace_all token MARK raw))"
    by (rule marked_keeps_secret_out [OF marked_redact assms(3) replace_all_removes [OF assms(3)]])
  then show ?thesis using sublist_TRUNCATED [OF assms(3)] unfolding eq by simp
qed

text \<open>
  The log does not depend on how it is transferred: two replies of the same status and the same bytes, in
  different chunks, give the same text, which is that of the first 200,000 bytes.
\<close>

lemma job_log_independent_of_chunks:
  assumes "concat chunks = concat chunks'" and "lg_status reply \<noteq> 302"
  shows "jobLog (\<lambda>_ _. Inr (reply\<lparr> lg_body := Some chunks \<rparr>)) download protocol read repo jobId cred =
    jobLog (\<lambda>_ _. Inr (reply\<lparr> lg_body := Some chunks' \<rparr>)) download protocol read repo jobId cred \<and>
    read_chunks 0 chunks = take 200000 (concat chunks)"
proof -
  have c: "read_chunks 0 chunks = take 200000 (concat chunks)" "read_chunks 0 chunks' = take 200000 (concat chunks)"
    using read_chunks_take [of 0 chunks] read_chunks_take [of 0 chunks'] assms(1) by (simp_all add: LOG_LIMIT_def)
  have "jobLog (\<lambda>_ _. Inr (reply\<lparr> lg_body := Some chunks \<rparr>)) download protocol read repo jobId cred =
      jobLog (\<lambda>_ _. Inr (reply\<lparr> lg_body := Some chunks' \<rparr>)) download protocol read repo jobId cred"
    unfolding jobLog_def err_bind_def using c assms(2) by (simp split: sum.split)
  with c(1) show ?thesis by (rule conjI [rotated])
qed

section \<open>Examples\<close>

definition ex_files :: "json list" where
  "ex_files = [JObj [(''filename'', JStr ''src/a.py''), (''status'', JStr ''renamed'')]]"

definition ex_files_prefix :: string where
  "ex_files_prefix = ''/repos/acme/demo/pulls/7/files?per_page=100&page=''"

definition ex_side :: json where
  "ex_side = JObj [(''sha'', JStr ''abc''), (''ref'', JStr ''main''), (''repo'', JObj [(''full_name'', JStr ''acme/demo'')])]"

definition ex_github :: github where
  "ex_github path token =
     (if startsWith path ex_files_prefix
      then Inr (200, JArr (take 100 (drop (100 * (read_nat (drop (length ex_files_prefix) path) - 1)) ex_files)))
      else if path = ''/repos/acme/demo/pulls/7''
      then Inr (200, JObj [(''state'', JStr ''open''), (''title'', JStr ''t''), (''body'', JNull), (''head'', ex_side), (''base'', ex_side)])
      else Inr (200, JObj [(''check_runs'', JArr []), (''workflow_runs'', JArr [])]))"

theorem import_shows_every_changed_file_witness:
  "(case inspect ex_github (\<lambda>_. Inr ''token'') ''https://github.com/acme/demo/pull/7'' ''acme/demo'' None of
      Inr info \<Rightarrow> pr_files info = [\<lparr> if_filename = Some (JStr ''src/a.py''), if_status = Some (JStr ''renamed''),
        if_patch = None \<rparr>] | Inl _ \<Rightarrow> False)"
proof -
  have p: "parsePrUrl ''https://github.com/acme/demo/pull/7'' = Some (''acme/demo'', 7)" by code_simp
  have c: "credential_token (\<lambda>_. Inr ''token'') None = Inr []" by code_simp
  have n: "show_nat 7 = ''7''" by code_simp
  have f: "\<forall>k. ex_github (''/repos/'' @ ''acme/demo'' @ ''/pulls/'' @ show_nat 7 @ ''/files?'' @ page_query_string (Suc k)) [] =
      Inr (200, JArr (take 100 (drop (100 * k) ex_files)))"
  proof
    fix k
    have path: "''/repos/'' @ ''acme/demo'' @ ''/pulls/'' @ show_nat 7 @ ''/files?'' @ page_query_string (Suc k) =
        ex_files_prefix @ show_nat (Suc k)"
      by (simp add: n page_query_string_def ex_files_prefix_def)
    have rest: "drop (length p) (p @ r) = r" for p r :: string by simp
    show "ex_github (''/repos/'' @ ''acme/demo'' @ ''/pulls/'' @ show_nat 7 @ ''/files?'' @ page_query_string (Suc k)) [] =
      Inr (200, JArr (take 100 (drop (100 * k) ex_files)))"
      unfolding path by (simp only: ex_github_def startsWith_append if_True rest read_show_nat diff_Suc_1)
  qed
  have e: "err_map imported_file ex_files = Inr [\<lparr> if_filename = Some (JStr ''src/a.py''), if_status = Some (JStr ''renamed''),
      if_patch = None \<rparr>]"
    by (simp add: ex_files_def imported_file_def js_get_def js_slice_def err_bind_def)
  have rq: "request ex_github (\<lambda>_. Inr ''token'') (''/repos/'' @ ''acme/demo'' @ ''/pulls/'' @ show_nat 7) None =
      Inr (JObj [(''state'', JStr ''open''), (''title'', JStr ''t''), (''body'', JNull), (''head'', ex_side), (''base'', ex_side)])"
    by code_simp
  have ck: "fetch_pages (checks_page ex_github (\<lambda>_. Inr ''token'') ''acme/demo'' ''abc'' None) 1 10 = Inr []" by code_simp
  have wr: "request ex_github (\<lambda>_. Inr ''token'')
      (''/repos/'' @ ''acme/demo'' @ ''/actions/runs?head_sha='' @ js_text (Some (JStr ''abc'')) @ ''&per_page=100'') None =
      Inr (JObj [(''check_runs'', JArr []), (''workflow_runs'', JArr [])])" by code_simp
  obtain info where i: "inspect ex_github (\<lambda>_. Inr ''token'') ''https://github.com/acme/demo/pull/7'' ''acme/demo'' None = Inr info"
    using rq ck wr files_collected [of "\<lambda>_. Inr ''token''" None "[]" ex_github "''acme/demo''" 7, OF c f e]
    by (simp add: inspect_def p err_bind_def js_get_def ex_side_def same_repository_def js_maybe_def js_list_def js_text_def
      del: append.simps fetch_pages.simps)
  from import_shows_every_changed_file [of ex_github "\<lambda>_. Inr ''token''" _ "''acme/demo''", OF i p c f e] i show ?thesis by simp
qed

definition ex_log :: log_reply where
  "ex_log = \<lparr> lg_status = 200, lg_location = None, lg_body = Some [''push with ghs_01234'', ''56789abcdef ok''] \<rparr>"

theorem job_log_hides_the_credential_witness:
  "(case jobLog (\<lambda>_ _. Inr ex_log) (\<lambda>_. Inr ex_log) Inr (\<lambda>_. Inr ''0123456789abcdef'') ''acme/demo'' 3 (Some ''github-x'') of
      Inr text \<Rightarrow> \<not> sublist ''0123456789abcdef'' text \<and> text = ''push with ghs_[REDACTED] ok'' | Inl _ \<Rightarrow> False)"
proof -
  have c: "credential_token (\<lambda>_. Inr ''0123456789abcdef'') (Some ''github-x'') = Inr ''0123456789abcdef''" by code_simp
  have raw: "read_chunks 0 [''push with ghs_01234'', ''56789abcdef ok''] = ''push with ghs_0123456789abcdef ok''"
    by (simp add: read_chunks_take LOG_LIMIT_def)
  have red: "redact_tokens (replace_all ''0123456789abcdef'' MARK ''push with ghs_0123456789abcdef ok'') = ''push with ghs_[REDACTED] ok''"
    by code_simp
  have r: "jobLog (\<lambda>_ _. Inr ex_log) (\<lambda>_. Inr ex_log) Inr (\<lambda>_. Inr ''0123456789abcdef'') ''acme/demo'' 3 (Some ''github-x'') =
      Inr ''push with ghs_[REDACTED] ok''"
    by (simp add: jobLog_def c err_bind_def ex_log_def status_ok_def raw red LOG_LIMIT_def
      del: read_chunks.simps replace_all.simps redact_tokens.simps)
  have s: "secret ''0123456789abcdef''" by code_simp
  from job_log_hides_the_credential [OF r c s] r show ?thesis by simp
qed

end
