(* ===== verification/Encoding.thy ===== *)
theory Encoding
  imports Bodies Drafts
begin

text \<open>
  Encodings and their parsers in general: what the combinators of \<open>Bodies\<close> read from a value written by
  the control plane (the rules \<open>decode\<close>), and which parsers do not see the order of an object's members,
  which a JSONB column does not keep (the rules \<open>blind\<close>, one for each combinator).
\<close>

named_theorems blind \<open>parsers that do not see the order of members\<close>
named_theorems decode \<open>what a parser reads from an encoding\<close>

section \<open>Reading leaves back\<close>

definition z_literal :: "int \<Rightarrow> int zod" where
  "z_literal n = z_refine (\<lambda>m. m = n) z_int"

definition z_word :: "string \<Rightarrow> string zod" where
  "z_word s = z_refine (\<lambda>t. t = s) z_string"

abbreviation "safe n \<equiv> \<bar>n\<bar> \<le> max_safe"

text \<open>The JSON a nullable field is written as; an absent optional field has no entry (\<open>optional_entry\<close>).\<close>

definition null_or :: "('a \<Rightarrow> json) \<Rightarrow> 'a option \<Rightarrow> json" where
  "null_or f x = (case x of None \<Rightarrow> JNull | Some v \<Rightarrow> f v)"

lemma z_string_JStr [decode]: "z_string (JStr s) = Some s"
  by (simp add: z_string_def)

lemma z_bool_JBool [decode]: "z_bool (JBool b) = Some b"
  by (simp add: z_bool_def)

lemma z_int_JNum [decode]: "safe n \<Longrightarrow> z_int (JNum n) = Some n"
  by (simp add: z_int_def)

lemma z_nonneg_JNum [decode]: "safe n \<Longrightarrow> 0 \<le> n \<Longrightarrow> z_nonneg (JNum n) = Some n"
  by (simp add: z_nonneg_def z_int_def)

lemma z_positive_JNum [decode]: "int n \<le> max_safe \<Longrightarrow> 0 < n \<Longrightarrow> z_positive (JNum (int n)) = Some n"
  by (simp add: z_positive_def z_refine_def z_int_def)

lemma z_name_JStr [decode]: "s \<noteq> [] \<Longrightarrow> z_name (JStr s) = Some s"
  by (simp add: z_name_def z_string_def)

lemma z_literal_JNum [decode]: "safe n \<Longrightarrow> z_literal n (JNum n) = Some n"
  by (simp add: z_literal_def z_int_def)

lemma z_word_JStr [decode]: "z_word s (JStr s) = Some s"
  by (simp add: z_word_def z_string_def)

lemma z_record_JObj [decode]: "z_record (JObj kvs) = Some kvs"
  by (simp add: z_record_def)

lemma z_enum_JStr [decode]:
  assumes "\<And>x y. name x = name y \<longleftrightarrow> x = y" and "x \<in> set vals"
  shows "z_enum name vals (JStr (name x)) = Some x"
  using parse_enum_name [OF assms] by (simp add: z_enum_def z_string_def)

lemma map_all_map: "(\<And>x. x \<in> set xs \<Longrightarrow> f (g x) = Some x) \<Longrightarrow> map_all f (map g xs) = Some xs"
  by (induction xs) auto

lemma z_strings [decode]: "z_array z_string (strings_json ss) = Some ss"
  by (simp add: z_array_def strings_json_def map_all_map z_string_def)

lemma z_nullable_null_or [decode]:
  "(\<And>v. x = Some v \<Longrightarrow> z (f v) = Some v) \<Longrightarrow> (\<And>v. f v \<noteq> JNull) \<Longrightarrow> z_nullable z (null_or f x) = Some x"
  by (cases x) (auto simp: z_nullable_def null_or_def split: json.splits)

lemmas shape_defs = z_field_def z_optional_def z_default_def

section \<open>Parsers that do not see the order of members\<close>

definition order_blind :: "'a zod \<Rightarrow> bool" where
  "order_blind z \<longleftrightarrow> (\<forall>v w. same_json v w \<longrightarrow> z v = z w)"

definition blind_fields :: "'a zod_field \<Rightarrow> bool" where
  "blind_fields f \<longleftrightarrow> (\<forall>es gs. same_json (JObj es) (JObj gs) \<longrightarrow> f es = f gs)"

lemma same_json_atom:
  "same_json v w \<Longrightarrow> (case v of JArr _ \<Rightarrow> False | JObj _ \<Rightarrow> False | _ \<Rightarrow> True) \<Longrightarrow> w = v"
  by (erule same_json.cases) auto

inductive_cases same_arrE: "same_json (JArr vs) w"
inductive_cases same_objE: "same_json (JObj es) w"

lemma list_all2_entries_map_of:
  "list_all2 (\<lambda>e f. fst e = fst f \<and> P (snd e) (snd f)) es fs \<Longrightarrow> rel_option P (map_of es k) (map_of fs k)"
  by (induction rule: list_all2_induct) auto

lemma list_all2_entries_fst:
  "list_all2 (\<lambda>e f. fst e = fst f \<and> P (snd e) (snd f)) es fs \<Longrightarrow> map fst es = map fst fs"
  by (induction rule: list_all2_induct) auto

lemma same_json_refl_option: "rel_option same_json x x"
  by (cases x) (auto intro: same_json.same)

lemma same_obj_members:
  assumes "same_json (JObj es) (JObj gs)"
  shows "rel_option same_json (map_of es k) (map_of gs k) \<and> fst ` set es = fst ` set gs"
  using assms
proof (cases rule: same_json.cases)
  case same
  then show ?thesis using same_json_refl_option by simp
next
  case (obj fs)
  have "distinct (map fst fs)"
    using obj(2,3) by (metis mset_eq_imp_distinct_iff mset_map)
  then have "map_of fs = map_of gs"
    using obj(2,3) by (metis map_of_inject_set set_mset_mset)
  moreover have "fst ` set fs = fst ` set gs" using obj(2) by (metis set_mset_mset)
  moreover have "fst ` set es = fst ` set fs"
    using list_all2_entries_fst [OF obj(1)] by (metis list.set_map)
  ultimately show ?thesis using list_all2_entries_map_of [OF obj(1), of k] by simp
qed

lemma order_blindD: "order_blind z \<Longrightarrow> same_json v w \<Longrightarrow> z v = z w"
  by (simp add: order_blind_def)

lemma blind_string [blind]: "order_blind z_string"
  unfolding order_blind_def z_string_def by (auto elim: same_json.cases)

lemma blind_bool [blind]: "order_blind z_bool"
  unfolding order_blind_def z_bool_def by (auto elim: same_json.cases)

lemma blind_int [blind]: "order_blind z_int"
  unfolding order_blind_def z_int_def by (auto elim: same_json.cases)

lemma blind_refine [blind]: "order_blind z \<Longrightarrow> order_blind (z_refine p z)"
  unfolding order_blind_def z_refine_def by metis

lemma blind_name [blind]: "order_blind z_name"
  unfolding z_name_def by (intro blind)

lemma blind_nonneg [blind]: "order_blind z_nonneg"
  unfolding z_nonneg_def by (intro blind)

lemma blind_positive [blind]: "order_blind z_positive"
  using blind_refine [OF blind_int] unfolding order_blind_def z_positive_def by metis

lemma blind_literal [blind]: "order_blind (z_literal n)"
  unfolding z_literal_def by (intro blind)

lemma blind_word [blind]: "order_blind (z_word s)"
  unfolding z_word_def by (intro blind)

lemma blind_enum [blind]: "order_blind (z_enum name vals)"
  using blind_string unfolding order_blind_def z_enum_def by metis

lemma blind_array [blind]:
  assumes "order_blind z"
  shows "order_blind (z_array z)"
proof -
  have "map_all z vs = map_all z ws" if "list_all2 same_json vs ws" for vs ws
    using that by (induction rule: list_all2_induct) (simp_all add: order_blindD [OF assms] cong: option.case_cong)
  then show ?thesis
    unfolding order_blind_def z_array_def by (auto elim!: same_json.cases)
qed

lemma blind_nullable [blind]:
  assumes "order_blind z"
  shows "order_blind (z_nullable z)"
  unfolding order_blind_def
proof (intro allI impI)
  fix v w
  assume vw: "same_json v w"
  then have "v = JNull \<longleftrightarrow> w = JNull" by (auto elim: same_json.cases)
  with order_blindD [OF assms vw] show "z_nullable z v = z_nullable z w"
    by (auto simp: z_nullable_def split: json.splits)
qed

lemma blind_field [blind]: "order_blind z \<Longrightarrow> blind_fields (z_field k z)"
  unfolding blind_fields_def z_field_def
  by (auto dest!: same_obj_members [where k = k] simp: order_blind_def elim!: option.rel_cases)

lemma blind_optional [blind]: "order_blind z \<Longrightarrow> blind_fields (z_optional k z)"
  unfolding blind_fields_def z_optional_def
  by (auto dest!: same_obj_members [where k = k] simp: order_blind_def elim!: option.rel_cases)

lemma blind_default [blind]: "order_blind z \<Longrightarrow> blind_fields (z_default k z v)"
  unfolding blind_fields_def z_default_def
  by (auto dest!: same_obj_members [where k = k] simp: order_blind_def elim!: option.rel_cases)

lemma blind_const [blind]: "blind_fields (\<lambda>kvs. x)"
  by (simp add: blind_fields_def)

lemma blind_bind [blind]:
  assumes "blind_fields f" and "\<And>x. blind_fields (g x)"
  shows "blind_fields (\<lambda>kvs. Option.bind (f kvs) (\<lambda>x. g x kvs))"
  unfolding blind_fields_def
proof (intro allI impI)
  fix es gs
  assume o: "same_json (JObj es) (JObj gs)"
  have "f es = f gs" "\<And>x. g x es = g x gs" using assms o by (auto simp: blind_fields_def)
  then show "Option.bind (f es) (\<lambda>x. g x es) = Option.bind (f gs) (\<lambda>x. g x gs)" by simp
qed

lemma same_obj_shape: "same_json v w \<Longrightarrow> (\<exists>es gs. v = JObj es \<and> w = JObj gs) \<or> z_record v = None \<and> z_record w = None"
  by (auto simp: z_record_def elim!: same_json.cases split: json.splits)

lemma blind_object [blind]:
  assumes "blind_fields f"
  shows "order_blind (z_object f)"
  unfolding order_blind_def
proof (intro allI impI)
  fix v w
  assume "same_json v w"
  with same_obj_shape [OF this] assms show "z_object f v = z_object f w"
    by (auto simp: z_object_def z_record_def blind_fields_def)
qed

lemma blind_strict [blind]:
  assumes "blind_fields f"
  shows "order_blind (z_strict ks f)"
  unfolding order_blind_def
proof (intro allI impI)
  fix v w
  assume vw: "same_json v w"
  have keys: "list_all (\<lambda>kv. fst kv \<in> set ks) es \<longleftrightarrow> fst ` set es \<subseteq> set ks" for es :: "(string \<times> json) list"
    by (auto simp: list_all_iff)
  from same_obj_shape [OF vw] show "z_strict ks f v = z_strict ks f w"
  proof
    assume "\<exists>es gs. v = JObj es \<and> w = JObj gs"
    then obtain es gs where o: "v = JObj es" "w = JObj gs" by blast
    with vw have "same_json (JObj es) (JObj gs)" by simp
    then have "f es = f gs" "fst ` set es = fst ` set gs"
      using assms same_obj_members by (auto simp: blind_fields_def)
    with o show ?thesis by (simp add: z_strict_def z_record_def keys)
  qed (simp add: z_strict_def)
qed

end
