(* ===== verification/Wire.thy ===== *)
theory Wire
  imports Encoding Ingest
begin

text \<open>
  What crosses a boundary as JSON, and how it is read back: trace events between the worker and the
  control plane (packages/shared/src/trace-event.ts, modules/events/trace-event-ingestor.ts), snapshots
  and configurations in the database's JSON columns (packages/shared/src/task-snapshot.ts), and run
  commands in the outbox (packages/shared/src/run-command.ts).  Each has its parser, built from the
  combinators of \<open>Bodies\<close>, and its encoding; the round trips rest on the rules of \<open>Encoding\<close>.
\<close>

section \<open>Configurations and snapshots (task-snapshot.ts)\<close>

definition DELIVERY_KINDS :: "delivery_kind list" where
  "DELIVERY_KINDS = [D_PATCH, D_PULL_REQUEST]"

definition PREPARATIONS :: "preparation list" where
  "PREPARATIONS = [PREP_IMAGE, PREP_REQUIREMENTS]"

text \<open>
  The shape of a configuration: its members, with the defaults of the absent ones; what is required of
  their values is \<open>RepositoryConfigSchema\<close>.
\<close>

definition ConfigShape :: "RepositoryConfig zod" where
  "ConfigShape = z_strict [''runtime'', ''defaultDelivery'', ''preparation'', ''image'', ''dependencyFiles'',
       ''workdir'', ''allowedPaths'', ''protectedPaths'', ''staticCheck'', ''failToPass'', ''passToPass'',
       ''acceptanceCriteria''] (\<lambda>kvs. do {
     rt \<leftarrow> z_field ''runtime'' (z_enum runtime_name [PYTHON_PYTEST]) kvs;
     delivery \<leftarrow> z_optional ''defaultDelivery'' (z_enum delivery_kind_name DELIVERY_KINDS) kvs;
     prep \<leftarrow> z_field ''preparation'' (z_enum preparation_name PREPARATIONS) kvs;
     image \<leftarrow> z_field ''image'' z_string kvs;
     files \<leftarrow> z_default ''dependencyFiles'' (z_array z_string) [] kvs;
     workdir \<leftarrow> z_default ''workdir'' z_string ''.'' kvs;
     allowed \<leftarrow> z_field ''allowedPaths'' (z_array z_string) kvs;
     prot \<leftarrow> z_default ''protectedPaths'' (z_array z_string) [] kvs;
     static \<leftarrow> z_field ''staticCheck'' (z_array z_string) kvs;
     f2p \<leftarrow> z_field ''failToPass'' (z_array z_string) kvs;
     p2p \<leftarrow> z_field ''passToPass'' (z_array z_string) kvs;
     criteria \<leftarrow> z_field ''acceptanceCriteria'' (z_array z_string) kvs;
     Some \<lparr> rc_runtime = rt, rc_defaultDelivery = delivery, rc_preparation = prep, rc_image = image,
       rc_dependencyFiles = files, rc_workdir = workdir, rc_allowedPaths = allowed,
       rc_protectedPaths = prot, rc_staticCheck = static, rc_failToPass = f2p, rc_passToPass = p2p,
       rc_acceptanceCriteria = criteria \<rparr> })"

definition parse_config :: "RepositoryConfig zod" where
  "parse_config j = Option.bind (ConfigShape j) RepositoryConfigSchema"

definition BaselineShape :: "Baseline zod" where
  "BaselineShape = z_strict [''command'', ''expected''] (\<lambda>kvs. do {
     command \<leftarrow> z_field ''command'' z_string kvs;
     expected \<leftarrow> z_field ''expected'' (z_array z_string) kvs;
     Some \<lparr> bl_command = command, bl_expected = expected \<rparr> })"

definition SnapshotBudgetShape :: "SnapshotBudget zod" where
  "SnapshotBudgetShape = z_strict [''tokens'', ''seconds'', ''turns'', ''maxAttempts''] (\<lambda>kvs. do {
     tokens \<leftarrow> z_field ''tokens'' z_int kvs;
     seconds \<leftarrow> z_field ''seconds'' z_int kvs;
     turns \<leftarrow> z_field ''turns'' z_int kvs;
     maxAttempts \<leftarrow> z_field ''maxAttempts'' z_positive kvs;
     Some \<lparr> sb_tokens = tokens, sb_seconds = seconds, sb_turns = turns, sb_maxAttempts = maxAttempts \<rparr> })"

definition DeliveryShape :: "SnapshotDelivery zod" where
  "DeliveryShape = z_strict [''kind'', ''targetBranch'', ''expectedTargetSha''] (\<lambda>kvs. do {
     kind \<leftarrow> z_field ''kind'' (z_enum delivery_kind_name DELIVERY_KINDS) kvs;
     branch \<leftarrow> z_field ''targetBranch'' z_string kvs;
     sha \<leftarrow> z_field ''expectedTargetSha'' z_string kvs;
     Some \<lparr> sd_kind = kind, sd_targetBranch = branch, sd_expectedTargetSha = sha \<rparr> })"

definition SourceShape :: "SnapshotSource zod" where
  "SourceShape = z_strict [''prUrl'', ''headSha'', ''baseSha'', ''ciSha'', ''evidence''] (\<lambda>kvs. do {
     prUrl \<leftarrow> z_field ''prUrl'' z_string kvs;
     headSha \<leftarrow> z_field ''headSha'' z_string kvs;
     baseSha \<leftarrow> z_field ''baseSha'' z_string kvs;
     ciSha \<leftarrow> z_field ''ciSha'' (z_nullable z_string) kvs;
     evidence \<leftarrow> z_field ''evidence'' z_string kvs;
     Some \<lparr> ss_prUrl = prUrl, ss_headSha = headSha, ss_baseSha = baseSha, ss_ciSha = ciSha,
       ss_evidence = evidence \<rparr> })"

definition SnapshotShape :: "TaskSnapshot zod" where
  "SnapshotShape = z_strict [''schemaVersion'', ''mode'', ''repositoryId'', ''parentTaskId'', ''configVersion'',
       ''executionSha'', ''agentKind'', ''title'', ''description'', ''config'', ''baseline'', ''budget'',
       ''delivery'', ''source''] (\<lambda>kvs. do {
     _ \<leftarrow> z_field ''schemaVersion'' (z_literal 2) kvs;
     _ \<leftarrow> z_field ''mode'' (z_word ''REAL'') kvs;
     repositoryId \<leftarrow> z_field ''repositoryId'' z_string kvs;
     parent \<leftarrow> z_optional ''parentTaskId'' z_string kvs;
     version \<leftarrow> z_field ''configVersion'' z_positive kvs;
     sha \<leftarrow> z_field ''executionSha'' z_string kvs;
     kind \<leftarrow> z_field ''agentKind'' (z_enum agent_kind_name AGENT_KINDS) kvs;
     title \<leftarrow> z_field ''title'' z_string kvs;
     description \<leftarrow> z_field ''description'' z_string kvs;
     config \<leftarrow> z_field ''config'' ConfigShape kvs;
     baseline \<leftarrow> z_field ''baseline'' BaselineShape kvs;
     budget \<leftarrow> z_field ''budget'' SnapshotBudgetShape kvs;
     delivery \<leftarrow> z_field ''delivery'' DeliveryShape kvs;
     src \<leftarrow> z_optional ''source'' SourceShape kvs;
     Some \<lparr> sn_repositoryId = repositoryId, sn_parentTaskId = parent, sn_configVersion = version,
       sn_executionSha = sha, sn_agentKind = kind, sn_title = title, sn_description = description,
       sn_config = config, sn_baseline = baseline, sn_budget = budget, sn_delivery = delivery,
       sn_source = src \<rparr> })"

definition parse_snapshot :: "(string \<Rightarrow> bool) \<Rightarrow> TaskSnapshot zod" where
  "parse_snapshot isUrl j = Option.bind (SnapshotShape j) (TaskSnapshotSchema isUrl)"

lemma blind_snapshot_parts [blind]:
  "order_blind ConfigShape" "order_blind BaselineShape" "order_blind SnapshotBudgetShape"
  "order_blind DeliveryShape" "order_blind SourceShape"
  unfolding ConfigShape_def BaselineShape_def SnapshotBudgetShape_def DeliveryShape_def SourceShape_def
  by (intro blind)+

lemma blind_SnapshotShape [blind]: "order_blind SnapshotShape"
  unfolding SnapshotShape_def by (intro blind)

lemma delivery_kind_name_inject [simp]: "delivery_kind_name x = delivery_kind_name y \<longleftrightarrow> x = y"
  by (cases x; cases y) (simp_all add: delivery_kind_name_def)

lemma preparation_name_inject [simp]: "preparation_name x = preparation_name y \<longleftrightarrow> x = y"
  by (cases x; cases y) (simp_all add: preparation_name_def)

lemma runtime_name_inject [simp]: "runtime_name x = runtime_name y \<longleftrightarrow> x = y"
  by (cases x; cases y) simp_all

lemma in_DELIVERY_KINDS [simp]: "k \<in> set DELIVERY_KINDS"
  by (cases k) (simp_all add: DELIVERY_KINDS_def)

lemma in_PREPARATIONS [simp]: "p \<in> set PREPARATIONS"
  by (cases p) (simp_all add: PREPARATIONS_def)

lemma only_runtime [simp]: "rc_runtime c = PYTHON_PYTEST"
  by (cases "rc_runtime c") simp

lemma z_strict_JObj:
  "fst ` set kvs \<subseteq> set ks \<Longrightarrow> z_strict ks f (JObj kvs) = f kvs"
  by (auto simp: z_strict_def z_record_def list_all_iff)

lemma config_read [decode]: "ConfigShape (config_json c) = Some c"
  unfolding ConfigShape_def config_json_def
  by (subst z_strict_JObj; cases "rc_defaultDelivery c") (simp_all add: optional_entry_def shape_defs decode)

lemma baseline_read [decode]:
  "BaselineShape (JObj [(''command'', JStr (bl_command b)), (''expected'', strings_json (bl_expected b))]) = Some b"
  unfolding BaselineShape_def by (subst z_strict_JObj) (simp_all add: shape_defs decode)

lemma source_read [decode]: "SourceShape (source_json q) = Some q"
  unfolding SourceShape_def source_json_def
  by (subst z_strict_JObj; cases "ss_ciSha q") (simp_all add: shape_defs decode z_nullable_def)

lemma delivery_read [decode]:
  "DeliveryShape (JObj [(''kind'', JStr (delivery_kind_name (sd_kind d))), (''targetBranch'', JStr (sd_targetBranch d)),
     (''expectedTargetSha'', JStr (sd_expectedTargetSha d))]) = Some d"
  unfolding DeliveryShape_def by (subst z_strict_JObj) (simp_all add: shape_defs decode)

text \<open>The numbers of a snapshot that its encoding can carry.\<close>

definition snapshot_numbers :: "TaskSnapshot \<Rightarrow> bool" where
  "snapshot_numbers s \<longleftrightarrow> 0 < sn_configVersion s \<and> int (sn_configVersion s) \<le> max_safe \<and>
     (let b = sn_budget s in safe (sb_tokens b) \<and> safe (sb_seconds b) \<and> safe (sb_turns b) \<and>
       0 < sb_maxAttempts b \<and> int (sb_maxAttempts b) \<le> max_safe)"

lemma z_literal_2: "z_literal 2 (JNum 2) = Some 2"
  by (simp add: z_literal_def z_int_def max_safe_def)

lemma z_int_JNum_if: "z_int (JNum n) = (if safe n then Some n else None)"
  by (simp add: z_int_def)

lemma z_positive_JNum_if: "z_positive (JNum (int n)) = (if 0 < n \<and> int n \<le> max_safe then Some n else None)"
  by (simp add: z_positive_def z_refine_def z_int_def)

lemma budget_read:
  "SnapshotBudgetShape (JObj [(''tokens'', JNum (sb_tokens b)), (''seconds'', JNum (sb_seconds b)),
     (''turns'', JNum (sb_turns b)), (''maxAttempts'', JNum (int (sb_maxAttempts b)))]) =
   (if safe (sb_tokens b) \<and> safe (sb_seconds b) \<and> safe (sb_turns b) \<and> 0 < sb_maxAttempts b \<and>
      int (sb_maxAttempts b) \<le> max_safe then Some b else None)"
  unfolding SnapshotBudgetShape_def
  by (subst z_strict_JObj) (simp_all add: shape_defs z_int_JNum_if z_positive_JNum_if)

text \<open>The encoding of a snapshot has the shape of a snapshot exactly if its numbers are in range, and is that snapshot.\<close>

lemma snapshot_read_if: "SnapshotShape (snapshot_json s) = (if snapshot_numbers s then Some s else None)"
  unfolding SnapshotShape_def snapshot_json_def snapshot_numbers_def Let_def
  by (subst z_strict_JObj; cases "sn_parentTaskId s"; cases "sn_source s")
    (simp_all add: optional_entry_def shape_defs decode z_positive_JNum_if budget_read AGENT_KINDS_all z_literal_2)

lemma accepted_numbers:
  assumes "TaskSnapshotSchema u raw = Some s" and "int (sn_configVersion s) \<le> max_safe"
  shows "snapshot_numbers s"
  using assms by (auto simp: TaskSnapshotSchema_def snapshot_numbers_def Let_def max_safe_def split: option.splits if_splits)

lemma snapshot_read:
  assumes "TaskSnapshotSchema u raw = Some s" and "int (sn_configVersion s) \<le> max_safe"
  shows "SnapshotShape (snapshot_json s) = Some s"
  using accepted_numbers [OF assms] by (simp add: snapshot_read_if)

lemma parse_snapshot_stored:
  assumes "TaskSnapshotSchema u raw = Some s" and "int (sn_configVersion s) \<le> max_safe"
    and "same_json (snapshot_json s) stored"
  shows "parse_snapshot u stored = Some s"
proof -
  have "SnapshotShape stored = SnapshotShape (snapshot_json s)"
    using order_blindD [OF blind_SnapshotShape assms(3)] by simp
  then show ?thesis
    using snapshot_read [OF assms(1,2)] TaskSnapshotSchema_idem [OF assms(1)] by (simp add: parse_snapshot_def)
qed

text \<open>
  C24. A frozen snapshot survives its storage: a snapshot that the schema accepted, written as JSON and
  given back by the database with the members of every object in any order, is parsed to the very same
  snapshot, and its digest is the one it was confirmed with, for every hash function and collation.
\<close>

theorem snapshot_survives_storage:
  assumes "TaskSnapshotSchema u raw = Some s" and "int (sn_configVersion s) \<le> max_safe"
    and "same_json (snapshot_json s) stored" and "linear_keys le"
  shows "parse_snapshot u stored = Some s \<and>
    digestSnapshot sha le stored = digestSnapshot sha le (snapshot_json s)"
  using parse_snapshot_stored [OF assms(1-3)] same_json_canonical [OF assms(4,3)]
  by (simp add: digestSnapshot_def)

text \<open>The members in the opposite order.\<close>

lemma same_json_rev: "distinct (map fst es) \<Longrightarrow> same_json (JObj es) (JObj (rev es))"
  by (rule same_json.obj [of _ es]) (auto intro: list_all2_refl same_json.same simp: rev_map [symmetric])

definition reversed :: "json \<Rightarrow> json" where
  "reversed j = (case j of JObj es \<Rightarrow> JObj (rev es) | _ \<Rightarrow> j)"

theorem snapshot_survives_storage_witness:
  "TaskSnapshotSchema (\<lambda>_. True) (example_snapshot D_PATCH) = Some (example_snapshot D_PATCH) \<and>
   reversed (snapshot_json (example_snapshot D_PATCH)) \<noteq> snapshot_json (example_snapshot D_PATCH) \<and>
   parse_snapshot (\<lambda>_. True) (reversed (snapshot_json (example_snapshot D_PATCH))) = Some (example_snapshot D_PATCH)"
proof -
  let ?s = "example_snapshot D_PATCH"
  have ok: "TaskSnapshotSchema (\<lambda>_. True) ?s = Some ?s" by (rule example_snapshot_parsed)
  have v: "int (sn_configVersion ?s) \<le> max_safe" by (simp add: example_snapshot_def max_safe_def)
  have r: "same_json (snapshot_json ?s) (reversed (snapshot_json ?s))"
    unfolding snapshot_json_def reversed_def json.case
    by (rule same_json_rev) (simp add: example_snapshot_def optional_entry_def)
  have "reversed (snapshot_json ?s) \<noteq> snapshot_json ?s"
    by (simp add: snapshot_json_def reversed_def example_snapshot_def optional_entry_def)
  then show ?thesis using ok snapshot_survives_storage [OF ok v r linear_code_le] by blast
qed

section \<open>Trace events (trace-event.ts)\<close>

definition entity_name :: "entity \<Rightarrow> string" where
  "entity_name e = (case e of Ent_task \<Rightarrow> ''task'' | Ent_run \<Rightarrow> ''run'' | Ent_attempt \<Rightarrow> ''attempt'')"

definition ENTITIES :: "entity list" where
  "ENTITIES = [Ent_task, Ent_run, Ent_attempt]"

definition change_type_name :: "change_type \<Rightarrow> string" where
  "change_type_name t = (case t of Modify \<Rightarrow> ''modify'' | Create \<Rightarrow> ''create'' | Delete \<Rightarrow> ''delete'')"

definition CHANGE_TYPES :: "change_type list" where
  "CHANGE_TYPES = [Modify, Create, Delete]"

text \<open>The schema of the payload that belongs to a type.\<close>

definition ModelCallPayload :: "trace_payload zod" where
  "ModelCallPayload = z_object (\<lambda>kvs. do {
     model \<leftarrow> z_field ''model'' z_string kvs;
     prompt \<leftarrow> z_field ''promptTokens'' z_nonneg kvs;
     completion \<leftarrow> z_field ''completionTokens'' z_nonneg kvs;
     latency \<leftarrow> z_field ''latencyMs'' z_nonneg kvs;
     turn \<leftarrow> z_field ''turn'' z_nonneg kvs;
     Some (ModelCall model prompt completion latency turn) })"

definition ToolCallPayload :: "trace_payload zod" where
  "ToolCallPayload = z_object (\<lambda>kvs. do {
     callId \<leftarrow> z_field ''toolCallId'' z_string kvs;
     tool \<leftarrow> z_field ''tool'' z_string kvs;
     args \<leftarrow> z_field ''args'' z_record kvs;
     digest \<leftarrow> z_field ''resultDigest'' z_string kvs;
     duration \<leftarrow> z_field ''durationMs'' z_nonneg kvs;
     cached \<leftarrow> z_field ''cached'' z_bool kvs;
     error \<leftarrow> z_optional ''error'' z_string kvs;
     Some (ToolCall callId tool args digest duration cached error) })"

definition FileChangePayload :: "trace_payload zod" where
  "FileChangePayload = z_object (\<lambda>kvs. do {
     path \<leftarrow> z_field ''path'' z_string kvs;
     ct \<leftarrow> z_field ''changeType'' (z_enum change_type_name CHANGE_TYPES) kvs;
     (additions, deletions) \<leftarrow> z_field ''diffStat'' (z_object (\<lambda>stat. do {
       additions \<leftarrow> z_field ''additions'' z_nonneg stat;
       deletions \<leftarrow> z_field ''deletions'' z_nonneg stat;
       Some (additions, deletions) })) kvs;
     Some (FileChange path ct additions deletions) })"

definition CommandExecPayload :: "trace_payload zod" where
  "CommandExecPayload = z_object (\<lambda>kvs. do {
     command \<leftarrow> z_field ''command'' z_string kvs;
     exitCode \<leftarrow> z_field ''exitCode'' z_int kvs;
     out \<leftarrow> z_field ''stdoutTail'' z_string kvs;
     errTail \<leftarrow> z_optional ''stderrTail'' z_string kvs;
     duration \<leftarrow> z_field ''durationMs'' z_nonneg kvs;
     Some (CommandExec command exitCode out errTail duration) })"

definition StateTransitionPayload :: "trace_payload zod" where
  "StateTransitionPayload = z_object (\<lambda>kvs. do {
     entity \<leftarrow> z_field ''entity'' (z_enum entity_name ENTITIES) kvs;
     source \<leftarrow> z_field ''from'' z_string kvs;
     target \<leftarrow> z_field ''to'' z_string kvs;
     Some (StateTransition entity source target) })"

definition CheckpointSavedPayload :: "trace_payload zod" where
  "CheckpointSavedPayload = z_object (\<lambda>kvs. do {
     checkpointId \<leftarrow> z_field ''checkpointId'' z_string kvs;
     tokens \<leftarrow> z_field ''usedTokens'' z_nonneg kvs;
     seconds \<leftarrow> z_field ''usedSeconds'' z_nonneg kvs;
     Some (CheckpointSaved checkpointId tokens seconds) })"

definition FailureDetectedPayload :: "trace_payload zod" where
  "FailureDetectedPayload = z_object (\<lambda>kvs. do {
     code \<leftarrow> z_field ''failureCode'' (z_enum failure_code_name FAILURE_CODES) kvs;
     message \<leftarrow> z_field ''message'' z_string kvs;
     Some (FailureDetected code message) })"

definition RecoveryActionPayload :: "trace_payload zod" where
  "RecoveryActionPayload = z_object (\<lambda>kvs. do {
     action \<leftarrow> z_field ''action'' (z_enum policy_action_name POLICY_ACTIONS) kvs;
     fromCheckpoint \<leftarrow> z_field ''fromCheckpointId'' (z_nullable z_string) kvs;
     attemptNo \<leftarrow> z_field ''newAttemptNo'' z_positive kvs;
     Some (RecoveryAction action fromCheckpoint attemptNo) })"

definition VerificationResultPayload :: "trace_payload zod" where
  "VerificationResultPayload = z_object (\<lambda>kvs. do {
     step \<leftarrow> z_field ''step'' (z_enum verifier_step_name VERIFIER_STEPS) kvs;
     passed \<leftarrow> z_field ''passed'' z_bool kvs;
     code \<leftarrow> z_optional ''failureCode'' (z_enum failure_code_name FAILURE_CODES) kvs;
     detail \<leftarrow> z_field ''detail'' z_record kvs;
     Some (VerificationResult step passed code detail) })"

definition ApprovalEventPayload :: "trace_payload zod" where
  "ApprovalEventPayload = z_object (\<lambda>kvs. do {
     status \<leftarrow> z_field ''status'' (z_enum approval_status_name APPROVAL_STATUSES) kvs;
     reviewer \<leftarrow> z_field ''reviewer'' (z_nullable z_string) kvs;
     prUrl \<leftarrow> z_field ''prUrl'' (z_nullable z_string) kvs;
     Some (ApprovalEvent status reviewer prUrl) })"

definition BudgetUpdatePayload :: "trace_payload zod" where
  "BudgetUpdatePayload = z_object (\<lambda>kvs. do {
     tokens \<leftarrow> z_field ''usedTokens'' z_nonneg kvs;
     seconds \<leftarrow> z_field ''usedSeconds'' z_nonneg kvs;
     turns \<leftarrow> z_field ''usedTurns'' z_nonneg kvs;
     Some (BudgetUpdate tokens seconds turns) })"

primrec payload_schema :: "trace_event_type \<Rightarrow> trace_payload zod" where
  "payload_schema E_MODEL_CALL = ModelCallPayload"
| "payload_schema E_TOOL_CALL = ToolCallPayload"
| "payload_schema E_FILE_CHANGE = FileChangePayload"
| "payload_schema E_COMMAND_EXEC = CommandExecPayload"
| "payload_schema E_STATE_TRANSITION = StateTransitionPayload"
| "payload_schema E_CHECKPOINT_SAVED = CheckpointSavedPayload"
| "payload_schema E_FAILURE_DETECTED = FailureDetectedPayload"
| "payload_schema E_RECOVERY_ACTION = RecoveryActionPayload"
| "payload_schema E_VERIFICATION_RESULT = VerificationResultPayload"
| "payload_schema E_APPROVAL_EVENT = ApprovalEventPayload"
| "payload_schema E_BUDGET_UPDATE = BudgetUpdatePayload"

lemmas payload_schema_defs = ModelCallPayload_def ToolCallPayload_def FileChangePayload_def CommandExecPayload_def
  StateTransitionPayload_def CheckpointSavedPayload_def FailureDetectedPayload_def RecoveryActionPayload_def
  VerificationResultPayload_def ApprovalEventPayload_def BudgetUpdatePayload_def

text \<open>\<open>instant\<close> stands for zod's \<open>iso.datetime()\<close> check together with the time \<open>new Date\<close> gives a text.\<close>

definition parse_event :: "(string \<Rightarrow> int option) \<Rightarrow> TraceEvent zod" where
  "parse_event instant = z_object (\<lambda>kvs. do {
     runId \<leftarrow> z_field ''runId'' z_name kvs;
     attemptId \<leftarrow> z_field ''attemptId'' z_name kvs;
     attemptNo \<leftarrow> z_field ''attemptNo'' z_positive kvs;
     sequence \<leftarrow> z_field ''attemptSequence'' z_positive kvs;
     occurredAt \<leftarrow> z_field ''occurredAt'' (\<lambda>j. Option.bind (z_string j) instant) kvs;
     key \<leftarrow> z_field ''idempotencyKey'' z_name kvs;
     type \<leftarrow> z_field ''type'' (z_enum trace_event_type_name TRACE_EVENT_TYPES) kvs;
     payload \<leftarrow> z_field ''payload'' (payload_schema type) kvs;
     Some \<lparr> tev_runId = runId, tev_attemptId = attemptId, tev_attemptNo = attemptNo,
       tev_attemptSequence = sequence, tev_occurredAt = occurredAt, tev_idempotencyKey = key,
       tev_type = type, tev_payload = payload \<rparr> })"

text \<open>What the data of a stream entry is to the consumer; \<open>None\<close> when \<open>JSON.parse\<close> throws.\<close>

definition read_entry :: "(string \<Rightarrow> int option) \<Rightarrow> json option \<Rightarrow> stream_entry" where
  "read_entry instant raw =
     (case raw of
        None \<Rightarrow> NotJson
      | Some j \<Rightarrow> (case parse_event instant j of None \<Rightarrow> Misshapen | Some e \<Rightarrow> Shaped e))"

lemma payload_schema_type: "payload_schema t j = Some p \<Longrightarrow> payload_type p = t \<and> payload_ok p"
  by (cases t)
    (auto simp: payload_schema_defs bind_eq_Some_conv split: prod.splits dest!: z_nonneg_Some z_positive_Some)

lemma z_name_Some: "z_name j = Some s \<Longrightarrow> s \<noteq> []"
  by (simp add: z_name_def)

lemma parse_event_valid: "parse_event instant j = Some e \<Longrightarrow> TraceEventSchema e"
  by (auto simp: parse_event_def TraceEventSchema_def bind_eq_Some_conv
      dest!: payload_schema_type z_positive_Some z_name_Some)

text \<open>The payload as the JSON column holds it, and as it is sent on.\<close>

fun payload_entries :: "trace_payload \<Rightarrow> (string \<times> json) list" where
  "payload_entries (ModelCall m p c l t) =
     [(''model'', JStr m), (''promptTokens'', JNum p), (''completionTokens'', JNum c), (''latencyMs'', JNum l),
      (''turn'', JNum t)]"
| "payload_entries (ToolCall i t a r d c e) =
     [(''toolCallId'', JStr i), (''tool'', JStr t), (''args'', JObj a), (''resultDigest'', JStr r),
      (''durationMs'', JNum d), (''cached'', JBool c)] @ optional_entry ''error'' JStr e"
| "payload_entries (FileChange p t a d) =
     [(''path'', JStr p), (''changeType'', JStr (change_type_name t)),
      (''diffStat'', JObj [(''additions'', JNum a), (''deletions'', JNum d)])]"
| "payload_entries (CommandExec c x out err d) =
     [(''command'', JStr c), (''exitCode'', JNum x), (''stdoutTail'', JStr out)] @
     optional_entry ''stderrTail'' JStr err @ [(''durationMs'', JNum d)]"
| "payload_entries (StateTransition e f t) =
     [(''entity'', JStr (entity_name e)), (''from'', JStr f), (''to'', JStr t)]"
| "payload_entries (CheckpointSaved i t s) =
     [(''checkpointId'', JStr i), (''usedTokens'', JNum t), (''usedSeconds'', JNum s)]"
| "payload_entries (FailureDetected c m) =
     [(''failureCode'', JStr (failure_code_name c)), (''message'', JStr m)]"
| "payload_entries (RecoveryAction a k n) =
     [(''action'', JStr (policy_action_name a)), (''fromCheckpointId'', null_or JStr k), (''newAttemptNo'', JNum (int n))]"
| "payload_entries (VerificationResult s p c d) =
     [(''step'', JStr (verifier_step_name s)), (''passed'', JBool p)] @
     optional_entry ''failureCode'' (\<lambda>c. JStr (failure_code_name c)) c @ [(''detail'', JObj d)]"
| "payload_entries (ApprovalEvent s r u) =
     [(''status'', JStr (approval_status_name s)), (''reviewer'', null_or JStr r), (''prUrl'', null_or JStr u)]"
| "payload_entries (BudgetUpdate t s n) =
     [(''usedTokens'', JNum t), (''usedSeconds'', JNum s), (''usedTurns'', JNum n)]"

text \<open>The numbers JavaScript can count with.\<close>

fun payload_safe :: "trace_payload \<Rightarrow> bool" where
  "payload_safe (ModelCall _ p c l t) \<longleftrightarrow> safe p \<and> safe c \<and> safe l \<and> safe t"
| "payload_safe (ToolCall _ _ _ _ d _ _) \<longleftrightarrow> safe d"
| "payload_safe (FileChange _ _ a d) \<longleftrightarrow> safe a \<and> safe d"
| "payload_safe (CommandExec _ x _ _ d) \<longleftrightarrow> safe x \<and> safe d"
| "payload_safe (CheckpointSaved _ t s) \<longleftrightarrow> safe t \<and> safe s"
| "payload_safe (RecoveryAction _ _ n) \<longleftrightarrow> int n \<le> max_safe"
| "payload_safe (BudgetUpdate t s n) \<longleftrightarrow> safe t \<and> safe s \<and> safe n"
| "payload_safe _ \<longleftrightarrow> True"

definition event_safe :: "TraceEvent \<Rightarrow> bool" where
  "event_safe e \<longleftrightarrow> int (tev_attemptNo e) \<le> max_safe \<and> int (tev_attemptSequence e) \<le> max_safe \<and>
     payload_safe (tev_payload e)"

definition event_entries :: "(int \<Rightarrow> string) \<Rightarrow> TraceEvent \<Rightarrow> (string \<times> json) list" where
  "event_entries showTime e =
     [(''runId'', JStr (tev_runId e)), (''attemptId'', JStr (tev_attemptId e)),
      (''attemptNo'', JNum (int (tev_attemptNo e))), (''attemptSequence'', JNum (int (tev_attemptSequence e))),
      (''occurredAt'', JStr (showTime (tev_occurredAt e))), (''idempotencyKey'', JStr (tev_idempotencyKey e)),
      (''type'', JStr (trace_event_type_name (tev_type e))), (''payload'', JObj (payload_entries (tev_payload e)))]"

lemma entity_name_inject [simp]: "entity_name x = entity_name y \<longleftrightarrow> x = y"
  by (cases x; cases y) (simp_all add: entity_name_def)

lemma change_type_name_inject [simp]: "change_type_name x = change_type_name y \<longleftrightarrow> x = y"
  by (cases x; cases y) (simp_all add: change_type_name_def)

lemma in_ENTITIES [simp]: "e \<in> set ENTITIES"
  by (cases e) (simp_all add: ENTITIES_def)

lemma in_CHANGE_TYPES [simp]: "t \<in> set CHANGE_TYPES"
  by (cases t) (simp_all add: CHANGE_TYPES_def)

lemma z_object_JObj [decode]: "z_object f (JObj kvs) = f kvs"
  by (simp add: z_object_def z_record_def)

lemmas vocabulary = FAILURE_CODES_all POLICY_ACTIONS_all VERIFIER_STEPS_all APPROVAL_STATUSES_all TRACE_EVENT_TYPES_all

lemma payload_read [decode]:
  "payload_ok p \<Longrightarrow> payload_safe p \<Longrightarrow> payload_schema (payload_type p) (JObj (payload_entries p)) = Some p"
  by (cases p)
    (auto simp: payload_schema_defs shape_defs decode vocabulary optional_entry_def split: option.splits)

lemma event_read:
  assumes "TraceEventSchema e" and "event_safe e" and "instant (showTime (tev_occurredAt e)) = Some (tev_occurredAt e)"
    and "\<And>k. k \<in> fst ` set (event_entries showTime e) \<Longrightarrow> map_of kvs k = map_of (event_entries showTime e) k"
  shows "parse_event instant (JObj kvs) = Some e"
proof -
  have "payload_type (tev_payload e) = tev_type e" using assms(1) by (simp add: TraceEventSchema_def)
  then have "payload_schema (tev_type e) (JObj (payload_entries (tev_payload e))) = Some (tev_payload e)"
    using payload_read [of "tev_payload e"] assms(1,2) by (simp add: TraceEventSchema_def event_safe_def)
  moreover have m: "map_of kvs k = map_of (event_entries showTime e) k"
    if "k \<in> {''runId'', ''attemptId'', ''attemptNo'', ''attemptSequence'', ''occurredAt'', ''idempotencyKey'', ''type'', ''payload''}" for k
    using assms(4) that by (auto simp: event_entries_def)
  ultimately show ?thesis
    using assms(1-3) unfolding parse_event_def
    by (simp add: shape_defs m) (simp add: event_entries_def decode TraceEventSchema_def event_safe_def vocabulary)
qed

text \<open>
  C17. An event crosses the stream unchanged: whatever valid event a worker writes, with its members in
  any order and among any others, the consumer reads that very event and handles it, where every
  number is one JavaScript can represent; and nothing but a valid event is ever read from an entry,
  whatever its data.
\<close>

theorem event_crosses_the_stream:
  assumes "TraceEventSchema e" and "event_safe e" and "instant (showTime (tev_occurredAt e)) = Some (tev_occurredAt e)"
    and "\<forall>k \<in> fst ` set (event_entries showTime e). map_of kvs k = map_of (event_entries showTime e) k"
  shows "read_entry instant (Some (JObj kvs)) = Shaped e \<and>
    handleEntry c (read_entry instant (Some (JObj kvs))) d = handle_parsed c e (event_known (tev_idempotencyKey e) d) d \<and>
    (read_entry instant raw = Shaped f \<longrightarrow> TraceEventSchema f)"
proof -
  have "read_entry instant (Some (JObj kvs)) = Shaped e"
    using event_read [of e instant showTime kvs] assms by (simp add: read_entry_def)
  moreover have "read_entry instant raw = Shaped f \<Longrightarrow> TraceEventSchema f"
    by (auto simp: read_entry_def parse_event_valid split: option.splits)
  ultimately show ?thesis using assms(1) by (simp add: handleEntry_def)
qed

definition wire_event :: TraceEvent where
  "wire_event = \<lparr> tev_runId = ''r'', tev_attemptId = ''a'', tev_attemptNo = 1, tev_attemptSequence = 7,
     tev_occurredAt = 5, tev_idempotencyKey = ''r:1:7'', tev_type = E_FILE_CHANGE,
     tev_payload = FileChange ''src/x.py'' Modify 3 1 \<rparr>"

theorem event_crosses_the_stream_witness:
  "read_entry (\<lambda>s. if s = ''T5'' then Some 5 else None)
     (Some (JObj ((''trace'', JNull) # rev (event_entries (\<lambda>_. ''T5'') wire_event)))) = Shaped wire_event \<and>
   read_entry (\<lambda>s. if s = ''T5'' then Some 5 else None) (Some (JObj [(''runId'', JStr ''r'')])) = Misshapen"
proof -
  let ?at = "\<lambda>s. if s = ''T5'' then Some 5 else None" and ?es = "event_entries (\<lambda>_. ''T5'') wire_event"
  have h: "TraceEventSchema wire_event" "event_safe wire_event" "?at ((\<lambda>_. ''T5'') (tev_occurredAt wire_event)) = Some (tev_occurredAt wire_event)"
    by (simp_all add: TraceEventSchema_def event_safe_def wire_event_def max_safe_def)
  have k: "\<forall>k \<in> fst ` set ?es. map_of ((''trace'', JNull) # rev ?es) k = map_of ?es k"
    by (simp add: event_entries_def wire_event_def)
  show ?thesis
    using conjunct1 [OF event_crosses_the_stream [where instant = ?at and showTime = "\<lambda>_. ''T5''", OF h k]]
    by (simp add: read_entry_def parse_event_def z_object_JObj shape_defs bind_eq_Some_conv)
qed

section \<open>Run commands (run-command.ts)\<close>

definition TaskSpecShape :: "TaskSpec zod" where
  "TaskSpecShape = z_object (\<lambda>kvs. do {
     fixtureId \<leftarrow> z_optional ''fixtureId'' z_string kvs;
     description \<leftarrow> z_field ''description'' z_string kvs;
     workdir \<leftarrow> z_field ''workdir'' z_string kvs;
     allowed \<leftarrow> z_field ''allowedPaths'' (z_array z_string) kvs;
     static \<leftarrow> z_field ''staticCheck'' (z_array z_string) kvs;
     f2p \<leftarrow> z_field ''failToPass'' (z_array z_string) kvs;
     p2p \<leftarrow> z_field ''passToPass'' (z_array z_string) kvs;
     criteria \<leftarrow> z_field ''acceptanceCriteria'' (z_array z_string) kvs;
     testPatch \<leftarrow> z_optional ''testPatch'' z_string kvs;
     Some \<lparr> ts_fixtureId = fixtureId, ts_description = description, ts_workdir = workdir, ts_allowedPaths = allowed,
       ts_staticCheck = static, ts_failToPass = f2p, ts_passToPass = p2p, ts_acceptanceCriteria = criteria,
       ts_testPatch = testPatch \<rparr> })"

definition BudgetShape :: "Budget zod" where
  "BudgetShape = z_object (\<lambda>kvs. do {
     tokens \<leftarrow> z_field ''tokens'' z_int kvs;
     seconds \<leftarrow> z_field ''seconds'' z_int kvs;
     turns \<leftarrow> z_field ''turns'' z_int kvs;
     leftTokens \<leftarrow> z_field ''remainingTokens'' z_int kvs;
     leftSeconds \<leftarrow> z_field ''remainingSeconds'' z_int kvs;
     Some \<lparr> bg_tokens = tokens, bg_seconds = seconds, bg_turns = turns, bg_remainingTokens = leftTokens,
       bg_remainingSeconds = leftSeconds \<rparr> })"

definition RepoShape :: "Repo zod" where
  "RepoShape = z_object (\<lambda>kvs. do {
     path \<leftarrow> z_field ''path'' z_string kvs;
     baseCommit \<leftarrow> z_field ''baseCommit'' z_string kvs;
     Some \<lparr> repo_path = path, repo_baseCommit = baseCommit \<rparr> })"

definition CommandShape :: "RunCommand zod" where
  "CommandShape = z_object (\<lambda>kvs. do {
     _ \<leftarrow> z_optional ''schemaVersion'' (z_literal 2) kvs;
     snapshot \<leftarrow> z_optional ''snapshot'' SnapshotShape kvs;
     commandId \<leftarrow> z_field ''commandId'' z_string kvs;
     type \<leftarrow> z_field ''type'' (z_enum run_command_type_name RUN_COMMAND_TYPES) kvs;
     runId \<leftarrow> z_field ''runId'' z_string kvs;
     attemptNo \<leftarrow> z_field ''attemptNo'' z_positive kvs;
     kind \<leftarrow> z_field ''agentKind'' (z_enum agent_kind_name AGENT_KINDS) kvs;
     repo \<leftarrow> z_field ''repo'' RepoShape kvs;
     spec \<leftarrow> z_field ''taskSpec'' TaskSpecShape kvs;
     budget \<leftarrow> z_field ''budget'' BudgetShape kvs;
     checkpointId \<leftarrow> z_optional ''checkpointId'' z_string kvs;
     Some \<lparr> cmd_snapshot = snapshot, cmd_commandId = commandId, cmd_type = type, cmd_runId = runId,
       cmd_attemptNo = attemptNo, cmd_agentKind = kind, cmd_repo = repo, cmd_taskSpec = spec,
       cmd_budget = budget, cmd_checkpointId = checkpointId \<rparr> })"

definition parse_command :: "(string \<Rightarrow> bool) \<Rightarrow> RunCommand zod" where
  "parse_command isUrl j = Option.bind (CommandShape j) (RunCommandSchema isUrl)"

definition spec_json :: "TaskSpec \<Rightarrow> json" where
  "spec_json t = JObj (
     optional_entry ''fixtureId'' JStr (ts_fixtureId t) @
     [(''description'', JStr (ts_description t)), (''workdir'', JStr (ts_workdir t)),
      (''allowedPaths'', strings_json (ts_allowedPaths t)), (''staticCheck'', strings_json (ts_staticCheck t)),
      (''failToPass'', strings_json (ts_failToPass t)), (''passToPass'', strings_json (ts_passToPass t)),
      (''acceptanceCriteria'', strings_json (ts_acceptanceCriteria t))] @
     optional_entry ''testPatch'' JStr (ts_testPatch t))"

definition run_budget_json :: "Budget \<Rightarrow> json" where
  "run_budget_json b = JObj [(''tokens'', JNum (bg_tokens b)), (''seconds'', JNum (bg_seconds b)),
     (''turns'', JNum (bg_turns b)), (''remainingTokens'', JNum (bg_remainingTokens b)),
     (''remainingSeconds'', JNum (bg_remainingSeconds b))]"

text \<open>A command made of a snapshot names the version of the schema.\<close>

definition command_json :: "RunCommand \<Rightarrow> json" where
  "command_json c = JObj (
     optional_entry ''schemaVersion'' (\<lambda>_. JNum 2) (cmd_snapshot c) @
     optional_entry ''snapshot'' snapshot_json (cmd_snapshot c) @
     [(''commandId'', JStr (cmd_commandId c)), (''type'', JStr (run_command_type_name (cmd_type c))),
      (''runId'', JStr (cmd_runId c)), (''attemptNo'', JNum (int (cmd_attemptNo c))),
      (''agentKind'', JStr (agent_kind_name (cmd_agentKind c))),
      (''repo'', JObj [(''path'', JStr (repo_path (cmd_repo c))), (''baseCommit'', JStr (repo_baseCommit (cmd_repo c)))]),
      (''taskSpec'', spec_json (cmd_taskSpec c)), (''budget'', run_budget_json (cmd_budget c))] @
     optional_entry ''checkpointId'' JStr (cmd_checkpointId c))"

lemma blind_command_parts [blind]:
  "order_blind TaskSpecShape" "order_blind BudgetShape" "order_blind RepoShape"
  unfolding TaskSpecShape_def BudgetShape_def RepoShape_def by (intro blind)+

lemma blind_CommandShape [blind]: "order_blind CommandShape"
  unfolding CommandShape_def by (intro blind)

definition command_safe :: "RunCommand \<Rightarrow> bool" where
  "command_safe c \<longleftrightarrow> int (cmd_attemptNo c) \<le> max_safe \<and>
     (let b = cmd_budget c in safe (bg_tokens b) \<and> safe (bg_seconds b) \<and> safe (bg_turns b) \<and>
        safe (bg_remainingTokens b) \<and> safe (bg_remainingSeconds b)) \<and>
     (case cmd_snapshot c of None \<Rightarrow> True | Some s \<Rightarrow> int (sn_configVersion s) \<le> max_safe)"

lemma repo_read [decode]:
  "RepoShape (JObj [(''path'', JStr (repo_path r)), (''baseCommit'', JStr (repo_baseCommit r))]) = Some r"
  by (simp add: RepoShape_def shape_defs decode)

lemma spec_read [decode]: "TaskSpecShape (spec_json t) = Some t"
  unfolding TaskSpecShape_def spec_json_def
  by (cases "ts_fixtureId t"; cases "ts_testPatch t") (simp_all add: optional_entry_def shape_defs decode)

lemma run_budget_read [decode]:
  "safe (bg_tokens b) \<Longrightarrow> safe (bg_seconds b) \<Longrightarrow> safe (bg_turns b) \<Longrightarrow> safe (bg_remainingTokens b) \<Longrightarrow>
     safe (bg_remainingSeconds b) \<Longrightarrow> BudgetShape (run_budget_json b) = Some b"
  by (simp add: BudgetShape_def run_budget_json_def shape_defs decode)

lemma command_read:
  assumes "RunCommandSchema u raw = Some cmd" and "command_safe cmd"
  shows "CommandShape (command_json cmd) = Some cmd"
proof -
  have no: "0 < cmd_attemptNo cmd"
    using assms(1) by (auto simp: RunCommandSchema_def split: if_splits option.splits)
  have snap: "SnapshotShape (snapshot_json s) = Some s" if s: "cmd_snapshot cmd = Some s" for s
  proof -
    obtain t where "TaskSnapshotSchema u t = Some s"
      using assms(1) s by (auto simp: RunCommandSchema_def split: if_splits option.splits)
    then show ?thesis using snapshot_read assms(2) s by (simp add: command_safe_def)
  qed
  show ?thesis
    using assms(2) no snap unfolding CommandShape_def command_json_def
    by (cases "cmd_snapshot cmd"; cases "cmd_checkpointId cmd")
      (simp_all add: optional_entry_def shape_defs decode command_safe_def Let_def AGENT_KINDS_all RUN_COMMAND_TYPES_all
        z_literal_JNum max_safe_def)
qed

lemma RunCommandSchema_idem: "RunCommandSchema u raw = Some cmd \<Longrightarrow> RunCommandSchema u cmd = Some cmd"
  by (auto simp: RunCommandSchema_def TaskSnapshotSchema_idem split: if_splits option.splits)


definition wire_command :: RunCommand where
  "wire_command = \<lparr> cmd_snapshot = Some (example_snapshot D_PATCH), cmd_commandId = ''cmd:r:START_RUN:1'',
     cmd_type = START_RUN, cmd_runId = ''r'', cmd_attemptNo = 1, cmd_agentKind = SELF_LANGGRAPH,
     cmd_repo = \<lparr> repo_path = ''/repo'', repo_baseCommit = example_sha \<rparr>,
     cmd_taskSpec = \<lparr> ts_fixtureId = None, ts_description = ''Fix'', ts_workdir = ''.'', ts_allowedPaths = [''src''],
       ts_staticCheck = [], ts_failToPass = [''pytest''], ts_passToPass = [], ts_acceptanceCriteria = [''fixed''],
       ts_testPatch = None \<rparr>,
     cmd_budget = \<lparr> bg_tokens = 10000, bg_seconds = 900, bg_turns = 30, bg_remainingTokens = 10000,
       bg_remainingSeconds = 900 \<rparr>, cmd_checkpointId = None \<rparr>"


end
