(* ===== verification/PublicApi.thy ===== *)
theory PublicApi
  imports InternalApi PullRequests Approvals Registration Wire
begin

text \<open>
  The routes of the web application that change something: tasks (modules/task/task.controller.ts),
  approvals (modules/approval/approval.controller.ts), drafts (modules/task/task-draft.controller.ts) and
  repositories (modules/repository/repository.controller.ts).
\<close>

section \<open>Tasks\<close>

definition CreateTaskSchema :: "CreateTaskInput zod" where
  "CreateTaskSchema = z_object (\<lambda>kvs. do {
     fixtureId \<leftarrow> z_field ''fixtureId'' z_name kvs;
     kind \<leftarrow> z_field ''agentKind'' (z_enum agent_kind_name AGENT_KINDS) kvs;
     recoveryDisabled \<leftarrow> z_optional ''recoveryDisabled'' z_bool kvs;
     feedbackMode \<leftarrow> z_optional ''feedbackMode'' (z_refine (\<lambda>s. s \<in> {''structured'', ''raw''}) z_string) kvs;
     tokens \<leftarrow> z_optional ''budgetTokens'' z_positive kvs;
     seconds \<leftarrow> z_optional ''budgetSeconds'' z_positive kvs;
     turns \<leftarrow> z_optional ''budgetTurns'' z_positive kvs;
     Some \<lparr> ci_fixtureId = fixtureId, ci_agentKind = kind, ci_recoveryDisabled = recoveryDisabled,
       ci_feedbackMode = feedbackMode, ci_budgetTokens = map_option int tokens,
       ci_budgetSeconds = map_option int seconds, ci_budgetTurns = map_option int turns,
       ci_source = None, ci_sourceRef = None \<rparr> })"

definition create_task_route :: "ctx \<Rightarrow> json \<Rightarrow> (db, string \<times> string) tx" where
  "create_task_route c body = checked CreateTaskSchema body (createTask c)"

section \<open>Approvals\<close>

definition decision_of :: "string \<Rightarrow> decision option" where
  "decision_of s = (if s = ''APPROVED'' then Some Approve else if s = ''REJECTED'' then Some Reject else None)"

definition DecideSchema :: "(decision \<times> string option) zod" where
  "DecideSchema = z_object (\<lambda>kvs. do {
     name \<leftarrow> z_field ''decision'' z_string kvs;
     dec \<leftarrow> decision_of name;
     reviewer \<leftarrow> z_optional ''reviewer'' z_string kvs;
     Some (dec, reviewer) })"

definition found_or_404 :: "decide_reply \<Rightarrow> (db, decide_reply) hx" where
  "found_or_404 r = (if r = NoApproval then hx_throw (NotFound ''Approval'') else hx_return r)"

definition decide_route :: "ctx \<Rightarrow> bool \<Rightarrow> string \<Rightarrow> json \<Rightarrow> (db, decide_reply) hx" where
  "decide_route c enabled approvalId body =
     (case DecideSchema body of
        None \<Rightarrow> hx_throw (BadRequest ''decision'')
      | Some (dec, reviewer) \<Rightarrow> hx_then (decide c enabled approvalId dec reviewer) found_or_404)"

definition retry_route :: "bool \<Rightarrow> string \<Rightarrow> (db, decide_reply) hx" where
  "retry_route enabled approvalId = hx_then (retryPr enabled approvalId) found_or_404"

section \<open>Drafts\<close>

definition ConfirmSchema :: "(nat \<times> string \<times> bool \<times> bool) zod" where
  "ConfirmSchema = z_strict [''revision'', ''idempotencyKey'', ''testsConfirmed'', ''keepPinned''] (\<lambda>kvs. do {
     revision \<leftarrow> z_field ''revision'' z_positive kvs;
     key \<leftarrow> z_field ''idempotencyKey'' z_name kvs;
     tests \<leftarrow> z_field ''testsConfirmed'' (z_refine (\<lambda>b. b) z_bool) kvs;
     keep \<leftarrow> z_default ''keepPinned'' z_bool False kvs;
     Some (revision, key, tests, keep) })"

definition confirm_route :: "ctx \<Rightarrow> string \<Rightarrow> json \<Rightarrow> (db, string \<times> string) tx" where
  "confirm_route c draftId body = checked ConfirmSchema body (\<lambda>(revision, key, tests, keep).
     confirm c draftId revision key tests keep)"

definition create_draft_route :: "ctx \<Rightarrow> json \<Rightarrow> (db, TaskDraft) tx" where
  "create_draft_route c body =
     and_then (tx_some (SnapshotShape body) (BadRequest ''snapshot'')) (createDraft c)"

definition get_draft :: "string \<Rightarrow> (db, TaskDraft) tx" where
  "get_draft draftId =
     and_then (find_unique drafts draft_id draftId) (\<lambda>found. tx_some found (NotFound ''Draft not found''))"

definition import_route :: "github \<Rightarrow> (string \<Rightarrow> err + string) \<Rightarrow> json \<Rightarrow> (db, PrInfo) tx" where
  "import_route github read body = checked ImportSchema body (\<lambda>(rid, url). importPr github read rid url)"

definition jobs_route :: "github \<Rightarrow> (string \<Rightarrow> err + string) \<Rightarrow> json \<Rightarrow> (db, json option list list) tx" where
  "jobs_route github read raw = parsed JobsSchema raw (\<lambda>(rid, runId, attempt). workflowJobs github read rid runId attempt)"

definition draft_jobLog ::
  "(string \<Rightarrow> string \<Rightarrow> err + log_reply) \<Rightarrow> (string \<Rightarrow> err + log_reply) \<Rightarrow> (string \<Rightarrow> err + string) \<Rightarrow>
   (string \<Rightarrow> err + string) \<Rightarrow> string \<Rightarrow> nat \<Rightarrow> (db, string) tx"
where
  "draft_jobLog github download protocol read rid jobId =
     and_then (repository_get rid) (\<lambda>repo.
     tx_lift (jobLog github download protocol read (the (prj_githubRepo repo)) jobId (prj_readCredential repo)))"

definition log_route ::
  "(string \<Rightarrow> string \<Rightarrow> err + log_reply) \<Rightarrow> (string \<Rightarrow> err + log_reply) \<Rightarrow> (string \<Rightarrow> err + string) \<Rightarrow>
   (string \<Rightarrow> err + string) \<Rightarrow> json \<Rightarrow> (db, string) tx"
where
  "log_route github download protocol read raw = parsed JobLogSchema raw (\<lambda>(rid, jobId).
     draft_jobLog github download protocol read rid jobId)"

section \<open>Repositories\<close>

definition InputShape :: "RepositoryInput zod" where
  "InputShape = z_strict [''name'', ''repoPath'', ''repoUrl'', ''defaultBranch'', ''readCredential'', ''writeCredential'',
       ''config''] (\<lambda>kvs. do {
     name \<leftarrow> z_field ''name'' z_string kvs;
     repoPath \<leftarrow> z_field ''repoPath'' z_string kvs;
     repoUrl \<leftarrow> z_field ''repoUrl'' z_string kvs;
     branch \<leftarrow> z_optional ''defaultBranch'' z_string kvs;
     readRef \<leftarrow> z_optional ''readCredential'' z_string kvs;
     writeRef \<leftarrow> z_optional ''writeCredential'' z_string kvs;
     config \<leftarrow> z_field ''config'' ConfigShape kvs;
     Some \<lparr> rp_name = name, rp_repoPath = repoPath, rp_repoUrl = repoUrl, rp_defaultBranch = branch,
       rp_readCredential = readRef, rp_writeCredential = writeRef, rp_config = config \<rparr> })"

definition create_repository_route ::
  "ctx \<Rightarrow> (string \<Rightarrow> err + string \<times> bool) \<Rightarrow> json \<Rightarrow> (db, Project) tx"
where
  "create_repository_route c realpath body =
     and_then (tx_some (InputShape body) (BadRequest ''repository'')) (create_repository c realpath)"

definition configure_route :: "string \<Rightarrow> json \<Rightarrow> (db, RepositoryConfigVersion) tx" where
  "configure_route rid body = and_then (tx_some (ConfigShape body) (BadRequest ''config'')) (configure rid)"

end
