(* ===== verification/Delivery.thy ===== *)
theory Delivery
  imports Approvals RunPages PublicApi
begin

text \<open>
  What a delivery may do to the outside world and who may record it
  (modules/github/delivery.service.ts), and how the buttons of the pages answer to the control plane's
  own checks (components/run-controls.tsx, app/runs/[runId]/review/page.tsx).
\<close>

section \<open>The actions of a delivery\<close>

text \<open>
  Why an action is right: the commit is made of the approved patch on the task's commit, the branch is
  pushed only when it does not exist, the target branch is where the task started from, the job's
  lease is held, and no other pull request has the branch.
\<close>

definition approved_commit :: "ctx \<Rightarrow> delivery_world \<Rightarrow> DeliveryJob \<Rightarrow> TaskSnapshot \<Rightarrow> Project \<Rightarrow> Artifact option \<Rightarrow> string \<Rightarrow> bool" where
  "approved_commit c w job snapshot repo artifact sha \<longleftrightarrow>
     artifact \<noteq> None \<and> c_sha256 c (art_content (the artifact)) = job_patchDigest job \<and>
     dw_commit w (prj_repoPath repo) (sn_executionSha snapshot) (art_content (the artifact)) = Inr sha \<and>
     (truthy (job_commitSha job) \<longrightarrow> job_commitSha job = Some sha)"

definition lease_checked :: "delivery_world \<Rightarrow> string \<Rightarrow> nat \<Rightarrow> bool" where
  "lease_checked w token k \<longleftrightarrow> (case dw_job w k of (Inr j, now) \<Rightarrow> delivery_lease_held token j now | _ \<Rightarrow> False)"

fun justified ::
  "ctx \<Rightarrow> delivery_world \<Rightarrow> DeliveryJob \<Rightarrow> string \<Rightarrow> TaskSnapshot \<Rightarrow> Project \<Rightarrow> Artifact option \<Rightarrow> remote_action \<Rightarrow> bool"
where
  "justified c w job token snapshot repo artifact (RecordCommit sha) \<longleftrightarrow>
     dw_prs w = Inr [] \<and> approved_commit c w job snapshot repo artifact sha"
| "justified c w job token snapshot repo artifact (PushBranch branch sha) \<longleftrightarrow>
     dw_prs w = Inr [] \<and> approved_commit c w job snapshot repo artifact sha \<and> branch = job_branch job \<and>
     dw_remoteRef w = Inr None \<and> dw_target w 1 = Inr (sd_expectedTargetSha (sn_delivery snapshot)) \<and>
     lease_checked w token 0"
| "justified c w job token snapshot repo artifact (OpenPullRequest branch base) \<longleftrightarrow>
     dw_prs w = Inr [] \<and> branch = job_branch job \<and> base = sd_targetBranch (sn_delivery snapshot) \<and>
     (\<exists>sha. approved_commit c w job snapshot repo artifact sha \<and> dw_remoteRef w \<in> {Inr None, Inr (Some sha)}) \<and>
     dw_target w 2 = Inr (sd_expectedTargetSha (sn_delivery snapshot)) \<and> lease_checked w token 1"

text \<open>A sequence of checks and actions: every action is justified if it is by the checks that passed before it.\<close>

definition acts_ok :: "(remote_action \<Rightarrow> bool) \<Rightarrow> 'a act \<Rightarrow> bool" where
  "acts_ok ok m \<longleftrightarrow> list_all ok (snd m)"

lemma acts_ok_lift [simp]: "acts_ok ok (act_lift r)"
  by (simp add: acts_ok_def act_lift_def)

lemma acts_ok_check [simp]: "acts_ok ok (act_check b e)"
  by (simp add: acts_ok_def act_check_def)

lemma acts_ok_do: "ok a \<Longrightarrow> acts_ok ok (act_do a r)"
  by (simp add: acts_ok_def act_do_def split: sum.split)

lemma acts_ok_then: "\<lbrakk>acts_ok ok m; \<And>x. fst m = Inr x \<Longrightarrow> acts_ok ok (f x)\<rbrakk> \<Longrightarrow> acts_ok ok (act_then m f)"
  by (cases m; cases "fst m") (auto simp: acts_ok_def act_then_def split: prod.splits)

lemma fst_target: "fst (target_unchanged w expected k) = Inr x \<longleftrightarrow> dw_target w k = Inr expected"
  by (auto simp: target_unchanged_def act_then_def act_lift_def assertDeliveryTarget_def split: sum.splits prod.splits)

lemma acts_ok_target [simp]: "acts_ok ok (target_unchanged w expected k)"
  by (simp add: target_unchanged_def acts_ok_then)

lemma fst_lease: "fst (assert_delivery_lease w token k) = Inr x \<longleftrightarrow> lease_checked w token k"
  by (cases "dw_job w k"; cases "fst (dw_job w k)")
    (auto simp: assert_delivery_lease_def act_then_def act_lift_def act_check_def lease_checked_def split: if_splits)

lemma acts_ok_lease [simp]: "acts_ok ok (assert_delivery_lease w token k)"
  by (simp add: assert_delivery_lease_def acts_ok_then)

lemma fst_check: "fst (act_check b e) = Inr x \<longleftrightarrow> b"
  by (simp add: act_check_def)

lemma fst_lift: "fst (act_lift r) = r"
  by (simp add: act_lift_def)

lemma perform_delivery_justified:
  assumes "dw_prs w = Inr []"
  shows "acts_ok (justified c w job token snapshot repo artifact) (perform_delivery c w job token snapshot repo artifact)"
  unfolding perform_delivery_def Let_def
  by (intro acts_ok_then acts_ok_target acts_ok_lift acts_ok_check acts_ok_lease acts_ok_do)
    (auto simp: fst_target fst_lease fst_check fst_lift approved_commit_def assms intro: acts_ok_do split: if_splits)

text \<open>
  C8. A delivery acts only on an approved patch and an unchanged target: whatever GitHub, git and the
  database answer, it records or pushes no commit but the one made of the patch with the approved
  digest, pushes only a branch that does not exist, and opens a pull request only from the job's branch
  at that commit, with the target branch still at the commit the task was verified against and the job's
  lease held at the last check before.
\<close>

theorem delivery_actions_justified:
  "case Option.bind (task_snapshot task) (TaskSnapshotSchema (c_isUrl c)) of
     None \<Rightarrow> snd (deliver c w job token task repo artifact) = []
   | Some snapshot \<Rightarrow>
       list_all (justified c w job token snapshot repo artifact) (snd (deliver c w job token task repo artifact))"
proof (cases "Option.bind (task_snapshot task) (TaskSnapshotSchema (c_isUrl c))")
  case None
  then show ?thesis by (simp add: deliver_def act_lift_def)
next
  case (Some snapshot)
  have "acts_ok (justified c w job token snapshot repo artifact) (deliver c w job token task repo artifact)"
    unfolding deliver_def Some option.case
    using perform_delivery_justified [of w c job token snapshot repo artifact]
    by (auto simp: fst_lift intro!: acts_ok_then split: option.split)
  then show ?thesis using Some by (simp add: acts_ok_def)
qed

section \<open>Who may record a delivery\<close>

lemma updateMany_none:
  "\<not> list_ex p (deliveryJobs d) \<Longrightarrow> deliveryJob_updateMany p f d = Inr (0, d)"
proof -
  assume "\<not> list_ex p (deliveryJobs d)"
  then have none: "\<forall>j \<in> set (deliveryJobs d). \<not> p j" by (simp add: list_ex_iff)
  then have "update_rows p f (deliveryJobs d) = deliveryJobs d" by (intro update_rows_None) auto
  moreover have "filter p (deliveryJobs d) = []" using none by (simp add: filter_empty_conv)
  ultimately show ?thesis by (cases d) (simp add: deliveryJob_updateMany_iff)
qed

lemma claim_job_rows:
  assumes "claim_job c candidate d = Inr (n, d')" and "0 < n" and "distinct (map job_id (deliveryJobs d))"
    and "j \<in> set (deliveryJobs d')" and "job_id j = job_id candidate"
  shows "job_status j = J_RUNNING \<and> job_leaseToken j = Some (c_uuid c) \<and> job_leaseExpiresAt j = Some (c_now c + 600000)"
proof -
  let ?p = "\<lambda>j. job_id j = job_id candidate \<and> job_status j = job_status candidate \<and>
    (job_status candidate = J_RUNNING \<longrightarrow> job_expired c j)"
  let ?f = "\<lambda>j. j\<lparr> job_status := J_RUNNING, job_leaseToken := Some (c_uuid c),
    job_leaseExpiresAt := Some (c_now c + 600000), job_attempts := job_attempts j + 1 \<rparr>"
  have n: "n = length (filter ?p (deliveryJobs d))" and d': "deliveryJobs d' = update_rows ?p ?f (deliveryJobs d)"
    using assms(1) unfolding claim_job_def deliveryJob_updateMany_iff by auto
  obtain k where k: "k \<in> set (deliveryJobs d)" "?p k"
    using n assms(2) by (metis (mono_tags, lifting) filter_False length_greater_0_conv)
  obtain i where i: "i \<in> set (deliveryJobs d)" "j = (if ?p i then ?f i else i)"
    using assms(4) unfolding d' set_update_rows by blast
  have "job_id i = job_id candidate" using i(2) assms(5) by (auto split: if_splits)
  then have "i = k" using assms(3) i(1) k by (metis (mono_tags, lifting) distinct_map inj_on_eq_iff)
  with i(2) k(2) show ?thesis by simp
qed


section \<open>The buttons of the pages\<close>


text \<open>
  After a delivery ended in a conflict the job needs attention and the task is PR_FAILED: the review page
  offers a retry, and the control plane refuses each one.
\<close>

lemma retry_refused_after_conflict:
  assumes "find_row job_approvalId pid (deliveryJobs d) = Some j" and "job_status j = J_NEEDS_ATTENTION"
    and "aa_status a = ''APPROVED''" and "\<not> truthy (aa_prUrl a)"
  shows "RetryButton \<in> set (review_panel runStatus (Some ''PR_FAILED'') (Some a)) \<and>
    delivery_retry pid d = Inl (Conflict ''Delivery is not retryable or retry limit reached'')"
  using assms
  by (simp add: review_panel_def delivery_retry_def find_or_throw_def find_unique_def and_then_def tx_read_def
      tx_some_def tx_return_def tx_check_def tx_throw_def)

end
