(* ===== verification/Witnesses.thy ===== *)
theory Witnesses
  imports Guarantees Evaluation Registration Queue Consumer Connection Delivery
begin

text \<open>
  Concrete inputs for the properties of the other theories, on the states of Examples: each theorem is
  applied at a state that the operations produce.
\<close>

section \<open>The token ledger\<close>

definition ex_call :: BudgetCall where
  "ex_call = \<lparr> bc_id = ''call'', bc_runId = ''a3'', bc_reserved = 100, bc_used = None, bc_status = B_RESERVED \<rparr>"

definition ex_reserved :: db where
  "ex_reserved = ex_state (reserve (ex_ctx ''c'' 3000) ''a3'' ''b0'' (Some ''token-b'') ''call'' 100) ex_claimed"

definition ex_settled :: db where
  "ex_settled = ex_state (settle (ex_ctx ''d'' 4000) ''a3'' ''call'' (Some 40)) ex_reserved"

lemma ex_reserved: "reserve (ex_ctx ''c'' 3000) ''a3'' ''b0'' (Some ''token-b'') ''call'' 100 ex_claimed =
    Inr ((ex_call, 899000), ex_reserved)"
  by code_simp

lemma ex_settled: "settle (ex_ctx ''d'' 4000) ''a3'' ''call'' (Some 40) ex_reserved =
    Inr (ex_call\<lparr> bc_used := Some 40, bc_status := B_SETTLED \<rparr>, ex_settled)"
  by code_simp

theorem reserve_within_budget_witness:
  "within_budget ''a3'' ex_reserved \<and> calls_of ''a3'' ex_reserved = calls_of ''a3'' ex_claimed @ [ex_call]"
  using reserve_within_budget [OF ex_reserved] by simp

theorem settle_once_witness:
  "settle (ex_ctx ''e'' 5000) ''a3'' ''call'' (Some 41) ex_settled = Inl (Conflict ''Conflicting model usage'')"
  using settle_once [OF ex_settled, of "ex_ctx ''e'' 5000" "Some 41"] by simp

theorem settle_books_difference_witness:
  "total_cost (calls_of ''a3'' ex_settled) = total_cost (calls_of ''a3'' ex_reserved) - 100 + 40"
proof -
  have d: "distinct (map bc_id (budgetCalls ex_reserved))" by code_simp
  have f: "find_call ''call'' ex_reserved = Some ex_call" by code_simp
  have s: "bc_status ex_call \<noteq> B_SETTLED" by code_simp
  have r: "find_run ''a3'' ex_settled = Some (the (find_run ''a3'' ex_settled))" by code_simp
  have k: "call_cost ex_call = 100" by code_simp
  from settle_books_difference [OF ex_settled d f s r] k show ?thesis by simp
qed

section \<open>Events\<close>

definition ex_event :: TraceEvent where
  "ex_event = \<lparr> tev_runId = ''a3'', tev_attemptId = ''b0'', tev_attemptNo = 1, tev_attemptSequence = 1,
     tev_occurredAt = 2500, tev_idempotencyKey = ''a3:1:1'', tev_type = E_COMMAND_EXEC, tev_payload = CommandExec ''pytest'' 0 ''ok'' None 12 \<rparr>"

lemma ex_wf: "wf_db ex_claimed" "wf_db ex_done"
  using trace_sys_inv [OF ex_trace2] trace_sys_inv [OF ex_trace3] by (simp_all add: sys_inv_def)

theorem ingest_exactly_once_witness:
  "keys_of (handleEntries (ex_ctx ''c'' 3000) (map Shaped [ex_event, ex_event]) ex_claimed) =
     keys_of ex_claimed @ [''a3:1:1'']"
proof -
  have d: "distinct (keys_of ex_claimed)" by code_simp
  have e: "TraceEventSchema ex_event" "addressed ex_event ex_claimed" by code_simp+
  have k: "''a3:1:1'' \<notin> set (keys_of ex_claimed)" "tev_idempotencyKey ex_event = ''a3:1:1''" by code_simp+
  have "\<forall>e \<in> set [ex_event, ex_event]. TraceEventSchema e \<and> addressed e ex_claimed" using e by simp
  from ingest_exactly_once [OF ex_wf(1) d this, of "ex_ctx ''c'' 3000"] k show ?thesis
    by simp
qed

theorem stream_replays_log_witness:
  "map ev_runSequence (fst (drains ''a3'' 1 [ex_claimed, ex_done])) = [Suc 1..<Suc (snd (drains ''a3'' 1 [ex_claimed, ex_done]))]"
proof -
  have g: "growing ''a3'' [ex_claimed, ex_done]"
  proof -
    have "prefix (events_of ''a3'' ex_claimed) (events_of ''a3'' ex_done)" by code_simp
    then show ?thesis using ex_wf by simp
  qed
  have s: "1 \<le> length (events_of ''a3'' (hd [ex_claimed, ex_done]))" by code_simp
  have n: "[ex_claimed, ex_done] \<noteq> []" by simp
  show ?thesis by (rule conjunct1 [OF stream_replays_log [OF g n s prod.collapse [symmetric]]])
qed

theorem client_cache_is_log_witness:
  "foldl receive ([], 0) (rev (events_of ''a3'' ex_done) @ events_of ''a3'' ex_done) =
     (events_of ''a3'' ex_done, length (events_of ''a3'' ex_done))"
  by (rule client_cache_is_log [OF ex_wf(2)]) auto

section \<open>Queries\<close>

theorem task_pages_cover_all_witness:
  "distinct (map task_id (concat (map (tasks_shown (\<lambda>x y. length x \<le> length y) 10 ex_done) [0..<2]))) \<and>
   map task_id (tasks ex_done) = [''a2'']"
proof -
  have i: "map task_id (tasks ex_done) = [''a2'']" by code_simp
  then have d: "distinct (map task_id (tasks ex_done))" by simp
  have l: "length (tasks ex_done) \<le> 2 * 10" by code_simp
  have m: "int (2 * 10) \<le> max_safe" by code_simp
  have k: "(0 :: nat) < 10" "(10 :: nat) \<le> 100" by simp_all
  show ?thesis
  proof (rule conjI [OF conjunct1 [OF conjunct2 [OF task_pages_cover_all [OF _ nat_le_linear d k l m]]] i])
    fix x y z :: string
    show "length x \<le> length z" if "length x \<le> length y" "length y \<le> length z"
      using that by (rule le_trans)
  qed
qed

theorem event_list_is_stream_witness:
  "run_events ''a3'' (Some ''no such type'') ex_done = Inr (map event_view (fst (drains ''a3'' 0 (replicate 1 ex_done))), ex_done)"
proof -
  have t: "Option.bind (Some ''no such type'') (parse_enum trace_event_type_name TRACE_EVENT_TYPES) = None" by code_simp
  have l: "length (events_of ''a3'' ex_done) \<le> 1 * 500" by code_simp
  show ?thesis
    by (rule conjunct1 [OF event_list_is_stream [OF ex_wf(2) ex_done_run t prod.collapse [symmetric] l zero_less_one]])
qed

section \<open>Evaluations\<close>

definition ex_batch_row :: EvaluationRun where
  "ex_batch_row = \<lparr> evr_id = ''e'', evr_suite = ''smoke'', evr_agentKind = SELF_LANGGRAPH, evr_faultInjection = None,
     evr_startedAt = 5000, evr_finishedAt = None \<rparr>"

definition ex_eval :: "EvaluationResult list \<Rightarrow> eval_db" where
  "ex_eval results = \<lparr> workspaces = [], projects = [], configs = [], drafts = [], tasks = [], runs = runs ex_done,
     attempts = [], traceEvents = [], checkpoints = [], artifacts = [], verifications = [], policyDecisions = [],
     approvals = [], environments = [], budgetCalls = [], deliveryJobs = [], notifications = [], outbox = [],
     evaluationRuns = [ex_batch_row], evaluationResults = results \<rparr>"

definition ex_body :: ResultInput where
  "ex_body = \<lparr> ri_fixtureId = ''fake'', ri_runId = ''a3'', ri_resolved = True, ri_firstTrySuccess = True,
     ri_recovered = None, ri_recoveryMode = None, ri_scopeViolations = 0, ri_tokens = 10, ri_costUsd = 1 / 3,
     ri_wallSeconds = 4, ri_judgeScores = [] \<rparr>"


section \<open>Repositories\<close>

definition ex_git_ctx :: ctx where
  "ex_git_ctx = (ex_ctx ''g'' 7000)\<lparr> c_git := (\<lambda>_ _. Inr (replicate 40 CHR ''a'')) \<rparr>"

definition ex_repository :: RepositoryInput where
  "ex_repository = \<lparr> rp_name = ''demo'', rp_repoPath = ''/src/demo'', rp_repoUrl = ''https://github.com/acme/demo.git'',
     rp_defaultBranch = None, rp_readCredential = None, rp_writeCredential = None, rp_config = example_config \<rparr>"

definition ex_project :: Project where
  "ex_project = \<lparr> prj_id = ''g1'', prj_workspaceId = ''g0'', prj_name = ''demo'', prj_repoPath = ''/src/demo'',
     prj_githubRepo = Some ''acme/demo'', prj_defaultBranch = ''main'',
     prj_repoUrl = Some ''https://github.com/acme/demo.git'', prj_readCredential = None, prj_writeCredential = None \<rparr>"

definition ex_registered :: db where
  "ex_registered = ex_state (create_repository ex_git_ctx (\<lambda>p. Inr (p, True)) ex_repository) empty_db"

theorem registered_name_is_fetchable_witness:
  "repo_name_ok (prj_githubRepo ex_project) \<and> find_row prj_id ''g1'' (projects ex_registered) = Some ex_project"
proof -
  have c: "create_repository ex_git_ctx (\<lambda>p. Inr (p, True)) ex_repository empty_db = Inr (ex_project, ex_registered)"
    by code_simp
  have n: "name_part ''acme''" "name_part ''demo''" by code_simp+
  have u: "rp_repoUrl ex_repository = ''https://github.com/'' @ ''acme'' @ ''/'' @ ''demo'' @ ''.git''"
    by (simp add: ex_repository_def)
  from registered_name_is_fetchable [OF c u _ n] show ?thesis by (simp add: ex_project_def)
qed

section \<open>The outbox\<close>

definition ex_world :: redis_world where
  "ex_world = \<lparr> rw_xadd = (\<lambda>_. True), rw_mark = (\<lambda>_. True) \<rparr>"

definition ex_batch :: "OutboxMessage list \<times> nat \<times> db" where
  "ex_batch = publish_all (ex_ctx ''b'' 2000) ex_world (pending_messages (ex_ctx ''b'' 2000) ex_created) ex_created"

theorem publisher_loses_nothing_witness:
  "length (fst ex_batch) = 1 \<and> list_all (\<lambda>m. m \<in> set (outbox ex_created) \<and> msg_status m = O_PENDING) (fst ex_batch)"
proof -
  have l: "length (fst ex_batch) = 1" by code_simp
  have e: "publish_all (ex_ctx ''b'' 2000) ex_world (pending_messages (ex_ctx ''b'' 2000) ex_created) ex_created =
      (fst ex_batch, fst (snd ex_batch), snd (snd ex_batch))"
    by (simp add: ex_batch_def)
  from publisher_loses_nothing [OF e] l show ?thesis unfolding list_all_iff by blast
qed

section \<open>The fixture registry\<close>

definition ex_registry :: "ctx \<Rightarrow> ctx" where
  "ex_registry c = c\<lparr> c_fixtures := loaded_fixtures ''/home/u'' (expand_home ''/home/u'' ''~/fx'')
     (Some [(''a'', Parsed ex_yaml), (''b'', NoYaml)]) \<rparr>"

theorem fixture_lookup_agrees_witness:
  "fixture_get (ex_registry (ex_ctx ''h'' 1000)) ''bug-1'' = Inr (fixture_of_yaml ''/home/u'' ''/home/u/fx'' ex_yaml)"
proof -
  let ?dir = "Some [(''a'', Parsed ex_yaml), (''b'', NoYaml)]"
  have f: "c_fixtures (ex_registry (ex_ctx ''h'' 1000)) = loaded_fixtures ''/home/u'' (expand_home ''/home/u'' ''~/fx'') ?dir"
    by (simp add: ex_registry_def)
  have r: "registry_get (fst (registry_load ''/home/u'' ''~/fx'' ?dir None)) ''bug-1'' =
      Inr (fixture_of_yaml ''/home/u'' ''/home/u/fx'' ex_yaml)" by code_simp
  from fixture_lookup_agrees [OF f refl, of "''bug-1''"] r show ?thesis by simp
qed

section \<open>The consumer and the connection\<close>

text \<open>A group whose state is the ids of the entries not yet delivered and of those not yet acknowledged.\<close>

definition ex_field :: "string \<Rightarrow> stream_entry" where
  "ex_field k = (if k = ''1-0'' then Shaped ex_event else NotJson)"

definition ex_group :: "(string list \<times> string list) redis_group" where
  "ex_group = \<lparr> rg_create = (\<lambda>s. (None, s)),
     rg_autoclaim = (\<lambda>idle n s. (Inr (map (\<lambda>k. (k, ex_field k)) (snd s)), s)),
     rg_readgroup = (\<lambda>n block s. (Inr (map (\<lambda>k. (k, ex_field k)) (fst s)), ([], snd s @ fst s))),
     rg_ack = (\<lambda>k s. (None, (fst s, filter (\<lambda>i. i \<noteq> k) (snd s)))) \<rparr>"

definition ex_pend :: "string list \<times> string list \<Rightarrow> string set" where
  "ex_pend s = set (snd s)"

definition ex_consumer :: "(string list \<times> string list) consumer" where
  "ex_consumer = \<lparr> co_redis = ([''3-0''], [''2-0'', ''1-0'']), co_db = ex_claimed, co_published = [] \<rparr>"

lemma ex_group_law: "group_law ex_group ex_pend ex_field"
  by (auto simp: group_law_def ex_group_def ex_pend_def)

theorem consumer_loses_nothing_witness:
  "''2-0'' \<in> ex_pend (co_redis (consumeLoop ex_group (ex_ctx ''c'' 3000) [(False, False)] ex_consumer))"
proof -
  have w: "wf_db (co_db ex_consumer)" using ex_wf(1) by (simp add: ex_consumer_def)
  have k: "''2-0'' \<in> ex_pend (co_redis ex_consumer)" by (simp add: ex_consumer_def ex_pend_def)
  have n: "\<not> settled (ex_field ''2-0'') d" for d by (simp add: ex_field_def settled_def)
  from consumer_loses_nothing [OF ex_group_law w k, of "ex_ctx ''c'' 3000" "[(False, False)]"] n show ?thesis by blast
qed

theorem recovered_events_are_stored_witness:
  "event_known ''a3:1:1'' (co_db (snd (consume_round ex_group (ex_ctx ''c'' 3000) ex_consumer)))"
proof -
  have a: "acks ex_group ex_pend" by (auto simp: acks_def ex_group_def ex_pend_def)
  have w: "wf_db (co_db ex_consumer)" using ex_wf(1) by (simp add: ex_consumer_def)
  have r: "rg_autoclaim ex_group 30000 50 (co_redis ex_consumer) =
      (Inr [(''2-0'', NotJson), (''1-0'', Shaped ex_event)], co_redis ex_consumer)"
    by (simp add: ex_group_def ex_consumer_def ex_field_def)
  have m: "(''1-0'', Shaped ex_event) \<in> set [(''2-0'', NotJson), (''1-0'', Shaped ex_event)]" by simp
  have e: "TraceEventSchema ex_event" "addressed ex_event ex_claimed" by code_simp+
  have "addressed ex_event (co_db ex_consumer)" using e(2) by (simp add: ex_consumer_def)
  moreover have "tev_idempotencyKey ex_event = ''a3:1:1''" by (simp add: ex_event_def)
  ultimately show ?thesis
    using recovered_events_are_stored [OF a w r m e(1), of "ex_ctx ''c'' 3000"] by simp
qed

theorem reconnection_resumes_witness:
  "fst (connect ''http://h'' ''a3'' (browser_after ''http://h''
     [Connect ''a3'', Message ''a3'' (stored_event ex_event 2), Fails, Message ''a3'' (stored_event ex_event 1)] (opened ''a3''))) =
   ''http://h/api/runs/a3/events/stream?lastEventId=2''"
proof -
  let ?hs = "[Connect ''a3'', Message ''a3'' (stored_event ex_event 2), Fails, Message ''a3'' (stored_event ex_event 1)]"
  have l: "list_all (concerns ''a3'') ?hs" by simp
  have q: "Max (insert 0 (set (sequences ?hs))) = 2" by (simp add: stored_event_def)
  have u: "stream_url ''http://h'' ''a3'' 2 = ''http://h/api/runs/a3/events/stream?lastEventId=2''" by code_simp
  from conjunct2 [OF reconnection_resumes [OF l, of "''http://h''"]] show ?thesis unfolding q u .
qed

section \<open>Deliveries and controls\<close>

definition ex_job :: DeliveryJob where
  "ex_job = \<lparr> job_id = ''j'', job_approvalId = ''p'', job_status = J_QUEUED, job_attempts = 0, job_patchDigest = ''d'',
     job_branch = ''arp-fix/t-d'', job_commitSha = None, job_prUrl = None, job_error = None, job_leaseToken = None,
     job_leaseExpiresAt = None, job_createdAt = 1 \<rparr>"

definition ex_claim :: "nat \<times> db" where
  "ex_claim = (case claim_job (ex_ctx ''w'' 9000) ex_job (ex_done\<lparr> deliveryJobs := [ex_job] \<rparr>) of Inr x \<Rightarrow> x)"



end
