(* ===== verification/TaskPages.thy ===== *)
theory TaskPages
  imports Api
begin

text \<open>
  The page on which tasks are listed: the address of a page of tasks and its correction, the
  pager, the approval cell and the dialog (apps/web/src/app/tasks/page.tsx).
\<close>

section \<open>The page of the address\<close>

text \<open>The search parameters of the address, in order and with repetitions.\<close>

type_synonym search_params = "(string \<times> string) list"

definition get_all :: "string \<Rightarrow> search_params \<Rightarrow> string list" where
  "get_all k params = map snd (filter (\<lambda>p. fst p = k) params)"

text \<open>\<open>URLSearchParams.set\<close>: the first value is replaced, the others go.\<close>

fun set_param :: "string \<Rightarrow> string \<Rightarrow> search_params \<Rightarrow> search_params" where
  "set_param k v [] = [(k, v)]"
| "set_param k v (p # ps) =
     (if fst p = k then (k, v) # filter (\<lambda>q. fst q \<noteq> k) ps else p # set_param k v ps)"

definition PAGE_SIZE :: nat where
  "PAGE_SIZE = 20"

definition valid_page :: "search_params \<Rightarrow> bool" where
  "valid_page params =
     (case map_of params ''page'' of
        None \<Rightarrow> False
      | Some raw \<Rightarrow> raw \<noteq> [] \<and> list_all is_digit raw \<and> int (read_nat raw) \<le> max_safe \<and> 0 < read_nat raw \<and>
          int ((read_nat raw - 1) * PAGE_SIZE) \<le> max_safe \<and> length (get_all ''page'' params) = 1)"

definition page_of :: "search_params \<Rightarrow> nat" where
  "page_of params = (if valid_page params then read_nat (the (map_of params ''page'')) else 1)"

definition tasks_query :: "nat \<Rightarrow> json" where
  "tasks_query page = JObj [(''page'', JStr (show_nat page)), (''pageSize'', JStr (show_nat PAGE_SIZE))]"

text \<open>\<open>Math.max(1, Math.ceil(total / PAGE_SIZE))\<close>, and 1 before the reply.\<close>

definition total_pages :: "nat option \<Rightarrow> nat" where
  "total_pages found = (case found of None \<Rightarrow> 1 | Some n \<Rightarrow> max 1 ((n + PAGE_SIZE - 1) div PAGE_SIZE))"

definition out_of_range :: "search_params \<Rightarrow> nat option \<Rightarrow> bool" where
  "out_of_range params found \<longleftrightarrow> found \<noteq> None \<and> total_pages found < page_of params"

definition corrected_page :: "search_params \<Rightarrow> nat option \<Rightarrow> nat" where
  "corrected_page params found = (if out_of_range params found then total_pages found else page_of params)"

text \<open>The effect that replaces the address: the new parameters, when they change.\<close>

definition url_correction :: "search_params \<Rightarrow> nat option \<Rightarrow> search_params option" where
  "url_correction params found =
     (let page = corrected_page params found in
      if map_of params ''page'' \<noteq> Some (show_nat page) \<or> length (get_all ''page'' params) \<noteq> 1
      then Some (set_param ''page'' (show_nat page) params) else None)"

definition goToPage :: "nat \<Rightarrow> search_params \<Rightarrow> search_params" where
  "goToPage page params = set_param ''page'' (show_nat page) params"

section \<open>The pager\<close>

definition visible_pages :: "int \<Rightarrow> int \<Rightarrow> int list" where
  "visible_pages page totalPages =
     sort (filter (\<lambda>v. 1 \<le> v \<and> v \<le> totalPages)
       (unique_first ([1, totalPages] @ map (\<lambda>index. page + index - 2) [0..4])))"

datatype pager_item = PageButton int bool | Ellipsis

text \<open>The buttons, the current one marked, with an ellipsis where pages are left out.\<close>

fun pager_items :: "int \<Rightarrow> int option \<Rightarrow> int list \<Rightarrow> pager_item list" where
  "pager_items page previous [] = []"
| "pager_items page previous (v # vs) =
     (case previous of None \<Rightarrow> [] | Some w \<Rightarrow> if 1 < v - w then [Ellipsis] else []) @
     PageButton v (page = v) # pager_items page (Some v) vs"

section \<open>The list and the dialog\<close>

datatype approval_cell = NoApproval | PullRequest string | ReviewLink string | ApprovalBadge string

definition approval_cell :: "ApiTaskListItem \<Rightarrow> approval_cell" where
  "approval_cell task =
     (case at_approval task of
        None \<Rightarrow> NoApproval
      | Some a \<Rightarrow>
          if truthy (aa_prUrl a) then PullRequest (the (aa_prUrl a))
          else if aa_status a = ''PENDING'' then
            ReviewLink (''/runs/'' @ (case at_runs task of [] \<Rightarrow> ''undefined'' | r # _ \<Rightarrow> ar_run_id r) @ ''/review'')
          else ApprovalBadge (aa_status a))"

definition selectable :: "ApiFixture list option \<Rightarrow> ApiFixture list" where
  "selectable fixtures = filter (\<lambda>f. af_id f \<noteq> ''fake'') (case fixtures of None \<Rightarrow> [] | Some fs \<Rightarrow> fs)"

definition dialog_kinds :: "bool \<Rightarrow> agent_kind \<Rightarrow> agent_kind list" where
  "dialog_kinds dualAgent kind = (if dualAgent then [SELF_LANGGRAPH, MINI_SWE] else [kind])"

text \<open>
  The posts of the dialog, one after the other until one fails; \<open>post\<close> is the control plane, whose state
  is \<open>'s\<close>.
\<close>

fun post_tasks :: "(string \<Rightarrow> json \<Rightarrow> 's \<Rightarrow> (string + json) \<times> 's) \<Rightarrow> string \<Rightarrow> agent_kind list \<Rightarrow> 's \<Rightarrow>
    string option \<times> 's" where
  "post_tasks post fixtureId [] s = (None, s)"
| "post_tasks post fixtureId (kind # kinds) s =
     (case post ''/api/tasks''
         (JObj [(''fixtureId'', JStr fixtureId), (''agentKind'', JStr (agent_kind_name kind))]) s of
        (Inl e, s') \<Rightarrow> (Some e, s')
      | (Inr _, s') \<Rightarrow> post_tasks post fixtureId kinds s')"

definition create_enabled :: "string \<Rightarrow> bool \<Rightarrow> bool" where
  "create_enabled fixtureId pending \<longleftrightarrow> fixtureId \<noteq> [] \<and> \<not> pending"

section \<open>The address is corrected once\<close>

lemma get_all_set_param: "get_all k (set_param k v ps) = [v]"
  by (induction ps) (auto simp: get_all_def filter_empty_conv)

lemma map_of_set_param: "map_of (set_param k v ps) k = Some v"
  by (induction ps) auto

lemma show_nat_number: "show_nat n \<noteq> [] \<and> list_all is_digit (show_nat n) \<and> read_nat (show_nat n) = n"
  using show_nat_digits by (auto simp: list_all_iff read_show_nat)

lemma page_offset: "1 \<le> n \<Longrightarrow> int ((n - 1) * PAGE_SIZE) = (int n - 1) * int PAGE_SIZE"
  by (simp add: of_nat_diff)

definition safe_page :: "nat \<Rightarrow> bool" where
  "safe_page n \<longleftrightarrow> 1 \<le> n \<and> int n \<le> max_safe \<and> (int n - 1) * int PAGE_SIZE \<le> max_safe"

lemma safe_page_le: "\<lbrakk>safe_page n; 1 \<le> m; m \<le> n\<rbrakk> \<Longrightarrow> safe_page m"
  by (simp add: safe_page_def PAGE_SIZE_def)

lemma page_of_safe: "safe_page (page_of params)"
proof (cases "valid_page params")
  case True
  then have "1 \<le> page_of params" "int (page_of params) \<le> max_safe" "int ((page_of params - 1) * PAGE_SIZE) \<le> max_safe"
    by (simp_all add: page_of_def valid_page_def split: option.splits del: of_nat_mult)
  then show ?thesis by (simp only: safe_page_def page_offset)
qed (simp add: page_of_def safe_page_def max_safe_def PAGE_SIZE_def)

lemma total_pages_pos: "1 \<le> total_pages found"
  by (simp add: total_pages_def split: option.split)

lemma corrected_safe: "safe_page (corrected_page params found)"
  using safe_page_le [OF page_of_safe total_pages_pos [of found], of params] page_of_safe [of params]
  by (auto simp: corrected_page_def out_of_range_def)

text \<open>The text of a safe page is a valid page when it is the only one of the address.\<close>

lemma page_of_shown:
  assumes "safe_page n" and "map_of params ''page'' = Some (show_nat n)" and "length (get_all ''page'' params) = 1"
  shows "page_of params = n"
proof -
  have "int ((n - 1) * PAGE_SIZE) \<le> max_safe" using assms(1) page_offset [of n] by (simp only: safe_page_def)
  then have "valid_page params"
    using assms show_nat_number [of n] unfolding valid_page_def assms(2) by (simp del: of_nat_mult add: safe_page_def)
  then show ?thesis using assms(2) show_nat_number [of n] by (simp add: page_of_def)
qed

lemma page_of_goTo: "safe_page n \<Longrightarrow> page_of (goToPage n params) = n"
  by (rule page_of_shown) (simp_all add: goToPage_def map_of_set_param get_all_set_param)

lemma page_of_corrected:
  "page_of (case url_correction params found of None \<Rightarrow> params | Some ps \<Rightarrow> ps) = corrected_page params found"
proof (cases "url_correction params found")
  case None
  then have "map_of params ''page'' = Some (show_nat (corrected_page params found))" "length (get_all ''page'' params) = 1"
    by (simp_all add: url_correction_def Let_def split: if_splits)
  then show ?thesis
    using None page_of_shown [OF corrected_safe, of params params found] by simp
next
  case (Some ps)
  then have "ps = goToPage (corrected_page params found) params"
    by (simp add: url_correction_def goToPage_def Let_def split: if_splits)
  with Some show ?thesis using page_of_goTo corrected_safe by simp
qed

lemma corrected_stays:
  "url_correction (case url_correction params found of None \<Rightarrow> params | Some ps \<Rightarrow> ps) found = None"
proof (cases "url_correction params found")
  case (Some ps)
  let ?n = "corrected_page params found"
  have ps: "ps = set_param ''page'' (show_nat ?n) params"
    using Some by (simp add: url_correction_def Let_def split: if_splits)
  have p: "page_of ps = ?n" using page_of_corrected [of params found] Some by simp
  have "corrected_page ps found = ?n"
    unfolding corrected_page_def [of ps] out_of_range_def p by (auto simp: corrected_page_def out_of_range_def)
  with Some ps show ?thesis by (simp add: url_correction_def map_of_set_param get_all_set_param)
qed simp

lemma last_page_start:
  assumes "0 < n" and "p \<le> total_pages (Some n)"
  shows "(p - 1) * PAGE_SIZE < n"
proof -
  have t: "total_pages (Some n) = max 1 ((n + 19) div 20)" by (simp add: total_pages_def PAGE_SIZE_def)
  have "(n + 19) div 20 * 20 \<le> n + 19" by (rule div_times_less_eq_dividend)
  moreover have "p * 20 \<le> max 1 ((n + 19) div 20) * 20" using assms(2) t by simp
  ultimately show ?thesis using assms(1) by (simp add: PAGE_SIZE_def max_def split: if_splits)
qed

text \<open>
  C35. The list settles on a page that exists: whatever the address of the task list says, it is corrected
  at most once for the tasks there are; the query of the page it then names is accepted by the control
  plane, and the reply has tasks to show whenever there are any.
\<close>

theorem task_page_settles:
  "url_correction (case url_correction params (Some (length (tasks d))) of None \<Rightarrow> params | Some ps \<Rightarrow> ps)
     (Some (length (tasks d))) = None \<and>
   (\<exists>tp. list_tasks le (tasks_query (page_of
       (case url_correction params (Some (length (tasks d))) of None \<Rightarrow> params | Some ps \<Rightarrow> ps))) d = Inr (tp, d) \<and>
     (tp_items tp = [] \<longleftrightarrow> tasks d = []))"
proof
  show "url_correction (case url_correction params (Some (length (tasks d))) of None \<Rightarrow> params | Some ps \<Rightarrow> ps)
      (Some (length (tasks d))) = None" by (rule corrected_stays)
  let ?n = "corrected_page params (Some (length (tasks d)))"
  let ?all = "order_by (newer_task le) (tasks d)"
  have q: "ListTasksSchema (tasks_query ?n) = Some (?n, PAGE_SIZE)"
    using corrected_safe [of params "Some (length (tasks d))"] show_nat_number
    by (simp add: safe_page_def ListTasksSchema_def tasks_query_def z_prefault_def PositiveIntegerQuery_def z_string_def
        max_safe_def z_object_def z_record_def z_refine_def PAGE_SIZE_def)
  have le: "?n \<le> total_pages (Some (length (tasks d)))"
    by (auto simp: corrected_page_def out_of_range_def)
  have "(?n - 1) * PAGE_SIZE < length (tasks d)" if "tasks d \<noteq> []"
    using last_page_start [OF _ le] that by simp
  then have "take PAGE_SIZE (drop ((?n - 1) * PAGE_SIZE) ?all) = [] \<longleftrightarrow> tasks d = []"
    by (cases "tasks d = []") (simp_all add: PAGE_SIZE_def not_le [symmetric])
  then show "\<exists>tp. list_tasks le (tasks_query (page_of
       (case url_correction params (Some (length (tasks d))) of None \<Rightarrow> params | Some ps \<Rightarrow> ps))) d = Inr (tp, d) \<and>
     (tp_items tp = [] \<longleftrightarrow> tasks d = [])"
    unfolding page_of_corrected using q by (simp add: list_tasks_def tx_run)
qed

text \<open>The pager shows the first page, the last one and those at distance at most two from the current one.\<close>

lemma visible_pages_spec:
  "sorted_wrt (<) (visible_pages page totalPages) \<and>
   set (visible_pages page totalPages) =
     {v. 1 \<le> v \<and> v \<le> totalPages \<and> (v = 1 \<or> v = totalPages \<or> \<bar>v - page\<bar> \<le> 2)}"
proof
  have "distinct (visible_pages page totalPages)" by (simp add: visible_pages_def)
  then show "sorted_wrt (<) (visible_pages page totalPages)"
    by (simp add: strict_sorted_iff visible_pages_def)
  have "(\<lambda>index. page + index - 2) ` {0..4} = {v. \<bar>v - page\<bar> \<le> 2}"
  proof (rule set_eqI)
    fix v
    have "v \<in> (\<lambda>index. page + index - 2) ` {0..4} \<longleftrightarrow> v - page + 2 \<in> {0..4}" by force
    then show "v \<in> (\<lambda>index. page + index - 2) ` {0..4} \<longleftrightarrow> v \<in> {v. \<bar>v - page\<bar> \<le> 2}" by auto
  qed
  then show "set (visible_pages page totalPages) =
      {v. 1 \<le> v \<and> v \<le> totalPages \<and> (v = 1 \<or> v = totalPages \<or> \<bar>v - page\<bar> \<le> 2)}"
    by (auto simp: visible_pages_def)
qed

end
