(* ===== verification/NewTask.thy ===== *)
theory NewTask
  imports Api PublicApi
begin

text \<open>
  The forms that create work: the draft of a task from a failing check (apps/web/src/app/tasks/new/page.tsx)
  and the registration of a repository (app/repositories/page.tsx).
\<close>

section \<open>Identifiers of failing tests\<close>

text \<open>
  \<open>/FAILED\s+(\S+::\S+)/g\<close>: a match takes the whole run of characters after the white space, for
  \<open>\S+\<close> is greedy, and that run has \<open>::\<close> with something on either side.
\<close>

definition has_scope :: "string \<Rightarrow> bool" where
  "has_scope t \<longleftrightarrow> list_ex (\<lambda>i. take 2 (drop i t) = ''::'' \<and> 0 < i \<and> i + 2 < length t) [0..<length t]"

definition not_space :: "char \<Rightarrow> bool" where
  "not_space ch \<longleftrightarrow> \<not> is_space ch"

definition failed_at :: "string \<Rightarrow> (string \<times> string) option" where
  "failed_at s =
     (let rest = drop 6 s; token = takeWhile not_space (dropWhile is_space rest) in
      if startsWith s ''FAILED'' \<and> takeWhile is_space rest \<noteq> [] \<and> has_scope token
      then Some (token, dropWhile not_space (dropWhile is_space rest)) else None)"

lemma failed_at_shorter: "failed_at s = Some (t, rest) \<Longrightarrow> s \<noteq> [] \<and> length rest < length s"
proof -
  assume f: "failed_at s = Some (t, rest)"
  then have "rest = dropWhile not_space (dropWhile is_space (drop 6 s))" "startsWith s ''FAILED''"
    by (auto simp: failed_at_def Let_def split: if_splits)
  moreover have "length (dropWhile not_space (dropWhile is_space (drop 6 s))) \<le> length (drop 6 s)"
    by (meson length_dropWhile_le le_trans)
  moreover from calculation(2) have "s \<noteq> []" by (auto simp: startsWith_def)
  ultimately show ?thesis by (cases s) simp_all
qed

function failed_tests :: "string \<Rightarrow> string list" where
  "failed_tests s =
     (case s of [] \<Rightarrow> []
      | _ # tail \<Rightarrow> (case failed_at s of
            None \<Rightarrow> failed_tests tail
          | Some (token, rest) \<Rightarrow> token # failed_tests rest))"
  by pat_completeness auto

termination
  by (relation "measure length") (auto dest: failed_at_shorter)

declare failed_tests.simps [simp del]

text \<open>\<open>if (tests.length) setExpected([...new Set(tests)].join(newline))\<close>\<close>

definition expected_after_log :: "string \<Rightarrow> string \<Rightarrow> string" where
  "expected_after_log logText expected =
     (if failed_tests logText = [] then expected else join_with (CHR 0x0A) (unique_first (failed_tests logText)))"

section \<open>The form of a task\<close>

record PrCheck =
  pk_id :: int
  pk_name :: string
  pk_sha :: string
  pk_summary :: string
  pk_text :: string
  pk_url :: string

record PrFile =
  pl_filename :: string
  pl_status :: string
  pl_patch :: "string option"

record PrRun =
  pn_id :: int
  pn_name :: string
  pn_attempt :: int
  pn_conclusion :: string
  pn_createdAt :: string

record PrInfo =
  pi_title :: string
  pi_description :: string
  pi_headSha :: string
  pi_baseSha :: string
  pi_headBranch :: string
  pi_checks :: "PrCheck list"
  pi_files :: "PrFile list"
  pi_warning :: string
  pi_runs :: "PrRun list option"

record ApiRepository =
  ay_id :: string
  ay_name :: string
  ay_repoPath :: string
  ay_repoUrl :: string
  ay_defaultBranch :: string
  ay_configs :: "(nat \<times> RepositoryConfig) list"

record task_form =
  tf_parentTaskId :: "string option"
  tf_repositoryId :: string
  tf_config :: RepositoryConfig
  tf_url :: string
  tf_pr :: "PrInfo option"
  tf_log :: string
  tf_title :: string
  tf_description :: string
  tf_sha :: string
  tf_targetBranch :: string
  tf_command :: string
  tf_expected :: string
  tf_agent :: agent_kind
  tf_tokens :: int
  tf_seconds :: int
  tf_attempts :: nat
  tf_delivery :: delivery_kind

definition new_form :: task_form where
  "new_form = \<lparr> tf_parentTaskId = None, tf_repositoryId = [], tf_config = defaultConfig, tf_url = [], tf_pr = None,
     tf_log = [], tf_title = [], tf_description = [], tf_sha = [], tf_targetBranch = [],
     tf_command = ''python -m pytest -q'', tf_expected = [], tf_agent = SELF_LANGGRAPH, tf_tokens = 200000,
     tf_seconds = 900, tf_attempts = 3, tf_delivery = D_PATCH \<rparr>"

definition first_or :: "string list \<Rightarrow> string \<Rightarrow> string" where
  "first_or xs s = (case xs of [] \<Rightarrow> s | x # _ \<Rightarrow> if x = [] then s else x)"

text \<open>
  The choice of a repository; \<open>configs[0]\<close> of a repository without one throws, and the form keeps what was
  set before. The address's \<open>repositoryId\<close> fills the form the same way, but for the command.
\<close>

definition repository_of :: "ApiRepository list option \<Rightarrow> string \<Rightarrow> ApiRepository option" where
  "repository_of repos rid = Option.bind repos (find_row ay_id rid)"

definition choose_repository :: "ApiRepository list option \<Rightarrow> string \<Rightarrow> task_form \<Rightarrow> task_form" where
  "choose_repository repos rid f =
     (let f' = f\<lparr> tf_repositoryId := rid, tf_pr := None \<rparr> in
      case repository_of repos rid of
        None \<Rightarrow> f'
      | Some r \<Rightarrow> (case ay_configs r of
            [] \<Rightarrow> f'
          | (_, config) # _ \<Rightarrow> f'\<lparr> tf_config := config, tf_delivery := delivery_choice config,
              tf_command := first_or (rc_failToPass config) (first_or (rc_staticCheck config) []),
              tf_targetBranch := ay_defaultBranch r \<rparr>))"

definition prefill_repository :: "ApiRepository \<Rightarrow> task_form \<Rightarrow> task_form" where
  "prefill_repository r f =
     (case ay_configs r of
        [] \<Rightarrow> f\<lparr> tf_repositoryId := ay_id r \<rparr>
      | (_, config) # _ \<Rightarrow> f\<lparr> tf_repositoryId := ay_id r, tf_config := config, tf_delivery := delivery_choice config,
          tf_command := first_or (rc_failToPass config) [], tf_targetBranch := ay_defaultBranch r \<rparr>)"

text \<open>\<open>?reviseRun\<close>: the form of a new task starts from the snapshot of a run's task.\<close>

definition prefill_revision :: "string \<Rightarrow> TaskSnapshot \<Rightarrow> task_form \<Rightarrow> task_form" where
  "prefill_revision taskId s f =
     f\<lparr> tf_parentTaskId := Some taskId, tf_repositoryId := sn_repositoryId s, tf_config := sn_config s,
        tf_title := sn_title s, tf_description := sn_description s, tf_sha := sn_executionSha s,
        tf_command := bl_command (sn_baseline s),
        tf_expected := join_with (CHR 0x0A) (bl_expected (sn_baseline s)),
        tf_targetBranch := sd_targetBranch (sn_delivery s) \<rparr>"

definition change_url :: "string \<Rightarrow> task_form \<Rightarrow> task_form" where
  "change_url u f = f\<lparr> tf_url := u, tf_pr := None \<rparr>"

definition imported_pr :: "PrInfo \<Rightarrow> task_form \<Rightarrow> task_form" where
  "imported_pr pr f =
     f\<lparr> tf_pr := Some pr, tf_title := pi_title pr, tf_description := pi_description pr, tf_sha := pi_headSha pr,
        tf_targetBranch := pi_headBranch pr \<rparr>"

definition read_log :: "string \<Rightarrow> task_form \<Rightarrow> task_form" where
  "read_log logText f = f\<lparr> tf_log := logText, tf_expected := expected_after_log logText (tf_expected f) \<rparr>"

definition evidence :: "task_form \<Rightarrow> PrInfo \<Rightarrow> string" where
  "evidence f pr = take 100000 (stringify (JObj [
     (''expected'', JStr (tf_expected f)),
     (''log'', JStr (last_chars 60000 (tf_log f))),
     (''checks'', JArr (map (\<lambda>k. JObj [(''id'', JNum (pk_id k)), (''name'', JStr (pk_name k)), (''sha'', JStr (pk_sha k)),
        (''url'', JStr (pk_url k))]) (pi_checks pr))),
     (''files'', JArr (map (\<lambda>l. JObj [(''filename'', JStr (pl_filename l)), (''status'', JStr (pl_status l))]) (pi_files pr)))]))"

text \<open>
  The draft that is posted. Without a known repository the body has no \<open>configVersion\<close>, and there is no
  snapshot; a repository without a configuration throws before anything is posted.
\<close>

definition draft_body :: "ApiRepository list option \<Rightarrow> task_form \<Rightarrow> TaskSnapshot option" where
  "draft_body repos f =
     (case repository_of repos (tf_repositoryId f) of
        None \<Rightarrow> None
      | Some r \<Rightarrow> (case ay_configs r of
            [] \<Rightarrow> None
          | (version, _) # _ \<Rightarrow> Some
              \<lparr> sn_repositoryId = tf_repositoryId f,
                sn_parentTaskId = (if truthy (tf_parentTaskId f) then tf_parentTaskId f else None),
                sn_configVersion = version, sn_executionSha = tf_sha f, sn_agentKind = tf_agent f,
                sn_title = tf_title f, sn_description = tf_description f, sn_config = tf_config f,
                sn_baseline = \<lparr> bl_command = tf_command f, bl_expected = lines (tf_expected f) \<rparr>,
                sn_budget = \<lparr> sb_tokens = tf_tokens f, sb_seconds = tf_seconds f, sb_turns = 30,
                  sb_maxAttempts = tf_attempts f \<rparr>,
                sn_delivery = \<lparr> sd_kind = tf_delivery f, sd_targetBranch = tf_targetBranch f,
                  sd_expectedTargetSha = tf_sha f \<rparr>,
                sn_source = map_option (\<lambda>pr. \<lparr> ss_prUrl = tf_url f, ss_headSha = pi_headSha pr,
                  ss_baseSha = pi_baseSha pr, ss_ciSha = None, ss_evidence = evidence f pr \<rparr>) (tf_pr f) \<rparr>))"

text \<open>The body that confirms a draft; the button needs the box that is ticked.\<close>

definition confirm_body :: "nat \<Rightarrow> string \<Rightarrow> bool \<Rightarrow> json" where
  "confirm_body revision key keepPinned =
     JObj [(''revision'', JNum (int revision)), (''idempotencyKey'', JStr key), (''testsConfirmed'', JBool True),
       (''keepPinned'', JBool keepPinned)]"

section \<open>The form of a repository\<close>

record repository_form =
  rf_name :: string
  rf_path :: string
  rf_url :: string
  rf_branch :: string
  rf_readToken :: string
  rf_writeToken :: string
  rf_config :: RepositoryConfig

text \<open>
  The requests of a save, in order; the reply to a stored token is its reference. An error ends the save.
\<close>

datatype repository_request =
    SaveConfig string RepositoryConfig
  | SaveToken string
  | SaveRepository repository_form "string option" "string option"

definition save_token ::
  "(repository_request \<Rightarrow> 's \<Rightarrow> (string + string) \<times> 's) \<Rightarrow> string \<Rightarrow> 's \<Rightarrow> (string + string option) \<times> 's" where
  "save_token post value s =
     (if value = [] then (Inr None, s)
      else case post (SaveToken value) s of
          (Inl e, s') \<Rightarrow> (Inl e, s')
        | (Inr reference, s') \<Rightarrow> (Inr (Some reference), s'))"

definition save_repository ::
  "(repository_request \<Rightarrow> 's \<Rightarrow> (string + string) \<times> 's) \<Rightarrow> string option \<Rightarrow> repository_form \<Rightarrow> 's \<Rightarrow>
   (string + repository_form) \<times> 's" where
  "save_repository post editing f s =
     (case editing of
        Some rid \<Rightarrow> (case post (SaveConfig rid (rf_config f)) s of (Inl e, s') \<Rightarrow> (Inl e, s') | (Inr _, s') \<Rightarrow> (Inr f, s'))
      | None \<Rightarrow> (case save_token post (rf_readToken f) s of
            (Inl e, s1) \<Rightarrow> (Inl e, s1)
          | (Inr readCredential, s1) \<Rightarrow> (case save_token post (rf_writeToken f) s1 of
                (Inl e, s2) \<Rightarrow> (Inl e, s2)
              | (Inr writeCredential, s2) \<Rightarrow> (case post (SaveRepository f readCredential writeCredential) s2 of
                    (Inl e, s3) \<Rightarrow> (Inl e, s3)
                  | (Inr _, s3) \<Rightarrow> (Inr (f\<lparr> rf_readToken := [], rf_writeToken := [] \<rparr>), s3)))))"

section \<open>What the log says reaches the draft\<close>

lemma split_join:
  "\<lbrakk>ss \<noteq> []; \<forall>s \<in> set ss. c \<notin> set s\<rbrakk> \<Longrightarrow> split_on c (join_with c ss) = ss"
proof (induction ss rule: join_with.induct)
  case (3 c s t ss)
  then show ?case by (simp add: split_on_append split_on_single)
qed (simp_all add: split_on_single)

lemma no_space_trim: "list_all not_space t \<Longrightarrow> trim t = t"
proof -
  have "list_all not_space u \<Longrightarrow> dropWhile is_space u = u" for u by (cases u) (simp_all add: not_space_def)
  moreover have "list_all not_space (rev t)" if "list_all not_space t" using that by (simp add: list_all_iff)
  ultimately show "list_all not_space t \<Longrightarrow> trim t = t" by (simp add: trim_def)
qed

lemma startsWith_parts: "startsWith s p \<Longrightarrow> s = p @ drop (length p) s"
  unfolding startsWith_def by (metis append_take_drop_id)

definition reported :: "string \<Rightarrow> string \<Rightarrow> bool" where
  "reported t logText \<longleftrightarrow> (\<exists>before gap after. logText = before @ ''FAILED'' @ gap @ t @ after \<and> gap \<noteq> [] \<and> list_all is_space gap)"

lemma failed_at_parts:
  assumes "failed_at s = Some (t, rest)"
  shows "has_scope t \<and> list_all not_space t \<and> (\<exists>gap. s = ''FAILED'' @ gap @ t @ rest \<and> gap \<noteq> [] \<and> list_all is_space gap)"
proof -
  let ?rest = "drop 6 s" and ?after = "dropWhile is_space (drop 6 s)"
  have p: "startsWith s ''FAILED''" "takeWhile is_space ?rest \<noteq> []" "has_scope t"
    and t: "t = takeWhile not_space ?after" and rest: "rest = dropWhile not_space ?after"
    using assms by (auto simp: failed_at_def Let_def split: if_splits)
  have "?rest = takeWhile is_space ?rest @ t @ rest" unfolding t rest by simp
  moreover have "s = ''FAILED'' @ ?rest" using startsWith_parts [OF p(1)] by (simp add: eval_nat_numeral)
  ultimately have "s = ''FAILED'' @ takeWhile is_space ?rest @ t @ rest" by simp
  moreover have "list_all is_space (takeWhile is_space ?rest)" by (auto simp: list_all_iff dest: set_takeWhileD)
  moreover have "list_all not_space t" unfolding t by (auto simp: list_all_iff dest: set_takeWhileD)
  ultimately show ?thesis using p(2,3) by blast
qed

lemma reported_append: "reported t logText \<Longrightarrow> reported t (xs @ logText)"
  unfolding reported_def by (metis append.assoc)

lemma failed_tests_reported:
  "list_all (\<lambda>t. has_scope t \<and> list_all not_space t \<and> reported t logText) (failed_tests logText)"
proof (induction logText rule: failed_tests.induct)
  case (1 s)
  show ?case
  proof (cases s)
    case Nil
    then show ?thesis by (simp add: failed_tests.simps)
  next
    case (Cons x tail)
    show ?thesis
    proof (cases "failed_at s")
      case None
      have "list_all (\<lambda>t. has_scope t \<and> list_all not_space t \<and> reported t tail) (failed_tests tail)"
        using "1.IH"(1) [OF Cons None] .
      then have "list_all (\<lambda>t. has_scope t \<and> list_all not_space t \<and> reported t s) (failed_tests tail)"
        using reported_append [of _ tail "[x]"] Cons by (auto simp: list_all_iff)
      moreover have "failed_tests s = failed_tests tail"
        using None unfolding Cons by (subst failed_tests.simps) simp
      ultimately show ?thesis by simp
    next
      case (Some a)
      obtain t rest where a: "a = (t, rest)" by fastforce
      have IH: "list_all (\<lambda>t. has_scope t \<and> list_all not_space t \<and> reported t rest) (failed_tests rest)"
        using "1.IH"(2) [OF Cons Some] a by simp
      obtain gap where g: "s = ''FAILED'' @ gap @ t @ rest" "gap \<noteq> []" "list_all is_space gap"
        and ok: "has_scope t" "list_all not_space t"
        using failed_at_parts [OF Some [unfolded a]] by blast
      have "s = [] @ ''FAILED'' @ gap @ t @ rest" using g(1) by simp
      then have "reported t s" unfolding reported_def using g(2,3) by blast
      moreover have "reported u s" if "reported u rest" for u
        using reported_append [OF that, of "''FAILED'' @ gap @ t"] g(1) by simp
      moreover have "failed_tests s = t # failed_tests rest"
        using Some a unfolding Cons by (subst failed_tests.simps) simp
      ultimately show ?thesis using IH ok by (auto simp: list_all_iff)
    qed
  qed
qed


end
