(* ===== verification/Composition.thy ===== *)
theory Composition
  imports RunPages Connection NewTask PublicApi Guarantees
begin

text \<open>
  From the database to the timeline: the events of a run as the stream sends them
  (modules/events/sse.controller.ts), as the browser's cache keeps them and as its page shows them
  (apps/web/src/app/runs/[runId]/page.tsx).
\<close>

section \<open>What is sent\<close>

text \<open>
  The object written after \<open>data:\<close>, as the page reads it; \<open>showTime\<close> is \<open>toISOString\<close>.
\<close>

definition sent_event :: "(int \<Rightarrow> string) \<Rightarrow> StoredEvent \<Rightarrow> ApiTraceEvent" where
  "sent_event showTime e =
     \<lparr> ae_runSequence = ev_runSequence e, ae_attemptId = ev_attemptId e,
       ae_attemptSequence = ev_attemptSequence e, ae_type = trace_event_type_name (ev_type e),
       ae_payload = payload_entries (ev_payload e), ae_occurredAt = showTime (ev_occurredAt e) \<rparr>"

definition page_events :: "(int \<Rightarrow> string) \<Rightarrow> StoredEvent list \<Rightarrow> ApiTraceEvent list" where
  "page_events showTime incoming = map (sent_event showTime) (fst (foldl receive ([], 0) incoming))"

section \<open>The timeline of a run\<close>

text \<open>The usage the last \<open>BUDGET_UPDATE\<close> of the log reports.\<close>

definition last_usage :: "StoredEvent list \<Rightarrow> trace_payload option" where
  "last_usage es =
     (case filter (\<lambda>p. payload_type p = E_BUDGET_UPDATE) (map ev_payload es) of [] \<Rightarrow> None | ps \<Rightarrow> Some (last ps))"

lemma budget_type: "payload_type p = E_BUDGET_UPDATE \<Longrightarrow> \<exists>t s n. p = BudgetUpdate t s n"
  by (cases p) auto

lemma budget_name: "trace_event_type_name t = ''BUDGET_UPDATE'' \<longleftrightarrow> t = E_BUDGET_UPDATE"
  by (cases t) simp_all

lemma budget_update_sent:
  assumes "\<forall>e \<in> set es. ev_type e = payload_type (ev_payload e)"
  shows "budget_update (Some (map (sent_event showTime) es)) = map_option payload_entries (last_usage es)"
proof -
  define bs where "bs = filter (\<lambda>e. payload_type (ev_payload e) = E_BUDGET_UPDATE) es"
  have "filter (\<lambda>e. ae_type e = ''BUDGET_UPDATE'') (map (sent_event showTime) es) = map (sent_event showTime) bs"
    unfolding bs_def using assms by (induction es) (simp_all add: sent_event_def budget_name)
  moreover have "filter (\<lambda>p. payload_type p = E_BUDGET_UPDATE) (map ev_payload es) = map ev_payload bs"
    by (simp add: filter_map comp_def bs_def)
  ultimately show ?thesis
    by (cases bs) (simp_all add: budget_update_def last_usage_def loaded_def sent_event_def last_map)
qed

lemma page_is_log:
  assumes "wf_db d" and "set incoming = set (events_of rid d)"
  shows "page_events showTime incoming = map (sent_event showTime) (events_of rid d)"
  using client_cache_is_log [OF assms] by (simp add: page_events_def)

lemma used_tokens_sent:
  assumes "\<forall>e \<in> set es. ev_type e = payload_type (ev_payload e)"
  shows "used_tokens_shown (Some (map (sent_event showTime) es)) detail =
    JNum (case last_usage es of Some (BudgetUpdate tokens _ _) \<Rightarrow> tokens | _ \<Rightarrow> ard_usedTokens detail)"
proof (cases "last_usage es")
  case None
  then show ?thesis by (simp add: used_tokens_shown_def budget_update_sent [OF assms] js_else_def)
next
  case (Some p)
  let ?ps = "filter (\<lambda>p. payload_type p = E_BUDGET_UPDATE) (map ev_payload es)"
  have "?ps \<noteq> []" "p = last ?ps" using Some by (auto simp: last_usage_def split: list.splits)
  then have "p \<in> set ?ps" using last_in_set by metis
  then obtain t s n where "p = BudgetUpdate t s n" using budget_type [of p] by auto
  with Some show ?thesis by (simp add: used_tokens_shown_def budget_update_sent [OF assms] js_else_def)
qed


section \<open>From the form to the draft\<close>

lemma posted_snapshot:
  assumes "create_draft_route c (snapshot_json raw) d = Inr (dr, d')"
  shows "createDraft c raw d = Inr (dr, d') \<and> snapshot_numbers raw"
  using assms by (auto simp: create_draft_route_def snapshot_read_if and_then_iff tx_some_iff split: if_splits)

lemma createDraft_stores:
  assumes "createDraft c raw d = Inr (dr, d')"
  shows "TaskSnapshotSchema (c_isUrl c) raw = Some (draft_snapshot dr) \<and> find_row draft_id (draft_id dr) (drafts d') = Some dr"
  using assms by (auto simp: createDraft_def tx_iff split: option.splits)

lemma schema_changes_commands_only:
  assumes "TaskSnapshotSchema u raw = Some s"
  shows "s = raw\<lparr> sn_config := sn_config s, sn_baseline := sn_baseline s \<rparr> \<and>
    bl_expected (sn_baseline s) = bl_expected (sn_baseline raw) \<and>
    rc_allowedPaths (sn_config s) = rc_allowedPaths (sn_config raw) \<and>
    rc_protectedPaths (sn_config s) = rc_protectedPaths (sn_config raw)"
  using assms by (auto simp: TaskSnapshotSchema_def RepositoryConfigSchema_def split: option.splits if_splits)

text \<open>
  C26. What is typed is what is drafted: when the control plane accepts the body that the form posts, the
  draft it stores has the form's title, commit, agent, budget, delivery, expected failures and path
  limits, unchanged; and the draft's snapshot, read back from its JSON column with members in any
  order, is the snapshot that was stored.
\<close>

theorem form_becomes_draft:
  assumes "draft_body repos f = Some raw" and "create_draft_route c (snapshot_json raw) d = Inr (dr, d')"
  shows "find_row draft_id (draft_id dr) (drafts d') = Some dr \<and>
    sn_title (draft_snapshot dr) = tf_title f \<and> sn_executionSha (draft_snapshot dr) = tf_sha f \<and>
    sn_agentKind (draft_snapshot dr) = tf_agent f \<and>
    sn_budget (draft_snapshot dr) = \<lparr> sb_tokens = tf_tokens f, sb_seconds = tf_seconds f, sb_turns = 30, sb_maxAttempts = tf_attempts f \<rparr> \<and>
    sd_kind (sn_delivery (draft_snapshot dr)) = tf_delivery f \<and>
    bl_expected (sn_baseline (draft_snapshot dr)) = lines (tf_expected f) \<and>
    rc_allowedPaths (sn_config (draft_snapshot dr)) = rc_allowedPaths (tf_config f) \<and>
    rc_protectedPaths (sn_config (draft_snapshot dr)) = rc_protectedPaths (tf_config f) \<and>
    (\<forall>stored. same_json (snapshot_json (draft_snapshot dr)) stored \<longrightarrow> parse_snapshot (c_isUrl c) stored = Some (draft_snapshot dr))"
proof -
  note posted = posted_snapshot [OF assms(2)]
  note st = createDraft_stores [OF conjunct1 [OF posted]]
  note same = schema_changes_commands_only [OF conjunct1 [OF st]]
  have "sn_configVersion (draft_snapshot dr) = sn_configVersion raw" by (subst same [THEN conjunct1]) simp
  then have "int (sn_configVersion (draft_snapshot dr)) \<le> max_safe"
    using posted by (simp add: snapshot_numbers_def)
  from parse_snapshot_stored [OF conjunct1 [OF st] this]
  have "\<forall>stored. same_json (snapshot_json (draft_snapshot dr)) stored \<longrightarrow> parse_snapshot (c_isUrl c) stored = Some (draft_snapshot dr)"
    by blast
  moreover have "sn_title raw = tf_title f" "sn_executionSha raw = tf_sha f" "sn_agentKind raw = tf_agent f"
      "sn_budget raw = \<lparr> sb_tokens = tf_tokens f, sb_seconds = tf_seconds f, sb_turns = 30, sb_maxAttempts = tf_attempts f \<rparr>"
      "sd_kind (sn_delivery raw) = tf_delivery f" "bl_expected (sn_baseline raw) = lines (tf_expected f)" "sn_config raw = tf_config f"
    using assms(1) by (auto simp: draft_body_def split: option.splits list.splits)
  moreover have "sn_title (draft_snapshot dr) = sn_title raw" "sn_executionSha (draft_snapshot dr) = sn_executionSha raw"
      "sn_agentKind (draft_snapshot dr) = sn_agentKind raw" "sn_budget (draft_snapshot dr) = sn_budget raw"
      "sn_delivery (draft_snapshot dr) = sn_delivery raw"
    by (subst same [THEN conjunct1], simp)+
  ultimately show ?thesis using st same by simp
qed

section \<open>Examples\<close>


definition ex_git :: ctx where
  "ex_git = (ex_ctx ''g'' 1000)\<lparr> c_git := (\<lambda>_ _. Inr example_sha) \<rparr>"

definition ex_registered :: db where
  "ex_registered = empty_db\<lparr>
     projects := [\<lparr> prj_id = ''repo'', prj_workspaceId = ''w'', prj_name = ''n'', prj_repoPath = ''/repo'',
       prj_githubRepo = None, prj_defaultBranch = ''main'', prj_repoUrl = Some ''u'', prj_readCredential = None,
       prj_writeCredential = None \<rparr>],
     configs := [\<lparr> rcv_projectId = ''repo'', rcv_version = 1, rcv_config = sn_config (example_snapshot D_PATCH) \<rparr>] \<rparr>"

definition ex_form :: task_form where
  "ex_form = new_form\<lparr> tf_repositoryId := ''repo'', tf_config := sn_config (example_snapshot D_PATCH), tf_title := ''Fix'',
     tf_description := ''Fix'', tf_sha := example_sha, tf_targetBranch := ''main'', tf_command := ''pytest'',
     tf_expected := ''test'', tf_tokens := 10000 \<rparr>"

definition ex_repositories :: "ApiRepository list" where
  "ex_repositories = [\<lparr> ay_id = ''repo'', ay_name = ''n'', ay_repoPath = ''/repo'', ay_repoUrl = ''u'', ay_defaultBranch = ''main'',
     ay_configs = [(1, sn_config (example_snapshot D_PATCH))] \<rparr>]"

definition ex_draft :: TaskDraft where
  "ex_draft = \<lparr> draft_id = ''token-g'', draft_projectId = ''repo'', draft_snapshot = example_snapshot D_PATCH,
     draft_revision = 1, draft_expiresAt = 86401000 \<rparr>"

lemma ex_form_body: "draft_body (Some ex_repositories) ex_form = Some (example_snapshot D_PATCH)"
  by (simp add: draft_body_def repository_of_def ex_repositories_def ex_form_def new_form_def example_snapshot_def
      lines_def trim_def is_space_def)

lemma ex_posted:
  "create_draft_route ex_git (snapshot_json (example_snapshot D_PATCH)) ex_registered =
     Inr (ex_draft, ex_registered\<lparr> drafts := [ex_draft] \<rparr>)"
proof -
  have n: "snapshot_numbers (example_snapshot D_PATCH)"
    by (simp add: snapshot_numbers_def example_snapshot_def max_safe_def)
  have sha: "trim example_sha = example_sha" "git_ref_ok example_sha" "GitShaSchema example_sha"
    by (simp_all add: trim_def is_space_def git_ref_ok_def startsWith_def example_sha_def list_all_iff GitShaSchema_def is_hex_def)
  have g: "git_run ex_git path args = Inr example_sha" for path args
    by (simp add: git_run_def ex_git_def sha)
  have e: "ensureCommit ex_git path repo example_sha cred = Inr example_sha" for path repo cred
    by (simp add: ensureCommit_def git_resolve_def g sha)
  have p: "pin ex_git path example_sha (c_uuid ex_git) = Inr ()" for path
  proof -
    have "task_ref_ok (c_uuid ex_git)" by (simp add: ex_git_def ex_ctx_def task_ref_ok_def word_char_def)
    then show ?thesis by (simp add: pin_def g sha)
  qed
  have "createDraft ex_git (example_snapshot D_PATCH) ex_registered = Inr (ex_draft, ex_registered\<lparr> drafts := [ex_draft] \<rparr>)"
    unfolding createDraft_def example_snapshot_parsed option.case
    by (simp add: tx_run example_snapshot_def repository_get_def find_unique_def e p configs_of_def create_row_def
        ex_registered_def empty_db_def truthy_def)
      (simp add: ex_draft_def ex_git_def ex_ctx_def example_snapshot_def)
  then show ?thesis using n by (simp add: create_draft_route_def snapshot_read_if tx_run)
qed

theorem form_becomes_draft_witness:
  "create_draft_route ex_git (snapshot_json (example_snapshot D_PATCH)) ex_registered =
     Inr (ex_draft, ex_registered\<lparr> drafts := [ex_draft] \<rparr>) \<and>
   sn_title (draft_snapshot ex_draft) = tf_title ex_form \<and>
   parse_snapshot (c_isUrl ex_git) (snapshot_json (draft_snapshot ex_draft)) = Some (draft_snapshot ex_draft)"
  using form_becomes_draft [OF ex_form_body ex_posted] ex_posted same_json.same by blast

end
