(* ===== verification/Frame.thy ===== *)
theory Frame
  imports Lifecycle
begin

text \<open>
  What most writes leave alone: the artifacts and the outbox.  A relation between the states around a
  transaction with one rule per write, used where a property follows these two tables through a whole
  service.
\<close>

section \<open>Operations that store no artifact and send no command\<close>

definition frame :: "db \<Rightarrow> db \<Rightarrow> bool" where
  "frame d d' \<longleftrightarrow> artifacts d' = artifacts d \<and> outbox d' = outbox d"

lemma frame_refl: "reflp frame"
  by (simp add: reflp_def frame_def)

lemma frame_trans: "transp frame"
  by (simp add: transp_def frame_def)

lemma frame_writes:
  "tx_rel frame (run_update c rid fr)"
  "tx_rel frame (run_updateMany c pr fr)"
  "tx_rel frame (attempt_update aid fa)"
  "tx_rel frame (task_updateMany pt ft)"
  "tx_rel frame (traceEvent_create e)"
  "tx_rel frame (verification_create v)"
  "tx_rel frame (approval_create p)"
  "tx_rel frame (policyDecision_create k)"
  by (auto simp: tx_rel_def frame_def tx_iff)

lemma frame_finds:
  "tx_rel frame (run_findUniqueOrThrow rid)"
  "tx_rel frame (attempt_findUniqueOrThrow aid)"
  "tx_rel frame (task_findUniqueOrThrow tid)"
  by (auto simp: tx_rel_def frame_def tx_iff)

lemma frame_task_update: "tx_rel frame (task_update tid ft)"
  unfolding task_update_def
  by (intro tx_rel_and_then [OF frame_trans] frame_finds frame_writes tx_rel_return [OF frame_refl])

lemmas frame_rules = frame_task_update tx_rel_if tx_rel_read [OF frame_refl] tx_rel_return [OF frame_refl]
  tx_rel_check [OF frame_refl] tx_rel_some [OF frame_refl] tx_rel_lift [OF frame_refl]
  tx_rel_and_then [OF frame_trans] tx_rel_when [OF frame_refl]
  tx_rel_for [OF frame_refl frame_trans] frame_writes frame_finds

lemma frame_event: "tx_rel frame (appendSyntheticEvent c rid payload aid)"
  unfolding appendSyntheticEvent_def store_next_event_def by (intro frame_rules)

lemma frame_transitions:
  "tx_rel frame (transitionRun c rid from to)"
  "tx_rel frame (transitionTask tid from' to')"
  unfolding transitionRun_def transitionTask_def by (intro frame_rules frame_event)+

lemma frameD: "tx_rel frame m \<Longrightarrow> m d = Inr (a, d') \<Longrightarrow> artifacts d' = artifacts d \<and> outbox d' = outbox d"
  using tx_relD [of frame m d a d'] by (simp add: frame_def)

end
