(* ===== verification/Review.thy ===== *)
theory Review
  imports Queries Examples Frame
begin

text \<open>
  From the completion of an attempt to the review page: what the worker delivered
  (\<open>completeAttempt\<close>), what the reviewer is shown (the routes of the patch and of the judge's report in
  modules/run/run.controller.ts), and what the approval is for.
\<close>

section \<open>What a completion stores\<close>

definition delivered_artifacts :: "ctx \<Rightarrow> Attempt \<Rightarrow> Outcome \<Rightarrow> Artifact list" where
  "delivered_artifacts c a outcome =
     (case present (oc_patch outcome) of None \<Rightarrow> [] | Some p \<Rightarrow> [new_artifact c 2 a K_PATCH ''fix.patch'' p]) @
     (case oc_judge outcome of None \<Rightarrow> []
      | Some j \<Rightarrow> [new_artifact c 3 a K_JUDGE_REPORT ''judge-report.json'' (stringify j)])"

lemma frame_bookkeeping:
  "tx_rel frame (tx_when b (charge_active_time c rid))"
  "tx_rel frame (record_usage c rid run0 task0 outcome)"
  "tx_rel frame (tx_for vs (\<lambda>iv. and_then (verification_create (verification_row c a iv)) (\<lambda>_. tx_return ())))"
  unfolding charge_active_time_def record_usage_def by (intro frame_rules)+

lemma persistExtras_artifacts:
  assumes "persistExtras c a run0 task0 outcome d = Inr (u, d')"
  shows "artifacts d' = artifacts d @ delivered_artifacts c a outcome"
proof -
  obtain d1 d2 d3 where s: "tx_when (task_snapshot task0 \<noteq> None) (charge_active_time c (att_runId a)) d = Inr ((), d1)"
      "record_usage c (att_runId a) run0 task0 outcome d1 = Inr ((), d2)"
      "tx_for (List.enumerate 0 (oc_verification outcome)) (\<lambda>iv.
         and_then (verification_create (verification_row c a iv)) (\<lambda>_. tx_return ())) d2 = Inr ((), d3)"
    and rest: "and_then (case present (oc_patch outcome) of
         None \<Rightarrow> tx_return ()
       | Some patch \<Rightarrow> and_then (artifact_create (new_artifact c 2 a K_PATCH ''fix.patch'' patch))
           (\<lambda>_. tx_return ())) (\<lambda>_.
     case oc_judge outcome of
       None \<Rightarrow> tx_return ()
     | Some judge \<Rightarrow> and_then (artifact_create (new_artifact c 3 a K_JUDGE_REPORT
         ''judge-report.json'' (stringify judge))) (\<lambda>_. tx_return ())) d3 = Inr (u, d')"
    using assms unfolding persistExtras_def by (auto simp: and_then_iff)
  have "artifacts d3 = artifacts d"
    using tx_relD [OF frame_bookkeeping(1) s(1)] tx_relD [OF frame_bookkeeping(2) s(2)]
      tx_relD [OF frame_bookkeeping(3) s(3)] by (simp add: frame_def)
  with rest show ?thesis
    by (auto simp: delivered_artifacts_def tx_iff split: option.splits)
qed


lemma complete_success_stores:
  assumes "complete_success c a run0 task0 outcome d = Inr (u, d')"
  shows "artifacts d' = artifacts d @ delivered_artifacts c a outcome \<and>
    new_approval c (run_taskId run0) (att_runId a) (oc_patch outcome) \<in> set (approvals d')"
proof -
  let ?app = "new_approval c (run_taskId run0) (att_runId a) (oc_patch outcome)"
  obtain d1 d2 d3 d4 d5 d6 d7 r q where
      before: "attempt_update (att_id a) (\<lambda>a. a\<lparr> att_status := A_SUCCEEDED, att_endedAt := Some (c_now c) \<rparr>) d = Inr (q, d1)"
      and extras: "persistExtras c a run0 task0 outcome d1 = Inr ((), d2)"
      and steps: "transitionRun c (att_runId a) R_RUNNING R_VERIFYING d2 = Inr ((), d3)"
        "transitionRun c (att_runId a) R_VERIFYING R_SUCCEEDED d3 = Inr ((), d4)"
        "transitionTask (run_taskId run0) T_RUNNING T_AWAITING_APPROVAL d4 = Inr ((), d5)"
        "run_update c (att_runId a) (\<lambda>r. r\<lparr> run_phase := ''AWAITING_APPROVAL'' \<rparr>) d5 = Inr (r, d6)"
      and approval: "approval_create ?app d6 = Inr (?app, d7)"
      and ev: "appendSyntheticEvent c (att_runId a) (ApprovalEvent AP_PENDING None None) None d7 = Inr (u, d')"
    using assms unfolding complete_success_def Let_def
    by (auto simp: and_then_iff attempt_findUniqueOrThrow_iff tx_check_iff tx_read_iff approval_create_iff)
  have "artifacts d1 = artifacts d" "artifacts d3 = artifacts d2" "artifacts d4 = artifacts d3" "artifacts d5 = artifacts d4"
      "artifacts d6 = artifacts d5" "artifacts d7 = artifacts d6" "artifacts d' = artifacts d7"
    using tx_relD [OF frame_writes(3) before] tx_relD [OF frame_transitions(1) steps(1)]
      tx_relD [OF frame_transitions(1) steps(2)] tx_relD [OF frame_transitions(2) steps(3)]
      tx_relD [OF frame_writes(1) steps(4)] tx_relD [OF frame_writes(7) approval]
      tx_relD [OF frame_event ev] by (simp_all add: frame_def)
  moreover have "approvals d' = approvals d7"
    using ev by (auto simp: appendSyntheticEvent_def store_next_event_def tx_iff)
  ultimately show ?thesis
    using persistExtras_artifacts [OF extras] approval by (simp add: approval_create_iff)
qed


lemma completeAttempt_success:
  assumes "find_attempt aid d = Some a" and "att_status a = A_RUNNING" and "oc_failure outcome = None"
    and "completeAttempt c aid outcome d = Inr (reply, d')"
  shows "\<exists>run0 task0. complete_success c a run0 task0 outcome d = Inr ((), d')"
  using assms by (auto simp: completeAttempt_def completeAttempt_tx_def read_attempt_def and_then_iff tx_read_iff
      tx_some_iff tx_return_iff run_findUniqueOrThrow_iff task_findUniqueOrThrow_iff) blast

lemma latest_new:
  assumes "\<forall>x \<in> set xs. art_createdAt x < art_createdAt y"
  shows "latest_by art_createdAt (xs @ [y]) = Some y"
  using assms by (intro latest_by_append_ge) (auto simp: less_imp_le)


section \<open>An example\<close>

definition ex_report :: "(string \<times> json) list" where
  "ex_report = [(''model'', JStr ''m''), (''overallComment'', JStr ''good'')]"

definition ex_judged_outcome :: Outcome where
  "ex_judged_outcome = ex_outcome\<lparr> oc_judge := Some (JObj ex_report) \<rparr>"

definition ex_judged :: db where
  "ex_judged = ex_state (completeAttempt (ex_ctx ''c'' 3000) ''b0'' ex_judged_outcome) ex_claimed"


end
