(* ===== verification/Retry.thy ===== *)
theory Retry
  imports Frame Queue Examples
begin

text \<open>
  From a failure to the next attempt: the policy's decision (modules/policy/policy-engine.ts), the
  command that a recovery puts into the outbox (\<open>applyPolicy\<close> in modules/run/run-lifecycle.service.ts)
  and the publisher that sends it when its time has come (modules/dispatch/outbox-publisher.ts).
\<close>

section \<open>The command of a recovery\<close>

lemma recovery_command_attempt:
  assumes "recovery_command c run task project action k n = Inr cmd"
  shows "cmd_attemptNo cmd = n \<and> cmd_runId cmd = run_id run"
  using assms by (auto simp: recovery_command_def split: option.splits
      dest!: buildRunCommand_fields commandFromSnapshot_fields)

lemma frozen_inputs_attempt:
  assumes "frozen_inputs c rid cmd d = Inr cmd'"
  shows "cmd_attemptNo cmd' = cmd_attemptNo cmd \<and> cmd_runId cmd' = cmd_runId cmd"
  using assms by (auto simp: frozen_inputs_def split: option.splits)

text \<open>A message that asks for attempt \<open>n\<close> of a run, not before a time.\<close>

definition asks_for :: "string \<Rightarrow> nat \<Rightarrow> int \<Rightarrow> OutboxMessage \<Rightarrow> bool" where
  "asks_for rid n notBefore m \<longleftrightarrow> msg_topic m = ''run-commands'' \<and> msg_key m = rid \<and> msg_status m = O_PENDING \<and>
     cmd_runId (msg_payload m) = rid \<and> cmd_attemptNo (msg_payload m) = n \<and> msg_notBefore m = notBefore"

lemma redispatch_asks:
  assumes "redispatch c run task project aid n dec d = Inr (u, d')"
  shows "\<exists>m. outbox d' = outbox d @ [m] \<and> asks_for (run_id run) (n + 1) (c_now c + pd_backoffMs dec) m"
proof -
  obtain d1 d2 d3 fresh cmd m where
      first: "transitionRun c (run_id run) R_INTERRUPTED R_RECOVERING d = Inr ((), d1)"
      and fresh: "cmd_attemptNo fresh = n + 1 \<and> cmd_runId fresh = run_id run"
      and cmd: "(if task_snapshot task = None then and_then (tx_read (frozen_inputs c (run_id run) fresh)) tx_lift
               else tx_return fresh) d1 = Inr (cmd, d2)"
      and sent: "outbox_create (run_message c 1 (run_id run) cmd (c_now c + pd_backoffMs dec)) d2 = Inr (m, d3)"
      and rest: "and_then (appendSyntheticEvent c (run_id run)
          (RecoveryAction (pd_action dec) (map_option cp_id (recovery_checkpoint (run_id run) (pd_action dec) d)) (n + 1)) (Some aid))
          (\<lambda>_. transitionRun c (run_id run) R_RECOVERING R_DISPATCHED) d3 = Inr (u, d')"
    using assms unfolding redispatch_def
    by (auto simp: and_then_iff tx_read_iff tx_lift_iff dest!: recovery_command_attempt)
  have "d2 = d1" "cmd_attemptNo cmd = n + 1 \<and> cmd_runId cmd = run_id run"
    using cmd fresh by (auto simp: tx_iff dest!: frozen_inputs_attempt split: if_splits)
  moreover have "outbox d1 = outbox d" using frameD [OF frame_transitions(1) first] by simp
  moreover have "outbox d' = outbox d3"
    using frameD [OF tx_rel_and_then [OF frame_trans frame_event frame_transitions(1)] rest] by simp
  moreover have "outbox d3 = outbox d2 @ [run_message c 1 (run_id run) cmd (c_now c + pd_backoffMs dec)]"
    using sent by (simp add: outbox_create_iff)
  ultimately show ?thesis by (simp add: asks_for_def run_message_def)
qed

lemma frame_need_attention: "tx_rel frame (need_attention tid reason)"
  unfolding need_attention_def by (intro frame_rules)

lemma frame_stops:
  "tx_rel frame (abort_run c run task)"
  "tx_rel frame (escalate_run c run code)"
  "tx_rel frame (settle_active_time c run)"
  unfolding abort_run_def escalate_run_def
    apply (intro frame_rules frame_need_attention frame_transitions)+
  unfolding settle_active_time_def Let_def
  apply (cases "run_activeStartedAt run"; simp)
   apply (intro frame_rules)+
  done

text \<open>What a decision may do to the outbox: nothing, or ask for the next attempt.\<close>

definition asks_next :: "string \<Rightarrow> nat \<Rightarrow> int \<Rightarrow> db \<Rightarrow> db \<Rightarrow> bool" where
  "asks_next rid n notBefore d d' \<longleftrightarrow> outbox d' = outbox d \<or>
     (\<exists>m. outbox d' = outbox d @ [m] \<and> asks_for rid n notBefore m)"

lemma dispatch_or_stop_asks:
  assumes "dispatch_or_stop c run task project aid n dec d = Inr (u, d')"
  shows "asks_next (run_id run) (n + 1) (c_now c + pd_backoffMs dec) d d'"
proof (cases "task_snapshot task = None")
  case True
  with assms redispatch_asks [of c run task project aid n dec d u d'] show ?thesis
    by (simp add: dispatch_or_stop_def asks_next_def)
next
  case False
  let ?used = "run_usedSeconds run + ceil_seconds (pd_backoffMs dec)"
  obtain d1 r where first: "run_update c (run_id run) (\<lambda>r. r\<lparr> run_usedSeconds := ?used, run_phase := ''QUEUED'' \<rparr>) d = Inr (r, d1)"
      and rest: "(if run_budgetSeconds run \<le> ?used
         then and_then (run_update c (run_id run) (\<lambda>r. r\<lparr> run_phase := ''NEEDS_ATTENTION'' \<rparr>)) (\<lambda>_.
              need_attention (run_taskId run) ''BUDGET_EXHAUSTED'')
         else redispatch c (run\<lparr> run_usedSeconds := ?used \<rparr>) task project aid n dec) d1 = Inr (u, d')"
    using assms False by (auto simp: dispatch_or_stop_def Let_def and_then_iff)
  have o: "outbox d1 = outbox d" using frameD [OF frame_writes(1) first] by simp
  show ?thesis
  proof (cases "run_budgetSeconds run \<le> ?used")
    case True
    then have "outbox d' = outbox d1"
      using rest frameD [OF tx_rel_and_then [OF frame_trans frame_writes(1) frame_need_attention]] by auto
    with o show ?thesis by (simp add: asks_next_def)
  next
    case False
    with rest redispatch_asks [of c "run\<lparr> run_usedSeconds := ?used \<rparr>" task project aid n dec d1 u d'] o
    show ?thesis by (simp add: asks_next_def)
  qed
qed

definition backoff :: "nat \<Rightarrow> failure_code \<Rightarrow> int" where
  "backoff n code = (if code \<in> set MODEL_FAILURES then 30000 * 2 ^ (n - 1) else 0)"

lemma decision_redispatches:
  assumes "redispatches (pd_action (recovery_decision run n code))"
  shows "n < run_maxAttempts run \<and> \<not> run_recoveryDisabled run \<and> redispatches (fst (TABLE code)) \<and>
    pd_backoffMs (recovery_decision run n code) = backoff n code"
proof -
  have on: "\<not> run_recoveryDisabled run"
    using assms by (auto simp: recovery_decision_def redispatches_def)
  let ?i = "\<lparr> pi_failureCode = code, pi_attemptNo = n, pi_maxAttempts = run_maxAttempts run \<rparr>"
  have dec: "recovery_decision run n code = decidePolicy ?i" using on by (simp add: recovery_decision_def)
  then have below: "n < run_maxAttempts run" using assms decidePolicy_redispatch_below_max [of ?i] by simp
  then have act: "pd_action (decidePolicy ?i) = fst (TABLE code)" by (simp add: decidePolicy_action)
  have "fst (TABLE code) = P_RESUME" if "code \<in> set MODEL_FAILURES" using that by (auto simp: MODEL_FAILURES_def)
  moreover have "pd_backoffMs (decidePolicy ?i) =
      (if fst (TABLE code) = P_RESUME \<and> code \<in> set MODEL_FAILURES then 30000 * 2 ^ (n - 1) else 0)"
    using below by (auto simp: decidePolicy_def Let_def split: prod.splits)
  ultimately show ?thesis using on below assms act dec by (auto simp: backoff_def)
qed

text \<open>The outcome of a recovery of attempt \<open>n\<close>: no command, or one that the policy and the run allow.\<close>

definition retries :: "ctx \<Rightarrow> Run \<Rightarrow> nat \<Rightarrow> failure_code \<Rightarrow> db \<Rightarrow> db \<Rightarrow> bool" where
  "retries c run n code d d' \<longleftrightarrow> outbox d' = outbox d \<or>
     (n < run_maxAttempts run \<and> \<not> run_recoveryDisabled run \<and> redispatches (fst (TABLE code)) \<and>
      (\<exists>m. outbox d' = outbox d @ [m] \<and> asks_for (run_id run) (n + 1) (c_now c + backoff n code) m))"

lemma follow_policy_retries:
  assumes "follow_policy c run task project aid n code d = Inr (u, d')"
  shows "retries c run n code d d'"
proof -
  let ?dec = "recovery_decision run n code"
  let ?k = "\<lparr> pol_id = c_cuid c 0, pol_runId = run_id run, pol_attemptId = aid, pol_failureCode = code,
    pol_action = pd_action ?dec, pol_reason = pd_reason ?dec \<rparr>"
  obtain d1 where first: "policyDecision_create ?k d = Inr (?k, d1)"
      and rest: "(if redispatches (pd_action ?dec) then dispatch_or_stop c run task project aid n ?dec
        else if pd_action ?dec = P_ABORT then abort_run c run task else escalate_run c run code) d1 = Inr (u, d')"
    using assms by (auto simp: follow_policy_def Let_def and_then_iff policyDecision_create_iff)
  have o: "outbox d1 = outbox d" using frameD [OF frame_writes(8) first] by simp
  show ?thesis
  proof (cases "redispatches (pd_action ?dec)")
    case True
    with rest dispatch_or_stop_asks [of c run task project aid n ?dec d1 u d'] decision_redispatches [OF True] o
    show ?thesis by (auto simp: retries_def asks_next_def)
  next
    case False
    then have "outbox d' = outbox d1"
      using rest frameD [OF frame_stops(1)] frameD [OF frame_stops(2)] by (auto split: if_splits)
    with o show ?thesis by (simp add: retries_def)
  qed
qed

lemma settled_run:
  assumes "settle_active_time c run d = Inr (run', d')"
  shows "run_maxAttempts run' = run_maxAttempts run \<and> run_recoveryDisabled run' = run_recoveryDisabled run \<and> run_id run' = run_id run"
  using assms by (auto simp: settle_active_time_def Let_def tx_iff split: option.splits)

lemma applyPolicy_retries:
  assumes "applyPolicy c rid aid n code d = Inr (u, d')"
  shows "\<exists>run. find_run rid d = Some run \<and> retries c run n code d d'"
proof -
  obtain run task project where run: "find_run rid d = Some run"
      and rest: "(if task_snapshot task = None then follow_policy c run task project aid n code
     else
       and_then (settle_active_time c run) (\<lambda>run.
       and_then (tx_read (unresolved_calls rid)) (\<lambda>unresolved.
       if budget_blocked c run unresolved
       then and_then (run_update c rid (\<lambda>r. r\<lparr> run_phase := ''NEEDS_ATTENTION'',
                run_usedSeconds := run_usedSeconds run + active_seconds c run, run_activeStartedAt := None \<rparr>)) (\<lambda>_.
            need_attention (run_taskId run)
              (if unresolved \<noteq> 0 then ''MODEL_USAGE_UNKNOWN'' else ''BUDGET_EXHAUSTED''))
       else follow_policy c run task project aid n code))) d = Inr (u, d')"
    using assms by (auto simp: applyPolicy_def and_then_iff run_findUniqueOrThrow_iff task_findUniqueOrThrow_iff find_or_throw_iff)
  show ?thesis
  proof (cases "task_snapshot task = None")
    case True
    with rest run follow_policy_retries [of c run task project aid n code d u d'] show ?thesis by auto
  next
    case False
    then obtain run' d1 where settle: "settle_active_time c run d = Inr (run', d1)"
        and rest: "(if budget_blocked c run' (unresolved_calls rid d1)
       then and_then (run_update c rid (\<lambda>r. r\<lparr> run_phase := ''NEEDS_ATTENTION'',
                run_usedSeconds := run_usedSeconds run' + active_seconds c run', run_activeStartedAt := None \<rparr>)) (\<lambda>_.
            need_attention (run_taskId run')
              (if unresolved_calls rid d1 \<noteq> 0 then ''MODEL_USAGE_UNKNOWN'' else ''BUDGET_EXHAUSTED''))
       else follow_policy c run' task project aid n code) d1 = Inr (u, d')"
      using rest by (auto simp: and_then_iff tx_read_iff)
    have o: "outbox d1 = outbox d" using frameD [OF frame_stops(3) settle] by simp
    note s = settled_run [OF settle]
    have "retries c run' n code d1 d'"
      using rest follow_policy_retries [of c run' task project aid n code d1 u d']
        frameD [OF tx_rel_and_then [OF frame_trans frame_writes(1) frame_need_attention]]
      by (auto simp: retries_def split: if_splits)
    with s o run show ?thesis by (auto simp: retries_def)
  qed
qed

section \<open>The publisher waits\<close>

lemma outbox_tick_due:
  assumes "m \<in> set (fst (outbox_tick c w t d))"
  shows "msg_status m = O_PENDING \<and> msg_notBefore m \<le> c_now c"
proof -
  obtain d1 sent n d2 where "publish_all c w (pending_messages c d1) d1 = (sent, n, d2)" and "m \<in> set sent"
    using assms by (auto simp: outbox_tick_def Let_def split: prod.splits)
  with publish_all_effect [of c w "pending_messages c d1" d1 sent n d2] pending_in [of m c d1] show ?thesis by blast
qed

text \<open>
  C10. A retry waits for its back-off: recovering from the failure of attempt \<open>n\<close> sends no command, or
  exactly one, for attempt \<open>n + 1\<close> of the same run, and then only if the run allows recovery and another
  attempt and the policy has one for this failure; for a failure of the model it may not be sent before
  30 seconds, doubled with every attempt, have passed, and no tick of the publisher before that time,
  whatever the outbox has become, sends it.
\<close>

theorem retry_waits_its_backoff:
  assumes "applyPolicy c rid aid n code d = Inr (u, d')"
  shows "outbox d' = outbox d \<or> (\<exists>run m. find_run rid d = Some run \<and> outbox d' = outbox d @ [m] \<and>
    n < run_maxAttempts run \<and> \<not> run_recoveryDisabled run \<and> redispatches (fst (TABLE code)) \<and>
    asks_for rid (n + 1) (c_now c + backoff n code) m \<and>
    (\<forall>c2 w t d2 m2. m2 \<in> set (fst (outbox_tick c2 w t d2)) \<and> asks_for rid (n + 1) (c_now c + backoff n code) m2 \<longrightarrow>
       c_now c + backoff n code \<le> c_now c2))"
proof -
  from applyPolicy_retries [OF assms] obtain run where run: "find_run rid d = Some run" "retries c run n code d d'" by blast
  have "run_id run = rid" using run(1) by (rule find_row_key)
  moreover have "\<forall>c2 w t d2 m2. m2 \<in> set (fst (outbox_tick c2 w t d2)) \<and> asks_for rid (n + 1) (c_now c + backoff n code) m2 \<longrightarrow>
       c_now c + backoff n code \<le> c_now c2"
    using outbox_tick_due unfolding asks_for_def by metis
  ultimately show ?thesis using run unfolding retries_def by blast
qed

definition ex_interrupted :: db where
  "ex_interrupted = ex_state (transitionRun (ex_ctx ''i'' 3000) ''a3'' R_RUNNING R_INTERRUPTED) ex_claimed"

definition ex_retried :: db where
  "ex_retried = ex_state (applyPolicy (ex_ctx ''j'' 3000) ''a3'' ''b0'' 1 MODEL_RATE_LIMIT) ex_interrupted"

theorem retry_waits_its_backoff_witness:
  "\<exists>m. outbox ex_retried = outbox ex_interrupted @ [m] \<and> asks_for ''a3'' 2 33000 m"
proof -
  have run: "applyPolicy (ex_ctx ''j'' 3000) ''a3'' ''b0'' 1 MODEL_RATE_LIMIT ex_interrupted = Inr ((), ex_retried)"
    by code_simp
  have "length (outbox ex_retried) \<noteq> length (outbox ex_interrupted)" by code_simp
  moreover have "backoff 1 MODEL_RATE_LIMIT = 30000" by (simp add: backoff_def MODEL_FAILURES_def)
  ultimately show ?thesis
    using retry_waits_its_backoff [OF run] by (auto simp: ex_ctx_def numeral_2_eq_2)
qed

end
