(* ===== verification/Notices.thy ===== *)
theory Notices
  imports Api
begin

text \<open>
  Notifications: the rows the trigger of the database writes (generated/prisma/models/Notification.ts), the
  routes that list them and mark one as read (modules/notification/notification.controller.ts), and what
  the browser shows of them (apps/web/src/components/notification-center.tsx).
\<close>

section \<open>Rows and routes\<close>

record NotificationRow =
  nr_id :: string
  nr_eventKey :: string
  nr_taskId :: string
  nr_kind :: string
  nr_message :: string
  nr_readAt :: "int option"
  nr_createdAt :: int

text \<open>The database gives a row its identifier, which is its event key too, and its time.\<close>

definition kind_text :: "notification_kind \<Rightarrow> string" where
  "kind_text k = (case k of N_FAILED \<Rightarrow> ''FAILED'' | N_ACTION_REQUIRED \<Rightarrow> ''ACTION_REQUIRED'' | N_COMPLETED \<Rightarrow> ''COMPLETED'')"

definition notification_row :: "string \<Rightarrow> int \<Rightarrow> Notification \<Rightarrow> NotificationRow" where
  "notification_row i now n = \<lparr> nr_id = i, nr_eventKey = i, nr_taskId = ntf_taskId n, nr_kind = kind_text (ntf_kind n),
     nr_message = ntf_message n, nr_readAt = None, nr_createdAt = now \<rparr>"

text \<open>\<open>orderBy: { createdAt: 'desc' }, take: 100\<close>\<close>

definition later_notice :: "NotificationRow \<Rightarrow> NotificationRow \<Rightarrow> bool" where
  "later_notice m n \<longleftrightarrow> nr_createdAt n \<le> nr_createdAt m"

definition list_notices :: "NotificationRow list \<Rightarrow> NotificationRow list" where
  "list_notices rows = take 100 (order_by later_notice rows)"

text \<open>An update of an unknown row is Prisma's P2025.\<close>

definition read_notice :: "int \<Rightarrow> string \<Rightarrow> (NotificationRow list, NotificationRow) tx" where
  "read_notice now i = update_unique (\<lambda>rows. rows) (\<lambda>f. f) nr_id i (\<lambda>n. n\<lparr> nr_readAt := Some now \<rparr>)"

section \<open>What the page shows\<close>

definition sent_notice :: "(int \<Rightarrow> string) \<Rightarrow> NotificationRow \<Rightarrow> ApiNotice" where
  "sent_notice showTime n = \<lparr> an_id = nr_id n, an_message = nr_message n, an_readAt = map_option showTime (nr_readAt n) \<rparr>"

definition shown_notices :: "(int \<Rightarrow> string) \<Rightarrow> NotificationRow list \<Rightarrow> ApiNotice list" where
  "shown_notices showTime rows = unread (Some (map (sent_notice showTime) (list_notices rows)))"

section \<open>A notice stays until it is read\<close>

lemma insert_by_map:
  "(\<And>x y. before (f x) (f y) = before x y) \<Longrightarrow> insert_by before (f x) (map f ys) = map f (insert_by before x ys)"
  by (induction ys) auto

lemma order_by_map:
  assumes "\<And>x y. before (f x) (f y) = before x y"
  shows "order_by before (map f xs) = map f (order_by before xs)"
proof (induction xs)
  case (Cons x xs)
  have "order_by before (map f (x # xs)) = insert_by before (f x) (order_by before (map f xs))"
    by (simp add: order_by_def)
  also have "\<dots> = map f (insert_by before x (order_by before xs))"
    unfolding Cons by (rule insert_by_map [of before f, OF assms])
  also have "\<dots> = map f (order_by before (x # xs))" by (simp add: order_by_def)
  finally show ?case .
qed (simp add: order_by_def)

definition marked :: "int \<Rightarrow> string \<Rightarrow> NotificationRow \<Rightarrow> NotificationRow" where
  "marked now i n = (if nr_id n = i then n\<lparr> nr_readAt := Some now \<rparr> else n)"

lemma marked_shown:
  assumes "showTime now \<noteq> []"
  shows "shown_notices showTime (map (marked now i) rows) = filter (\<lambda>n. an_id n \<noteq> i) (shown_notices showTime rows)"
proof -
  have "order_by later_notice (map (marked now i) rows) = map (marked now i) (order_by later_notice rows)"
    by (rule order_by_map) (simp add: later_notice_def marked_def)
  then have l: "list_notices (map (marked now i) rows) = map (marked now i) (list_notices rows)"
    by (simp add: list_notices_def take_map)
  have "unread (Some (map (sent_notice showTime) (map (marked now i) ns))) =
      filter (\<lambda>n. an_id n \<noteq> i) (unread (Some (map (sent_notice showTime) ns)))" for ns
    using assms by (induction ns) (simp_all add: unread_def marked_def sent_notice_def truthy_def)
  then show ?thesis by (simp add: shown_notices_def l)
qed

text \<open>
  A notice stays until it is read: marking a notice as read succeeds exactly for a notice there is,
  and then the page shows the notices it showed before, in the same order, without that one.
\<close>

theorem notice_stays_until_read:
  assumes "showTime now \<noteq> []"
  shows "(\<exists>row rows'. read_notice now i rows = Inr (row, rows')) = (i \<in> nr_id ` set rows) \<and>
    (read_notice now i rows = Inr (row, rows') \<longrightarrow>
      shown_notices showTime rows' = filter (\<lambda>n. an_id n \<noteq> i) (shown_notices showTime rows))"
proof -
  have upd: "update_rows (\<lambda>r. nr_id r = i) (\<lambda>n. n\<lparr> nr_readAt := Some now \<rparr>) rows = map (marked now i) rows"
    by (simp add: update_rows_def marked_def)
  have "(\<exists>row rows'. read_notice now i rows = Inr (row, rows')) \<longleftrightarrow> find_row nr_id i rows \<noteq> None"
    by (simp add: read_notice_def update_unique_iff)
  moreover have "rows' = map (marked now i) rows" if "read_notice now i rows = Inr (row, rows')"
    using that by (auto simp: read_notice_def update_unique_iff upd)
  ultimately show ?thesis using marked_shown [of showTime now, OF assms] by (auto simp: find_row_None)
qed

theorem notice_stays_until_read_witness:
  "\<exists>row rows'. read_notice 9 ''n1'' [notification_row ''n1'' 1 \<lparr> ntf_taskId = ''t'', ntf_kind = N_FAILED, ntf_message = ''m'' \<rparr>,
      notification_row ''n2'' 2 \<lparr> ntf_taskId = ''t'', ntf_kind = N_COMPLETED, ntf_message = ''k'' \<rparr>] = Inr (row, rows') \<and>
    shown_notices (\<lambda>_. ''T'') rows' = [\<lparr> an_id = ''n2'', an_message = ''k'', an_readAt = None \<rparr>]"
proof -
  let ?rows = "[notification_row ''n1'' 1 \<lparr> ntf_taskId = ''t'', ntf_kind = N_FAILED, ntf_message = ''m'' \<rparr>,
      notification_row ''n2'' 2 \<lparr> ntf_taskId = ''t'', ntf_kind = N_COMPLETED, ntf_message = ''k'' \<rparr>]"
  have t: "(\<lambda>_. ''T'') (9::int) \<noteq> []" by simp
  note p = notice_stays_until_read [where showTime = "\<lambda>_. ''T''" and now = 9 and i = "''n1''" and rows = ?rows, OF t]
  have m: "''n1'' \<in> nr_id ` set ?rows" by (simp add: notification_row_def)
  then obtain row rows' where r: "read_notice 9 ''n1'' ?rows = Inr (row, rows')" using p by blast
  then have "shown_notices (\<lambda>_. ''T'') rows' = filter (\<lambda>n. an_id n \<noteq> ''n1'') (shown_notices (\<lambda>_. ''T'') ?rows)"
    using p by blast
  also have "\<dots> = [\<lparr> an_id = ''n2'', an_message = ''k'', an_readAt = None \<rparr>]"
    by (simp add: shown_notices_def list_notices_def order_by_def later_notice_def unread_def sent_notice_def truthy_def
        notification_row_def)
  finally show ?thesis using r by blast
qed

end
