(* ===== verification/Spec2Isabelle.thy ===== *)
theory Spec2Isabelle
  imports Witnesses Json Approvals InternalApi GithubInput PublicApi TaskPages NewTask
    Composition Review Retry Notices
begin

text \<open>
  A verification library for the agent reliability platform: the control plane that turns failing checks
  into tasks, dispatches runs to workers, recovers from their failures, lets a person approve a verified
  patch and delivers it (apps/control-plane/src), the contracts it shares with workers and browser
  (packages/shared/src), and the web application (apps/web/src).

  \<^bold>\<open>How the program works.\<close> A task has runs, a run has attempts numbered 1, 2, and so on. A command in the
  outbox table is published on a Redis stream; a worker that reads it claims the attempt and gets a lease
  it renews by heartbeats. Every request of the worker has to hold that lease. Worker and control plane
  write one log of trace events per run, numbered without gaps, which is replayed to browsers as
  server-sent events. A failed or lost attempt goes through the recovery policy: another command, a
  person's attention, or the end of the run. A succeeded run asks for an approval; an approved patch is
  delivered as a pull request by a job that has a lease of its own.

  \<^bold>\<open>How it is modelled.\<close> The database is a record of tables, each a list of rows with the columns of its
  Prisma model; a transaction is a function from a database to an error or a result with the new
  database, so that an error undoes everything (\<open>tx\<close>, in Prelude). A handler that runs several
  transactions keeps what was committed before an error (\<open>hx\<close>, in Handlers). A handler that reads rows
  before its transaction is split into the read and the transaction over the rows that were read,
  because others may commit in between; System lets every such transaction rest on any earlier state.
  The clock, new ids and tokens, SHA-256, git and GitHub, and the fixture registry are fields of a
  context (\<open>ctx\<close>) or arguments. Errors are values of one datatype \<open>err\<close>. Numbers that the code keeps as
  safe integers are \<open>int\<close> and \<open>nat\<close>; seconds that are fractions in the code are compared in milliseconds;
  rates and costs are exact fractions. Strings are lists of 8-bit characters, with text that is not ASCII
  as its UTF-8 bytes, so a length counts characters on ASCII text.

  \<^bold>\<open>The theories\<close>, in the order in which they build on each other:

  \<^item> Prelude: errors, the transaction monad with its introduction rules (\<open>tx_iff\<close>), tables with unique
    keys (locale \<open>table\<close>, interpreted on the tables of Database), decimal text, splitting and trimming.
  \<^item> Enums, Contracts, Json: packages/shared/src/enums.ts, trace-event.ts, run-command.ts and
    task-snapshot.ts with their schemas as executable checks, and the canonical JSON of a snapshot.
  \<^item> StateMachine, Policy: state-machine/state-machine.ts, modules/policy/policy-engine.ts.
  \<^item> Database, Events: the rows, the queries, the guarded transitions and the event log; the locales
    \<open>effects\<close> and \<open>all_effects\<close> say what a write of a service may do, and every operation is shown to
    be made of such writes once. They are interpreted three times: the database stays well-formed (\<open>wf\<close>),
    the history stays (\<open>hist\<close>), approvals stay (\<open>appr\<close>).
  \<^item> Dispatch, Recovery, Lifecycle, RunControl, BudgetCalls, Drafts: where commands come from, and the
    services of modules/run, modules/task and modules/repository.
  \<^item> Handlers, Approvals, Queue: decisions and deliveries (modules/approval, modules/github), the outbox
    publisher and the lease monitor (modules/dispatch).
  \<^item> Ingest, Consumer, Connection: the way of an event, modules/events and
    apps/web/src/lib/use-run-events.ts. The locale \<open>loop_invariant\<close> says what a property of the consumer
    has to survive to hold throughout its loop.
  \<^item> Bodies, InternalApi, PublicApi, Queries, Evaluation, Access, Registration, PullRequests, GithubInput:
    the routes with their body schemas and the guard in front of them, what can be read, evaluation
    batches, credentials and environment, fixtures and repositories, and what comes in from GitHub.
  \<^item> Encoding, Wire: what is sent and stored as JSON. A schema is a parser over JSON (\<open>zod\<close> in Bodies);
    Encoding has the rules by which a parser does not see the order of an object's members (\<open>blind\<close>) and
    reads back what an encoder wrote (\<open>decode\<close>), Wire the parsers and encodings of configurations,
    snapshots, trace events with their eleven payloads, and run commands.
  \<^item> Api, TaskPages, NewTask, RunPages: the web application, page by page, as functions from replies and
    addresses to what is shown and sent. Notices: modules/notification and what the page shows of it.
  \<^item> Machine, RunSteps, RunMachine, System, Examples, Guarantees: the abstract run machine, the simulation
    by the services, and what follows for every reachable state.
  \<^item> Frame, Review, Retry: what a completion leaves as it is, and from there what a reviewer sees of a
    finished run and when a failed one is tried again.
  \<^item> Composition: the stream, the browser's cache and the timeline end to end; the draft form, its request
    and the draft it becomes.
  \<^item> Delivery: what a delivery may do, and how the pages' buttons answer to the services.
  \<^item> Witnesses: the properties at concrete states that the operations produce.

  \<^bold>\<open>What is shown.\<close> The claims are numbered in the theories, the most important ones first.

  \<^item> The services implement the run machine over all interleavings (C1), and so finished runs are final,
    attempts are numbered and bounded, each has one command, a worker without the lease changes nothing,
    and approvals belong to succeeded runs (C2 to C6).
  \<^item> What a person is shown for review is what the approval names (C7). A delivery acts on the outside
    world only for the approved patch and an unchanged target, by one worker at a time (C8, C9).
  \<^item> A failed attempt is retried at most once more per failure, and not before its backoff is over (C10).
  \<^item> The log of a run is gap-free, well-typed and permanent; the consumer loses no event, stores what it
    recovers, stores each event once and broadcasts exactly what it stored; an event keeps its meaning on
    the stream; a stream replays the log, the timeline shows it, and a reconnection asks for what is
    missing (C11 to C20).
  \<^item> Reservations stay within the budget, a settlement counts once, the publisher loses no command
    (C21 to C23).
  \<^item> Snapshots survive the database, commands the outbox, and a filled form becomes its draft (C24 to C26).
  \<^item> Webhook signatures, redaction of job logs, completeness of an imported pull request (C27 to C29),
    the guard, sessions and credentials (C30 to C32).
  \<^item> Commands from snapshots, the list of tasks and its pages, batches and fixtures (C33 to C37), a gap in
    the check of reservations (C38), and the pages (C39, C40).

  \<^bold>\<open>Bounds and fuel.\<close> Loops over rows, pages and text are structural recursions or have a termination
  proof; \<open>fetch_pages\<close> of PullRequests has the source's own limit on pages. The loop of the consumer runs
  for ever in the program; \<open>consumeLoop\<close> takes the list of what each pass reads of the flag that stops it,
  so its theorems hold after every number of passes, and C14 says what one pass achieves. Witnesses use
  short runs of one demo task, which are enough to reach every hypothesis.

  \<^bold>\<open>Parameters.\<close> PostgreSQL's transactions are taken to be serial, as the row locks and guarded updates of
  the code make them for the rows that matter. Redis is a parameter of Consumer with the laws of a consumer
  group that is not trimmed (\<open>group_law\<close>, \<open>acks\<close>). GitHub and git answer whatever they like, and the
  fixture directory holds whatever the YAML parser made of its files. The order of strings of the database
  and of \<open>localeCompare\<close> is an argument, assumed linear where that matters.
  \<open>JSON.parse\<close>, the text of a time and its reading back, and the check of a URL are arguments too (\<open>parse\<close>,
  \<open>showTime\<close>, \<open>instant\<close>, \<open>isUrl\<close>).

  \<^bold>\<open>Not modelled.\<close> The Python worker and the evaluation command line (apps/agent-runtime) are another
  program, seen through their requests. The generated Prisma client and the framework's wiring
  (app.module.ts, main.ts, prisma.service.ts, redis.service.ts, the health route) have no logic of their own.
  Of the web application the mark-up, the query client's caching policy, the diff viewer, the settings
  page and the texts of labels are left out; of the timers only their ticks are modelled.
\<close>

end
